(* ===== verification/Prelude.thy ===== *)
theory Prelude imports Main begin

section \<open>Shared results, runs and contracts\<close>

text \<open>
  This theory holds what every component shares: results that carry the source's errors as
  values, runs of a list of operations over a state, and the contracts (locales) the
  durable objects of the system promise their clients. It says nothing about the program
  itself.

  \<^item> \<open>run_ops\<close> runs operations one after another, \<open>count_ops\<close> counts those of a run that
    have a given outcome in the state they start in.
  \<^item> \<open>invariant\<close>: a property every operation keeps.
  \<^item> \<open>progress\<close>: an order every operation moves along.
  \<^item> \<open>evidence\<close>: a value that, once recorded under a key, never changes or disappears.
  \<^item> \<open>admission\<close>: a permit that a run of operations hands out at most once per key.
\<close>

text \<open>\<open>only_calls_rules\<close> collects the rules by which a program built from programs makes only the calls these make.\<close>

named_theorems only_calls_rules \<open>introduction rules for programs that make only some calls\<close>

subsection \<open>Results\<close>

text \<open>\<open>Inl e\<close> is a thrown error, \<open>Inr x\<close> a returned value.\<close>

definition bind_result :: "'e + 'a \<Rightarrow> ('a \<Rightarrow> 'e + 'b) \<Rightarrow> 'e + 'b" where
  "bind_result r f = (case r of Inl e \<Rightarrow> Inl e | Inr x \<Rightarrow> f x)"

definition throw_when :: "bool \<Rightarrow> 'e \<Rightarrow> 'e + unit" where
  "throw_when b e = (if b then Inl e else Inr ())"

lemma bind_result_simps [simp]:
  "bind_result (Inl e) f = Inl e"
  "bind_result (Inr x) f = f x"
  by (simp_all add: bind_result_def)

lemma bind_result_Inr_iff:
  "bind_result r f = Inr y \<longleftrightarrow> (\<exists>x. r = Inr x \<and> f x = Inr y)"
  by (cases r) simp_all

lemma throw_when_Inr_iff [simp]: "throw_when b e = Inr u \<longleftrightarrow> \<not> b"
  by (simp add: throw_when_def)

lemma throw_when_simps [simp]: "throw_when True e = Inl e" "throw_when False e = Inr ()"
  by (simp_all add: throw_when_def)

definition is_ok :: "'e + 'a \<Rightarrow> bool" where
  "is_ok r = (case r of Inl _ \<Rightarrow> False | Inr _ \<Rightarrow> True)"

lemma is_ok_simps [simp]: "is_ok (Inl e) = False" "is_ok (Inr x) = True"
  by (simp_all add: is_ok_def)

subsection \<open>Runs of operations\<close>

fun run_ops :: "('op \<Rightarrow> 's \<Rightarrow> 's) \<Rightarrow> 'op list \<Rightarrow> 's \<Rightarrow> 's" where
  "run_ops exec [] s = s"
| "run_ops exec (p # ps) s = run_ops exec ps (exec p s)"

fun count_ops :: "('op \<Rightarrow> 's \<Rightarrow> bool) \<Rightarrow> ('op \<Rightarrow> 's \<Rightarrow> 's) \<Rightarrow> 'op list \<Rightarrow> 's \<Rightarrow> nat" where
  "count_ops hit exec [] s = 0"
| "count_ops hit exec (p # ps) s =
     (if hit p s then 1 else 0) + count_ops hit exec ps (exec p s)"

lemma run_ops_append [simp]: "run_ops exec (ps @ qs) s = run_ops exec qs (run_ops exec ps s)"
  by (induction ps arbitrary: s) simp_all

lemma count_ops_append [simp]:
  "count_ops hit exec (ps @ qs) s =
     count_ops hit exec ps s + count_ops hit exec qs (run_ops exec ps s)"
  by (induction ps arbitrary: s) simp_all

subsection \<open>Contracts\<close>

locale invariant =
  fixes exec :: "'op \<Rightarrow> 's \<Rightarrow> 's"
    and inv :: "'s \<Rightarrow> bool"
  assumes inv_exec: "inv s \<Longrightarrow> inv (exec p s)"
begin

lemma inv_run: "inv s \<Longrightarrow> inv (run_ops exec ps s)"
  by (induction ps arbitrary: s) (simp_all add: inv_exec)

end

locale progress = invariant exec inv
  for exec :: "'op \<Rightarrow> 's \<Rightarrow> 's" and inv :: "'s \<Rightarrow> bool" +
  fixes later :: "'s \<Rightarrow> 's \<Rightarrow> bool"
  assumes later_refl: "later s s"
    and later_trans: "later s t \<Longrightarrow> later t u \<Longrightarrow> later s u"
    and later_exec: "inv s \<Longrightarrow> later s (exec p s)"
begin

lemma later_run: "inv s \<Longrightarrow> later s (run_ops exec ps s)"
  by (induction ps arbitrary: s) (auto intro: later_refl later_trans later_exec inv_exec)

lemma later_runs: "inv s \<Longrightarrow> later (run_ops exec ps s) (run_ops exec (ps @ qs) s)"
  using later_run [OF inv_run] by simp

end

locale evidence = invariant exec inv
  for exec :: "'op \<Rightarrow> 's \<Rightarrow> 's" and inv :: "'s \<Rightarrow> bool" +
  fixes slot :: "'s \<Rightarrow> 'k \<Rightarrow> 'v option"
  assumes kept: "inv s \<Longrightarrow> slot s k = Some v \<Longrightarrow> slot (exec p s) k = Some v"
begin

lemma kept_run: "inv s \<Longrightarrow> slot s k = Some v \<Longrightarrow> slot (run_ops exec ps s) k = Some v"
  by (induction ps arbitrary: s) (simp_all add: inv_exec kept)

lemma recorded_once:
  assumes "inv s" and "slot (run_ops exec ps s) k = Some v"
    and "slot (run_ops exec (ps @ qs) s) k = Some w"
  shows "v = w"
  using kept_run [OF inv_run [OF assms(1)] assms(2), of qs] assms(3) by simp

end

locale admission = invariant exec inv
  for exec :: "'op \<Rightarrow> 's \<Rightarrow> 's" and inv :: "'s \<Rightarrow> bool" +
  fixes admits :: "'k \<Rightarrow> 'op \<Rightarrow> 's \<Rightarrow> bool"
    and retained :: "'k \<Rightarrow> 's \<Rightarrow> bool"
  assumes fresh: "inv s \<Longrightarrow> admits k p s \<Longrightarrow> \<not> retained k s"
    and records: "inv s \<Longrightarrow> admits k p s \<Longrightarrow> retained k (exec p s)"
    and permanent: "inv s \<Longrightarrow> retained k s \<Longrightarrow> retained k (exec p s)"
begin

lemma none_after_retained:
  "inv s \<Longrightarrow> retained k s \<Longrightarrow> count_ops (admits k) exec ps s = 0"
  by (induction ps arbitrary: s) (auto dest: fresh intro: inv_exec permanent)

lemma retained_run: "inv s \<Longrightarrow> retained k s \<Longrightarrow> retained k (run_ops exec ps s)"
  by (induction ps arbitrary: s) (simp_all add: inv_exec permanent)

lemma admitted_once: "inv s \<Longrightarrow> count_ops (admits k) exec ps s \<le> 1"
proof (induction ps arbitrary: s)
  case Nil
  show ?case by simp
next
  case (Cons p ps)
  have next_inv: "inv (exec p s)" using Cons.prems by (rule inv_exec)
  show ?case
  proof (cases "admits k p s")
    case True
    then have "retained k (exec p s)" using Cons.prems by (blast intro: records)
    with next_inv have "count_ops (admits k) exec ps (exec p s) = 0"
      by (rule none_after_retained)
    with True show ?thesis by simp
  next
    case False
    with Cons.IH [OF next_inv] show ?thesis by simp
  qed
qed

end

end
