(* ===== verification/Json.thy ===== *)
theory Json imports Prelude "HOL-Library.Char_ord" "HOL-Library.List_Lexorder" "HOL-Library.Multiset" begin

section \<open>JSON values and the field tests of the protocol\<close>

text \<open>
  The workers exchange and store JSON. A value of type \<open>json\<close> is what \<open>JSON.parse\<close> or an RPC
  argument gives the code: an object is the list of its own keys, in order, with their values.
  \<open>JNum\<close> is an integral number, \<open>JFrac\<close> any other number with the text JavaScript prints for
  it, and \<open>JUndef\<close> is \<open>undefined\<close>, the value of an absent field. Strings are byte strings: the
  patterns of the source are ASCII, and a character outside ASCII is its UTF-8 bytes.

  \<open>closed\<close>, \<open>hex\<close>, \<open>opaque\<close>, \<open>resource\<close> and \<open>integer\<close> are the tests of
  \<open>work-effect-worker/protocol.ts\<close>; the checkpoint worker repeats \<open>closed\<close>, \<open>integer\<close>,
  \<open>id\<close> and \<open>digest\<close> with the same bodies. The lemmas say what an accepted value looks like.
\<close>

datatype json =
    JUndef
  | JNull
  | JBool bool
  | JNum int
  | JFrac string
  | JStr string
  | JArr "json list"
  | JObj "(string \<times> json) list"

subsection \<open>Reading fields\<close>

fun get :: "json \<Rightarrow> string \<Rightarrow> json" where
  "get (JObj kvs) k = (case map_of kvs k of None \<Rightarrow> JUndef | Some v \<Rightarrow> v)"
| "get _ k = JUndef"

fun keys :: "json \<Rightarrow> string list" where
  "keys (JObj kvs) = map fst kvs"
| "keys _ = []"

fun the_str :: "json \<Rightarrow> string" where
  "the_str (JStr s) = s"
| "the_str _ = []"

fun the_int :: "json \<Rightarrow> int" where
  "the_int (JNum n) = n"
| "the_int _ = 0"

fun is_str :: "json \<Rightarrow> bool" where
  "is_str (JStr _) = True"
| "is_str _ = False"

lemma is_str_iff: "is_str v \<longleftrightarrow> (\<exists>s. v = JStr s)"
  by (cases v) simp_all

text \<open>\<open>a === b\<close>: arrays and objects that were parsed separately are never the same.\<close>

definition strict_eq :: "json \<Rightarrow> json \<Rightarrow> bool" where
  "strict_eq a b = (case a of JArr _ \<Rightarrow> False | JObj _ \<Rightarrow> False | _ \<Rightarrow> a = b)"

lemma strict_eqD: "strict_eq a b \<Longrightarrow> a = b"
  by (auto simp: strict_eq_def split: json.splits)

lemma strict_eq_str [simp]: "strict_eq (JStr s) b \<longleftrightarrow> b = JStr s"
  by (auto simp: strict_eq_def)

subsection \<open>Numbers and strings as text\<close>

fun digits_of :: "nat \<Rightarrow> string" where
  "digits_of n = (if n < 10 then [''0123456789'' ! n]
                  else digits_of (n div 10) @ [''0123456789'' ! (n mod 10)])"

declare digits_of.simps [simp del]

definition string_of_int :: "int \<Rightarrow> string" where
  "string_of_int n = (if n < 0 then CHR ''-'' # digits_of (nat (- n)) else digits_of (nat n))"

fun join :: "string \<Rightarrow> string list \<Rightarrow> string" where
  "join sep [] = []"
| "join sep [x] = x"
| "join sep (x # y # ys) = x @ sep @ join sep (y # ys)"

text \<open>
  \<open>String(v)\<close>: an array is the comma-joined text of its elements (with \<open>null\<close> and
  \<open>undefined\<close> empty), so a one-element array has the text of its element.
\<close>

fun js_String :: "json \<Rightarrow> string" and js_elem :: "json \<Rightarrow> string" where
  "js_String JUndef = ''undefined''"
| "js_String JNull = ''null''"
| "js_String (JBool b) = (if b then ''true'' else ''false'')"
| "js_String (JNum n) = string_of_int n"
| "js_String (JFrac t) = t"
| "js_String (JStr s) = s"
| "js_String (JArr vs) = join '','' (map js_elem vs)"
| "js_String (JObj kvs) = ''[object Object]''"
| "js_elem v = (case v of JUndef \<Rightarrow> [] | JNull \<Rightarrow> [] | _ \<Rightarrow> js_String v)"

text \<open>\<open>JSON.stringify\<close> of a value without \<open>undefined\<close>.\<close>

definition hex_digit :: "nat \<Rightarrow> char" where
  "hex_digit n = ''0123456789abcdef'' ! (n mod 16)"

definition escape_char :: "char \<Rightarrow> string" where
  "escape_char c =
     (if c = CHR 0x22 then [CHR 0x5C, CHR 0x22]
      else if c = CHR 0x5C then [CHR 0x5C, CHR 0x5C]
      else if c = CHR 0x08 then [CHR 0x5C, CHR ''b'']
      else if c = CHR 0x0C then [CHR 0x5C, CHR ''f'']
      else if c = CHR 0x0A then [CHR 0x5C, CHR ''n'']
      else if c = CHR 0x0D then [CHR 0x5C, CHR ''r'']
      else if c = CHR 0x09 then [CHR 0x5C, CHR ''t'']
      else if of_char c < (32::nat)
        then [CHR 0x5C, CHR ''u'', CHR ''0'', CHR ''0'',
              hex_digit (of_char c div 16), hex_digit (of_char c)]
      else [c])"

definition quote :: "string \<Rightarrow> string" where
  "quote s = CHR 0x22 # concat (map escape_char s) @ [CHR 0x22]"

fun stringify :: "json \<Rightarrow> string" where
  "stringify JUndef = ''null''"
| "stringify JNull = ''null''"
| "stringify (JBool b) = (if b then ''true'' else ''false'')"
| "stringify (JNum n) = string_of_int n"
| "stringify (JFrac t) = t"
| "stringify (JStr s) = quote s"
| "stringify (JArr vs) = ''['' @ join '','' (map stringify vs) @ '']''"
| "stringify (JObj kvs) =
     ''{'' @ join '','' (map (\<lambda>(k, v). quote k @ '':'' @ stringify v) kvs) @ ''}''"

subsection \<open>The field tests\<close>

text \<open>\<open>closed\<close>: an object with exactly these keys, compared as sorted, comma-joined text.\<close>

definition closed :: "json \<Rightarrow> string list \<Rightarrow> bool" where
  "closed v ks = (case v of JObj kvs \<Rightarrow> join '','' (sort (map fst kvs)) = join '','' (sort ks)
                  | _ \<Rightarrow> False)"

definition of_class :: "string \<Rightarrow> nat \<Rightarrow> nat \<Rightarrow> string \<Rightarrow> bool" where
  "of_class cs lo hi s \<longleftrightarrow> lo \<le> length s \<and> length s \<le> hi \<and> list_all (\<lambda>c. c \<in> set cs) s"

definition hex_chars :: string where "hex_chars = ''0123456789abcdef''"

definition opaque_chars :: string where
  "opaque_chars = ''ABCDEFGHIJKLMNOPQRSTUVWXYZabcdefghijklmnopqrstuvwxyz0123456789_-''"

definition resource_chars :: string where
  "resource_chars = ''ABCDEFGHIJKLMNOPQRSTUVWXYZabcdefghijklmnopqrstuvwxyz0123456789_.:-''"

definition namespace_chars :: string where
  "namespace_chars = ''abcdefghijklmnopqrstuvwxyz0123456789-''"

definition str_test :: "(string \<Rightarrow> bool) \<Rightarrow> json \<Rightarrow> bool" where
  "str_test p v = (case v of JStr s \<Rightarrow> p s | _ \<Rightarrow> False)"

definition hex :: "json \<Rightarrow> bool" where
  "hex = str_test (of_class hex_chars 64 64)"

definition opaque :: "json \<Rightarrow> bool" where
  "opaque = str_test (of_class opaque_chars 43 43)"

definition resource :: "json \<Rightarrow> bool" where
  "resource = str_test (of_class resource_chars 1 128)"

definition max_safe_integer :: int where "max_safe_integer = 9007199254740991"

definition integer :: "json \<Rightarrow> bool" where
  "integer v = (case v of JNum n \<Rightarrow> 0 \<le> n \<and> n \<le> max_safe_integer | _ \<Rightarrow> False)"

lemma str_test_iff: "str_test p v \<longleftrightarrow> (\<exists>s. v = JStr s \<and> p s)"
  by (cases v) (simp_all add: str_test_def)

lemma integer_iff: "integer v \<longleftrightarrow> (\<exists>n. v = JNum n \<and> 0 \<le> n \<and> n \<le> max_safe_integer)"
  by (cases v) (simp_all add: integer_def)

lemma hexD: "hex v \<Longrightarrow> v = JStr (the_str v) \<and> length (the_str v) = 64"
  by (auto simp: hex_def str_test_iff of_class_def)

lemma opaqueD: "opaque v \<Longrightarrow> v = JStr (the_str v) \<and> length (the_str v) = 43"
  by (auto simp: opaque_def str_test_iff of_class_def)

lemma resourceD: "resource v \<Longrightarrow> v = JStr (the_str v) \<and> the_str v \<noteq> []"
  by (auto simp: resource_def str_test_iff of_class_def)

lemma integerD: "integer v \<Longrightarrow> v = JNum (the_int v) \<and> 0 \<le> the_int v"
  by (auto simp: integer_iff)

subsection \<open>What \<open>closed\<close> accepts\<close>

text \<open>
  The comparison is of joined text, so a key that itself contains a comma can stand for two
  keys. It cannot hide an absent field: once every expected key is present, no other key is.
\<close>

lemma length_join: "length (join sep xs) = sum_list (map length xs) + (length xs - 1) * length sep"
  by (induction sep xs rule: join.induct) simp_all

lemma sum_list_map_sort: "sum_list (map f (sort xs)) = (sum_list (map f xs) :: nat)"
proof -
  have "sum_mset (image_mset f (mset (sort xs))) = sum_mset (image_mset f (mset xs))" by simp
  then show ?thesis by (simp only: mset_map [symmetric] sum_mset_sum_list)
qed

lemma length_join_sort:
  "length (join sep (sort xs)) = sum_list (map length xs) + (length xs - 1) * length sep"
  by (simp add: length_join sum_list_map_sort)

lemma sum_list_length_mset: "sum_list (map length xs) = sum_mset (image_mset length (mset xs))"
  by (simp only: mset_map [symmetric] sum_mset_sum_list)

lemma closed_exact:
  assumes "closed (JObj kvs) ks" and "distinct ks" and "ks \<noteq> []" and "set ks \<subseteq> set (map fst kvs)"
  shows "mset (map fst kvs) = mset ks"
proof -
  let ?as = "map fst kvs"
  have "mset ks \<subseteq># mset ?as"
  proof (rule mset_subset_eqI)
    fix x
    have "count (mset ks) x = (if x \<in> set ks then 1 else 0)"
      using assms(2) by (simp add: distinct_count_atmost_1)
    moreover have "x \<in> set ks \<Longrightarrow> 1 \<le> count (mset ?as) x"
      using assms(4) by (metis count_greater_eq_one_iff set_mset_mset subsetD)
    ultimately show "count (mset ks) x \<le> count (mset ?as) x" by simp
  qed
  then obtain E where E: "mset ?as = mset ks + E" by (metis subset_mset.add_diff_inverse)
  have len: "length ?as = length ks + size E" using E by (metis size_mset size_union)
  have sum: "sum_list (map length ?as) = sum_list (map length ks) + sum_mset (image_mset length E)"
    unfolding sum_list_length_mset E by simp
  have "length (join '','' (sort ?as)) = length (join '','' (sort ks))"
    using assms(1) by (simp add: closed_def)
  then have "sum_list (map length ?as) + (length ?as - 1) = sum_list (map length ks) + (length ks - 1)"
    unfolding length_join_sort by simp
  moreover have "1 \<le> length ks" using assms(3) by (cases ks) simp_all
  ultimately have "size E = 0" using len sum by linarith
  then show ?thesis using E by simp
qed

subsection \<open>Evaluation\<close>

text \<open>Equations the simplifier evaluates these with: repeated characters are looked up once,
  and keys that are a permutation of the expected ones are not sorted.\<close>

lemma of_class_code [code]:
  "of_class cs lo hi s \<longleftrightarrow> lo \<le> length s \<and> length s \<le> hi \<and> list_all (\<lambda>c. c \<in> set cs) (remdups_adj s)"
  by (simp add: of_class_def list_all_iff)

text \<open>The control characters are those without any of the three high bits.\<close>

definition escape_control :: "char \<Rightarrow> string" where
  "escape_control c =
     (if c = CHR 0x08 then [CHR 0x5C, CHR ''b'']
      else if c = CHR 0x0C then [CHR 0x5C, CHR ''f'']
      else if c = CHR 0x0A then [CHR 0x5C, CHR ''n'']
      else if c = CHR 0x0D then [CHR 0x5C, CHR ''r'']
      else if c = CHR 0x09 then [CHR 0x5C, CHR ''t'']
      else [CHR 0x5C, CHR ''u'', CHR ''0'', CHR ''0'',
            hex_digit (of_char c div 16), hex_digit (of_char c)])"

lemma below_32: "of_char (Char b0 b1 b2 b3 b4 b5 b6 b7) < (32::nat) \<longleftrightarrow> \<not> (b5 \<or> b6 \<or> b7)"
  by (cases b5; cases b6; cases b7; simp add: of_char_def)

lemma escape_char_code [code]:
  "escape_char (Char b0 b1 b2 b3 b4 b5 b6 b7) =
     (if b5 \<or> b6 \<or> b7
      then (if b1 \<and> \<not> b0 \<and> \<not> b2 \<and> \<not> b3 \<and> \<not> b4 \<and> b5 \<and> \<not> b6 \<and> \<not> b7 then [CHR 0x5C, CHR 0x22]
        else if b2 \<and> b3 \<and> b4 \<and> b6 \<and> \<not> b0 \<and> \<not> b1 \<and> \<not> b5 \<and> \<not> b7 then [CHR 0x5C, CHR 0x5C]
        else [Char b0 b1 b2 b3 b4 b5 b6 b7])
      else escape_control (Char b0 b1 b2 b3 b4 b5 b6 b7))"
  by (simp add: escape_char_def escape_control_def below_32)

lemma mset_fold_remove1: "mset (fold remove1 ks xs) = mset xs - mset ks"
  by (induction ks arbitrary: xs) simp_all

lemma sort_permuted:
  assumes "fold remove1 ks xs = []" and "length xs = length ks"
  shows "sort xs = sort ks"
proof -
  have "mset xs - mset ks = {#}" using assms(1) mset_fold_remove1 [of ks xs] by simp
  then have "mset xs \<subseteq># mset ks" by (simp add: Diff_eq_empty_iff_mset)
  moreover have "size (mset xs) = size (mset ks)" using assms(2) by simp
  ultimately have "mset xs = mset ks" by (metis mset_subset_size nat_neq_iff subset_mset.le_less)
  then show ?thesis by (metis sorted_list_of_multiset_mset)
qed

lemma closed_code [code]:
  "closed v ks = (case v of JObj kvs \<Rightarrow>
      if length kvs = length ks \<and> fold remove1 ks (map fst kvs) = [] then True
      else join '','' (sort (map fst kvs)) = join '','' (sort ks)
    | _ \<Rightarrow> False)"
  by (auto simp: closed_def sort_permuted split: json.split)

end
