(* ===== verification/Errors.thy ===== *)
theory Errors imports Prelude begin

section \<open>What the code throws\<close>

text \<open>
  The codes the handlers throw, in the groups of the code that throws them: the assertion functions,
  the checkpoint and its ledger, the gates, the reconcilers, the Git worker, the Git host and the
  copy and source services. Few constructors per type keep the distinctness theorems and the code
  equations of each datatype small. A few have no code in the source: a rejected promise
  (\<open>Call_failed\<close>), a body that is no JSON (\<open>Not_json\<close>), an insertion refused by a unique key
  (\<open>Slot_taken\<close>, \<open>Row_exists\<close>), and a loop that is out of fuel (\<open>Out_of_fuel\<close>).
\<close>

datatype message_error =
    Effect_invalid | Git_invalid | Preparation_invalid | Preparation_incomplete
  | Checkpoint_invalid | Authority_bootstrap_plan_invalid | Not_json | Call_failed

datatype checkpoint_error =
    Checkpoint_uninitialized | Checkpoint_blocked | Checkpoint_already_initialized
  | Checkpoint_enrollment_scope_mismatch | Checkpoint_pending | Checkpoint_mismatch
  | Checkpoint_downgrade | Slot_taken

datatype ledger_error =
    Effect_blocked | Effect_conflict | Effect_capacity | Effect_initial_not_closed | Git_blocked
  | Git_conflict | Git_upload_not_closed

datatype gate_error =
    Effect_disabled | Effect_store_unavailable | Effect_scope | Effect_inventory | Effect_result
  | Effect_refusal_unknown | Effect_deadline | Effect_custody | Effect_refusal_binding_unknown
  | Effect_unconfirmed

datatype recovery_error =
    Effect_not_admitted | Effect_revocation_unknown | Effect_not_recoverable | Maintenance_denied
  | Refusal_denied | Refusal_unconfirmed | Closure_denied | Closure_unconfirmed

datatype git_error =
    Git_denied | Git_unknown_outcome | Git_store_unavailable | Preparation_denied

datatype host_error =
    Git_host_denied | Git_host_busy | Git_host_not_ready | Git_host_frame_mismatch
  | Git_host_unknown | Git_host_unavailable | Git_host_old_image | Git_host_readiness_mismatch
  | Git_host_package_unavailable | Git_host_package_mismatch | Git_host_provision_failed
  | Qualification_denied

datatype service_error =
    Copy_unavailable | Copy_identity | Copy_invalid | Copy_reply | Copy_incomplete | Copy_disabled
  | Copy_pending | Source_unavailable

datatype model_error =
    Row_exists | Out_of_fuel

datatype err =
    Message_error message_error
  | Checkpoint_error checkpoint_error
  | Ledger_error ledger_error
  | Gate_error gate_error
  | Recovery_error recovery_error
  | Git_error git_error
  | Host_error host_error
  | Service_error service_error
  | Model_error model_error

text \<open>Each code under its bare name, as a value of the common type.\<close>

abbreviation Effect_invalid :: err where
  "Effect_invalid \<equiv> Message_error message_error.Effect_invalid"
abbreviation Git_invalid :: err where "Git_invalid \<equiv> Message_error message_error.Git_invalid"
abbreviation Preparation_invalid :: err where
  "Preparation_invalid \<equiv> Message_error message_error.Preparation_invalid"
abbreviation Preparation_incomplete :: err where
  "Preparation_incomplete \<equiv> Message_error message_error.Preparation_incomplete"
abbreviation Checkpoint_invalid :: err where
  "Checkpoint_invalid \<equiv> Message_error message_error.Checkpoint_invalid"
abbreviation Authority_bootstrap_plan_invalid :: err where
  "Authority_bootstrap_plan_invalid \<equiv> Message_error message_error.Authority_bootstrap_plan_invalid"
abbreviation Not_json :: err where "Not_json \<equiv> Message_error message_error.Not_json"
abbreviation Call_failed :: err where "Call_failed \<equiv> Message_error message_error.Call_failed"

abbreviation Checkpoint_uninitialized :: err where
  "Checkpoint_uninitialized \<equiv> Checkpoint_error checkpoint_error.Checkpoint_uninitialized"
abbreviation Checkpoint_blocked :: err where
  "Checkpoint_blocked \<equiv> Checkpoint_error checkpoint_error.Checkpoint_blocked"
abbreviation Checkpoint_already_initialized :: err where
  "Checkpoint_already_initialized \<equiv> Checkpoint_error checkpoint_error.Checkpoint_already_initialized"
abbreviation Checkpoint_enrollment_scope_mismatch :: err where
  "Checkpoint_enrollment_scope_mismatch \<equiv> Checkpoint_error checkpoint_error.Checkpoint_enrollment_scope_mismatch"
abbreviation Checkpoint_pending :: err where
  "Checkpoint_pending \<equiv> Checkpoint_error checkpoint_error.Checkpoint_pending"
abbreviation Checkpoint_mismatch :: err where
  "Checkpoint_mismatch \<equiv> Checkpoint_error checkpoint_error.Checkpoint_mismatch"
abbreviation Checkpoint_downgrade :: err where
  "Checkpoint_downgrade \<equiv> Checkpoint_error checkpoint_error.Checkpoint_downgrade"
abbreviation Slot_taken :: err where
  "Slot_taken \<equiv> Checkpoint_error checkpoint_error.Slot_taken"

abbreviation Effect_blocked :: err where
  "Effect_blocked \<equiv> Ledger_error ledger_error.Effect_blocked"
abbreviation Effect_conflict :: err where
  "Effect_conflict \<equiv> Ledger_error ledger_error.Effect_conflict"
abbreviation Effect_capacity :: err where
  "Effect_capacity \<equiv> Ledger_error ledger_error.Effect_capacity"
abbreviation Effect_initial_not_closed :: err where
  "Effect_initial_not_closed \<equiv> Ledger_error ledger_error.Effect_initial_not_closed"
abbreviation Git_blocked :: err where "Git_blocked \<equiv> Ledger_error ledger_error.Git_blocked"
abbreviation Git_conflict :: err where
  "Git_conflict \<equiv> Ledger_error ledger_error.Git_conflict"
abbreviation Git_upload_not_closed :: err where
  "Git_upload_not_closed \<equiv> Ledger_error ledger_error.Git_upload_not_closed"

abbreviation Effect_disabled :: err where
  "Effect_disabled \<equiv> Gate_error gate_error.Effect_disabled"
abbreviation Effect_store_unavailable :: err where
  "Effect_store_unavailable \<equiv> Gate_error gate_error.Effect_store_unavailable"
abbreviation Effect_scope :: err where "Effect_scope \<equiv> Gate_error gate_error.Effect_scope"
abbreviation Effect_inventory :: err where
  "Effect_inventory \<equiv> Gate_error gate_error.Effect_inventory"
abbreviation Effect_result :: err where "Effect_result \<equiv> Gate_error gate_error.Effect_result"
abbreviation Effect_refusal_unknown :: err where
  "Effect_refusal_unknown \<equiv> Gate_error gate_error.Effect_refusal_unknown"
abbreviation Effect_deadline :: err where
  "Effect_deadline \<equiv> Gate_error gate_error.Effect_deadline"
abbreviation Effect_custody :: err where
  "Effect_custody \<equiv> Gate_error gate_error.Effect_custody"
abbreviation Effect_refusal_binding_unknown :: err where
  "Effect_refusal_binding_unknown \<equiv> Gate_error gate_error.Effect_refusal_binding_unknown"
abbreviation Effect_unconfirmed :: err where
  "Effect_unconfirmed \<equiv> Gate_error gate_error.Effect_unconfirmed"

abbreviation Effect_not_admitted :: err where
  "Effect_not_admitted \<equiv> Recovery_error recovery_error.Effect_not_admitted"
abbreviation Effect_revocation_unknown :: err where
  "Effect_revocation_unknown \<equiv> Recovery_error recovery_error.Effect_revocation_unknown"
abbreviation Effect_not_recoverable :: err where
  "Effect_not_recoverable \<equiv> Recovery_error recovery_error.Effect_not_recoverable"
abbreviation Maintenance_denied :: err where
  "Maintenance_denied \<equiv> Recovery_error recovery_error.Maintenance_denied"
abbreviation Refusal_denied :: err where
  "Refusal_denied \<equiv> Recovery_error recovery_error.Refusal_denied"
abbreviation Refusal_unconfirmed :: err where
  "Refusal_unconfirmed \<equiv> Recovery_error recovery_error.Refusal_unconfirmed"
abbreviation Closure_denied :: err where
  "Closure_denied \<equiv> Recovery_error recovery_error.Closure_denied"
abbreviation Closure_unconfirmed :: err where
  "Closure_unconfirmed \<equiv> Recovery_error recovery_error.Closure_unconfirmed"

abbreviation Git_denied :: err where "Git_denied \<equiv> Git_error git_error.Git_denied"
abbreviation Git_unknown_outcome :: err where
  "Git_unknown_outcome \<equiv> Git_error git_error.Git_unknown_outcome"
abbreviation Git_store_unavailable :: err where
  "Git_store_unavailable \<equiv> Git_error git_error.Git_store_unavailable"
abbreviation Preparation_denied :: err where
  "Preparation_denied \<equiv> Git_error git_error.Preparation_denied"

abbreviation Git_host_denied :: err where
  "Git_host_denied \<equiv> Host_error host_error.Git_host_denied"
abbreviation Git_host_busy :: err where "Git_host_busy \<equiv> Host_error host_error.Git_host_busy"
abbreviation Git_host_not_ready :: err where
  "Git_host_not_ready \<equiv> Host_error host_error.Git_host_not_ready"
abbreviation Git_host_frame_mismatch :: err where
  "Git_host_frame_mismatch \<equiv> Host_error host_error.Git_host_frame_mismatch"
abbreviation Git_host_unknown :: err where
  "Git_host_unknown \<equiv> Host_error host_error.Git_host_unknown"
abbreviation Git_host_unavailable :: err where
  "Git_host_unavailable \<equiv> Host_error host_error.Git_host_unavailable"
abbreviation Git_host_old_image :: err where
  "Git_host_old_image \<equiv> Host_error host_error.Git_host_old_image"
abbreviation Git_host_readiness_mismatch :: err where
  "Git_host_readiness_mismatch \<equiv> Host_error host_error.Git_host_readiness_mismatch"
abbreviation Git_host_package_unavailable :: err where
  "Git_host_package_unavailable \<equiv> Host_error host_error.Git_host_package_unavailable"
abbreviation Git_host_package_mismatch :: err where
  "Git_host_package_mismatch \<equiv> Host_error host_error.Git_host_package_mismatch"
abbreviation Git_host_provision_failed :: err where
  "Git_host_provision_failed \<equiv> Host_error host_error.Git_host_provision_failed"
abbreviation Qualification_denied :: err where
  "Qualification_denied \<equiv> Host_error host_error.Qualification_denied"

abbreviation Copy_unavailable :: err where
  "Copy_unavailable \<equiv> Service_error service_error.Copy_unavailable"
abbreviation Copy_identity :: err where
  "Copy_identity \<equiv> Service_error service_error.Copy_identity"
abbreviation Copy_invalid :: err where
  "Copy_invalid \<equiv> Service_error service_error.Copy_invalid"
abbreviation Copy_reply :: err where "Copy_reply \<equiv> Service_error service_error.Copy_reply"
abbreviation Copy_incomplete :: err where
  "Copy_incomplete \<equiv> Service_error service_error.Copy_incomplete"
abbreviation Copy_disabled :: err where
  "Copy_disabled \<equiv> Service_error service_error.Copy_disabled"
abbreviation Copy_pending :: err where
  "Copy_pending \<equiv> Service_error service_error.Copy_pending"
abbreviation Source_unavailable :: err where
  "Source_unavailable \<equiv> Service_error service_error.Source_unavailable"

abbreviation Row_exists :: err where "Row_exists \<equiv> Model_error model_error.Row_exists"
abbreviation Out_of_fuel :: err where "Out_of_fuel \<equiv> Model_error model_error.Out_of_fuel"

end
