(* ===== verification/Protocol.thy ===== *)
theory Protocol imports Json Errors begin

section \<open>The closed messages of the work protocol\<close>

text \<open>
  \<open>crates/work-effect-worker/protocol.ts\<close>: the plans, observations and proofs the gates, the
  checkpoint ledger and the Native store exchange, and the assertion functions that accept them.

  Each TypeScript type is a record; \<open>MintPlan\<close> and \<open>GitPlan\<close> extend the common part of
  \<open>InitialPlan\<close> as the source's \<open>Omit<...> & {...}\<close> types do. An assertion \<open>f(v): asserts v is T\<close>
  is the test \<open>f\<close> on JSON, which throws or returns unit, and \<open>as_T\<close>, the typed view of a value
  that passed; \<open>read_T\<close> is the two in sequence. The fields the source tests with
  \<open>[...].includes(String(v))\<close> keep type \<open>json\<close>, because that test also accepts a one-element
  array of the string. The literal fields \<open>format_version\<close> and \<open>effect\<close> are fixed by the tests
  and carry no information, so the records leave them out.
\<close>

subsection \<open>Types\<close>

record checkpoint =
  authority :: string
  epoch :: string
  sequence :: int
  tip :: string

record plan =
  attempt_id :: string
  digest :: string
  namespace :: string
  name :: string
  role :: json
  deadline :: int
  checkpoint :: checkpoint
  artifacts_account :: "string option"

type_synonym initial_plan = plan

record mint_core = plan +
  purpose :: json
  scope :: string
  repo_id :: string
  initial_attempt_id :: string
  key_version :: int
  key_fingerprint :: string

record mint_plan = mint_core +
  expires_at :: int

record mint_observation =
  o_repo_id :: string
  o_token_id :: string
  o_scope :: json
  o_expires_at :: int

record git_plan = mint_core +
  preparation_digest :: string
  disclosure_digest :: string
  commit :: string
  tree :: string
  branch :: string
  observation :: mint_observation

record git_result =
  gr_method :: string
  gr_commit :: string
  gr_tree :: string
  gr_branch :: string
  gr_commits :: int
  gr_objects :: int
  gr_object_bytes :: int
  gr_inventory_sha256 :: string
  gr_receipt :: string

datatype git_state = Admitted | Dispatching | Git_unknown | Completed

record git_record =
  g_plan :: git_plan
  g_text :: json
  g_state :: git_state
  g_result :: "git_result option"

record mint_cleanup = mint_observation +
  mc_method :: json
  mc_receipt :: string

record mint_refusal = mint_observation +
  mr_key_version :: int
  mr_receipt :: string

record closure_evidence =
  c_repo_id :: string
  c_token_id :: string
  c_expires_at :: "int option"
  c_receipt :: string

record token_observation =
  t_repo_id :: string
  t_token_id :: string
  t_expires_at :: int

record revocation_inventory = token_observation +
  ri_receipt :: string
  ri_method :: json

datatype effect_state = Outcome_unknown | Closed

datatype mint_state = Mint_unknown | Custodied | Mint_closed

record effect_record =
  e_plan :: initial_plan
  e_state :: effect_state
  e_repo_id :: "string option"
  e_closure :: "closure_evidence option"
  e_cleanup :: "(revocation_inventory \<times> int) option"
  e_token_observation :: "(token_observation \<times> int) option"

record mint_record =
  m_plan :: mint_plan
  m_state :: mint_state
  m_observation :: "mint_observation option"
  m_revoke_acknowledged :: bool
  m_cleanup_requested :: bool
  m_receipt :: "string option"
  m_cleanup :: "(mint_cleanup \<times> int) option"
  m_refusal :: "(mint_refusal \<times> int) option"
  m_git :: "git_record option"

subsection \<open>Patterns\<close>

definition ends_with :: "string \<Rightarrow> string \<Rightarrow> bool" where
  "ends_with s suf \<longleftrightarrow> length suf \<le> length s \<and> drop (length s - length suf) s = suf"

definition repo_name :: "string \<Rightarrow> bool" where
  "repo_name s \<longleftrightarrow> take 3 s = ''wk-'' \<and> of_class hex_chars 32 32 (take 32 (drop 3 s))
     \<and> (drop 35 s = ''-code'' \<or> drop 35 s = ''-snapshot'')"

text \<open>\<open>[a, b].includes(String(v))\<close>\<close>

definition includes_text :: "string list \<Rightarrow> json \<Rightarrow> bool" where
  "includes_text ss v \<longleftrightarrow> js_String v \<in> set ss"

text \<open>\<open>closedPlan\<close>: the account is the one optional key of a plan.\<close>

definition closedPlan :: "json \<Rightarrow> string list \<Rightarrow> bool" where
  "closedPlan v ks = closed v (if ''artifacts_account'' \<in> set (keys v)
                               then ks @ [''artifacts_account''] else ks)"

definition plan_keys :: "string list" where
  "plan_keys = [''format_version'', ''effect'', ''attempt_id'', ''digest'', ''namespace'', ''name'',
     ''role'', ''deadline'', ''checkpoint'']"

definition mint_extra_keys :: "string list" where
  "mint_extra_keys = [''purpose'', ''scope'', ''repo_id'', ''initial_attempt_id'', ''expires_at'',
     ''key_version'', ''key_fingerprint'']"

definition git_keys :: "string list" where
  "git_keys = [''format_version'', ''effect'', ''attempt_id'', ''digest'', ''namespace'', ''name'',
     ''role'', ''deadline'', ''checkpoint'', ''purpose'', ''scope'', ''repo_id'',
     ''initial_attempt_id'', ''key_version'', ''key_fingerprint'', ''preparation_digest'',
     ''disclosure_digest'', ''commit'', ''tree'', ''branch'', ''observation'']"

text \<open>\<open>{...v, k: x}\<close> and the rest of a destructuring that names the keys \<open>ks\<close>.\<close>

fun put_entry :: "(string \<times> json) list \<Rightarrow> string \<Rightarrow> json \<Rightarrow> (string \<times> json) list" where
  "put_entry [] k x = [(k, x)]"
| "put_entry ((k', y) # kvs) k x = (if k' = k then (k, x) # kvs else (k', y) # put_entry kvs k x)"

fun put :: "json \<Rightarrow> string \<Rightarrow> json \<Rightarrow> json" where
  "put (JObj kvs) k x = JObj (put_entry kvs k x)"
| "put v k x = JObj [(k, x)]"

fun without :: "json \<Rightarrow> string list \<Rightarrow> json" where
  "without (JObj kvs) ks = JObj (filter (\<lambda>(k, _). k \<notin> set ks) kvs)"
| "without v ks = JObj []"

lemma map_of_put_entry: "map_of (put_entry kvs k x) = (map_of kvs)(k \<mapsto> x)"
  by (induction kvs k x rule: put_entry.induct) (auto simp: fun_eq_iff)

lemma get_put [simp]: "get (put v k x) k' = (if k' = k then x else get v k')"
  by (cases v) (simp_all add: map_of_put_entry)

lemma get_without [simp]: "get (without v ks) k = (if k \<in> set ks then JUndef else get v k)"
proof (cases v)
  case (JObj kvs)
  have "map_of (filter (\<lambda>(k, _). k \<notin> set ks) kvs) k = (if k \<in> set ks then None else map_of kvs k)"
    by (induction kvs) auto
  then show ?thesis using JObj by simp
qed simp_all

subsection \<open>Assertion functions\<close>

definition account_text :: "json \<Rightarrow> bool" where
  "account_text = str_test (of_class hex_chars 32 32)"

definition commit_text :: "json \<Rightarrow> bool" where
  "commit_text = str_test (of_class hex_chars 40 40)"

definition initialPlan :: "json \<Rightarrow> err + unit" where
  "initialPlan v = throw_when
     (\<not> closedPlan v plan_keys
      \<or> get v ''format_version'' \<noteq> JNum 1
      \<or> get v ''effect'' \<noteq> JStr ''repo.create''
      \<or> (get v ''artifacts_account'' \<noteq> JUndef \<and> \<not> account_text (get v ''artifacts_account''))
      \<or> \<not> opaque (get v ''attempt_id'')
      \<or> \<not> hex (get v ''digest'')
      \<or> \<not> str_test (of_class namespace_chars 1 63) (get v ''namespace'')
      \<or> \<not> str_test repo_name (get v ''name'')
      \<or> \<not> includes_text [''task'', ''snapshot''] (get v ''role'')
      \<or> \<not> ends_with (the_str (get v ''name''))
           (if get v ''role'' = JStr ''task'' then ''-code'' else ''-snapshot'')
      \<or> \<not> integer (get v ''deadline'')
      \<or> \<not> closed (get v ''checkpoint'') [''authority'', ''epoch'', ''sequence'', ''tip'']
      \<or> \<not> resource (get (get v ''checkpoint'') ''authority'')
      \<or> \<not> hex (get (get v ''checkpoint'') ''epoch'')
      \<or> \<not> hex (get (get v ''checkpoint'') ''tip'')
      \<or> \<not> integer (get (get v ''checkpoint'') ''sequence''))
     Effect_invalid"

definition closure :: "json \<Rightarrow> err + unit" where
  "closure v = throw_when
     (\<not> closed v [''repo_id'', ''token_id'', ''expires_at'', ''receipt'']
      \<or> \<not> resource (get v ''repo_id'')
      \<or> \<not> resource (get v ''token_id'')
      \<or> \<not> (get v ''expires_at'' = JNull \<or> integer (get v ''expires_at''))
      \<or> \<not> hex (get v ''receipt''))
     Effect_invalid"

definition mintPlan :: "json \<Rightarrow> err + unit" where
  "mintPlan v = bind_result (throw_when
     (\<not> closedPlan v (plan_keys @ mint_extra_keys)
      \<or> get v ''effect'' \<noteq> JStr ''token.mint''
      \<or> \<not> includes_text [''upload'', ''readback''] (get v ''purpose'')
      \<or> get v ''scope'' \<noteq> JStr (if get v ''purpose'' = JStr ''upload'' then ''write'' else ''read'')
      \<or> \<not> resource (get v ''repo_id'')
      \<or> \<not> opaque (get v ''initial_attempt_id'')
      \<or> get v ''initial_attempt_id'' = get v ''attempt_id''
      \<or> \<not> integer (get v ''deadline'')
      \<or> \<not> integer (get v ''expires_at'')
      \<or> the_int (get v ''expires_at'') > the_int (get v ''deadline'')
      \<or> \<not> integer (get v ''key_version'')
      \<or> the_int (get v ''key_version'') < 1
      \<or> \<not> hex (get v ''key_fingerprint''))
     Effect_invalid)
     (\<lambda>_. initialPlan (put (without v mint_extra_keys) ''effect'' (JStr ''repo.create'')))"

definition mintObservation :: "json \<Rightarrow> err + unit" where
  "mintObservation v = throw_when
     (\<not> closed v [''repo_id'', ''token_id'', ''scope'', ''expires_at'']
      \<or> \<not> resource (get v ''repo_id'')
      \<or> \<not> resource (get v ''token_id'')
      \<or> \<not> includes_text [''read'', ''write''] (get v ''scope'')
      \<or> \<not> integer (get v ''expires_at'')
      \<or> the_int (get v ''expires_at'') < 1)
     Effect_invalid"

definition gitPlan :: "json \<Rightarrow> err + unit" where
  "gitPlan v =
     bind_result (throw_when
       (\<not> closedPlan v git_keys
        \<or> get v ''effect'' \<noteq> JStr (if get v ''purpose'' = JStr ''upload'' then ''git.upload'' else ''git.readback'')
        \<or> \<not> hex (get v ''preparation_digest'')
        \<or> \<not> hex (get v ''disclosure_digest'')
        \<or> \<not> commit_text (get v ''commit'')
        \<or> \<not> commit_text (get v ''tree'')
        \<or> get v ''branch'' \<noteq> JStr (if get v ''role'' = JStr ''task'' then ''work'' else ''snapshot''))
       Git_invalid)
     (\<lambda>_. bind_result (mintObservation (get v ''observation''))
     (\<lambda>_. bind_result (mintPlan
        (put (put (without v [''preparation_digest'', ''disclosure_digest'', ''commit'', ''tree'',
                              ''branch'', ''observation''])
              ''effect'' (JStr ''token.mint''))
             ''expires_at'' (get (get v ''observation'') ''expires_at'')))
     (\<lambda>_. throw_when
       (get (get v ''observation'') ''repo_id'' \<noteq> get v ''repo_id''
        \<or> get (get v ''observation'') ''scope'' \<noteq> get v ''scope''
        \<or> the_int (get (get v ''observation'') ''expires_at'') > the_int (get v ''deadline''))
       Git_invalid)))"

definition gitResult :: "json \<Rightarrow> git_plan \<Rightarrow> err + unit" where
  "gitResult v p = throw_when
     (\<not> closed v [''method'', ''commit'', ''tree'', ''branch'', ''commits'', ''objects'',
                  ''object_bytes'', ''inventory_sha256'', ''receipt'']
      \<or> get v ''method'' \<noteq> JStr (if purpose p = JStr ''upload'' then ''git_push_accepted''
                                else ''git_readback_verified'')
      \<or> get v ''commit'' \<noteq> JStr (commit p)
      \<or> get v ''tree'' \<noteq> JStr (tree p)
      \<or> get v ''branch'' \<noteq> JStr (branch p)
      \<or> \<not> integer (get v ''commits'')
      \<or> the_int (get v ''commits'') < 1
      \<or> the_int (get v ''commits'') > 4096
      \<or> (role p = JStr ''snapshot'' \<and> get v ''commits'' \<noteq> JNum 1)
      \<or> \<not> integer (get v ''objects'')
      \<or> the_int (get v ''objects'') < the_int (get v ''commits'')
      \<or> the_int (get v ''objects'') > 65536
      \<or> \<not> integer (get v ''object_bytes'')
      \<or> the_int (get v ''object_bytes'') > 67108864
      \<or> \<not> hex (get v ''inventory_sha256'')
      \<or> \<not> hex (get v ''receipt''))
     Git_invalid"

text \<open>The object \<open>{repo_id, token_id, scope, expires_at}\<close> of a value, for \<open>mintObservation\<close>.\<close>

definition observed_part :: "json \<Rightarrow> json" where
  "observed_part v = JObj [(''repo_id'', get v ''repo_id''), (''token_id'', get v ''token_id''),
                           (''scope'', get v ''scope''), (''expires_at'', get v ''expires_at'')]"

definition cleanup_methods :: "string list" where
  "cleanup_methods = [''revoked_inventory'', ''revoke_acknowledged'']"

definition mintCleanup :: "json \<Rightarrow> err + unit" where
  "mintCleanup v = bind_result (throw_when
     (\<not> closed v [''repo_id'', ''token_id'', ''scope'', ''expires_at'', ''format_version'',
                  ''method'', ''receipt'']
      \<or> get v ''format_version'' \<noteq> JNum 1
      \<or> \<not> hex (get v ''receipt'')
      \<or> \<not> includes_text cleanup_methods (get v ''method''))
     Effect_invalid)
     (\<lambda>_. mintObservation (observed_part v))"

definition mintRefusal :: "json \<Rightarrow> err + unit" where
  "mintRefusal v = bind_result (throw_when
     (\<not> closed v [''repo_id'', ''token_id'', ''scope'', ''expires_at'', ''format_version'',
                  ''method'', ''status'', ''key_version'', ''receipt'']
      \<or> get v ''format_version'' \<noteq> JNum 1
      \<or> get v ''method'' \<noteq> JStr ''git_bearer_refused''
      \<or> get v ''status'' \<noteq> JNum 403
      \<or> \<not> integer (get v ''key_version'')
      \<or> the_int (get v ''key_version'') < 1
      \<or> \<not> hex (get v ''receipt''))
     Effect_invalid)
     (\<lambda>_. mintObservation (observed_part v))"

definition revocationInventory :: "json \<Rightarrow> err + unit" where
  "revocationInventory v = throw_when
     (\<not> closed v [''format_version'', ''repo_id'', ''token_id'', ''scope'', ''expires_at'',
                  ''receipt'', ''method'']
      \<or> get v ''format_version'' \<noteq> JNum 1
      \<or> \<not> resource (get v ''repo_id'')
      \<or> \<not> resource (get v ''token_id'')
      \<or> get v ''scope'' \<noteq> JStr ''write''
      \<or> \<not> integer (get v ''expires_at'')
      \<or> \<not> hex (get v ''receipt'')
      \<or> \<not> includes_text cleanup_methods (get v ''method''))
     Effect_invalid"

definition tokenObservation :: "json \<Rightarrow> err + unit" where
  "tokenObservation v = throw_when
     (\<not> closed v [''repo_id'', ''token_id'', ''scope'', ''expires_at'']
      \<or> \<not> resource (get v ''repo_id'')
      \<or> \<not> resource (get v ''token_id'')
      \<or> get v ''scope'' \<noteq> JStr ''write''
      \<or> \<not> integer (get v ''expires_at''))
     Effect_invalid"

subsection \<open>Typed views\<close>

definition as_checkpoint :: "json \<Rightarrow> checkpoint" where
  "as_checkpoint v = \<lparr>authority = the_str (get v ''authority''), epoch = the_str (get v ''epoch''),
     sequence = the_int (get v ''sequence''), tip = the_str (get v ''tip'')\<rparr>"

definition as_account :: "json \<Rightarrow> string option" where
  "as_account v = (case get v ''artifacts_account'' of JStr s \<Rightarrow> Some s | _ \<Rightarrow> None)"

definition as_plan :: "json \<Rightarrow> initial_plan" where
  "as_plan v = \<lparr>attempt_id = the_str (get v ''attempt_id''), digest = the_str (get v ''digest''),
     namespace = the_str (get v ''namespace''), name = the_str (get v ''name''),
     role = get v ''role'', deadline = the_int (get v ''deadline''),
     checkpoint = as_checkpoint (get v ''checkpoint''), artifacts_account = as_account v\<rparr>"

definition as_mint_core :: "json \<Rightarrow> mint_core" where
  "as_mint_core v = plan.extend (as_plan v) (mint_core.fields (get v ''purpose'')
     (the_str (get v ''scope'')) (the_str (get v ''repo_id'')) (the_str (get v ''initial_attempt_id''))
     (the_int (get v ''key_version'')) (the_str (get v ''key_fingerprint'')))"

definition as_mint_plan :: "json \<Rightarrow> mint_plan" where
  "as_mint_plan v = mint_core.extend (as_mint_core v) (mint_plan.fields (the_int (get v ''expires_at'')))"

definition as_observation :: "json \<Rightarrow> mint_observation" where
  "as_observation v = \<lparr>o_repo_id = the_str (get v ''repo_id''), o_token_id = the_str (get v ''token_id''),
     o_scope = get v ''scope'', o_expires_at = the_int (get v ''expires_at'')\<rparr>"

definition as_git_plan :: "json \<Rightarrow> git_plan" where
  "as_git_plan v = mint_core.extend (as_mint_core v) (git_plan.fields
     (the_str (get v ''preparation_digest'')) (the_str (get v ''disclosure_digest''))
     (the_str (get v ''commit'')) (the_str (get v ''tree'')) (the_str (get v ''branch''))
     (as_observation (get v ''observation'')))"

definition as_git_result :: "json \<Rightarrow> git_result" where
  "as_git_result v = \<lparr>gr_method = the_str (get v ''method''), gr_commit = the_str (get v ''commit''),
     gr_tree = the_str (get v ''tree''), gr_branch = the_str (get v ''branch''),
     gr_commits = the_int (get v ''commits''), gr_objects = the_int (get v ''objects''),
     gr_object_bytes = the_int (get v ''object_bytes''),
     gr_inventory_sha256 = the_str (get v ''inventory_sha256''), gr_receipt = the_str (get v ''receipt'')\<rparr>"

definition as_closure :: "json \<Rightarrow> closure_evidence" where
  "as_closure v = \<lparr>c_repo_id = the_str (get v ''repo_id''), c_token_id = the_str (get v ''token_id''),
     c_expires_at = (case get v ''expires_at'' of JNum n \<Rightarrow> Some n | _ \<Rightarrow> None),
     c_receipt = the_str (get v ''receipt'')\<rparr>"

definition as_mint_cleanup :: "json \<Rightarrow> mint_cleanup" where
  "as_mint_cleanup v = mint_observation.extend (as_observation v)
     (mint_cleanup.fields (get v ''method'') (the_str (get v ''receipt'')))"

definition as_mint_refusal :: "json \<Rightarrow> mint_refusal" where
  "as_mint_refusal v = mint_observation.extend (as_observation v)
     (mint_refusal.fields (the_int (get v ''key_version'')) (the_str (get v ''receipt'')))"

definition as_token_observation :: "json \<Rightarrow> token_observation" where
  "as_token_observation v = \<lparr>t_repo_id = the_str (get v ''repo_id''),
     t_token_id = the_str (get v ''token_id''), t_expires_at = the_int (get v ''expires_at'')\<rparr>"

definition as_revocation :: "json \<Rightarrow> revocation_inventory" where
  "as_revocation v = token_observation.extend (as_token_observation v)
     (revocation_inventory.fields (the_str (get v ''receipt'')) (get v ''method''))"

definition read_with :: "(json \<Rightarrow> err + unit) \<Rightarrow> (json \<Rightarrow> 'a) \<Rightarrow> json \<Rightarrow> err + 'a" where
  "read_with test view v = bind_result (test v) (\<lambda>_. Inr (view v))"

lemma read_with_Inr_iff [simp]: "read_with test view v = Inr x \<longleftrightarrow> test v = Inr () \<and> x = view v"
  by (auto simp: read_with_def bind_result_Inr_iff)

end
