(* ===== verification/Bootstrap.thy ===== *)
theory Bootstrap imports Protocol begin

section \<open>The initial enrollment record\<close>

text \<open>
  \<open>crates/work-checkpoint-worker/bootstrap.ts\<close>: the closed record an operator enrolls once, and
  the test \<open>validateBootstrapPlan\<close> that accepts it. \<open>bootstrapHex\<close> and \<open>bootstrapClosed\<close> have the
  bodies of \<open>hex\<close> and \<open>closed\<close>.
\<close>

record bootstrap_plan =
  packet_sha256 :: string
  allocation_sha256 :: string
  ownership_review_sha256 :: string
  quiescence_review_sha256 :: string
  account_id :: string
  database_id :: string
  checkpoint_namespace_id :: string
  checkpoint_object_id :: string
  checkpoint_version_id :: string
  initial :: checkpoint

definition bootstrapHex :: "json \<Rightarrow> bool" where
  "bootstrapHex = str_test (of_class hex_chars 64 64)"

definition hex32 :: "json \<Rightarrow> bool" where
  "hex32 = str_test (of_class hex_chars 32 32)"

definition uuid :: "string \<Rightarrow> bool" where
  "uuid s \<longleftrightarrow> length s = 36
     \<and> of_class hex_chars 8 8 (take 8 s) \<and> s ! 8 = CHR ''-''
     \<and> of_class hex_chars 4 4 (take 4 (drop 9 s)) \<and> s ! 13 = CHR ''-''
     \<and> of_class hex_chars 4 4 (take 4 (drop 14 s)) \<and> s ! 18 = CHR ''-''
     \<and> of_class hex_chars 4 4 (take 4 (drop 19 s)) \<and> s ! 23 = CHR ''-''
     \<and> of_class hex_chars 12 12 (drop 24 s)"

definition bootstrapUuid :: "json \<Rightarrow> bool" where
  "bootstrapUuid = str_test uuid"

definition bootstrapClosed :: "json \<Rightarrow> string list \<Rightarrow> bool" where
  "bootstrapClosed v ks = (case v of JObj kvs \<Rightarrow> join '','' (sort (map fst kvs)) = join '','' (sort ks)
                           | _ \<Rightarrow> False)"

definition validateBootstrapPlan :: "json \<Rightarrow> err + unit" where
  "validateBootstrapPlan v = throw_when
     (\<not> bootstrapClosed v [''format_version'', ''packet_sha256'', ''allocation_sha256'',
          ''ownership_review_sha256'', ''quiescence_review_sha256'', ''account_id'', ''database_id'',
          ''checkpoint_namespace_id'', ''checkpoint_object_id'', ''checkpoint_version_id'',
          ''initial'', ''release_floor'']
      \<or> get v ''format_version'' \<noteq> JNum 1
      \<or> \<not> bootstrapHex (get v ''packet_sha256'')
      \<or> \<not> bootstrapHex (get v ''allocation_sha256'')
      \<or> \<not> bootstrapHex (get v ''ownership_review_sha256'')
      \<or> \<not> bootstrapHex (get v ''quiescence_review_sha256'')
      \<or> \<not> hex32 (get v ''account_id'')
      \<or> \<not> bootstrapUuid (get v ''database_id'')
      \<or> \<not> hex32 (get v ''checkpoint_namespace_id'')
      \<or> \<not> bootstrapHex (get v ''checkpoint_object_id'')
      \<or> \<not> bootstrapUuid (get v ''checkpoint_version_id'')
      \<or> get v ''release_floor'' \<noteq> JNum 1
      \<or> \<not> bootstrapClosed (get v ''initial'') [''authority'', ''epoch'', ''sequence'', ''tip'']
      \<or> \<not> resource (get (get v ''initial'') ''authority'')
      \<or> \<not> bootstrapHex (get (get v ''initial'') ''epoch'')
      \<or> \<not> bootstrapHex (get (get v ''initial'') ''tip'')
      \<or> get (get v ''initial'') ''sequence'' \<noteq> JNum 0)
     Authority_bootstrap_plan_invalid"

definition as_bootstrap_plan :: "json \<Rightarrow> bootstrap_plan" where
  "as_bootstrap_plan v = \<lparr>packet_sha256 = the_str (get v ''packet_sha256''),
     allocation_sha256 = the_str (get v ''allocation_sha256''),
     ownership_review_sha256 = the_str (get v ''ownership_review_sha256''),
     quiescence_review_sha256 = the_str (get v ''quiescence_review_sha256''),
     account_id = the_str (get v ''account_id''), database_id = the_str (get v ''database_id''),
     checkpoint_namespace_id = the_str (get v ''checkpoint_namespace_id''),
     checkpoint_object_id = the_str (get v ''checkpoint_object_id''),
     checkpoint_version_id = the_str (get v ''checkpoint_version_id''),
     initial = as_checkpoint (get v ''initial'')\<rparr>"

lemma bootstrap_initial:
  "validateBootstrapPlan v = Inr () \<Longrightarrow> sequence (initial (as_bootstrap_plan v)) = 0"
  by (simp add: validateBootstrapPlan_def throw_when_def as_bootstrap_plan_def as_checkpoint_def
      split: if_splits)

end
