(* ===== verification/Checkpoint.thy ===== *)
theory Checkpoint imports Bootstrap begin

section \<open>The checkpoint object: tables and framing\<close>

text \<open>
  \<open>crates/work-checkpoint-worker/worker.ts\<close>, class \<open>WorkCheckpoint\<close>: a durable object with four
  SQL tables. \<open>store\<close> holds their rows: the single row of \<open>checkpoint_state\<close>, the single row of
  \<open>checkpoint_enrollment\<close>, and the rows of \<open>effect_ledger\<close> and \<open>mint_ledger\<close> (key, unique slot
  and record). A column of JSON text is the value it was written from.

  Every method is a function from the store to a thrown error or the returned value and the next
  store. A thrown error leaves the store as it was: the methods throw inside \<open>transactionSync\<close>,
  which rolls back, or before writing. Arguments the source types \<open>unknown\<close> are \<open>json\<close>.
  \<open>rnd\<close> is the value of \<open>random()\<close>. The slot of a mint is the triple whose JSON text is stored.
\<close>

subsection \<open>State\<close>

record permit =
  p_operation :: string
  p_previous :: checkpoint
  p_next :: checkpoint

record ckpt_state =
  st_checkpoint :: checkpoint
  st_pending :: "permit option"
  st_last :: "permit option"
  st_release_floor :: int
  st_frozen :: bool

datatype slot = Slot string string json

record store =
  s_state :: "ckpt_state option"
  s_enrollment :: "bootstrap_plan option"
  s_effects :: "(string \<times> effect_record) list"
  s_mints :: "(string \<times> slot \<times> mint_record) list"

record env =
  work_authority_id :: string
  bootstrap_packet_pin :: "string option"
  object_id :: string

type_synonym 'a outcome = "err + ('a \<times> store)"

definition empty_store :: store where
  "empty_store = \<lparr>s_state = None, s_enrollment = None, s_effects = [], s_mints = []\<rparr>"

definition next_store :: "'a outcome \<Rightarrow> store \<Rightarrow> store" where
  "next_store r s = (case r of Inl _ \<Rightarrow> s | Inr (_, s') \<Rightarrow> s')"

lemma next_store_simps [simp]:
  "next_store (Inl e) s = s" "next_store (Inr (x, s')) s = s'"
  by (simp_all add: next_store_def)

text \<open>A method whose result is not the row it wrote.\<close>

definition returning :: "'b \<Rightarrow> 'a outcome \<Rightarrow> 'b outcome" where
  "returning y r = (case r of Inl e \<Rightarrow> Inl e | Inr (_, s') \<Rightarrow> Inr (y, s'))"

lemma returning_Inr_iff [simp]: "returning y r = Inr (z, s') \<longleftrightarrow> z = y \<and> (\<exists>x. r = Inr (x, s'))"
  by (auto simp: returning_def split: sum.splits)

lemma next_store_returning [simp]: "next_store (returning y r) s = next_store r s"
  by (simp add: returning_def next_store_def split: sum.splits prod.splits)

subsection \<open>Accepted frames\<close>

definition checkpoint_valid :: "json \<Rightarrow> err + unit" where
  "checkpoint_valid v = throw_when
     (\<not> closed v [''authority'', ''epoch'', ''sequence'', ''tip'']
      \<or> \<not> resource (get v ''authority'')
      \<or> \<not> hex (get v ''epoch'')
      \<or> \<not> integer (get v ''sequence'')
      \<or> \<not> hex (get v ''tip''))
     Checkpoint_invalid"

definition permit_valid :: "json \<Rightarrow> err + unit" where
  "permit_valid v = bind_result (throw_when
     (\<not> closed v [''operation'', ''previous'', ''next''] \<or> \<not> resource (get v ''operation''))
     Checkpoint_invalid)
   (\<lambda>_. bind_result (checkpoint_valid (get v ''previous''))
   (\<lambda>_. bind_result (checkpoint_valid (get v ''next''))
   (\<lambda>_. throw_when
     (get (get v ''next'') ''authority'' \<noteq> get (get v ''previous'') ''authority''
      \<or> get (get v ''next'') ''epoch'' \<noteq> get (get v ''previous'') ''epoch''
      \<or> the_int (get (get v ''next'') ''sequence'') \<noteq> the_int (get (get v ''previous'') ''sequence'') + 1
      \<or> get (get v ''next'') ''tip'' = get (get v ''previous'') ''tip'')
     Checkpoint_invalid)))"

definition as_permit :: "json \<Rightarrow> permit" where
  "as_permit v = \<lparr>p_operation = the_str (get v ''operation''),
     p_previous = as_checkpoint (get v ''previous''), p_next = as_checkpoint (get v ''next'')\<rparr>"

subsection \<open>The state row\<close>

definition state_of :: "store \<Rightarrow> err + ckpt_state" where
  "state_of s = (case s_state s of None \<Rightarrow> Inl Checkpoint_uninitialized | Some st \<Rightarrow> Inr st)"

definition save :: "store \<Rightarrow> ckpt_state \<Rightarrow> store" where
  "save s st = s\<lparr>s_state := Some st\<rparr>"

definition current :: "store \<Rightarrow> json \<Rightarrow> err + ckpt_state" where
  "current s release = bind_result (state_of s) (\<lambda>st.
     if \<not> integer release \<or> the_int release < st_release_floor st \<or> st_frozen st
     then Inl Checkpoint_blocked else Inr st)"

definition pristine :: "store \<Rightarrow> err + unit" where
  "pristine s = throw_when
     (s_state s \<noteq> None \<or> s_enrollment s \<noteq> None \<or> s_effects s \<noteq> [] \<or> s_mints s \<noteq> [])
     Checkpoint_already_initialized"

definition ledger_entries :: "store \<Rightarrow> nat" where
  "ledger_entries s = length (s_effects s) + length (s_mints s)"

subsection \<open>Enrollment and bootstrap\<close>

record inspection =
  in_authority :: string
  in_object_id :: string
  in_enrollment :: "bootstrap_plan option"
  in_state :: "ckpt_state option"
  in_ledger_entries :: nat

definition inspectEnrollment :: "env \<Rightarrow> store \<Rightarrow> inspection" where
  "inspectEnrollment env s = \<lparr>in_authority = work_authority_id env, in_object_id = object_id env,
     in_enrollment = s_enrollment s, in_state = s_state s, in_ledger_entries = ledger_entries s\<rparr>"

definition fresh_state :: "checkpoint \<Rightarrow> int \<Rightarrow> ckpt_state" where
  "fresh_state c release_floor = \<lparr>st_checkpoint = c, st_pending = None, st_last = None,
     st_release_floor = release_floor, st_frozen = False\<rparr>"

definition enrollAuthority :: "env \<Rightarrow> json \<Rightarrow> store \<Rightarrow> inspection outcome" where
  "enrollAuthority env v s =
     bind_result (read_with validateBootstrapPlan as_bootstrap_plan v) (\<lambda>plan.
     if authority (initial plan) \<noteq> work_authority_id env
        \<or> Some (packet_sha256 plan) \<noteq> bootstrap_packet_pin env
        \<or> checkpoint_object_id plan \<noteq> object_id env
     then Inl Checkpoint_enrollment_scope_mismatch
     else bind_result (pristine s) (\<lambda>_.
       let s' = save (s\<lparr>s_enrollment := Some plan\<rparr>) (fresh_state (initial plan) 1)
       in Inr (inspectEnrollment env s', s')))"

definition bootstrap :: "env \<Rightarrow> json \<Rightarrow> json \<Rightarrow> store \<Rightarrow> checkpoint outcome" where
  "bootstrap env v releaseFloor s =
     bind_result (read_with checkpoint_valid as_checkpoint v) (\<lambda>c.
     if authority c \<noteq> work_authority_id env \<or> sequence c \<noteq> 0
        \<or> \<not> integer releaseFloor \<or> the_int releaseFloor < 1
     then Inl Checkpoint_invalid
     else bind_result (pristine s) (\<lambda>_. Inr (c, save s (fresh_state c (the_int releaseFloor)))))"

subsection \<open>Framing\<close>

definition status_of :: "json \<Rightarrow> store \<Rightarrow> ckpt_state outcome" where
  "status_of release s = bind_result (current s release) (\<lambda>st. Inr (st, s))"

definition begin_frame :: "env \<Rightarrow> string \<Rightarrow> json \<Rightarrow> json \<Rightarrow> json \<Rightarrow> store \<Rightarrow> permit outcome" where
  "begin_frame env rnd v operation release s =
     bind_result (read_with checkpoint_valid as_checkpoint v) (\<lambda>expected.
     if \<not> resource operation then Inl Checkpoint_invalid
     else bind_result (current s release) (\<lambda>st.
       case st_pending st of
         Some p \<Rightarrow> if p_operation p = the_str operation \<and> p_previous p = expected
                   then Inr (p, s) else Inl Checkpoint_pending
       | None \<Rightarrow>
           if st_checkpoint st \<noteq> expected \<or> authority expected \<noteq> work_authority_id env
              \<or> sequence expected = max_safe_integer
           then Inl Checkpoint_mismatch
           else let p = \<lparr>p_operation = the_str operation, p_previous = expected,
                         p_next = expected\<lparr>sequence := sequence expected + 1, tip := rnd\<rparr>\<rparr>
                in Inr (p, save s (st\<lparr>st_pending := Some p\<rparr>))))"

definition commit_frame :: "json \<Rightarrow> json \<Rightarrow> json \<Rightarrow> store \<Rightarrow> checkpoint outcome" where
  "commit_frame plan_v observed_v release s =
     bind_result (read_with permit_valid as_permit plan_v) (\<lambda>plan.
     bind_result (read_with checkpoint_valid as_checkpoint observed_v) (\<lambda>observed.
     bind_result (current s release) (\<lambda>st.
       if observed \<noteq> p_next plan then Inl Checkpoint_mismatch
       else case st_pending st of
         None \<Rightarrow> if st_last st = Some plan \<and> st_checkpoint st = p_next plan
                 then Inr (st_checkpoint st, s) else Inl Checkpoint_mismatch
       | Some p \<Rightarrow> if p \<noteq> plan then Inl Checkpoint_mismatch
                   else Inr (p_next plan, save s (st\<lparr>st_checkpoint := p_next plan,
                               st_last := Some plan, st_pending := None\<rparr>)))))"

definition raiseFloor :: "json \<Rightarrow> store \<Rightarrow> unit outcome" where
  "raiseFloor v s =
     (if \<not> integer v \<or> the_int v < 1 then Inl Checkpoint_invalid
      else bind_result (state_of s) (\<lambda>st.
        if the_int v < st_release_floor st then Inl Checkpoint_downgrade
        else Inr ((), save s (st\<lparr>st_release_floor := the_int v\<rparr>))))"

definition freeze :: "store \<Rightarrow> unit outcome" where
  "freeze s = bind_result (state_of s) (\<lambda>st. Inr ((), save s (st\<lparr>st_frozen := True\<rparr>)))"

subsection \<open>Rows of the ledgers\<close>

definition effect_row :: "store \<Rightarrow> string \<Rightarrow> effect_record option" where
  "effect_row s a = map_of (s_effects s) a"

definition mint_row :: "store \<Rightarrow> string \<Rightarrow> mint_record option" where
  "mint_row s a = map_of (map (\<lambda>(a, _, r). (a, r)) (s_mints s)) a"

definition slot_row :: "store \<Rightarrow> slot \<Rightarrow> mint_record option" where
  "slot_row s t = map_of (map (\<lambda>(_, t, r). (t, r)) (s_mints s)) t"

definition slot_of :: "mint_plan \<Rightarrow> slot" where
  "slot_of p = Slot (namespace p) (name p) (purpose p)"

definition effect :: "json \<Rightarrow> store \<Rightarrow> err + effect_record option" where
  "effect attempt s =
     (if \<not> opaque attempt then Inl Effect_invalid else Inr (effect_row s (the_str attempt)))"

definition saveEffect :: "effect_record \<Rightarrow> store \<Rightarrow> store" where
  "saveEffect r s = (let a = attempt_id (e_plan r) in
     s\<lparr>s_effects := (a, r) # filter (\<lambda>(b, _). b \<noteq> a) (s_effects s)\<rparr>)"

definition mint :: "json \<Rightarrow> store \<Rightarrow> err + mint_record option" where
  "mint attempt s =
     (if \<not> opaque attempt then Inl Effect_invalid else Inr (mint_row s (the_str attempt)))"

text \<open>
  \<open>INSERT OR REPLACE\<close> removes every row that conflicts on the primary key or on the unique slot.
\<close>

definition saveMint :: "mint_record \<Rightarrow> store \<Rightarrow> store" where
  "saveMint r s = (let a = attempt_id (m_plan r); t = slot_of (m_plan r) in
     s\<lparr>s_mints := (a, t, r) # filter (\<lambda>(b, u, _). b \<noteq> a \<and> u \<noteq> t) (s_mints s)\<rparr>)"

text \<open>A plain \<open>INSERT\<close> fails on such a conflict.\<close>

definition insertMint :: "mint_record \<Rightarrow> store \<Rightarrow> err + store" where
  "insertMint r s = (let a = attempt_id (m_plan r); t = slot_of (m_plan r) in
     if list_ex (\<lambda>(b, u, _). b = a \<or> u = t) (s_mints s) then Inl Slot_taken
     else Inr (s\<lparr>s_mints := (a, t, r) # s_mints s\<rparr>))"

definition lookupEffect :: "json \<Rightarrow> store \<Rightarrow> err + effect_record option" where
  "lookupEffect attempt s = effect attempt s"

definition lookupMint :: "json \<Rightarrow> store \<Rightarrow> err + mint_record option" where
  "lookupMint attempt s = mint attempt s"

end
