(* ===== verification/EffectLedger.thy ===== *)
theory EffectLedger imports Checkpoint begin

section \<open>The effect ledger: initial repository creations\<close>

text \<open>
  The methods of \<open>WorkCheckpoint\<close> on \<open>effect_ledger\<close> (\<open>claimEffect\<close>, \<open>observeEffect\<close>,
  \<open>closeEffect\<close>, \<open>observeEffectToken\<close>, \<open>recordRevocationInventory\<close>). A row is a permanent
  tombstone of one admitted creation: its plan never changes, and it is closed at most once.
  \<open>now\<close> is \<open>Math.floor(Date.now() / 1000)\<close> when the method runs.
\<close>

type_synonym 'r claim = "bool \<times> 'r"

definition claimEffect :: "env \<Rightarrow> int \<Rightarrow> json \<Rightarrow> json \<Rightarrow> store \<Rightarrow> effect_record claim outcome" where
  "claimEffect env now v release s =
     bind_result (read_with initialPlan as_plan v) (\<lambda>input.
     bind_result (current s release) (\<lambda>st.
       if st_pending st \<noteq> None \<or> st_checkpoint st \<noteq> checkpoint input
          \<or> authority (checkpoint input) \<noteq> work_authority_id env \<or> deadline input \<le> now
       then Inl Effect_blocked
       else case effect_row s (attempt_id input) of
         Some previous \<Rightarrow>
           if digest (e_plan previous) \<noteq> digest input
              \<or> namespace (e_plan previous) \<noteq> namespace input
              \<or> name (e_plan previous) \<noteq> name input
              \<or> \<not> strict_eq (role (e_plan previous)) (role input)
              \<or> deadline (e_plan previous) \<noteq> deadline input
           then Inl Effect_conflict
           else Inr ((False, previous), s)
       | None \<Rightarrow>
           if ledger_entries s \<ge> 256 then Inl Effect_capacity
           else let r = \<lparr>e_plan = input, e_state = Outcome_unknown, e_repo_id = None,
                         e_closure = None, e_cleanup = None, e_token_observation = None\<rparr>
                in Inr ((True, r), saveEffect r s)))"

text \<open>The row of an attempt, for a method that throws \<open>effect_conflict\<close> when there is none.\<close>

definition with_effect ::
    "json \<Rightarrow> store \<Rightarrow> (effect_record \<Rightarrow> err + effect_record) \<Rightarrow> effect_record outcome" where
  "with_effect attempt s f = bind_result (effect attempt s) (\<lambda>row.
     case row of None \<Rightarrow> Inl Effect_conflict
     | Some r \<Rightarrow> bind_result (f r) (\<lambda>r'. Inr (r', saveEffect r' s)))"

definition observeEffect :: "json \<Rightarrow> json \<Rightarrow> json \<Rightarrow> store \<Rightarrow> unit outcome" where
  "observeEffect attempt d repoId s =
     (if \<not> hex d \<or> \<not> resource repoId then Inl Effect_invalid
      else returning () (with_effect attempt s (\<lambda>r.
        if JStr (digest (e_plan r)) \<noteq> d
           \<or> (e_repo_id r \<noteq> None \<and> e_repo_id r \<noteq> Some (the_str repoId))
        then Inl Effect_conflict
        else Inr (r\<lparr>e_repo_id := Some (the_str repoId)\<rparr>))))"

definition closeEffect :: "json \<Rightarrow> json \<Rightarrow> json \<Rightarrow> store \<Rightarrow> effect_record outcome" where
  "closeEffect attempt d v s =
     bind_result (read_with closure as_closure v) (\<lambda>input.
     if \<not> hex d then Inl Effect_invalid
     else with_effect attempt s (\<lambda>r.
       if JStr (digest (e_plan r)) \<noteq> d
          \<or> e_repo_id r \<noteq> Some (c_repo_id input)
          \<or> (case e_closure r of None \<Rightarrow> False
             | Some c \<Rightarrow> c_token_id c \<noteq> c_token_id input \<or> c_expires_at c \<noteq> c_expires_at input
                        \<or> c_receipt c \<noteq> c_receipt input)
       then Inl Effect_conflict
       else Inr (r\<lparr>e_closure := Some input, e_state := Closed\<rparr>)))"

definition observeEffectToken :: "int \<Rightarrow> json \<Rightarrow> json \<Rightarrow> json \<Rightarrow> store \<Rightarrow> effect_record outcome" where
  "observeEffectToken now attempt d v s =
     bind_result (read_with tokenObservation as_token_observation v) (\<lambda>input.
     if \<not> hex d then Inl Effect_invalid
     else with_effect attempt s (\<lambda>r.
       if e_state r \<noteq> Outcome_unknown
          \<or> JStr (digest (e_plan r)) \<noteq> d
          \<or> e_repo_id r \<noteq> Some (t_repo_id input)
          \<or> (case e_token_observation r of None \<Rightarrow> False
             | Some (t, _) \<Rightarrow> t_token_id t \<noteq> t_token_id input \<or> t_expires_at t \<noteq> t_expires_at input)
       then Inl Effect_conflict
       else Inr (case e_token_observation r of
           None \<Rightarrow> r\<lparr>e_token_observation := Some (input, now)\<rparr>
         | Some _ \<Rightarrow> r)))"

definition recordRevocationInventory ::
    "int \<Rightarrow> json \<Rightarrow> json \<Rightarrow> json \<Rightarrow> store \<Rightarrow> effect_record outcome" where
  "recordRevocationInventory now attempt d v s =
     bind_result (read_with revocationInventory as_revocation v) (\<lambda>input.
     if \<not> hex d then Inl Effect_invalid
     else with_effect attempt s (\<lambda>r.
       if e_state r \<noteq> Outcome_unknown
          \<or> JStr (digest (e_plan r)) \<noteq> d
          \<or> e_repo_id r \<noteq> Some (t_repo_id input)
          \<or> (case e_token_observation r of None \<Rightarrow> True
             | Some (t, _) \<Rightarrow> t_token_id t \<noteq> t_token_id input \<or> t_expires_at t \<noteq> t_expires_at input)
          \<or> (case e_cleanup r of None \<Rightarrow> False
             | Some (c, _) \<Rightarrow> t_token_id c \<noteq> t_token_id input \<or> t_expires_at c \<noteq> t_expires_at input
                 \<or> ri_receipt c \<noteq> ri_receipt input
                 \<or> \<not> strict_eq (ri_method c) (ri_method input))
       then Inl Effect_conflict
       else Inr (case e_cleanup r of
           None \<Rightarrow> r\<lparr>e_cleanup := Some (input, now)\<rparr>
         | Some _ \<Rightarrow> r)))"

subsection \<open>Rows after a write\<close>

lemma map_of_replace: "map_of ((a, r) # filter (\<lambda>(b, _). b \<noteq> a) rows) b = (if b = a then Some r else map_of rows b)"
  by (induction rows) auto

lemma effect_row_saveEffect [simp]:
  "effect_row (saveEffect r s) a = (if a = attempt_id (e_plan r) then Some r else effect_row s a)"
  using map_of_replace [of "attempt_id (e_plan r)" r "s_effects s" a]
  by (simp add: effect_row_def saveEffect_def Let_def)

lemma saveEffect_frame [simp]:
  "s_state (saveEffect r s) = s_state s"
  "s_enrollment (saveEffect r s) = s_enrollment s"
  "s_mints (saveEffect r s) = s_mints s"
  "mint_row (saveEffect r s) = mint_row s"
  "slot_row (saveEffect r s) = slot_row s"
  by (simp_all add: saveEffect_def Let_def mint_row_def slot_row_def fun_eq_iff)

lemma save_frame [simp]:
  "effect_row (save s st) = effect_row s"
  "mint_row (save s st) = mint_row s"
  "slot_row (save s st) = slot_row s"
  "s_effects (save s st) = s_effects s"
  "s_mints (save s st) = s_mints s"
  "s_state (save s st) = Some st"
  by (simp_all add: save_def effect_row_def mint_row_def slot_row_def fun_eq_iff)

lemma with_effect_Inr_iff:
  "with_effect attempt s f = Inr (r', s') \<longleftrightarrow>
     opaque attempt \<and> (\<exists>r. effect_row s (the_str attempt) = Some r \<and> f r = Inr r')
     \<and> s' = saveEffect r' s"
  by (auto simp: with_effect_def effect_def bind_result_Inr_iff split: option.splits)

text \<open>
  What a successful write did: the row it found and the row it saved. The five methods differ in
  the guard and in the fields they set.
\<close>

lemma observeEffect_Inr:
  "observeEffect attempt d repoId s = Inr (u, s') \<Longrightarrow>
     \<exists>r r'. effect_row s (the_str attempt) = Some r \<and> s' = saveEffect r' s
       \<and> (e_repo_id r = None \<or> e_repo_id r = Some (the_str repoId))
       \<and> r' = r\<lparr>e_repo_id := Some (the_str repoId)\<rparr>"
  by (auto simp: observeEffect_def with_effect_Inr_iff split: if_splits)

lemma closeEffect_Inr:
  "closeEffect attempt d v s = Inr (r', s') \<Longrightarrow>
     \<exists>r. effect_row s (the_str attempt) = Some r \<and> s' = saveEffect r' s
       \<and> e_repo_id r = Some (c_repo_id (as_closure v))
       \<and> (e_closure r = None \<or> e_closure r = Some ((as_closure v)\<lparr>c_repo_id := c_repo_id (the (e_closure r))\<rparr>))
       \<and> r' = r\<lparr>e_closure := Some (as_closure v), e_state := Closed\<rparr>"
  by (auto simp: closeEffect_def with_effect_Inr_iff bind_result_Inr_iff split: if_splits option.splits)

lemma observeEffectToken_Inr:
  "observeEffectToken now attempt d v s = Inr (r', s') \<Longrightarrow>
     \<exists>r. effect_row s (the_str attempt) = Some r \<and> s' = saveEffect r' s
       \<and> e_state r = Outcome_unknown
       \<and> r' = (case e_token_observation r of
                 None \<Rightarrow> r\<lparr>e_token_observation := Some (as_token_observation v, now)\<rparr> | Some _ \<Rightarrow> r)
       \<and> e_repo_id r = Some (t_repo_id (as_token_observation v))"
  by (auto simp: observeEffectToken_def with_effect_Inr_iff bind_result_Inr_iff
      split: if_splits option.splits)

lemma recordRevocationInventory_Inr:
  "recordRevocationInventory now attempt d v s = Inr (r', s') \<Longrightarrow>
     \<exists>r t a. effect_row s (the_str attempt) = Some r \<and> s' = saveEffect r' s
       \<and> e_state r = Outcome_unknown
       \<and> e_token_observation r = Some (t, a)
       \<and> t_token_id t = t_token_id (as_revocation v) \<and> t_expires_at t = t_expires_at (as_revocation v)
       \<and> e_repo_id r = Some (t_repo_id (as_revocation v))
       \<and> r' = (case e_cleanup r of
                 None \<Rightarrow> r\<lparr>e_cleanup := Some (as_revocation v, now)\<rparr> | Some _ \<Rightarrow> r)"
  by (auto simp: recordRevocationInventory_def with_effect_Inr_iff bind_result_Inr_iff
      split: if_splits option.splits)

end
