(* ===== verification/MintLedger.thy ===== *)
theory MintLedger imports EffectLedger begin

section \<open>The mint ledger: upload and readback tokens\<close>

text \<open>
  The methods of \<open>WorkCheckpoint\<close> on \<open>mint_ledger\<close>: one row per admitted token mint, under a
  permanent unique slot (repository and purpose). A row moves from an unknown outcome to custody
  or cleanup and is closed by one of two refusal proofs; it never leaves the closed state.
\<close>

text \<open>
  The stored plan and a repeated one without \<open>checkpoint\<close> and \<open>expires_at\<close>, compared as JSON.
\<close>

definition same_intent :: "'a mint_core_scheme \<Rightarrow> 'b mint_core_scheme \<Rightarrow> bool" where
  "same_intent a b \<longleftrightarrow>
     attempt_id a = attempt_id b \<and> digest a = digest b \<and> namespace a = namespace b
     \<and> name a = name b \<and> role a = role b \<and> deadline a = deadline b
     \<and> artifacts_account a = artifacts_account b \<and> purpose a = purpose b \<and> scope a = scope b
     \<and> repo_id a = repo_id b \<and> initial_attempt_id a = initial_attempt_id b
     \<and> key_version a = key_version b \<and> key_fingerprint a = key_fingerprint b"

definition initial_closed_for :: "mint_plan \<Rightarrow> store \<Rightarrow> bool" where
  "initial_closed_for input s = (case effect_row s (initial_attempt_id input) of
     None \<Rightarrow> False
   | Some e \<Rightarrow> e_state e = Closed
       \<and> map_option c_repo_id (e_closure e) = Some (repo_id input)
       \<and> namespace (e_plan e) = namespace input
       \<and> name (e_plan e) = name input
       \<and> strict_eq (role (e_plan e)) (role input)
       \<and> deadline (e_plan e) = deadline input)"

definition claimMint :: "env \<Rightarrow> int \<Rightarrow> json \<Rightarrow> json \<Rightarrow> store \<Rightarrow> mint_record claim outcome" where
  "claimMint env now v release s =
     bind_result (read_with mintPlan as_mint_plan v) (\<lambda>input.
     bind_result (current s release) (\<lambda>st.
       if st_pending st \<noteq> None \<or> st_checkpoint st \<noteq> checkpoint input
          \<or> authority (checkpoint input) \<noteq> work_authority_id env
          \<or> expires_at input \<le> now + 61 \<or> expires_at input > now + 300
       then Inl Effect_blocked
       else if \<not> initial_closed_for input s then Inl Effect_initial_not_closed
       else case mint_row s (attempt_id input) of
         Some previous \<Rightarrow>
           if \<not> same_intent (m_plan previous) input then Inl Effect_conflict
           else Inr ((False, previous), s)
       | None \<Rightarrow>
           if ledger_entries s \<ge> 256 then Inl Effect_capacity
           else let r = \<lparr>m_plan = input, m_state = Mint_unknown, m_observation = None,
                         m_revoke_acknowledged = False, m_cleanup_requested = False,
                         m_receipt = None, m_cleanup = None, m_refusal = None, m_git = None\<rparr>
                in bind_result (insertMint r s) (\<lambda>s'. Inr ((True, r), s'))))"

definition with_mint ::
    "err \<Rightarrow> json \<Rightarrow> store \<Rightarrow> (mint_record \<Rightarrow> err + mint_record) \<Rightarrow> mint_record outcome" where
  "with_mint e attempt s f = bind_result (mint attempt s) (\<lambda>row.
     case row of None \<Rightarrow> Inl e
     | Some r \<Rightarrow> bind_result (f r) (\<lambda>r'. Inr (r', saveMint r' s)))"

definition observeMint :: "json \<Rightarrow> json \<Rightarrow> json \<Rightarrow> store \<Rightarrow> unit outcome" where
  "observeMint attempt d v s =
     bind_result (read_with mintObservation as_observation v) (\<lambda>input.
     returning () (with_mint Effect_conflict attempt s (\<lambda>r.
       if JStr (digest (m_plan r)) \<noteq> d
          \<or> repo_id (m_plan r) \<noteq> o_repo_id input
          \<or> (case m_observation r of None \<Rightarrow> False
             | Some obs \<Rightarrow> o_token_id obs \<noteq> o_token_id input
                 \<or> \<not> strict_eq (o_scope obs) (o_scope input)
                 \<or> o_expires_at obs \<noteq> o_expires_at input)
       then Inl Effect_conflict
       else Inr (r\<lparr>m_observation := Some input\<rparr>))))"

definition custodyMint :: "int \<Rightarrow> json \<Rightarrow> json \<Rightarrow> store \<Rightarrow> mint_record outcome" where
  "custodyMint now attempt d s =
     with_mint Effect_conflict attempt s (\<lambda>r.
       if JStr (digest (m_plan r)) \<noteq> d
          \<or> m_state r = Mint_closed
          \<or> (case m_observation r of None \<Rightarrow> True
             | Some obs \<Rightarrow> o_scope obs \<noteq> JStr (scope (m_plan r))
                 \<or> o_expires_at obs > expires_at (m_plan r)
                 \<or> o_expires_at obs \<le> now)
          \<or> m_revoke_acknowledged r
          \<or> m_cleanup_requested r
       then Inl Effect_conflict
       else Inr (r\<lparr>m_state := Custodied\<rparr>))"

definition revokeMint :: "json \<Rightarrow> json \<Rightarrow> bool \<Rightarrow> store \<Rightarrow> unit outcome" where
  "revokeMint attempt d safety s =
     returning () (with_mint Effect_conflict attempt s (\<lambda>r.
       if JStr (digest (m_plan r)) \<noteq> d
          \<or> m_state r = Mint_closed
          \<or> m_observation r = None
          \<or> (safety \<and> (\<not> m_cleanup_requested r \<or> m_state r \<noteq> Mint_unknown))
       then Inl Effect_conflict
       else Inr (r\<lparr>m_revoke_acknowledged := True, m_cleanup_requested := True,
                   m_state := Mint_unknown\<rparr>)))"

definition closeMint :: "json \<Rightarrow> json \<Rightarrow> json \<Rightarrow> store \<Rightarrow> mint_record outcome" where
  "closeMint attempt d receipt s =
     (if \<not> hex receipt then Inl Effect_invalid
      else with_mint Effect_conflict attempt s (\<lambda>r.
        if JStr (digest (m_plan r)) \<noteq> d
           \<or> (case m_observation r of None \<Rightarrow> True
              | Some obs \<Rightarrow> o_scope obs \<noteq> JStr (scope (m_plan r))
                  \<or> o_expires_at obs > expires_at (m_plan r))
           \<or> \<not> m_cleanup_requested r
           \<or> (m_receipt r \<noteq> None \<and> m_receipt r \<noteq> Some (the_str receipt))
        then Inl Effect_conflict
        else Inr (r\<lparr>m_state := Mint_closed, m_receipt := Some (the_str receipt)\<rparr>)))"

definition beginMintCleanup :: "json \<Rightarrow> json \<Rightarrow> bool \<Rightarrow> store \<Rightarrow> mint_record outcome" where
  "beginMintCleanup attempt d productive s =
     with_mint Effect_conflict attempt s (\<lambda>r.
       if JStr (digest (m_plan r)) \<noteq> d
          \<or> m_state r = Mint_closed
          \<or> (\<not> productive \<and> m_state r \<noteq> Mint_unknown)
       then Inl Effect_conflict
       else Inr (r\<lparr>m_cleanup_requested := True, m_state := Mint_unknown\<rparr>))"

text \<open>The observation fields of a proof, compared with the recorded observation.\<close>

definition differs_from :: "mint_observation \<Rightarrow> 'a mint_observation_scheme \<Rightarrow> bool" where
  "differs_from obs v \<longleftrightarrow> o_repo_id obs \<noteq> o_repo_id v \<or> o_token_id obs \<noteq> o_token_id v
     \<or> \<not> strict_eq (o_scope obs) (o_scope v) \<or> o_expires_at obs \<noteq> o_expires_at v"

definition recordMintCleanup :: "int \<Rightarrow> json \<Rightarrow> json \<Rightarrow> json \<Rightarrow> store \<Rightarrow> mint_record outcome" where
  "recordMintCleanup now attempt d v s =
     bind_result (read_with mintCleanup as_mint_cleanup v) (\<lambda>input.
     with_mint Effect_conflict attempt s (\<lambda>r.
       if (case m_observation r of None \<Rightarrow> True | Some obs \<Rightarrow> differs_from obs input)
          \<or> JStr (digest (m_plan r)) \<noteq> d
          \<or> m_state r \<noteq> Mint_unknown
          \<or> \<not> m_cleanup_requested r
          \<or> (mc_method input = JStr ''revoke_acknowledged'' \<and> \<not> m_revoke_acknowledged r)
          \<or> (case m_cleanup r of None \<Rightarrow> False
             | Some (c, _) \<Rightarrow> mc_receipt c \<noteq> mc_receipt input
                 \<or> \<not> strict_eq (mc_method c) (mc_method input))
       then Inl Effect_conflict
       else Inr (case m_cleanup r of
           None \<Rightarrow> r\<lparr>m_cleanup := Some (input, now)\<rparr>
         | Some _ \<Rightarrow> r)))"

definition closeMintRefused :: "int \<Rightarrow> json \<Rightarrow> json \<Rightarrow> json \<Rightarrow> store \<Rightarrow> mint_record outcome" where
  "closeMintRefused now attempt d v s =
     bind_result (read_with mintRefusal as_mint_refusal v) (\<lambda>input.
     with_mint Effect_conflict attempt s (\<lambda>r.
       if (case m_observation r of None \<Rightarrow> True | Some obs \<Rightarrow> differs_from obs input)
          \<or> m_cleanup r = None
          \<or> \<not> m_cleanup_requested r
          \<or> JStr (digest (m_plan r)) \<noteq> d
          \<or> m_state r = Custodied
          \<or> mr_key_version input \<noteq> key_version (m_plan r)
          \<or> (case m_refusal r of None \<Rightarrow> False | Some (p, _) \<Rightarrow> mr_receipt p \<noteq> mr_receipt input)
       then Inl Effect_conflict
       else Inr ((case m_refusal r of
           None \<Rightarrow> r\<lparr>m_refusal := Some (input, now)\<rparr>
         | Some _ \<Rightarrow> r)\<lparr>m_state := Mint_closed\<rparr>)))"

subsection \<open>Rows after a write\<close>

lemma mint_row_insertMint:
  "insertMint r s = Inr s' \<Longrightarrow>
     mint_row s' a = (if a = attempt_id (m_plan r) then Some r else mint_row s a)"
  by (auto simp: insertMint_def Let_def mint_row_def split: if_splits)

lemma with_mint_Inr_iff:
  "with_mint e attempt s f = Inr (r', s') \<longleftrightarrow>
     opaque attempt \<and> (\<exists>r. mint_row s (the_str attempt) = Some r \<and> f r = Inr r')
     \<and> s' = saveMint r' s"
  by (auto simp: with_mint_def mint_def bind_result_Inr_iff split: option.splits)

lemma saveMint_frame [simp]:
  "s_state (saveMint r s) = s_state s"
  "s_enrollment (saveMint r s) = s_enrollment s"
  "s_effects (saveMint r s) = s_effects s"
  "effect_row (saveMint r s) = effect_row s"
  by (simp_all add: saveMint_def Let_def effect_row_def fun_eq_iff)

lemma insertMint_frame:
  "insertMint r s = Inr s' \<Longrightarrow> s_state s' = s_state s \<and> s_enrollment s' = s_enrollment s
     \<and> s_effects s' = s_effects s \<and> effect_row s' = effect_row s"
  by (auto simp: insertMint_def Let_def effect_row_def fun_eq_iff split: if_splits)

end
