(* ===== verification/Encode.thy ===== *)
theory Encode imports Protocol begin

section \<open>Typed values as JSON: what the assertion functions accept\<close>

text \<open>
  The records of \<open>Protocol\<close> written back as the JSON objects they came from, well-formedness of a
  record in the words of the assertion function (\<open>wf_T\<close>), and the facts that tie the two:

  \<^item> \<open>as_T (T_json x) = x\<close>: nothing but key order is lost by the typed view;
  \<^item> an accepted value has a well-formed view, and a well-formed record is accepted again.

  The code tests a record again after it is read from a ledger row or received over RPC; these
  facts are why that second test cannot fail on a row the ledger wrote.
\<close>

subsection \<open>Writers\<close>

definition checkpoint_json :: "checkpoint \<Rightarrow> json" where
  "checkpoint_json c = JObj [(''authority'', JStr (authority c)), (''epoch'', JStr (epoch c)),
     (''sequence'', JNum (sequence c)), (''tip'', JStr (tip c))]"

definition plan_entries :: "string \<Rightarrow> 'a plan_scheme \<Rightarrow> (string \<times> json) list" where
  "plan_entries kind p = [(''format_version'', JNum 1), (''effect'', JStr kind),
     (''attempt_id'', JStr (attempt_id p)), (''digest'', JStr (digest p)),
     (''namespace'', JStr (namespace p)), (''name'', JStr (name p)), (''role'', role p),
     (''deadline'', JNum (deadline p)), (''checkpoint'', checkpoint_json (checkpoint p))]"

definition account_entries :: "'a plan_scheme \<Rightarrow> (string \<times> json) list" where
  "account_entries p = (case artifacts_account p of None \<Rightarrow> []
                        | Some a \<Rightarrow> [(''artifacts_account'', JStr a)])"

definition plan_json :: "initial_plan \<Rightarrow> json" where
  "plan_json p = JObj (plan_entries ''repo.create'' p @ account_entries p)"

definition mint_plan_json :: "mint_plan \<Rightarrow> json" where
  "mint_plan_json p = JObj (plan_entries ''token.mint'' p @
     [(''purpose'', purpose p), (''scope'', JStr (scope p)), (''repo_id'', JStr (repo_id p)),
      (''initial_attempt_id'', JStr (initial_attempt_id p)), (''expires_at'', JNum (expires_at p)),
      (''key_version'', JNum (key_version p)), (''key_fingerprint'', JStr (key_fingerprint p))]
     @ account_entries p)"

definition observation_json :: "'a mint_observation_scheme \<Rightarrow> json" where
  "observation_json x = JObj [(''repo_id'', JStr (o_repo_id x)), (''token_id'', JStr (o_token_id x)),
     (''scope'', o_scope x), (''expires_at'', JNum (o_expires_at x))]"

definition git_plan_json :: "git_plan \<Rightarrow> json" where
  "git_plan_json p = JObj (plan_entries
      (if purpose p = JStr ''upload'' then ''git.upload'' else ''git.readback'') p @
     [(''purpose'', purpose p), (''scope'', JStr (scope p)), (''repo_id'', JStr (repo_id p)),
      (''initial_attempt_id'', JStr (initial_attempt_id p)), (''key_version'', JNum (key_version p)),
      (''key_fingerprint'', JStr (key_fingerprint p)),
      (''preparation_digest'', JStr (preparation_digest p)),
      (''disclosure_digest'', JStr (disclosure_digest p)), (''commit'', JStr (commit p)),
      (''tree'', JStr (tree p)), (''branch'', JStr (branch p)),
      (''observation'', observation_json (observation p))]
     @ account_entries p)"

definition git_result_json :: "git_result \<Rightarrow> json" where
  "git_result_json x = JObj [(''method'', JStr (gr_method x)), (''commit'', JStr (gr_commit x)),
     (''tree'', JStr (gr_tree x)), (''branch'', JStr (gr_branch x)),
     (''commits'', JNum (gr_commits x)), (''objects'', JNum (gr_objects x)),
     (''object_bytes'', JNum (gr_object_bytes x)),
     (''inventory_sha256'', JStr (gr_inventory_sha256 x)), (''receipt'', JStr (gr_receipt x))]"

definition closure_json :: "closure_evidence \<Rightarrow> json" where
  "closure_json c = JObj [(''repo_id'', JStr (c_repo_id c)), (''token_id'', JStr (c_token_id c)),
     (''expires_at'', case c_expires_at c of None \<Rightarrow> JNull | Some n \<Rightarrow> JNum n),
     (''receipt'', JStr (c_receipt c))]"

definition mint_cleanup_json :: "mint_cleanup \<Rightarrow> json" where
  "mint_cleanup_json x = JObj [(''repo_id'', JStr (o_repo_id x)), (''token_id'', JStr (o_token_id x)),
     (''scope'', o_scope x), (''expires_at'', JNum (o_expires_at x)), (''format_version'', JNum 1),
     (''method'', mc_method x), (''receipt'', JStr (mc_receipt x))]"

definition mint_refusal_json :: "mint_refusal \<Rightarrow> json" where
  "mint_refusal_json x = JObj [(''repo_id'', JStr (o_repo_id x)), (''token_id'', JStr (o_token_id x)),
     (''scope'', o_scope x), (''expires_at'', JNum (o_expires_at x)), (''format_version'', JNum 1),
     (''method'', JStr ''git_bearer_refused''), (''status'', JNum 403),
     (''key_version'', JNum (mr_key_version x)), (''receipt'', JStr (mr_receipt x))]"

definition token_observation_json :: "'a token_observation_scheme \<Rightarrow> json" where
  "token_observation_json x = JObj [(''repo_id'', JStr (t_repo_id x)),
     (''token_id'', JStr (t_token_id x)), (''scope'', JStr ''write''),
     (''expires_at'', JNum (t_expires_at x))]"

definition revocation_json :: "revocation_inventory \<Rightarrow> json" where
  "revocation_json x = JObj [(''format_version'', JNum 1), (''repo_id'', JStr (t_repo_id x)),
     (''token_id'', JStr (t_token_id x)), (''scope'', JStr ''write''),
     (''expires_at'', JNum (t_expires_at x)), (''receipt'', JStr (ri_receipt x)),
     (''method'', ri_method x)]"

subsection \<open>Well-formed records\<close>

definition safe :: "int \<Rightarrow> bool" where
  "safe n \<longleftrightarrow> 0 \<le> n \<and> n \<le> max_safe_integer"

definition hex64 :: "string \<Rightarrow> bool" where "hex64 = of_class hex_chars 64 64"

definition opaque_id :: "string \<Rightarrow> bool" where "opaque_id = of_class opaque_chars 43 43"

definition resource_id :: "string \<Rightarrow> bool" where "resource_id = of_class resource_chars 1 128"

definition wf_checkpoint :: "checkpoint \<Rightarrow> bool" where
  "wf_checkpoint c \<longleftrightarrow> resource_id (authority c) \<and> hex64 (epoch c) \<and> safe (sequence c) \<and> hex64 (tip c)"

definition wf_plan :: "'a plan_scheme \<Rightarrow> bool" where
  "wf_plan p \<longleftrightarrow> opaque_id (attempt_id p) \<and> hex64 (digest p)
     \<and> of_class namespace_chars 1 63 (namespace p) \<and> repo_name (name p)
     \<and> includes_text [''task'', ''snapshot''] (role p)
     \<and> ends_with (name p) (if role p = JStr ''task'' then ''-code'' else ''-snapshot'')
     \<and> safe (deadline p) \<and> wf_checkpoint (checkpoint p)
     \<and> (case artifacts_account p of None \<Rightarrow> True | Some a \<Rightarrow> of_class hex_chars 32 32 a)"

definition wf_mint_core :: "'a mint_core_scheme \<Rightarrow> bool" where
  "wf_mint_core p \<longleftrightarrow> wf_plan p
     \<and> includes_text [''upload'', ''readback''] (purpose p)
     \<and> scope p = (if purpose p = JStr ''upload'' then ''write'' else ''read'')
     \<and> resource_id (repo_id p) \<and> opaque_id (initial_attempt_id p)
     \<and> initial_attempt_id p \<noteq> attempt_id p
     \<and> safe (key_version p) \<and> 1 \<le> key_version p \<and> hex64 (key_fingerprint p)"

definition wf_mint_plan :: "mint_plan \<Rightarrow> bool" where
  "wf_mint_plan p \<longleftrightarrow> wf_mint_core p \<and> safe (expires_at p) \<and> expires_at p \<le> deadline p"

definition wf_observation :: "'a mint_observation_scheme \<Rightarrow> bool" where
  "wf_observation x \<longleftrightarrow> resource_id (o_repo_id x) \<and> resource_id (o_token_id x)
     \<and> includes_text [''read'', ''write''] (o_scope x) \<and> safe (o_expires_at x) \<and> 1 \<le> o_expires_at x"

definition wf_git_plan :: "git_plan \<Rightarrow> bool" where
  "wf_git_plan p \<longleftrightarrow> wf_mint_core p
     \<and> hex64 (preparation_digest p) \<and> hex64 (disclosure_digest p)
     \<and> of_class hex_chars 40 40 (commit p) \<and> of_class hex_chars 40 40 (tree p)
     \<and> branch p = (if role p = JStr ''task'' then ''work'' else ''snapshot'')
     \<and> wf_observation (observation p)
     \<and> o_repo_id (observation p) = repo_id p
     \<and> o_scope (observation p) = JStr (scope p)
     \<and> o_expires_at (observation p) \<le> deadline p"

definition wf_git_result :: "git_plan \<Rightarrow> git_result \<Rightarrow> bool" where
  "wf_git_result p x \<longleftrightarrow>
     gr_method x = (if purpose p = JStr ''upload'' then ''git_push_accepted'' else ''git_readback_verified'')
     \<and> gr_commit x = commit p \<and> gr_tree x = tree p \<and> gr_branch x = branch p
     \<and> 1 \<le> gr_commits x \<and> gr_commits x \<le> 4096
     \<and> (role p = JStr ''snapshot'' \<longrightarrow> gr_commits x = 1)
     \<and> gr_commits x \<le> gr_objects x \<and> gr_objects x \<le> 65536
     \<and> 0 \<le> gr_object_bytes x \<and> gr_object_bytes x \<le> 67108864
     \<and> hex64 (gr_inventory_sha256 x) \<and> hex64 (gr_receipt x)"

definition wf_closure :: "closure_evidence \<Rightarrow> bool" where
  "wf_closure c \<longleftrightarrow> resource_id (c_repo_id c) \<and> resource_id (c_token_id c)
     \<and> (case c_expires_at c of None \<Rightarrow> True | Some n \<Rightarrow> safe n) \<and> hex64 (c_receipt c)"

definition wf_mint_cleanup :: "mint_cleanup \<Rightarrow> bool" where
  "wf_mint_cleanup x \<longleftrightarrow> wf_observation x \<and> hex64 (mc_receipt x)
     \<and> includes_text cleanup_methods (mc_method x)"

definition wf_mint_refusal :: "mint_refusal \<Rightarrow> bool" where
  "wf_mint_refusal x \<longleftrightarrow> wf_observation x \<and> hex64 (mr_receipt x)
     \<and> safe (mr_key_version x) \<and> 1 \<le> mr_key_version x"

definition wf_token_observation :: "'a token_observation_scheme \<Rightarrow> bool" where
  "wf_token_observation x \<longleftrightarrow> resource_id (t_repo_id x) \<and> resource_id (t_token_id x) \<and> safe (t_expires_at x)"

definition wf_revocation :: "revocation_inventory \<Rightarrow> bool" where
  "wf_revocation x \<longleftrightarrow> wf_token_observation x \<and> hex64 (ri_receipt x)
     \<and> includes_text cleanup_methods (ri_method x)"

lemmas wf_text = safe_def hex64_def opaque_id_def resource_id_def
lemmas json_tests = hex_def opaque_def resource_def integer_iff str_test_iff account_text_def commit_text_def

subsection \<open>Views of written values\<close>

lemma as_checkpoint_json [simp]: "as_checkpoint (checkpoint_json c) = c"
  by (simp add: as_checkpoint_def checkpoint_json_def)

lemma as_plan_json [simp]: "as_plan (plan_json p) = p"
  by (cases p) (simp add: as_plan_def plan_json_def plan_entries_def account_entries_def as_account_def
      split: option.splits)

lemma as_mint_plan_json [simp]: "as_mint_plan (mint_plan_json p) = p"
  by (cases p) (simp add: as_mint_plan_def as_mint_core_def mint_plan_json_def as_plan_def
      plan_entries_def account_entries_def as_account_def plan.defs mint_core.defs mint_plan.defs
      split: option.splits)

lemma as_observation_json [simp]: "as_observation (observation_json x) = x"
  by (simp add: as_observation_def observation_json_def)

lemma as_git_plan_json [simp]: "as_git_plan (git_plan_json p) = p"
  by (cases p) (simp add: as_git_plan_def as_mint_core_def git_plan_json_def as_plan_def
      plan_entries_def account_entries_def as_account_def plan.defs mint_core.defs git_plan.defs
      split: option.splits)

lemma as_git_result_json [simp]: "as_git_result (git_result_json x) = x"
  by (simp add: as_git_result_def git_result_json_def)

lemma as_closure_json [simp]: "as_closure (closure_json c) = c"
  by (cases c) (simp add: as_closure_def closure_json_def split: option.splits)

lemma as_mint_cleanup_json [simp]: "as_mint_cleanup (mint_cleanup_json x) = x"
  by (cases x) (simp add: as_mint_cleanup_def mint_cleanup_json_def as_observation_def
      mint_observation.defs mint_cleanup.defs)

lemma as_mint_refusal_json [simp]: "as_mint_refusal (mint_refusal_json x) = x"
  by (cases x) (simp add: as_mint_refusal_def mint_refusal_json_def as_observation_def
      mint_observation.defs mint_refusal.defs)

lemma as_token_observation_json [simp]: "as_token_observation (token_observation_json x) = x"
  by (simp add: as_token_observation_def token_observation_json_def)

lemma as_revocation_json [simp]: "as_revocation (revocation_json x) = x"
  by (cases x) (simp add: as_revocation_def revocation_json_def as_token_observation_def
      token_observation.defs revocation_inventory.defs)

subsection \<open>Accepted values have well-formed views\<close>

lemma closed_mset: "mset (map fst kvs) = mset ks \<Longrightarrow> closed (JObj kvs) ks"
  by (simp add: closed_def flip: sorted_list_of_multiset_mset)

lemma closed_map: "map fst kvs = ks \<Longrightarrow> closed (JObj kvs) ks"
  by (rule closed_mset) simp

lemmas plan_views = as_plan_def as_checkpoint_def as_account_def as_mint_core_def as_mint_plan_def
  as_git_plan_def as_observation_def plan.defs mint_core.defs mint_plan.defs git_plan.defs

lemma initialPlan_wf: "initialPlan v = Inr () \<Longrightarrow> wf_plan (as_plan v)"
  by (auto simp: initialPlan_def wf_plan_def plan_views wf_checkpoint_def json_tests wf_text)

lemma closure_wf: "closure v = Inr () \<Longrightarrow> wf_closure (as_closure v)"
  by (auto simp: closure_def wf_closure_def as_closure_def json_tests wf_text)

lemma mintObservation_wf: "mintObservation v = Inr () \<Longrightarrow> wf_observation (as_observation v)"
  by (auto simp: mintObservation_def wf_observation_def as_observation_def json_tests wf_text)

lemma wf_plan_base:
  "wf_plan (as_plan (put (without v mint_extra_keys) ''effect'' x)) = wf_plan (as_plan v)"
  by (simp add: wf_plan_def plan_views mint_extra_keys_def)

lemma mintPlan_wf: "mintPlan v = Inr () \<Longrightarrow> wf_mint_plan (as_mint_plan v)"
proof -
  assume a: "mintPlan v = Inr ()"
  then have "wf_plan (as_plan v)"
    unfolding mintPlan_def bind_result_Inr_iff by (metis initialPlan_wf wf_plan_base)
  moreover have "opaque (get v ''attempt_id'')"
    using a by (auto simp: mintPlan_def bind_result_Inr_iff initialPlan_def mint_extra_keys_def)
  ultimately show ?thesis using a
    by (auto simp: mintPlan_def wf_mint_plan_def wf_mint_core_def plan_views wf_plan_def
        bind_result_Inr_iff json_tests wf_text)
qed

lemma mintPlan_strs:
  "mintPlan v = Inr () \<Longrightarrow> \<exists>a b. get v ''scope'' = JStr a \<and> get v ''repo_id'' = JStr b"
  by (auto simp: mintPlan_def bind_result_Inr_iff json_tests)

lemma gitPlan_wf: "gitPlan v = Inr () \<Longrightarrow> wf_git_plan (as_git_plan v)"
proof -
  assume a: "gitPlan v = Inr ()"
  let ?b = "put (put (without v [''preparation_digest'', ''disclosure_digest'', ''commit'', ''tree'',
     ''branch'', ''observation'']) ''effect'' (JStr ''token.mint''))
     ''expires_at'' (get (get v ''observation'') ''expires_at'')"
  from a have "mintPlan ?b = Inr ()" and obs: "mintObservation (get v ''observation'') = Inr ()"
    by (auto simp: gitPlan_def bind_result_Inr_iff)
  then have "wf_mint_core (as_mint_core ?b)" and "\<exists>a b. get ?b ''scope'' = JStr a \<and> get ?b ''repo_id'' = JStr b"
    using mintPlan_wf [of ?b] mintPlan_strs [of ?b]
    by (auto simp: wf_mint_plan_def as_mint_plan_def wf_mint_core_def wf_plan_def mint_core.defs)
  then have "wf_mint_core (as_mint_core v)" "\<exists>a b. get v ''scope'' = JStr a \<and> get v ''repo_id'' = JStr b"
    by (simp_all add: wf_mint_core_def wf_plan_def plan_views)
  moreover have "wf_observation (as_observation (get v ''observation''))"
    using obs by (rule mintObservation_wf)
  ultimately show ?thesis using a
    by (auto simp: gitPlan_def wf_git_plan_def wf_mint_core_def plan_views wf_plan_def
        bind_result_Inr_iff json_tests wf_text)
qed

lemma gitResult_wf: "gitResult v p = Inr () \<Longrightarrow> wf_git_result p (as_git_result v)"
  by (auto simp: gitResult_def wf_git_result_def as_git_result_def json_tests wf_text)

lemma mintCleanup_wf: "mintCleanup v = Inr () \<Longrightarrow> wf_mint_cleanup (as_mint_cleanup v)"
  by (auto simp: mintCleanup_def wf_mint_cleanup_def as_mint_cleanup_def bind_result_Inr_iff
      mintObservation_def observed_part_def wf_observation_def as_observation_def
      mint_observation.defs mint_cleanup.defs json_tests wf_text)

lemma mintRefusal_wf: "mintRefusal v = Inr () \<Longrightarrow> wf_mint_refusal (as_mint_refusal v)"
  by (auto simp: mintRefusal_def wf_mint_refusal_def as_mint_refusal_def bind_result_Inr_iff
      mintObservation_def observed_part_def wf_observation_def as_observation_def
      mint_observation.defs mint_refusal.defs json_tests wf_text)

lemma tokenObservation_wf: "tokenObservation v = Inr () \<Longrightarrow> wf_token_observation (as_token_observation v)"
  by (auto simp: tokenObservation_def wf_token_observation_def as_token_observation_def json_tests wf_text)

lemma revocationInventory_wf: "revocationInventory v = Inr () \<Longrightarrow> wf_revocation (as_revocation v)"
  by (auto simp: revocationInventory_def wf_revocation_def as_revocation_def wf_token_observation_def
      as_token_observation_def token_observation.defs revocation_inventory.defs json_tests wf_text)

subsection \<open>Well-formed records are accepted\<close>

lemma initialPlan_json: "initialPlan (plan_json p) = Inr () \<longleftrightarrow> wf_plan p"
proof -
  have "closedPlan (plan_json p) plan_keys"
    by (auto simp: closedPlan_def plan_json_def plan_entries_def account_entries_def plan_keys_def
        intro!: closed_map split: option.splits)
  moreover have "closed (checkpoint_json (checkpoint p)) [''authority'', ''epoch'', ''sequence'', ''tip'']"
    by (auto simp: checkpoint_json_def intro!: closed_map)
  ultimately show ?thesis
    by (auto simp: initialPlan_def wf_plan_def plan_json_def plan_entries_def account_entries_def
        json_tests wf_text wf_checkpoint_def checkpoint_json_def split: option.splits)
qed

lemma closure_json_ok: "closure (closure_json c) = Inr () \<longleftrightarrow> wf_closure c"
proof -
  have "closed (closure_json c) [''repo_id'', ''token_id'', ''expires_at'', ''receipt'']"
    by (auto simp: closure_json_def intro!: closed_map)
  then show ?thesis
    by (auto simp: closure_def wf_closure_def closure_json_def json_tests wf_text split: option.splits)
qed

lemma mintObservation_json: "mintObservation (observation_json x) = Inr () \<longleftrightarrow> wf_observation x"
proof -
  have "closed (observation_json x) [''repo_id'', ''token_id'', ''scope'', ''expires_at'']"
    by (auto simp: observation_json_def intro!: closed_map)
  then show ?thesis
    by (auto simp: mintObservation_def wf_observation_def observation_json_def json_tests wf_text)
qed

lemma mint_plan_base:
  "put (without (mint_plan_json p) mint_extra_keys) ''effect'' (JStr ''repo.create'')
     = plan_json (plan.truncate p)"
  by (auto simp: mint_plan_json_def plan_json_def plan_entries_def account_entries_def
      mint_extra_keys_def plan.defs split: option.splits)

lemma wf_plan_deadline: "wf_plan p \<Longrightarrow> safe (deadline p)"
  by (simp add: wf_plan_def)

lemma mintPlan_json: "mintPlan (mint_plan_json p) = Inr () \<longleftrightarrow> wf_mint_plan p"
proof -
  have "closedPlan (mint_plan_json p) (plan_keys @ mint_extra_keys)"
    by (auto simp: closedPlan_def mint_plan_json_def plan_entries_def account_entries_def plan_keys_def
        mint_extra_keys_def intro!: closed_map split: option.splits)
  moreover have "wf_plan (plan.truncate p) = wf_plan p"
    by (simp add: wf_plan_def plan.defs)
  moreover have "wf_mint_plan p \<Longrightarrow> safe (deadline p)"
    by (simp add: wf_mint_plan_def wf_mint_core_def wf_plan_def)
  ultimately show ?thesis
    unfolding mintPlan_def mint_plan_base bind_result_Inr_iff initialPlan_json
    by (auto simp: wf_mint_plan_def wf_mint_core_def mint_plan_json_def plan_entries_def
        account_entries_def json_tests wf_text split: option.splits)
qed

lemma gitResult_json: "wf_git_result p x \<Longrightarrow> gitResult (git_result_json x) p = Inr ()"
proof -
  assume wf: "wf_git_result p x"
  have "closed (git_result_json x) [''method'', ''commit'', ''tree'', ''branch'', ''commits'', ''objects'',
     ''object_bytes'', ''inventory_sha256'', ''receipt'']"
    by (auto simp: git_result_json_def intro!: closed_map)
  moreover have "safe (gr_commits x)" "safe (gr_objects x)" "safe (gr_object_bytes x)"
    using wf by (auto simp: wf_git_result_def safe_def max_safe_integer_def)
  ultimately show ?thesis using wf
    by (auto simp: gitResult_def wf_git_result_def git_result_json_def json_tests wf_text)
qed

lemma observed_part_closed: "closed (observed_part v) [''repo_id'', ''token_id'', ''scope'', ''expires_at'']"
  by (auto simp: observed_part_def intro!: closed_map)

lemma mintRefusal_json: "mintRefusal (mint_refusal_json x) = Inr () \<longleftrightarrow> wf_mint_refusal x"
proof -
  have "closed (mint_refusal_json x) [''repo_id'', ''token_id'', ''scope'', ''expires_at'',
      ''format_version'', ''method'', ''status'', ''key_version'', ''receipt'']"
    by (auto simp: mint_refusal_json_def intro!: closed_map)
  then show ?thesis using observed_part_closed [of "mint_refusal_json x"]
    by (auto simp: mintRefusal_def bind_result_Inr_iff mintObservation_def wf_mint_refusal_def
        wf_observation_def mint_refusal_json_def observed_part_def json_tests wf_text)
qed

lemma mintCleanup_json: "mintCleanup (mint_cleanup_json x) = Inr () \<longleftrightarrow> wf_mint_cleanup x"
proof -
  have "closed (mint_cleanup_json x) [''repo_id'', ''token_id'', ''scope'', ''expires_at'',
      ''format_version'', ''method'', ''receipt'']"
    by (auto simp: mint_cleanup_json_def intro!: closed_map)
  then show ?thesis using observed_part_closed [of "mint_cleanup_json x"]
    by (auto simp: mintCleanup_def bind_result_Inr_iff mintObservation_def wf_mint_cleanup_def
        wf_observation_def mint_cleanup_json_def observed_part_def json_tests wf_text)
qed

lemma tokenObservation_json:
  "tokenObservation (token_observation_json x) = Inr () \<longleftrightarrow> wf_token_observation x"
proof -
  have "closed (token_observation_json x) [''repo_id'', ''token_id'', ''scope'', ''expires_at'']"
    by (auto simp: token_observation_json_def intro!: closed_map)
  then show ?thesis
    by (auto simp: tokenObservation_def wf_token_observation_def token_observation_json_def
        json_tests wf_text)
qed

lemma revocationInventory_json: "revocationInventory (revocation_json x) = Inr () \<longleftrightarrow> wf_revocation x"
proof -
  have "closed (revocation_json x) [''format_version'', ''repo_id'', ''token_id'', ''scope'',
      ''expires_at'', ''receipt'', ''method'']"
    by (auto simp: revocation_json_def intro!: closed_map)
  then show ?thesis
    by (auto simp: revocationInventory_def wf_revocation_def wf_token_observation_def
        revocation_json_def json_tests wf_text)
qed

subsection \<open>Key order does not matter\<close>

definition same_object :: "json \<Rightarrow> json \<Rightarrow> bool" where
  "same_object v w \<longleftrightarrow> (\<exists>a b. v = JObj a \<and> w = JObj b
     \<and> mset (map fst a) = mset (map fst b) \<and> map_of a = map_of b)"

lemma same_object_get: "same_object v w \<Longrightarrow> get v k = get w k"
  by (auto simp: same_object_def)

lemma same_object_closed: "same_object v w \<Longrightarrow> closed v ks = closed w ks"
  by (auto simp: same_object_def closed_def simp flip: sorted_list_of_multiset_mset)

lemma same_object_keys:
  "same_object v w \<Longrightarrow> set (keys v) = set (keys w)"
  by (auto simp: same_object_def simp del: mset_map set_map dest: mset_eq_setD)

lemma same_object_closedPlan: "same_object v w \<Longrightarrow> closedPlan v ks = closedPlan w ks"
  by (simp add: closedPlan_def same_object_keys same_object_closed)

lemma keys_put_entry:
  "mset (map fst (put_entry kvs k x)) =
     (if k \<in> set (map fst kvs) then mset (map fst kvs) else add_mset k (mset (map fst kvs)))"
  by (induction kvs k x rule: put_entry.induct) auto

lemma same_object_put: "same_object v w \<Longrightarrow> same_object (put v k x) (put w k x)"
  using same_object_keys [of v w]
  by (auto simp: same_object_def map_of_put_entry keys_put_entry simp del: mset_map set_map)

lemma keys_without:
  "mset (map fst (filter (\<lambda>(k, _). k \<notin> set ks) kvs)) = filter_mset (\<lambda>k. k \<notin> set ks) (mset (map fst kvs))"
  by (induction kvs) auto

lemma map_of_without:
  "map_of (filter (\<lambda>(k, _). k \<notin> set ks) kvs) k = (if k \<in> set ks then None else map_of kvs k)"
  by (induction kvs) auto

lemma same_object_without: "same_object v w \<Longrightarrow> same_object (without v ks) (without w ks)"
  by (auto simp: same_object_def keys_without map_of_without fun_eq_iff simp del: mset_map)

lemma initialPlan_order: "same_object v w \<Longrightarrow> initialPlan v = initialPlan w"
  by (simp add: initialPlan_def same_object_get same_object_closedPlan)

lemma mintPlan_order: "same_object v w \<Longrightarrow> mintPlan v = mintPlan w"
  using initialPlan_order [OF same_object_put [OF same_object_without], of v w]
  by (simp add: mintPlan_def same_object_get [of v w] same_object_closedPlan [of v w])

lemma git_plan_base:
  "same_object
     (put (put (without (git_plan_json p) [''preparation_digest'', ''disclosure_digest'', ''commit'',
         ''tree'', ''branch'', ''observation'']) ''effect'' (JStr ''token.mint''))
       ''expires_at'' (JNum n))
     (mint_plan_json (mint_core.extend (mint_core.truncate p) (mint_plan.fields n)))"
  by (auto simp: same_object_def git_plan_json_def mint_plan_json_def plan_entries_def
      account_entries_def mint_core.defs mint_plan.defs fun_eq_iff split: option.splits)

lemma gitPlan_json: "gitPlan (git_plan_json p) = Inr () \<longleftrightarrow> wf_git_plan p"
proof -
  let ?v = "git_plan_json p" and ?n = "o_expires_at (observation p)"
  have keys: "closedPlan ?v git_keys"
    by (auto simp: closedPlan_def git_plan_json_def plan_entries_def account_entries_def
        git_keys_def intro!: closed_map split: option.splits)
  have obs: "get ?v ''observation'' = observation_json (observation p)"
    by (simp add: git_plan_json_def plan_entries_def)
  have fields: "get (observation_json (observation p)) ''expires_at'' = JNum ?n"
    "get (observation_json (observation p)) ''repo_id'' = JStr (o_repo_id (observation p))"
    "get (observation_json (observation p)) ''scope'' = o_scope (observation p)"
    by (simp_all add: observation_json_def)
  have gets: "get ?v ''effect'' = JStr (if purpose p = JStr ''upload'' then ''git.upload'' else ''git.readback'')"
    "get ?v ''preparation_digest'' = JStr (preparation_digest p)"
    "get ?v ''disclosure_digest'' = JStr (disclosure_digest p)"
    "get ?v ''commit'' = JStr (commit p)" "get ?v ''tree'' = JStr (tree p)"
    "get ?v ''branch'' = JStr (branch p)" "get ?v ''purpose'' = purpose p" "get ?v ''role'' = role p"
    "get ?v ''repo_id'' = JStr (repo_id p)" "get ?v ''scope'' = JStr (scope p)"
    "get ?v ''deadline'' = JNum (deadline p)"
    by (simp_all add: git_plan_json_def plan_entries_def)
  have base: "mintPlan (put (put (without ?v [''preparation_digest'', ''disclosure_digest'', ''commit'',
         ''tree'', ''branch'', ''observation'']) ''effect'' (JStr ''token.mint''))
       ''expires_at'' (JNum ?n)) = Inr () \<longleftrightarrow> wf_mint_core p \<and> safe ?n \<and> ?n \<le> deadline p"
    unfolding mintPlan_order [OF git_plan_base] mintPlan_json
    by (simp add: wf_mint_plan_def wf_mint_core_def wf_plan_def mint_core.defs mint_plan.defs)
  have "wf_mint_core p \<Longrightarrow> safe (deadline p)" by (simp add: wf_mint_core_def wf_plan_def)
  then show ?thesis
    unfolding gitPlan_def bind_result_Inr_iff obs fields
    using keys by (auto simp: gets base mintObservation_json wf_git_plan_def wf_observation_def json_tests hex64_def)
qed

end
