(* ===== verification/GitLedger.thy ===== *)
theory GitLedger imports MintLedger Encode begin

section \<open>Git permits on the mint ledger, and the evidence projection\<close>

text \<open>
  \<open>claimGit\<close>, \<open>takeGit\<close>, \<open>finishGit\<close> and \<open>preparationEvidence\<close> of \<open>WorkCheckpoint\<close>. A custodied
  mint admits one Git exchange; its state moves from admitted to dispatching (Native took the
  permit) to unknown (the transport took it) to completed, and never back.
\<close>

subsection \<open>Progress of one exchange\<close>

fun git_rank :: "git_state \<Rightarrow> nat" where
  "git_rank Admitted = 0"
| "git_rank Dispatching = 1"
| "git_rank Git_unknown = 2"
| "git_rank Completed = 3"

lemma git_rank_inject: "git_rank a = git_rank b \<Longrightarrow> a = b"
  by (cases a; cases b) simp_all

instantiation git_state :: linorder
begin

definition less_eq_git_state :: "git_state \<Rightarrow> git_state \<Rightarrow> bool" where
  "less_eq_git_state a b \<longleftrightarrow> git_rank a \<le> git_rank b"

definition less_git_state :: "git_state \<Rightarrow> git_state \<Rightarrow> bool" where
  "less_git_state a b \<longleftrightarrow> git_rank a < git_rank b"

instance
  by standard (auto simp: less_eq_git_state_def less_git_state_def intro: git_rank_inject)

end

lemma git_state_order [simp]:
  "Admitted \<le> x" "x \<le> Completed" "Dispatching \<le> Git_unknown" "Dispatching \<le> Dispatching"
  "Admitted < Dispatching" "Dispatching < Git_unknown" "Git_unknown < Completed"
  by (cases x; simp add: less_eq_git_state_def less_git_state_def)+

subsection \<open>The methods\<close>

definition upload_closed_for :: "git_plan \<Rightarrow> store \<Rightarrow> bool" where
  "upload_closed_for input s =
     (case slot_row s (Slot (namespace input) (name input) (JStr ''upload'')) of
        None \<Rightarrow> False
      | Some upload \<Rightarrow> m_state upload = Mint_closed
          \<and> m_refusal upload \<noteq> None
          \<and> (case m_git upload of None \<Rightarrow> False
             | Some g \<Rightarrow> g_state g = Completed \<and> g_result g \<noteq> None
                 \<and> preparation_digest (g_plan g) = preparation_digest input
                 \<and> disclosure_digest (g_plan g) = disclosure_digest input
                 \<and> commit (g_plan g) = commit input
                 \<and> tree (g_plan g) = tree input
                 \<and> branch (g_plan g) = branch input)
          \<and> repo_id (m_plan upload) = repo_id input)"

definition claimGit :: "int \<Rightarrow> json \<Rightarrow> store \<Rightarrow> mint_record claim outcome" where
  "claimGit now v s =
     bind_result (read_with gitPlan as_git_plan v) (\<lambda>input.
     bind_result (current s (JNum 1)) (\<lambda>st.
       case mint_row s (attempt_id input) of
         None \<Rightarrow> Inl Git_blocked
       | Some r \<Rightarrow>
         if st_pending st \<noteq> None \<or> st_checkpoint st \<noteq> checkpoint input
            \<or> m_state r \<noteq> Custodied \<or> m_cleanup_requested r \<or> m_observation r = None
            \<or> o_expires_at (observation input) \<le> now + 5 \<or> deadline input \<le> now + 5
         then Inl Git_blocked
         else if \<not> same_intent (m_plan r) input \<or> m_observation r \<noteq> Some (observation input)
            \<or> o_expires_at (observation input) > expires_at (m_plan r)
         then Inl Git_conflict
         else case m_git r of
           Some g \<Rightarrow> if g_plan g \<noteq> input then Inl Git_conflict else Inr ((False, r), s)
         | None \<Rightarrow>
             if purpose input = JStr ''readback'' \<and> \<not> upload_closed_for input s
             then Inl Git_upload_not_closed
             else let r' = r\<lparr>m_git := Some \<lparr>g_plan = input, g_text = v, g_state = Admitted,
                                              g_result = None\<rparr>\<rparr>
                  in Inr ((True, r'), saveMint r' s)))"

definition takeGit :: "int \<Rightarrow> json \<Rightarrow> bool \<Rightarrow> store \<Rightarrow> bool outcome" where
  "takeGit now v transport s =
     bind_result (read_with gitPlan as_git_plan v) (\<lambda>input.
     bind_result (current s (JNum 1)) (\<lambda>st.
       case mint_row s (attempt_id input) of
         None \<Rightarrow> Inl Git_blocked
       | Some r \<Rightarrow> (case m_git r of
           None \<Rightarrow> Inl Git_blocked
         | Some g \<Rightarrow>
           if st_pending st \<noteq> None \<or> st_checkpoint st \<noteq> checkpoint input
              \<or> m_state r \<noteq> Custodied \<or> m_cleanup_requested r
              \<or> g_plan g \<noteq> input
              \<or> g_state g \<noteq> (if transport then Dispatching else Admitted)
              \<or> o_expires_at (observation input) \<le> now + 5
           then Inl Git_blocked
           else let r' = r\<lparr>m_git := Some (g\<lparr>g_state :=
                             if transport then Git_unknown else Dispatching\<rparr>)\<rparr>
                in Inr (True, saveMint r' s))))"

definition finishGit :: "json \<Rightarrow> json \<Rightarrow> store \<Rightarrow> mint_record outcome" where
  "finishGit attempt v s =
     with_mint Git_conflict attempt s (\<lambda>r.
       case m_git r of
         None \<Rightarrow> Inl Git_conflict
       | Some g \<Rightarrow>
         if m_state r = Mint_closed then Inl Git_conflict
         else if v = JNull
         then Inr (r\<lparr>m_cleanup_requested := True, m_state := Mint_unknown\<rparr>)
         else bind_result (gitResult v (g_plan g)) (\<lambda>_.
           if g_state g \<noteq> Git_unknown \<and> g_state g \<noteq> Completed then Inl Git_conflict
           else if g_result g \<noteq> None \<and> g_result g \<noteq> Some (as_git_result v) then Inl Git_conflict
           else Inr (r\<lparr>m_git := Some (g\<lparr>g_result := Some (as_git_result v), g_state := Completed\<rparr>),
                      m_cleanup_requested := True, m_state := Mint_unknown\<rparr>)))"

subsection \<open>Preparation evidence\<close>

record initial_evidence =
  ie_plan :: initial_plan
  ie_closure :: closure_evidence

record mint_evidence =
  me_plan :: mint_plan
  me_observation :: mint_observation
  me_refusal :: mint_refusal
  me_git_plan :: git_plan
  me_git_result :: git_result

text \<open>One requested attempt: the retained closed record it names, or the error it throws.\<close>

definition evidence_entry ::
    "json \<Rightarrow> string list \<Rightarrow> store \<Rightarrow> err + (initial_evidence + mint_evidence)" where
  "evidence_entry a seen s =
     (if \<not> closed a [''attempt_id'', ''purpose''] \<or> \<not> opaque (get a ''attempt_id'')
         \<or> the_str (get a ''attempt_id'') \<in> set seen
      then Inl Preparation_invalid
      else if get a ''purpose'' = JStr ''initial''
      then bind_result (effect (get a ''attempt_id'') s) (\<lambda>row.
        case row of None \<Rightarrow> Inl Preparation_incomplete
        | Some r \<Rightarrow> (case e_closure r of
            None \<Rightarrow> Inl Preparation_incomplete
          | Some c \<Rightarrow> if e_state r \<noteq> Closed then Inl Preparation_incomplete
                      else bind_result (initialPlan (plan_json (e_plan r))) (\<lambda>_.
                           bind_result (Protocol.closure (closure_json c)) (\<lambda>_.
                           Inr (Inl \<lparr>ie_plan = e_plan r, ie_closure = c\<rparr>)))))
      else bind_result (mint (get a ''attempt_id'') s) (\<lambda>row.
        case row of None \<Rightarrow> Inl Preparation_incomplete
        | Some r \<Rightarrow> (case (m_refusal r, m_observation r, m_git r) of
            (Some (p, _), Some obs, Some g) \<Rightarrow> (case g_result g of
              None \<Rightarrow> Inl Preparation_incomplete
            | Some res \<Rightarrow>
                if \<not> strict_eq (purpose (m_plan r)) (get a ''purpose'')
                   \<or> m_state r \<noteq> Mint_closed \<or> g_state g \<noteq> Completed
                then Inl Preparation_incomplete
                else bind_result (mintPlan (mint_plan_json (m_plan r))) (\<lambda>_.
                     bind_result (mintObservation (observation_json obs)) (\<lambda>_.
                     bind_result (mintRefusal (mint_refusal_json p)) (\<lambda>_.
                     bind_result (gitPlan (git_plan_json (g_plan g))) (\<lambda>_.
                     bind_result (gitResult (git_result_json res) (g_plan g)) (\<lambda>_.
                     Inr (Inr \<lparr>me_plan = m_plan r, me_observation = obs, me_refusal = p,
                               me_git_plan = g_plan g, me_git_result = res\<rparr>)))))))
          | _ \<Rightarrow> Inl Preparation_incomplete)))"

fun evidence_list ::
    "json list \<Rightarrow> string list \<Rightarrow> store \<Rightarrow> err + (initial_evidence list \<times> mint_evidence list)" where
  "evidence_list [] seen s = Inr ([], [])"
| "evidence_list (a # as) seen s =
     bind_result (evidence_entry a seen s) (\<lambda>x.
     bind_result (evidence_list as (the_str (get a ''attempt_id'') # seen) s) (\<lambda>(is, ms).
       case x of Inl i \<Rightarrow> Inr (i # is, ms) | Inr m \<Rightarrow> Inr (is, m # ms)))"

definition preparationEvidence ::
    "json \<Rightarrow> store \<Rightarrow> err + (initial_evidence list \<times> mint_evidence list)" where
  "preparationEvidence v s =
     (case get v ''attempts'' of
        JArr as \<Rightarrow>
          if \<not> closed v [''attempts''] \<or> length as \<noteq> 6 then Inl Preparation_invalid
          else bind_result (evidence_list as [] s) (\<lambda>(is, ms).
            if length is \<noteq> 2 \<or> length ms \<noteq> 4 then Inl Preparation_incomplete
            else Inr (is, ms))
      | _ \<Rightarrow> Inl Preparation_invalid)"

end
