(* ===== verification/LedgerOps.thy ===== *)
theory LedgerOps imports GitLedger begin

section \<open>All writes of the checkpoint object, as steps\<close>

text \<open>
  \<open>ckpt_op\<close> is a call of one of the methods of \<open>WorkCheckpoint\<close> that write, with its arguments
  and, where the method reads the clock or draws a tip, that value. \<open>exec_op\<close> is the store after
  the call; a call that throws leaves it as it was. \<open>effect_step\<close> and \<open>mint_step\<close> are the changes
  a call makes to one row, and \<open>store_step\<close> the changes to the store: every call is one of them
  (\<open>exec_op_step\<close>), so an invariant is proved by cases on the step, not on the twenty methods.
\<close>

datatype ckpt_op =
    Op_enroll json
  | Op_bootstrap json json
  | Op_begin string json json json
  | Op_commit json json json
  | Op_raiseFloor json
  | Op_freeze
  | Op_claimEffect int json json
  | Op_observeEffect json json json
  | Op_closeEffect json json json
  | Op_observeEffectToken int json json json
  | Op_recordRevocation int json json json
  | Op_claimMint int json json
  | Op_observeMint json json json
  | Op_custodyMint int json json
  | Op_revokeMint json json bool
  | Op_closeMint json json json
  | Op_beginMintCleanup json json bool
  | Op_recordMintCleanup int json json json
  | Op_closeMintRefused int json json json
  | Op_claimGit int json
  | Op_takeGit int json bool
  | Op_finishGit json json

fun exec_op :: "env \<Rightarrow> ckpt_op \<Rightarrow> store \<Rightarrow> store" where
  "exec_op env (Op_enroll v) s = next_store (enrollAuthority env v s) s"
| "exec_op env (Op_bootstrap v f) s = next_store (bootstrap env v f s) s"
| "exec_op env (Op_begin rnd v p rel) s = next_store (begin_frame env rnd v p rel s) s"
| "exec_op env (Op_commit v w rel) s = next_store (commit_frame v w rel s) s"
| "exec_op env (Op_raiseFloor v) s = next_store (raiseFloor v s) s"
| "exec_op env Op_freeze s = next_store (freeze s) s"
| "exec_op env (Op_claimEffect now v rel) s = next_store (claimEffect env now v rel s) s"
| "exec_op env (Op_observeEffect a d v) s = next_store (observeEffect a d v s) s"
| "exec_op env (Op_closeEffect a d v) s = next_store (closeEffect a d v s) s"
| "exec_op env (Op_observeEffectToken now a d v) s = next_store (observeEffectToken now a d v s) s"
| "exec_op env (Op_recordRevocation now a d v) s = next_store (recordRevocationInventory now a d v s) s"
| "exec_op env (Op_claimMint now v rel) s = next_store (claimMint env now v rel s) s"
| "exec_op env (Op_observeMint a d v) s = next_store (observeMint a d v s) s"
| "exec_op env (Op_custodyMint now a d) s = next_store (custodyMint now a d s) s"
| "exec_op env (Op_revokeMint a d safety) s = next_store (revokeMint a d safety s) s"
| "exec_op env (Op_closeMint a d v) s = next_store (closeMint a d v s) s"
| "exec_op env (Op_beginMintCleanup a d productive) s = next_store (beginMintCleanup a d productive s) s"
| "exec_op env (Op_recordMintCleanup now a d v) s = next_store (recordMintCleanup now a d v s) s"
| "exec_op env (Op_closeMintRefused now a d v) s = next_store (closeMintRefused now a d v s) s"
| "exec_op env (Op_claimGit now v) s = next_store (claimGit now v s) s"
| "exec_op env (Op_takeGit now v transport) s = next_store (takeGit now v transport s) s"
| "exec_op env (Op_finishGit a v) s = next_store (finishGit a v s) s"

subsection \<open>Changes of one row\<close>

inductive effect_step :: "effect_record \<Rightarrow> effect_record \<Rightarrow> bool" where
  es_observe: "e_repo_id r = None \<or> e_repo_id r = Some x \<Longrightarrow> resource_id x \<Longrightarrow>
     effect_step r (r\<lparr>e_repo_id := Some x\<rparr>)"
| es_close: "e_repo_id r = Some (c_repo_id c) \<Longrightarrow> wf_closure c \<Longrightarrow>
     e_closure r = None
       \<or> map_option (\<lambda>b. (c_token_id b, c_expires_at b, c_receipt b)) (e_closure r)
           = Some (c_token_id c, c_expires_at c, c_receipt c) \<Longrightarrow>
     effect_step r (r\<lparr>e_closure := Some c, e_state := Closed\<rparr>)"
| es_token: "e_state r = Outcome_unknown \<Longrightarrow> e_token_observation r = None \<Longrightarrow>
     e_repo_id r = Some (t_repo_id t) \<Longrightarrow> wf_token_observation t \<Longrightarrow>
     effect_step r (r\<lparr>e_token_observation := Some (t, now)\<rparr>)"
| es_revocation: "e_state r = Outcome_unknown \<Longrightarrow> e_cleanup r = None \<Longrightarrow>
     e_token_observation r = Some (t, at) \<Longrightarrow> e_repo_id r = Some (t_repo_id c) \<Longrightarrow>
     t_token_id t = t_token_id c \<Longrightarrow> t_expires_at t = t_expires_at c \<Longrightarrow> wf_revocation c \<Longrightarrow>
     effect_step r (r\<lparr>e_cleanup := Some (c, now)\<rparr>)"

definition same_observation :: "'a mint_observation_scheme \<Rightarrow> 'b mint_observation_scheme \<Rightarrow> bool" where
  "same_observation a b \<longleftrightarrow> o_repo_id a = o_repo_id b \<and> o_token_id a = o_token_id b
     \<and> o_scope a = o_scope b \<and> o_expires_at a = o_expires_at b"

inductive mint_step :: "mint_record \<Rightarrow> mint_record \<Rightarrow> bool" where
  ms_observe: "m_observation r = None \<Longrightarrow> wf_observation x \<Longrightarrow> o_repo_id x = repo_id (m_plan r) \<Longrightarrow>
     mint_step r (r\<lparr>m_observation := Some x\<rparr>)"
| ms_custody: "m_state r \<noteq> Mint_closed \<Longrightarrow> m_observation r = Some x \<Longrightarrow>
     o_scope x = JStr (scope (m_plan r)) \<Longrightarrow> o_expires_at x \<le> expires_at (m_plan r) \<Longrightarrow>
     \<not> m_revoke_acknowledged r \<Longrightarrow> \<not> m_cleanup_requested r \<Longrightarrow>
     mint_step r (r\<lparr>m_state := Custodied\<rparr>)"
| ms_revoke: "m_state r \<noteq> Mint_closed \<Longrightarrow> m_observation r \<noteq> None \<Longrightarrow>
     mint_step r (r\<lparr>m_revoke_acknowledged := True, m_cleanup_requested := True, m_state := Mint_unknown\<rparr>)"
| ms_close: "m_observation r = Some x \<Longrightarrow> o_scope x = JStr (scope (m_plan r)) \<Longrightarrow>
     o_expires_at x \<le> expires_at (m_plan r) \<Longrightarrow> m_cleanup_requested r \<Longrightarrow>
     m_receipt r = None \<or> m_receipt r = Some t \<Longrightarrow> hex64 t \<Longrightarrow>
     mint_step r (r\<lparr>m_state := Mint_closed, m_receipt := Some t\<rparr>)"
| ms_intent: "m_state r \<noteq> Mint_closed \<Longrightarrow>
     mint_step r (r\<lparr>m_cleanup_requested := True, m_state := Mint_unknown\<rparr>)"
| ms_cleanup: "m_observation r = Some x \<Longrightarrow> same_observation x c \<Longrightarrow> m_state r = Mint_unknown \<Longrightarrow>
     m_cleanup_requested r \<Longrightarrow> m_cleanup r = None \<Longrightarrow> wf_mint_cleanup c \<Longrightarrow>
     (mc_method c = JStr ''revoke_acknowledged'' \<Longrightarrow> m_revoke_acknowledged r) \<Longrightarrow>
     mint_step r (r\<lparr>m_cleanup := Some (c, now)\<rparr>)"
| ms_refused: "m_observation r = Some x \<Longrightarrow> same_observation x p \<Longrightarrow> m_cleanup r \<noteq> None \<Longrightarrow>
     m_cleanup_requested r \<Longrightarrow> m_state r \<noteq> Custodied \<Longrightarrow> m_refusal r = None \<Longrightarrow>
     wf_mint_refusal p \<Longrightarrow> mr_key_version p = key_version (m_plan r) \<Longrightarrow>
     mint_step r (r\<lparr>m_refusal := Some (p, now), m_state := Mint_closed\<rparr>)"
| ms_git_admit: "m_state r = Custodied \<Longrightarrow> \<not> m_cleanup_requested r \<Longrightarrow> m_git r = None \<Longrightarrow>
     m_observation r = Some (observation p) \<Longrightarrow> same_intent (m_plan r) p \<Longrightarrow> wf_git_plan p \<Longrightarrow>
     mint_step r (r\<lparr>m_git := Some \<lparr>g_plan = p, g_text = v, g_state = Admitted, g_result = None\<rparr>\<rparr>)"
| ms_git_take: "m_state r = Custodied \<Longrightarrow> \<not> m_cleanup_requested r \<Longrightarrow> m_git r = Some g \<Longrightarrow>
     (g_state g, st) = (Admitted, Dispatching) \<or> (g_state g, st) = (Dispatching, Git_unknown) \<Longrightarrow>
     mint_step r (r\<lparr>m_git := Some (g\<lparr>g_state := st\<rparr>)\<rparr>)"
| ms_git_finish: "m_state r \<noteq> Mint_closed \<Longrightarrow> m_git r = Some g \<Longrightarrow>
     g_state g = Git_unknown \<or> g_state g = Completed \<Longrightarrow>
     g_result g = None \<or> g_result g = Some x \<Longrightarrow> wf_git_result (g_plan g) x \<Longrightarrow>
     mint_step r (r\<lparr>m_git := Some (g\<lparr>g_result := Some x, g_state := Completed\<rparr>),
                    m_cleanup_requested := True, m_state := Mint_unknown\<rparr>)"

subsection \<open>Changes of the store\<close>

definition fresh_effect :: "initial_plan \<Rightarrow> effect_record" where
  "fresh_effect p = \<lparr>e_plan = p, e_state = Outcome_unknown, e_repo_id = None, e_closure = None,
     e_cleanup = None, e_token_observation = None\<rparr>"

definition fresh_mint :: "mint_plan \<Rightarrow> mint_record" where
  "fresh_mint p = \<lparr>m_plan = p, m_state = Mint_unknown, m_observation = None,
     m_revoke_acknowledged = False, m_cleanup_requested = False, m_receipt = None,
     m_cleanup = None, m_refusal = None, m_git = None\<rparr>"

inductive store_step :: "store \<Rightarrow> store \<Rightarrow> bool" where
  ss_frame: "store_step s (s\<lparr>s_state := x, s_enrollment := y\<rparr>)"
| ss_admit_effect: "effect_row s (attempt_id p) = None \<Longrightarrow> ledger_entries s < 256 \<Longrightarrow> wf_plan p \<Longrightarrow>
     store_step s (saveEffect (fresh_effect p) s)"
| ss_effect: "effect_row s a = Some r \<Longrightarrow> effect_step r r' \<or> r' = r \<Longrightarrow> store_step s (saveEffect r' s)"
| ss_admit_mint: "mint_row s (attempt_id p) = None \<Longrightarrow> ledger_entries s < 256 \<Longrightarrow> wf_mint_plan p \<Longrightarrow>
     initial_closed_for p s \<Longrightarrow> insertMint (fresh_mint p) s = Inr s' \<Longrightarrow> store_step s s'"
| ss_mint: "mint_row s a = Some r \<Longrightarrow> mint_step r r' \<or> r' = r \<Longrightarrow>
     m_git r = None \<Longrightarrow>
     (\<And>g. m_git r' = Some g \<Longrightarrow> purpose (g_plan g) = JStr ''readback'' \<Longrightarrow> upload_closed_for (g_plan g) s) \<Longrightarrow>
     store_step s (saveMint r' s)"
| ss_mint_git: "mint_row s a = Some r \<Longrightarrow> mint_step r r' \<or> r' = r \<Longrightarrow> m_git r \<noteq> None \<Longrightarrow>
     store_step s (saveMint r' s)"

inductive_cases effect_stepE: "effect_step r r'"
inductive_cases mint_stepE: "mint_step r r'"
inductive_cases store_stepE: "store_step s s'"

end
