(* ===== verification/LedgerSteps.thy ===== *)
theory LedgerSteps imports LedgerOps begin

section \<open>The invariant of the ledger\<close>

subsection \<open>Well-formed rows\<close>

definition wf_effect_record :: "effect_record \<Rightarrow> bool" where
  "wf_effect_record r \<longleftrightarrow> wf_plan (e_plan r)
     \<and> (case e_repo_id r of None \<Rightarrow> True | Some x \<Rightarrow> resource_id x)
     \<and> (e_state r = Closed \<longleftrightarrow> e_closure r \<noteq> None)
     \<and> (case e_closure r of None \<Rightarrow> True | Some c \<Rightarrow> wf_closure c \<and> e_repo_id r = Some (c_repo_id c))
     \<and> (case e_token_observation r of None \<Rightarrow> True
        | Some (t, _) \<Rightarrow> wf_token_observation t \<and> e_repo_id r = Some (t_repo_id t))
     \<and> (case e_cleanup r of None \<Rightarrow> True
        | Some (c, _) \<Rightarrow> wf_revocation c \<and> map_option (\<lambda>(t, _). (t_repo_id t, t_token_id t, t_expires_at t))
              (e_token_observation r) = Some (t_repo_id c, t_token_id c, t_expires_at c))"

definition wf_git_record :: "mint_record \<Rightarrow> git_record \<Rightarrow> bool" where
  "wf_git_record r g \<longleftrightarrow> wf_git_plan (g_plan g) \<and> same_intent (m_plan r) (g_plan g)
     \<and> m_observation r = Some (observation (g_plan g))
     \<and> (g_state g = Completed \<longleftrightarrow> g_result g \<noteq> None)
     \<and> (case g_result g of None \<Rightarrow> True | Some x \<Rightarrow> wf_git_result (g_plan g) x)"

definition wf_mint_record :: "mint_record \<Rightarrow> bool" where
  "wf_mint_record r \<longleftrightarrow> wf_mint_plan (m_plan r)
     \<and> (case m_observation r of None \<Rightarrow> True
        | Some x \<Rightarrow> wf_observation x \<and> o_repo_id x = repo_id (m_plan r))
     \<and> (m_revoke_acknowledged r \<longrightarrow> m_cleanup_requested r \<and> m_observation r \<noteq> None)
     \<and> (m_state r = Custodied \<longrightarrow> \<not> m_cleanup_requested r \<and> (case m_observation r of None \<Rightarrow> False
        | Some x \<Rightarrow> o_scope x = JStr (scope (m_plan r)) \<and> o_expires_at x \<le> expires_at (m_plan r)))
     \<and> (m_state r = Mint_closed \<longleftrightarrow> m_receipt r \<noteq> None \<or> m_refusal r \<noteq> None)
     \<and> (m_state r = Mint_closed \<longrightarrow> m_cleanup_requested r \<and> m_observation r \<noteq> None)
     \<and> (case m_receipt r of None \<Rightarrow> True | Some x \<Rightarrow> hex64 x)
     \<and> (case m_cleanup r of None \<Rightarrow> True | Some (c, _) \<Rightarrow> m_cleanup_requested r \<and> wf_mint_cleanup c
         \<and> (case m_observation r of None \<Rightarrow> False | Some x \<Rightarrow> same_observation x c)
         \<and> (mc_method c = JStr ''revoke_acknowledged'' \<longrightarrow> m_revoke_acknowledged r))
     \<and> (case m_refusal r of None \<Rightarrow> True | Some (p, _) \<Rightarrow> m_cleanup r \<noteq> None \<and> wf_mint_refusal p
         \<and> mr_key_version p = key_version (m_plan r)
         \<and> (case m_observation r of None \<Rightarrow> False | Some x \<Rightarrow> same_observation x p))
     \<and> (case m_git r of None \<Rightarrow> True | Some g \<Rightarrow> wf_git_record r g)"

definition git_follows_upload :: "store \<Rightarrow> mint_record \<Rightarrow> bool" where
  "git_follows_upload s r \<longleftrightarrow> (case m_git r of None \<Rightarrow> True
     | Some g \<Rightarrow> purpose (g_plan g) = JStr ''readback'' \<longrightarrow> upload_closed_for (g_plan g) s)"

definition keyed :: "store \<Rightarrow> bool" where
  "keyed s \<longleftrightarrow> distinct (map fst (s_effects s))
     \<and> (\<forall>(a, r) \<in> set (s_effects s). attempt_id (e_plan r) = a)
     \<and> distinct (map fst (s_mints s)) \<and> distinct (map (\<lambda>(_, t, _). t) (s_mints s))
     \<and> (\<forall>(a, t, r) \<in> set (s_mints s). attempt_id (m_plan r) = a \<and> slot_of (m_plan r) = t)
     \<and> ledger_entries s \<le> 256"

definition ledger_ok :: "store \<Rightarrow> bool" where
  "ledger_ok s \<longleftrightarrow> keyed s
     \<and> (\<forall>(_, r) \<in> set (s_effects s). wf_effect_record r)
     \<and> (\<forall>(_, _, r) \<in> set (s_mints s). wf_mint_record r
          \<and> initial_closed_for (m_plan r) s \<and> git_follows_upload s r)"

subsection \<open>Rows of a keyed store\<close>

lemma effect_row_member: "effect_row s a = Some r \<Longrightarrow> (a, r) \<in> set (s_effects s)"
  by (simp add: effect_row_def map_of_SomeD)

lemma mint_row_member: "mint_row s a = Some r \<Longrightarrow> \<exists>t. (a, t, r) \<in> set (s_mints s)"
  by (auto simp: mint_row_def dest!: map_of_SomeD)

lemma slot_row_member: "slot_row s t = Some r \<Longrightarrow> \<exists>a. (a, t, r) \<in> set (s_mints s)"
  unfolding slot_row_def by (drule map_of_SomeD) fastforce

lemma keyed_effect: "keyed s \<Longrightarrow> effect_row s a = Some r \<Longrightarrow> attempt_id (e_plan r) = a"
  by (auto simp: keyed_def dest!: effect_row_member)

lemma keyed_mint: "keyed s \<Longrightarrow> mint_row s a = Some r \<Longrightarrow> attempt_id (m_plan r) = a"
  by (auto simp: keyed_def dest!: mint_row_member)

lemma mint_row_iff: "keyed s \<Longrightarrow> mint_row s a = Some r \<longleftrightarrow> (a, slot_of (m_plan r), r) \<in> set (s_mints s)"
proof -
  assume k: "keyed s"
  then have "distinct (map fst (map (\<lambda>(a, _, r). (a, r)) (s_mints s)))"
    by (simp add: keyed_def comp_def case_prod_unfold)
  then have "mint_row s a = Some r \<longleftrightarrow> (a, r) \<in> set (map (\<lambda>(a, _, r). (a, r)) (s_mints s))"
    unfolding mint_row_def by (rule map_of_eq_Some_iff)
  then show ?thesis using k by (auto simp: keyed_def image_iff Bex_def)
qed

lemma slot_row_iff: "keyed s \<Longrightarrow> slot_row s t = Some r \<longleftrightarrow> (attempt_id (m_plan r), t, r) \<in> set (s_mints s)"
proof -
  assume k: "keyed s"
  then have "distinct (map fst (map (\<lambda>(_, t, r). (t, r)) (s_mints s)))"
    by (simp add: keyed_def comp_def case_prod_unfold)
  then have "slot_row s t = Some r \<longleftrightarrow> (t, r) \<in> set (map (\<lambda>(_, t, r). (t, r)) (s_mints s))"
    unfolding slot_row_def by (rule map_of_eq_Some_iff)
  then show ?thesis using k by (auto simp: keyed_def image_iff Bex_def)
qed

lemma slot_row_of_mint_row: "keyed s \<Longrightarrow> mint_row s a = Some r \<Longrightarrow> slot_row s (slot_of (m_plan r)) = Some r"
  by (auto simp: mint_row_iff slot_row_iff keyed_def)

lemma mint_row_of_slot_row:
  "keyed s \<Longrightarrow> slot_row s t = Some r \<Longrightarrow> slot_of (m_plan r) = t \<and> mint_row s (attempt_id (m_plan r)) = Some r"
  by (auto simp: mint_row_iff slot_row_iff keyed_def)

lemma set_saveMint:
  assumes k: "keyed s" and "mint_row s (attempt_id (m_plan r')) = Some r" "m_plan r' = m_plan r"
  shows "set (s_mints (saveMint r' s)) =
     insert (attempt_id (m_plan r'), slot_of (m_plan r'), r')
       (set (s_mints s) - {(attempt_id (m_plan r), slot_of (m_plan r), r)})"
proof -
  let ?a = "attempt_id (m_plan r)" and ?t = "slot_of (m_plan r)"
  have row: "(?a, ?t, r) \<in> set (s_mints s)" using assms by (simp add: mint_row_iff)
  have "b = ?a \<or> u = ?t \<Longrightarrow> (b, u, q) = (?a, ?t, r)" if "(b, u, q) \<in> set (s_mints s)" for b u q
  proof -
    assume "b = ?a \<or> u = ?t"
    moreover have "b = ?a \<Longrightarrow> (b, u, q) = (?a, ?t, r)"
      using k row that by (auto simp: keyed_def dest: eq_key_imp_eq_value)
    moreover have "u = ?t \<Longrightarrow> (b, u, q) = (?a, ?t, r)"
    proof -
      assume "u = ?t"
      then have "slot_row s ?t = Some q" "slot_row s ?t = Some r"
        using k row that by (auto simp: slot_row_iff keyed_def)
      then show ?thesis using k that row by (auto simp: keyed_def)
    qed
    ultimately show ?thesis by blast
  qed
  then show ?thesis using assms(3) row
    by (auto simp: saveMint_def Let_def)
qed


subsection \<open>Every call is a step\<close>

lemma ledger_ok_effect: "ledger_ok s \<Longrightarrow> effect_row s a = Some r \<Longrightarrow> wf_effect_record r"
  by (auto simp: ledger_ok_def dest!: effect_row_member)

lemma ledger_ok_mint: "ledger_ok s \<Longrightarrow> mint_row s a = Some r \<Longrightarrow>
    wf_mint_record r \<and> initial_closed_for (m_plan r) s \<and> git_follows_upload s r"
  by (auto simp: ledger_ok_def dest!: mint_row_member)

lemma ss_mint_same_git:
  "mint_row s a = Some r \<Longrightarrow> mint_step r r' \<or> r' = r \<Longrightarrow> m_git r' = m_git r \<Longrightarrow>
     store_step s (saveMint r' s)"
  by (cases "m_git r") (auto intro: store_step.intros)

lemma claimEffect_step:
  "claimEffect env now v rel s = Inr (x, s') \<Longrightarrow> s' = s \<or> store_step s s'"
  unfolding claimEffect_def bind_result_Inr_iff read_with_Inr_iff
  by (auto simp: Let_def fresh_effect_def split: if_splits option.splits dest!: initialPlan_wf
      intro: ss_admit_effect[unfolded fresh_effect_def])

lemma observeEffect_step:
  "observeEffect a d v s = Inr (x, s') \<Longrightarrow> store_step s s'"
  by (auto simp: observeEffect_def with_effect_Inr_iff resource_def str_test_iff resource_id_def
      intro!: ss_effect es_observe split: if_splits)

lemma closeEffect_step:
  "closeEffect a d v s = Inr (x, s') \<Longrightarrow> store_step s s'"
  by (auto simp: closeEffect_def with_effect_Inr_iff bind_result_Inr_iff
      intro!: ss_effect es_close dest!: closure_wf split: if_splits option.splits)

lemma observeEffectToken_step:
  "observeEffectToken now a d v s = Inr (x, s') \<Longrightarrow> store_step s s'"
  by (auto simp: observeEffectToken_def with_effect_Inr_iff bind_result_Inr_iff
      intro!: ss_effect es_token dest!: tokenObservation_wf split: if_splits option.splits)

lemma recordRevocationInventory_step:
  "recordRevocationInventory now a d v s = Inr (x, s') \<Longrightarrow> store_step s s'"
  by (auto simp: recordRevocationInventory_def with_effect_Inr_iff bind_result_Inr_iff
      intro!: ss_effect es_revocation dest!: revocationInventory_wf split: if_splits option.splits)

lemma claimMint_step:
  "claimMint env now v rel s = Inr (x, s') \<Longrightarrow> s' = s \<or> store_step s s'"
  unfolding claimMint_def bind_result_Inr_iff read_with_Inr_iff
  by (auto simp: Let_def bind_result_Inr_iff fresh_mint_def split: if_splits option.splits dest!: mintPlan_wf
      intro: ss_admit_mint[unfolded fresh_mint_def])

lemma custodyMint_step:
  "custodyMint now a d s = Inr (x, s') \<Longrightarrow> store_step s s'"
  by (auto simp: custodyMint_def with_mint_Inr_iff
      intro!: ss_mint_same_git ms_custody split: if_splits option.splits)

lemma revokeMint_step:
  "revokeMint a d safety s = Inr (x, s') \<Longrightarrow> store_step s s'"
  by (auto simp: revokeMint_def with_mint_Inr_iff
      intro!: ss_mint_same_git ms_revoke split: if_splits option.splits)

lemma closeMint_step:
  "closeMint a d v s = Inr (x, s') \<Longrightarrow> store_step s s'"
  by (auto simp: closeMint_def with_mint_Inr_iff hex_def str_test_iff hex64_def
      intro!: ss_mint_same_git ms_close split: if_splits option.splits)

lemma beginMintCleanup_step:
  "beginMintCleanup a d productive s = Inr (x, s') \<Longrightarrow> store_step s s'"
  by (auto simp: beginMintCleanup_def with_mint_Inr_iff
      intro!: ss_mint_same_git ms_intent split: if_splits option.splits)

lemma differs_fromD: "\<not> differs_from x c \<Longrightarrow> same_observation x c"
  by (auto simp: differs_from_def same_observation_def dest: strict_eqD)

lemma recordMintCleanup_step:
  assumes "recordMintCleanup now a d v s = Inr (x, s')"
  shows "store_step s s'"
proof -
  from assms obtain r obs where r: "mint_row s (the_str a) = Some r" "s' = saveMint x s"
    and obs: "m_observation r = Some obs" "\<not> differs_from obs (as_mint_cleanup v)"
    and g: "m_state r = Mint_unknown" "m_cleanup_requested r" "mintCleanup v = Inr ()"
      "mc_method (as_mint_cleanup v) = JStr ''revoke_acknowledged'' \<Longrightarrow> m_revoke_acknowledged r"
    and x: "m_cleanup r = None \<and> x = r\<lparr>m_cleanup := Some (as_mint_cleanup v, now)\<rparr> \<or> x = r"
    by (auto simp: recordMintCleanup_def with_mint_Inr_iff bind_result_Inr_iff split: if_splits option.splits)
  have "mint_step r x \<or> x = r"
    using ms_cleanup [OF obs(1) differs_fromD [OF obs(2)] g(1,2) _ mintCleanup_wf [OF g(3)] g(4), of now] x
    by auto
  moreover have "m_git x = m_git r" using x by auto
  ultimately show ?thesis using r by (simp add: ss_mint_same_git)
qed

lemma observeMint_step:
  assumes "observeMint a d v s = Inr (u, s')" and ok: "ledger_ok s"
  shows "store_step s s'"
proof -
  from assms obtain r where r: "mint_row s (the_str a) = Some r"
      "s' = saveMint (r\<lparr>m_observation := Some (as_observation v)\<rparr>) s"
    and g: "repo_id (m_plan r) = o_repo_id (as_observation v)" "mintObservation v = Inr ()"
    and obs: "\<And>x. m_observation r = Some x \<Longrightarrow> o_token_id x = o_token_id (as_observation v)
        \<and> strict_eq (o_scope x) (o_scope (as_observation v)) \<and> o_expires_at x = o_expires_at (as_observation v)"
    by (auto simp: observeMint_def with_mint_Inr_iff bind_result_Inr_iff split: if_splits option.splits)
  have wf: "wf_mint_record r" using ledger_ok_mint [OF ok r(1)] by simp
  have "mint_step r (r\<lparr>m_observation := Some (as_observation v)\<rparr>)
      \<or> r\<lparr>m_observation := Some (as_observation v)\<rparr> = r"
  proof (cases "m_observation r")
    case None
    then show ?thesis using ms_observe [OF None mintObservation_wf [OF g(2)]] g(1) by simp
  next
    case (Some x)
    then have "x = as_observation v"
      using obs [OF Some] wf g(1) by (auto simp: wf_mint_record_def intro!: mint_observation.equality dest: strict_eqD)
    then show ?thesis using Some by simp
  qed
  then show ?thesis using r by (simp add: ss_mint_same_git)
qed

lemma closeMintRefused_step:
  assumes "closeMintRefused now a d v s = Inr (x, s')" and ok: "ledger_ok s"
  shows "store_step s s'"
proof -
  from assms obtain r obs where r: "mint_row s (the_str a) = Some r" "s' = saveMint x s"
    and obs: "m_observation r = Some obs" "\<not> differs_from obs (as_mint_refusal v)"
    and g: "m_cleanup r \<noteq> None" "m_cleanup_requested r" "m_state r \<noteq> Custodied" "mintRefusal v = Inr ()"
      "mr_key_version (as_mint_refusal v) = key_version (m_plan r)"
    and x: "m_refusal r = None \<and> x = r\<lparr>m_refusal := Some (as_mint_refusal v, now), m_state := Mint_closed\<rparr>
      \<or> m_refusal r \<noteq> None \<and> x = r\<lparr>m_state := Mint_closed\<rparr>"
    by (auto simp: closeMintRefused_def with_mint_Inr_iff bind_result_Inr_iff split: if_splits option.splits)
  have wf: "wf_mint_record r" using ledger_ok_mint [OF ok r(1)] by simp
  have "mint_step r x \<or> x = r"
  proof (cases "m_refusal r")
    case None
    then show ?thesis
      using ms_refused [OF obs(1) differs_fromD [OF obs(2)] g(1-3) None mintRefusal_wf [OF g(4)] g(5), of now] x
      by simp
  next
    case (Some p)
    then have "m_state r = Mint_closed" using wf by (auto simp: wf_mint_record_def)
    then show ?thesis using x Some by simp
  qed
  moreover have "m_git x = m_git r" using x by auto
  ultimately show ?thesis using r by (simp add: ss_mint_same_git)
qed

lemma claimGit_step:
  assumes "claimGit now v s = Inr (x, s')"
  shows "s' = s \<or> store_step s s'"
proof -
  let ?p = "as_git_plan v"
  from assms have "s' = s \<or> (\<exists>r. mint_row s (attempt_id ?p) = Some r \<and> m_state r = Custodied
      \<and> \<not> m_cleanup_requested r \<and> m_git r = None \<and> m_observation r = Some (observation ?p)
      \<and> same_intent (m_plan r) ?p \<and> gitPlan v = Inr ()
      \<and> (purpose ?p = JStr ''readback'' \<longrightarrow> upload_closed_for ?p s)
      \<and> s' = saveMint (r\<lparr>m_git := Some \<lparr>g_plan = ?p, g_text = v, g_state = Admitted, g_result = None\<rparr>\<rparr>) s)"
    unfolding claimGit_def bind_result_Inr_iff read_with_Inr_iff
    by (elim exE conjE) (auto simp: Let_def split: if_splits option.splits)
  then show ?thesis
    using ms_git_admit [of _ ?p v] by (auto intro!: ss_mint dest!: gitPlan_wf)
qed

lemma takeGit_step:
  assumes "takeGit now v transport s = Inr (x, s')"
  shows "store_step s s'"
proof -
  let ?p = "as_git_plan v"
  let ?st = "if transport then Git_unknown else Dispatching"
  from assms obtain r g where r: "mint_row s (attempt_id ?p) = Some r" "m_state r = Custodied"
      "\<not> m_cleanup_requested r" "m_git r = Some g" "g_state g = (if transport then Dispatching else Admitted)"
      "s' = saveMint (r\<lparr>m_git := Some (g\<lparr>g_state := ?st\<rparr>)\<rparr>) s"
    unfolding takeGit_def bind_result_Inr_iff read_with_Inr_iff
    by (elim exE conjE) (auto simp: Let_def split: if_splits option.splits)
  then show ?thesis using ms_git_take [OF r(2-4), of ?st] by (auto intro!: ss_mint_git)
qed

lemma finishGit_step:
  assumes "finishGit a v s = Inr (x, s')"
  shows "store_step s s'"
proof -
  from assms obtain r g where r: "mint_row s (the_str a) = Some r" "s' = saveMint x s"
      "m_git r = Some g" "m_state r \<noteq> Mint_closed"
    and x: "x = r\<lparr>m_cleanup_requested := True, m_state := Mint_unknown\<rparr> \<or>
      gitResult v (g_plan g) = Inr () \<and> (g_state g = Git_unknown \<or> g_state g = Completed)
      \<and> (g_result g = None \<or> g_result g = Some (as_git_result v))
      \<and> x = r\<lparr>m_git := Some (g\<lparr>g_result := Some (as_git_result v), g_state := Completed\<rparr>),
             m_cleanup_requested := True, m_state := Mint_unknown\<rparr>"
    unfolding finishGit_def with_mint_Inr_iff
    by (elim exE conjE) (auto simp: bind_result_Inr_iff split: if_splits option.splits)
  from x have "mint_step r x"
    using ms_intent [OF r(4)] ms_git_finish [OF r(4,3)] by (auto dest: gitResult_wf)
  then show ?thesis using r by (auto intro: ss_mint_git)
qed

lemma frame_step: "s_effects s' = s_effects s \<Longrightarrow> s_mints s' = s_mints s \<Longrightarrow> store_step s s'"
proof -
  assume "s_effects s' = s_effects s" "s_mints s' = s_mints s"
  then have "s\<lparr>s_state := s_state s', s_enrollment := s_enrollment s'\<rparr> = s'"
    by (intro store.equality) simp_all
  then show ?thesis by (metis ss_frame)
qed

lemma framing_rows:
  "enrollAuthority env v s = Inr (y, s') \<Longrightarrow> s_effects s' = s_effects s \<and> s_mints s' = s_mints s"
  "bootstrap env v f s = Inr (c, s') \<Longrightarrow> s_effects s' = s_effects s \<and> s_mints s' = s_mints s"
  "begin_frame env rnd v p rel s = Inr (z, s') \<Longrightarrow> s_effects s' = s_effects s \<and> s_mints s' = s_mints s"
  "commit_frame v w rel s = Inr (c, s') \<Longrightarrow> s_effects s' = s_effects s \<and> s_mints s' = s_mints s"
  "raiseFloor v s = Inr (u, s') \<Longrightarrow> s_effects s' = s_effects s \<and> s_mints s' = s_mints s"
  "freeze s = Inr (u, s') \<Longrightarrow> s_effects s' = s_effects s \<and> s_mints s' = s_mints s"
  unfolding enrollAuthority_def bootstrap_def begin_frame_def commit_frame_def raiseFloor_def freeze_def
    bind_result_Inr_iff read_with_Inr_iff Let_def
  by (auto simp: bind_result_Inr_iff save_def split: if_splits option.splits)

theorem exec_op_step:
  assumes ok: "ledger_ok s"
  shows "exec_op env p s = s \<or> store_step s (exec_op env p s)"
proof -
  have next_step: "next_store r s = s \<or> store_step s (next_store r s)"
    if "\<And>x s'. r = Inr (x, s') \<Longrightarrow> s' = s \<or> store_step s s'" for r :: "'a outcome"
    using that by (cases r) (auto simp: next_store_def)
  show ?thesis
    by (cases p; simp; rule next_step; use ok in \<open>auto intro: frame_step
        dest: framing_rows claimEffect_step observeEffect_step closeEffect_step observeEffectToken_step
          recordRevocationInventory_step claimMint_step observeMint_step custodyMint_step revokeMint_step
          closeMint_step beginMintCleanup_step recordMintCleanup_step closeMintRefused_step claimGit_step
          takeGit_step finishGit_step\<close>)
qed


subsection \<open>The invariant is kept\<close>

lemma effect_step_plan: "effect_step r r' \<Longrightarrow> e_plan r' = e_plan r"
  by (induction rule: effect_step.induct) simp_all

lemma mint_step_plan: "mint_step r r' \<Longrightarrow> m_plan r' = m_plan r"
  by (induction rule: mint_step.induct) simp_all

lemma effect_step_wf: "effect_step r r' \<Longrightarrow> wf_effect_record r \<Longrightarrow> wf_effect_record r'"
  by (induction rule: effect_step.induct)
    (auto simp: wf_effect_record_def wf_revocation_def split: option.splits)

lemma mint_step_wf: "mint_step r r' \<Longrightarrow> wf_mint_record r \<Longrightarrow> wf_mint_record r'"
proof (induction rule: mint_step.induct)
  case (ms_git_take r g st)
  then show ?case by (auto simp: wf_mint_record_def wf_git_record_def split: option.splits)
next
  case (ms_git_finish r g x)
  then show ?case by (auto simp: wf_mint_record_def wf_git_record_def split: option.splits)
next
  case (ms_git_admit r p v)
  then show ?case by (auto simp: wf_mint_record_def wf_git_record_def split: option.splits)
qed (auto simp: wf_mint_record_def wf_git_record_def split: option.splits)

lemma keyed_saveEffect:
  assumes "keyed s" "effect_row s a = Some r" "e_plan r' = e_plan r"
  shows "keyed (saveEffect r' s)"
proof -
  have "length (filter (\<lambda>(b, _). b \<noteq> a) (s_effects s)) < length (s_effects s)"
    using effect_row_member [OF assms(2)] by (intro length_filter_less) auto
  moreover have "attempt_id (e_plan r) = a" using assms keyed_effect by blast
  ultimately show ?thesis using assms
    by (auto simp: keyed_def saveEffect_def Let_def ledger_entries_def distinct_map
        intro: inj_on_subset)
qed

lemma keyed_saveMint:
  assumes "keyed s" "mint_row s a = Some r" "m_plan r' = m_plan r"
  shows "keyed (saveMint r' s)"
proof -
  obtain t where "(a, t, r) \<in> set (s_mints s)" using mint_row_member assms(2) by blast
  then have "length (filter (\<lambda>(b, u, _). b \<noteq> a \<and> u \<noteq> slot_of (m_plan r)) (s_mints s)) < length (s_mints s)"
    by (intro length_filter_less) auto
  moreover have "attempt_id (m_plan r) = a" using assms keyed_mint by blast
  ultimately show ?thesis using assms
    by (auto simp: keyed_def saveMint_def Let_def ledger_entries_def distinct_map
        intro: inj_on_subset)
qed

lemma keyed_slot: "keyed s \<Longrightarrow> (a, u, q) \<in> set (s_mints s) \<Longrightarrow> u = slot_of (m_plan q) \<and> a = attempt_id (m_plan q)"
  by (auto simp: keyed_def)

lemma mint_row_saveMint:
  assumes "keyed s" "mint_row s a = Some r" "m_plan r' = m_plan r"
  shows "mint_row (saveMint r' s) b = (if b = a then Some r' else mint_row s b)"
    and "slot_row (saveMint r' s) t = (if t = slot_of (m_plan r) then Some r' else slot_row s t)"
proof -
  have a: "attempt_id (m_plan r) = a" using assms(1,2) by (rule keyed_mint)
  have k: "keyed (saveMint r' s)" using assms by (rule keyed_saveMint)
  have st: "set (s_mints (saveMint r' s)) = insert (a, slot_of (m_plan r), r')
       (set (s_mints s) - {(a, slot_of (m_plan r), r)})"
    using set_saveMint [OF assms(1) _ assms(3)] assms a by simp
  have row: "(a, slot_of (m_plan r), r) \<in> set (s_mints s)"
    using assms(1,2) by (simp add: mint_row_iff)
  have other: "(b, slot_of (m_plan q), q) \<in> set (s_mints (saveMint r' s)) \<longleftrightarrow>
      (b, slot_of (m_plan q), q) \<in> set (s_mints s)" if "b \<noteq> a" for b q
    using that st by auto
  show "mint_row (saveMint r' s) b = (if b = a then Some r' else mint_row s b)"
  proof (cases "b = a")
    case True
    then show ?thesis using st assms(3) by (simp add: mint_row_iff [OF k])
  next
    case False
    then have "mint_row (saveMint r' s) b = Some q \<longleftrightarrow> mint_row s b = Some q" for q
      by (simp add: mint_row_iff k assms(1) other)
    then show ?thesis using False by (metis not_None_eq)
  qed
  show "slot_row (saveMint r' s) t = (if t = slot_of (m_plan r) then Some r' else slot_row s t)"
  proof (cases "t = slot_of (m_plan r)")
    case True
    then show ?thesis using st assms(3) a by (simp add: slot_row_iff [OF k])
  next
    case False
    then have "(b, t, q) \<in> set (s_mints (saveMint r' s)) \<longleftrightarrow> (b, t, q) \<in> set (s_mints s)" for b q
      using st by auto
    then have "slot_row (saveMint r' s) t = Some q \<longleftrightarrow> slot_row s t = Some q" for q
      by (simp add: slot_row_iff k assms(1))
    then show ?thesis using False by (metis not_None_eq)
  qed
qed

text \<open>What a step cannot take away from a row.\<close>

definition effect_ext :: "effect_record \<Rightarrow> effect_record \<Rightarrow> bool" where
  "effect_ext r r' \<longleftrightarrow> e_plan r' = e_plan r
     \<and> (e_state r = Closed \<longrightarrow> e_state r' = Closed)
     \<and> (e_repo_id r \<noteq> None \<longrightarrow> e_repo_id r' = e_repo_id r)
     \<and> (e_closure r \<noteq> None \<longrightarrow> e_closure r' = e_closure r)
     \<and> (e_token_observation r \<noteq> None \<longrightarrow> e_token_observation r' = e_token_observation r)
     \<and> (e_cleanup r \<noteq> None \<longrightarrow> e_cleanup r' = e_cleanup r)"

definition mint_ext :: "mint_record \<Rightarrow> mint_record \<Rightarrow> bool" where
  "mint_ext r r' \<longleftrightarrow> m_plan r' = m_plan r
     \<and> (m_observation r \<noteq> None \<longrightarrow> m_observation r' = m_observation r)
     \<and> (m_revoke_acknowledged r \<longrightarrow> m_revoke_acknowledged r')
     \<and> (m_cleanup_requested r \<longrightarrow> m_cleanup_requested r')
     \<and> (m_receipt r \<noteq> None \<longrightarrow> m_receipt r' = m_receipt r)
     \<and> (m_cleanup r \<noteq> None \<longrightarrow> m_cleanup r' = m_cleanup r)
     \<and> (m_refusal r \<noteq> None \<longrightarrow> m_refusal r' = m_refusal r)
     \<and> (m_state r = Mint_closed \<longrightarrow> m_state r' = Mint_closed \<and> m_git r' = m_git r)
     \<and> (case m_git r of None \<Rightarrow> True
        | Some g \<Rightarrow> (case m_git r' of None \<Rightarrow> False
          | Some g' \<Rightarrow> g_plan g' = g_plan g \<and> g_text g' = g_text g \<and> g_state g \<le> g_state g'
              \<and> (g_result g \<noteq> None \<longrightarrow> g_result g' = g_result g)))"

lemma effect_ext_refl [simp]: "effect_ext r r" by (simp add: effect_ext_def)

lemma mint_ext_refl [simp]: "mint_ext r r" by (simp add: mint_ext_def split: option.splits)

lemma effect_step_ext: "effect_step r r' \<Longrightarrow> wf_effect_record r \<Longrightarrow> effect_ext r r'"
  by (induction rule: effect_step.induct)
    (auto simp: effect_ext_def wf_effect_record_def intro!: closure_evidence.equality)

lemma mint_step_ext: "mint_step r r' \<Longrightarrow> wf_mint_record r \<Longrightarrow> mint_ext r r'"
  by (induction rule: mint_step.induct)
    (auto simp: mint_ext_def wf_mint_record_def split: option.splits)

lemma store_step_effects:
  assumes "store_step s s'" "ledger_ok s" "effect_row s a = Some r"
  shows "\<exists>r'. effect_row s' a = Some r' \<and> effect_ext r r'"
  using assms
proof (induction rule: store_step.induct)
  case (ss_effect s b q q')
  then show ?case
    using effect_step_ext [of q q'] effect_step_plan [of q q'] ledger_ok_effect [of s b q] keyed_effect [of s b q]
    by (cases "a = b") (auto simp: ledger_ok_def)
next
  case (ss_admit_effect s p)
  then show ?case by (auto simp: fresh_effect_def)
next
  case (ss_admit_mint s p s')
  then show ?case using insertMint_frame [of "fresh_mint p" s s'] by simp
qed (auto simp: effect_row_def)

lemma store_step_mints:
  assumes "store_step s s'" "ledger_ok s" "mint_row s a = Some r"
  shows "\<exists>r'. mint_row s' a = Some r' \<and> mint_ext r r'"
proof -
  have saved: "\<exists>r'. mint_row (saveMint q' s) a = Some r' \<and> mint_ext r r'"
    if "mint_row s b = Some q" "mint_step q q' \<or> q' = q" for b q q'
  proof -
    have "wf_mint_record q" "keyed s" using ledger_ok_mint [OF assms(2) that(1)] assms(2)
      by (simp_all add: ledger_ok_def)
    moreover have "m_plan q' = m_plan q" using that(2) mint_step_plan by auto
    ultimately show ?thesis
      using mint_row_saveMint(1) [of s b q q' a] that assms(3) mint_step_ext [of q q'] by auto
  qed
  show ?thesis using assms
  proof cases
    case (ss_admit_mint p)
    then show ?thesis using mint_row_insertMint [of "fresh_mint p" s s' a] assms(3)
      by (auto simp: fresh_mint_def)
  qed (use saved assms(3) in \<open>auto simp: mint_row_def\<close>)
qed


lemma keyed_insertMint:
  assumes "keyed s" "insertMint r s = Inr s'" "ledger_entries s < 256"
  shows "keyed s'"
  using assms by (fastforce simp: keyed_def insertMint_def Let_def ledger_entries_def list_ex_iff
      split: if_splits)

lemma store_step_keyed: "store_step s s' \<Longrightarrow> ledger_ok s \<Longrightarrow> keyed s'"
proof (induction rule: store_step.induct)
  case (ss_frame s x y)
  then show ?case by (simp add: ledger_ok_def keyed_def ledger_entries_def)
next
  case (ss_admit_effect s p)
  then have "keyed s" by (simp add: ledger_ok_def)
  moreover have "(b, q) \<in> set (s_effects s) \<Longrightarrow> b \<noteq> attempt_id p" for b q
    using ss_admit_effect(1) by (force simp: effect_row_def map_of_eq_None_iff)
  moreover have "length (filter (\<lambda>(b, _). b \<noteq> attempt_id p) (s_effects s)) + length (s_mints s) \<le> 255"
    using ss_admit_effect(2) length_filter_le [of "\<lambda>(b, _). b \<noteq> attempt_id p" "s_effects s"]
    unfolding ledger_entries_def by linarith
  ultimately show ?case using ss_admit_effect(2)
    by (auto simp: keyed_def saveEffect_def Let_def fresh_effect_def ledger_entries_def distinct_map
        intro: inj_on_subset)
next
  case (ss_admit_mint s p s')
  then show ?case by (auto simp: ledger_ok_def intro: keyed_insertMint)
qed (auto simp: ledger_ok_def effect_step_plan mint_step_plan intro!: keyed_saveEffect keyed_saveMint)

lemma store_step_slots:
  assumes "store_step s s'" "ledger_ok s" "slot_row s t = Some r"
  shows "\<exists>r'. slot_row s' t = Some r' \<and> mint_ext r r'"
proof -
  have k: "keyed s" "keyed s'" using assms store_step_keyed by (auto simp: ledger_ok_def)
  have r: "mint_row s (attempt_id (m_plan r)) = Some r" "slot_of (m_plan r) = t"
    using mint_row_of_slot_row [OF k(1) assms(3)] by simp_all
  from store_step_mints [OF assms(1,2) r(1)] obtain r'
    where r': "mint_row s' (attempt_id (m_plan r)) = Some r'" "mint_ext r r'" by blast
  have "m_plan r' = m_plan r" using r'(2) by (simp add: mint_ext_def)
  then show ?thesis using slot_row_of_mint_row [OF k(2) r'(1)] r(2) r'(2) by simp
qed

lemma ledger_ok_slot: "ledger_ok s \<Longrightarrow> slot_row s t = Some r \<Longrightarrow> wf_mint_record r"
  by (auto simp: ledger_ok_def dest!: slot_row_member)

lemma initial_closed_kept:
  assumes "store_step s s'" "ledger_ok s" "initial_closed_for p s"
  shows "initial_closed_for p s'"
proof -
  from assms(3) obtain r where r: "effect_row s (initial_attempt_id p) = Some r"
    and "e_state r = Closed" by (auto simp: initial_closed_for_def split: option.splits)
  moreover from store_step_effects [OF assms(1,2) r] obtain r'
    where "effect_row s' (initial_attempt_id p) = Some r'" "effect_ext r r'" by blast
  ultimately show ?thesis
    using assms(3) r by (auto simp: initial_closed_for_def effect_ext_def split: option.splits)
qed

lemma upload_closed_kept:
  assumes "store_step s s'" "ledger_ok s" "upload_closed_for p s"
  shows "upload_closed_for p s'"
proof -
  from assms(3) obtain r where r: "slot_row s (Slot (namespace p) (name p) (JStr ''upload'')) = Some r"
    and "m_state r = Mint_closed" "m_refusal r \<noteq> None"
    by (auto simp: upload_closed_for_def split: option.splits)
  moreover from store_step_slots [OF assms(1,2) r] obtain r'
    where "slot_row s' (Slot (namespace p) (name p) (JStr ''upload'')) = Some r'" "mint_ext r r'" by blast
  ultimately show ?thesis using assms(3) by (auto simp: upload_closed_for_def mint_ext_def)
qed


lemma store_step_ok:
  assumes step: "store_step s s'" and ok: "ledger_ok s"
  shows "ledger_ok s'"
proof -
  have k: "keyed s" "keyed s'" using store_step_keyed [OF step ok] ok by (simp_all add: ledger_ok_def)
  have effects: "wf_effect_record r" if "(a, r) \<in> set (s_effects s')" for a r
    using step that ok
  proof cases
    case (ss_effect b q q')
    then show ?thesis using that ok ledger_ok_effect [OF ok] effect_step_wf
      by (auto simp: saveEffect_def Let_def ledger_ok_def)
  next
    case (ss_admit_effect p)
    then show ?thesis using that ok
      by (auto simp: saveEffect_def Let_def ledger_ok_def fresh_effect_def wf_effect_record_def)
  next
    case (ss_admit_mint p)
    then show ?thesis using that ok insertMint_frame [of "fresh_mint p" s s'] by (auto simp: ledger_ok_def)
  qed (auto simp: ledger_ok_def)
  have follows: "git_follows_upload s' r" if "git_follows_upload s r" for r
    using that upload_closed_kept [OF step ok] by (auto simp: git_follows_upload_def split: option.splits)
  have initial: "initial_closed_for p s'" if "initial_closed_for p s" for p
    using initial_closed_kept [OF step ok that] .
  have old: "wf_mint_record r \<and> initial_closed_for (m_plan r) s' \<and> git_follows_upload s' r"
    if "(a, t, r) \<in> set (s_mints s)" for a t r
    using that ok initial follows by (auto simp: ledger_ok_def)
  have mints: "wf_mint_record r \<and> initial_closed_for (m_plan r) s' \<and> git_follows_upload s' r"
    if new: "(a, t, r) \<in> set (s_mints s')" for a t r
    using step
  proof cases
    case (ss_mint b q q')
    have q: "wf_mint_record q'" "m_plan q' = m_plan q" "initial_closed_for (m_plan q) s"
      using ss_mint(2,3) ledger_ok_mint [OF ok] mint_step_wf mint_step_plan by auto
    moreover have "git_follows_upload s' q'"
      using follows ss_mint(5) by (auto simp: git_follows_upload_def split: option.splits)
    moreover have "r = q' \<or> (a, t, r) \<in> set (s_mints s)"
      using new ss_mint(1) by (auto simp: saveMint_def Let_def)
    ultimately show ?thesis using old initial by auto
  next
    case (ss_mint_git b q q')
    have q: "wf_mint_record q'" "m_plan q' = m_plan q" "initial_closed_for (m_plan q) s"
      "git_follows_upload s q" "mint_ext q q'"
      using ss_mint_git(2,3) ledger_ok_mint [OF ok] mint_step_wf mint_step_plan mint_step_ext by auto
    moreover have "git_follows_upload s q'"
      using q(4,5) ss_mint_git(4) by (auto simp: git_follows_upload_def mint_ext_def split: option.splits)
    moreover have "r = q' \<or> (a, t, r) \<in> set (s_mints s)"
      using new ss_mint_git(1) by (auto simp: saveMint_def Let_def)
    ultimately show ?thesis using old initial follows by auto
  next
    case (ss_admit_mint p)
    have "wf_mint_record (fresh_mint p)" "git_follows_upload s' (fresh_mint p)"
      using ss_admit_mint by (simp_all add: fresh_mint_def wf_mint_record_def git_follows_upload_def)
    then show ?thesis using ss_admit_mint new old initial [OF ss_admit_mint(4)]
      by (auto simp: insertMint_def Let_def fresh_mint_def split: if_splits)
  qed (use new old in auto)
  show ?thesis using k effects mints by (fastforce simp: ledger_ok_def)
qed

end
