(* ===== verification/LedgerLaws.thy ===== *)
theory LedgerLaws imports LedgerSteps begin

section \<open>What the checkpoint object promises its clients\<close>

subsection \<open>Every call keeps the invariant and loses nothing\<close>

lemma exec_op_ok: "ledger_ok s \<Longrightarrow> ledger_ok (exec_op env p s)"
  using exec_op_step [of s env p] store_step_ok [of s "exec_op env p s"] by auto

lemma exec_op_effect:
  "ledger_ok s \<Longrightarrow> effect_row s a = Some r \<Longrightarrow>
     \<exists>r'. effect_row (exec_op env p s) a = Some r' \<and> effect_ext r r'"
  using exec_op_step [of s env p] store_step_effects [of s "exec_op env p s" a r] by auto

lemma exec_op_mint:
  "ledger_ok s \<Longrightarrow> mint_row s a = Some r \<Longrightarrow>
     \<exists>r'. mint_row (exec_op env p s) a = Some r' \<and> mint_ext r r'"
  using exec_op_step [of s env p] store_step_mints [of s "exec_op env p s" a r] by auto

lemma exec_op_slot:
  "ledger_ok s \<Longrightarrow> slot_row s t = Some r \<Longrightarrow>
     \<exists>r'. slot_row (exec_op env p s) t = Some r' \<and> mint_ext r r'"
  using exec_op_step [of s env p] store_step_slots [of s "exec_op env p s" t r] by auto

interpretation ledger: invariant "exec_op env" ledger_ok for env
  by unfold_locales (rule exec_op_ok)

lemma ledger_ok_empty: "ledger_ok empty_store"
  by (simp add: ledger_ok_def keyed_def empty_store_def ledger_entries_def)

lemma ledger_ok_run: "ledger_ok (run_ops (exec_op env) ps empty_store)"
  by (rule ledger.inv_run [OF ledger_ok_empty])

subsection \<open>Evidence\<close>

datatype evidence_key =
    Effect_plan_of string | Effect_repo_of string | Effect_closure_of string
  | Effect_token_of string | Effect_cleanup_of string
  | Mint_plan_of string | Mint_observation_of string | Mint_receipt_of string
  | Mint_cleanup_of string | Mint_refusal_of string
  | Git_plan_of string | Git_result_of string | Slot_plan_of slot

datatype evidence_value =
    V_plan initial_plan | V_repo string | V_closure closure_evidence
  | V_token "token_observation \<times> int" | V_revocation "revocation_inventory \<times> int"
  | V_mint_plan mint_plan | V_observation mint_observation | V_receipt string
  | V_mint_cleanup "mint_cleanup \<times> int" | V_refusal "mint_refusal \<times> int"
  | V_git_plan "git_plan \<times> json" | V_git_result git_result

fun evidence_at :: "store \<Rightarrow> evidence_key \<Rightarrow> evidence_value option" where
  "evidence_at s (Effect_plan_of a) = map_option (V_plan \<circ> e_plan) (effect_row s a)"
| "evidence_at s (Effect_repo_of a) = map_option V_repo (Option.bind (effect_row s a) e_repo_id)"
| "evidence_at s (Effect_closure_of a) = map_option V_closure (Option.bind (effect_row s a) e_closure)"
| "evidence_at s (Effect_token_of a) = map_option V_token (Option.bind (effect_row s a) e_token_observation)"
| "evidence_at s (Effect_cleanup_of a) = map_option V_revocation (Option.bind (effect_row s a) e_cleanup)"
| "evidence_at s (Mint_plan_of a) = map_option (V_mint_plan \<circ> m_plan) (mint_row s a)"
| "evidence_at s (Mint_observation_of a) = map_option V_observation (Option.bind (mint_row s a) m_observation)"
| "evidence_at s (Mint_receipt_of a) = map_option V_receipt (Option.bind (mint_row s a) m_receipt)"
| "evidence_at s (Mint_cleanup_of a) = map_option V_mint_cleanup (Option.bind (mint_row s a) m_cleanup)"
| "evidence_at s (Mint_refusal_of a) = map_option V_refusal (Option.bind (mint_row s a) m_refusal)"
| "evidence_at s (Git_plan_of a) =
     map_option (\<lambda>g. V_git_plan (g_plan g, g_text g)) (Option.bind (mint_row s a) m_git)"
| "evidence_at s (Git_result_of a) =
     map_option V_git_result (Option.bind (Option.bind (mint_row s a) m_git) g_result)"
| "evidence_at s (Slot_plan_of t) = map_option (V_mint_plan \<circ> m_plan) (slot_row s t)"

lemma evidence_kept:
  assumes ok: "ledger_ok s" and have_it: "evidence_at s k = Some v"
  shows "evidence_at (exec_op env p s) k = Some v"
proof -
  note rows = exec_op_effect [OF ok, of _ _ env p] exec_op_mint [OF ok, of _ _ env p]
    exec_op_slot [OF ok, of _ _ env p]
  show ?thesis
    using have_it
    by (cases k; auto simp: bind_eq_Some_conv dest!: rows simp: effect_ext_def mint_ext_def
        split: option.splits)
qed

interpretation ledger_evidence: evidence "exec_op env" ledger_ok evidence_at for env
  by unfold_locales (rule evidence_kept)

subsection \<open>Permits\<close>

datatype permit_key =
    Create_of string | Mint_of string | Mint_in slot | Git_of string
  | Native_take_of string | Transport_take_of string

text \<open>The permits a call hands out: \<open>started: true\<close>, or the one take of an admitted exchange.\<close>

definition started :: "'r claim outcome \<Rightarrow> 'r option" where
  "started r = (case r of Inl _ \<Rightarrow> None | Inr ((b, x), _) \<Rightarrow> if b then Some x else None)"

lemma started_iff:
  "started r = Some x \<longleftrightarrow> (\<exists>s'. r = Inr ((True, x), s'))"
  "Some x = started r \<longleftrightarrow> (\<exists>s'. r = Inr ((True, x), s'))"
  by (auto simp: started_def split: sum.splits if_splits)

definition permits :: "env \<Rightarrow> ckpt_op \<Rightarrow> store \<Rightarrow> permit_key list" where
  "permits env p s = (case p of
     Op_claimEffect now v rel \<Rightarrow> (case started (claimEffect env now v rel s) of
         None \<Rightarrow> [] | Some r \<Rightarrow> [Create_of (attempt_id (e_plan r))])
   | Op_claimMint now v rel \<Rightarrow> (case started (claimMint env now v rel s) of
         None \<Rightarrow> [] | Some r \<Rightarrow> [Mint_of (attempt_id (m_plan r)), Mint_in (slot_of (m_plan r))])
   | Op_claimGit now v \<Rightarrow> (case started (claimGit now v s) of
         None \<Rightarrow> [] | Some r \<Rightarrow> [Git_of (attempt_id (m_plan r))])
   | Op_takeGit now v transport \<Rightarrow> (if is_ok (takeGit now v transport s)
         then [(if transport then Transport_take_of else Native_take_of) (attempt_id (as_git_plan v))]
         else [])
   | _ \<Rightarrow> [])"

definition grants :: "env \<Rightarrow> permit_key \<Rightarrow> ckpt_op \<Rightarrow> store \<Rightarrow> bool" where
  "grants env k p s \<longleftrightarrow> k \<in> set (permits env p s)"

definition git_reached :: "git_state \<Rightarrow> string \<Rightarrow> store \<Rightarrow> bool" where
  "git_reached st a s = (case mint_row s a of None \<Rightarrow> False
     | Some r \<Rightarrow> (case m_git r of None \<Rightarrow> False | Some g \<Rightarrow> st \<le> g_state g))"

fun permit_spent :: "permit_key \<Rightarrow> store \<Rightarrow> bool" where
  "permit_spent (Create_of a) s = (effect_row s a \<noteq> None)"
| "permit_spent (Mint_of a) s = (mint_row s a \<noteq> None)"
| "permit_spent (Mint_in t) s = (slot_row s t \<noteq> None)"
| "permit_spent (Git_of a) s = git_reached Admitted a s"
| "permit_spent (Native_take_of a) s = git_reached Dispatching a s"
| "permit_spent (Transport_take_of a) s = git_reached Git_unknown a s"

lemma permit_permanent:
  assumes ok: "ledger_ok s" and spent: "permit_spent k s"
  shows "permit_spent k (exec_op env p s)"
proof -
  note rows = exec_op_effect [OF ok, of _ _ env p] exec_op_mint [OF ok, of _ _ env p]
    exec_op_slot [OF ok, of _ _ env p]
  show ?thesis
    using spent by (cases k; fastforce simp: git_reached_def mint_ext_def dest!: rows
        split: option.splits)
qed


lemma claimEffect_started:
  "claimEffect env now v rel s = Inr ((True, r), s') \<Longrightarrow>
     effect_row s (attempt_id (e_plan r)) = None \<and> s' = saveEffect r s"
  unfolding claimEffect_def bind_result_Inr_iff read_with_Inr_iff
  by (elim exE conjE) (auto simp: Let_def split: if_splits option.splits)

lemma claimMint_started:
  "claimMint env now v rel s = Inr ((True, r), s') \<Longrightarrow>
     mint_row s (attempt_id (m_plan r)) = None \<and> insertMint r s = Inr s'"
  unfolding claimMint_def bind_result_Inr_iff read_with_Inr_iff
  by (elim exE conjE) (auto simp: Let_def bind_result_Inr_iff split: if_splits option.splits)

lemma claimGit_started:
  "claimGit now v s = Inr ((True, r'), s') \<Longrightarrow>
     \<exists>r g. mint_row s (attempt_id (as_git_plan v)) = Some r \<and> m_git r = None
       \<and> r' = r\<lparr>m_git := Some g\<rparr> \<and> s' = saveMint r' s"
  unfolding claimGit_def bind_result_Inr_iff read_with_Inr_iff
  by (elim exE conjE) (auto simp: Let_def split: if_splits option.splits)

lemma takeGit_taken:
  "takeGit now v transport s = Inr (u, s') \<Longrightarrow>
     \<exists>r g. mint_row s (attempt_id (as_git_plan v)) = Some r \<and> m_git r = Some g
       \<and> g_state g = (if transport then Dispatching else Admitted)
       \<and> s' = saveMint (r\<lparr>m_git := Some (g\<lparr>g_state := if transport then Git_unknown else Dispatching\<rparr>)\<rparr>) s"
  unfolding takeGit_def bind_result_Inr_iff read_with_Inr_iff
  by (elim exE conjE) (auto simp: Let_def split: if_splits option.splits)

lemma slot_row_insertMint:
  "insertMint r s = Inr s' \<Longrightarrow> slot_row s (slot_of (m_plan r)) = None
     \<and> slot_row s' (slot_of (m_plan r)) = Some r"
  by (fastforce simp: insertMint_def Let_def slot_row_def list_ex_iff map_of_eq_None_iff split: if_splits)

lemma git_not_below [simp]:
  "\<not> Dispatching \<le> Admitted" "\<not> Git_unknown \<le> Dispatching" "\<not> Git_unknown \<le> Admitted"
  by (simp_all add: less_eq_git_state_def)

lemma permit_fresh:
  assumes ok: "ledger_ok s" and grant: "grants env k p s"
  shows "\<not> permit_spent k s \<and> permit_spent k (exec_op env p s)"
proof -
  have k: "keyed s" using ok by (simp add: ledger_ok_def)
  show ?thesis
  proof (cases p)
    case (Op_claimEffect now v rel)
    with grant obtain r s' where "claimEffect env now v rel s = Inr ((True, r), s')"
      "k = Create_of (attempt_id (e_plan r))"
      by (auto simp: grants_def permits_def started_iff split: option.splits)
    with claimEffect_started [OF this(1)] Op_claimEffect show ?thesis by simp
  next
    case (Op_claimMint now v rel)
    with grant obtain r s' where c: "claimMint env now v rel s = Inr ((True, r), s')"
      "k = Mint_of (attempt_id (m_plan r)) \<or> k = Mint_in (slot_of (m_plan r))"
      by (auto simp: grants_def permits_def started_iff split: option.splits)
    with claimMint_started [OF c(1)] slot_row_insertMint [of r s s'] mint_row_insertMint [of r s s']
      Op_claimMint show ?thesis by auto
  next
    case (Op_claimGit now v)
    with grant obtain r' s' where c: "claimGit now v s = Inr ((True, r'), s')"
      "k = Git_of (attempt_id (m_plan r'))"
      by (auto simp: grants_def permits_def started_iff split: option.splits)
    then obtain r g where r: "mint_row s (attempt_id (as_git_plan v)) = Some r" "m_git r = None"
      "r' = r\<lparr>m_git := Some g\<rparr>" "s' = saveMint r' s" using claimGit_started by blast
    moreover have "attempt_id (m_plan r) = attempt_id (as_git_plan v)" using keyed_mint [OF k r(1)] .
    ultimately show ?thesis using Op_claimGit c mint_row_saveMint(1) [OF k r(1), of r']
      by (simp add: git_reached_def)
  next
    case (Op_takeGit now v transport)
    with grant obtain u s' where c: "takeGit now v transport s = Inr (u, s')"
      "k = (if transport then Transport_take_of else Native_take_of) (attempt_id (as_git_plan v))"
      by (auto simp: grants_def permits_def is_ok_def split: if_splits sum.splits)
    then obtain r g where r: "mint_row s (attempt_id (as_git_plan v)) = Some r" "m_git r = Some g"
      "g_state g = (if transport then Dispatching else Admitted)"
      "s' = saveMint (r\<lparr>m_git := Some (g\<lparr>g_state := if transport then Git_unknown else Dispatching\<rparr>)\<rparr>) s"
      using takeGit_taken by blast
    then show ?thesis using Op_takeGit c
        mint_row_saveMint(1) [OF k r(1), of "r\<lparr>m_git := Some (g\<lparr>g_state := if transport then Git_unknown else Dispatching\<rparr>)\<rparr>"]
      by (auto simp: git_reached_def)
  qed (use grant in \<open>simp_all add: grants_def permits_def\<close>)
qed

interpretation permit: admission "exec_op env" ledger_ok "grants env" permit_spent for env
  by unfold_locales (use permit_fresh permit_permanent in blast)+

end
