(* ===== verification/Frames.thy ===== *)
theory Frames imports LedgerLaws begin

section \<open>Checkpoint frames\<close>

text \<open>
  The frame of the authority (\<open>begin\<close>, \<open>commit\<close>, \<open>raiseFloor\<close>, \<open>freeze\<close>, \<open>enrollAuthority\<close>,
  \<open>bootstrap\<close>) as a history: \<open>frame_le\<close> is what may change between two states of the row, and
  every call of the object moves along it. \<open>frame_ok\<close> is the invariant of the row.
\<close>

definition next_of :: "checkpoint \<Rightarrow> checkpoint \<Rightarrow> bool" where
  "next_of c d \<longleftrightarrow> authority d = authority c \<and> epoch d = epoch c \<and> sequence d = sequence c + 1"

definition frame_state_ok :: "env \<Rightarrow> ckpt_state \<Rightarrow> bool" where
  "frame_state_ok env st \<longleftrightarrow> 1 \<le> st_release_floor st
     \<and> authority (st_checkpoint st) = work_authority_id env
     \<and> 0 \<le> sequence (st_checkpoint st) \<and> sequence (st_checkpoint st) \<le> max_safe_integer
     \<and> (case st_pending st of None \<Rightarrow> True
        | Some p \<Rightarrow> p_previous p = st_checkpoint st \<and> next_of (p_previous p) (p_next p)
            \<and> sequence (p_next p) \<le> max_safe_integer)
     \<and> (case st_last st of None \<Rightarrow> sequence (st_checkpoint st) = 0
        | Some p \<Rightarrow> p_next p = st_checkpoint st \<and> next_of (p_previous p) (p_next p)
            \<and> tip (p_next p) \<noteq> tip (p_previous p))"

definition frame_ok :: "env \<Rightarrow> store \<Rightarrow> bool" where
  "frame_ok env s \<longleftrightarrow> (case s_state s of
     None \<Rightarrow> s_enrollment s = None \<and> s_effects s = [] \<and> s_mints s = []
   | Some st \<Rightarrow> frame_state_ok env st)"

text \<open>A commit of the pending permit, or a change that keeps checkpoint, history and permit.\<close>

definition frame_state_le :: "ckpt_state \<Rightarrow> ckpt_state \<Rightarrow> bool" where
  "frame_state_le a b \<longleftrightarrow> st_release_floor a \<le> st_release_floor b \<and> (st_frozen a \<longrightarrow> st_frozen b)
     \<and> (st_checkpoint b = st_checkpoint a \<and> st_last b = st_last a
          \<and> (st_pending a \<noteq> None \<longrightarrow> st_pending b = st_pending a)
        \<or> st_pending a = Some (the (st_last b)) \<and> st_last b \<noteq> None \<and> st_pending b = None
          \<and> st_checkpoint b = p_next (the (st_last b)) \<and> \<not> st_frozen a)"

definition frame_le :: "store \<Rightarrow> store \<Rightarrow> bool" where
  "frame_le s s' \<longleftrightarrow> (case s_state s of None \<Rightarrow> True
   | Some a \<Rightarrow> s_enrollment s' = s_enrollment s
       \<and> (case s_state s' of None \<Rightarrow> False | Some b \<Rightarrow> frame_state_le a b))"

lemma frame_state_le_refl [simp]: "frame_state_le a a" by (simp add: frame_state_le_def)

lemma frame_le_same: "s_state s' = s_state s \<Longrightarrow> s_enrollment s' = s_enrollment s \<Longrightarrow> frame_le s s'"
  by (simp add: frame_le_def split: option.splits)

lemma state_of_Inr: "state_of s = Inr st \<longleftrightarrow> s_state s = Some st"
  by (simp add: state_of_def split: option.splits)

lemma current_Inr: "current s release = Inr st \<longleftrightarrow>
    s_state s = Some st \<and> integer release \<and> st_release_floor st \<le> the_int release \<and> \<not> st_frozen st"
  by (cases "s_state s") (auto simp: current_def state_of_def)

subsection \<open>Ledger calls leave the frame alone\<close>

definition unframed :: "store \<Rightarrow> 'a outcome \<Rightarrow> bool" where
  "unframed s r \<longleftrightarrow> (case r of Inl _ \<Rightarrow> True
     | Inr (_, s') \<Rightarrow> s_state s' = s_state s \<and> s_enrollment s' = s_enrollment s
         \<and> (s_state s \<noteq> None \<or> s_effects s \<noteq> [] \<or> s_mints s \<noteq> []))"

lemma unframed_next:
  "unframed s r \<Longrightarrow> s_state (next_store r s) = s_state s \<and> s_enrollment (next_store r s) = s_enrollment s
     \<and> (s_state s = None \<and> s_effects s = [] \<and> s_mints s = [] \<longrightarrow> next_store r s = s)"
  by (auto simp: unframed_def next_store_def split: sum.splits)

lemma unframed_returning: "unframed s r \<Longrightarrow> unframed s (returning y r)"
  by (auto simp: unframed_def returning_def split: sum.splits)

lemma unframed_Inl [simp]: "unframed s (Inl e)" by (simp add: unframed_def)

lemma unframed_read: "(\<And>x. unframed s (f x)) \<Longrightarrow> unframed s (bind_result r f)"
  by (cases r) simp_all

lemma unframed_current:
  "(\<And>st. s_state s = Some st \<Longrightarrow> unframed s (f st)) \<Longrightarrow> unframed s (bind_result (current s release) f)"
  using current_Inr by (cases "current s release") (simp, metis bind_result_simps(2))

lemma unframed_with_effect: "unframed s (with_effect a s f)"
  by (auto simp: unframed_def with_effect_Inr_iff effect_row_def split: sum.splits)

lemma unframed_with_mint: "unframed s (with_mint e a s f)"
  by (auto simp: unframed_def with_mint_Inr_iff mint_row_def split: sum.splits)

lemma unframed_insertMint:
  "s_state s \<noteq> None \<Longrightarrow> unframed s (bind_result (insertMint r s) (\<lambda>s'. Inr (x, s')))"
proof (cases "insertMint r s")
  case (Inr s')
  then show "s_state s \<noteq> None \<Longrightarrow> ?thesis" using insertMint_frame [OF Inr] by (simp add: unframed_def)
qed simp

lemma unframed_saved:
  "s_state s \<noteq> None \<Longrightarrow> unframed s (Inr (x, s))"
  "s_state s \<noteq> None \<Longrightarrow> unframed s (Inr (x, saveEffect r s))"
  "s_state s \<noteq> None \<Longrightarrow> unframed s (Inr (y, saveMint q s))"
  by (simp_all add: unframed_def)

lemma unframed_if: "(b \<Longrightarrow> unframed s x) \<Longrightarrow> (\<not> b \<Longrightarrow> unframed s y) \<Longrightarrow> unframed s (if b then x else y)"
  by simp

lemma unframed_option:
  "(r = None \<Longrightarrow> unframed s x) \<Longrightarrow> (\<And>z. r = Some z \<Longrightarrow> unframed s (f z)) \<Longrightarrow>
     unframed s (case r of None \<Rightarrow> x | Some z \<Rightarrow> f z)"
  by (cases r) simp_all

lemmas unframed_branches = unframed_if unframed_option unframed_Inl unframed_saved unframed_insertMint

lemma unframed_claimEffect: "unframed s (claimEffect env now v rel s)"
  unfolding claimEffect_def Let_def
  by (rule unframed_read, rule unframed_current) (intro unframed_branches; simp)

lemma unframed_claimMint: "unframed s (claimMint env now v rel s)"
  unfolding claimMint_def Let_def
  by (rule unframed_read, rule unframed_current) (intro unframed_branches; simp)

lemma unframed_claimGit: "unframed s (claimGit now v s)"
  unfolding claimGit_def Let_def
  by (rule unframed_read, rule unframed_current) (intro unframed_branches; simp)

lemma unframed_takeGit: "unframed s (takeGit now v transport s)"
  unfolding takeGit_def Let_def
  by (rule unframed_read, rule unframed_current) (intro unframed_branches; simp)

lemmas unframed_claims = unframed_claimEffect unframed_claimMint unframed_claimGit unframed_takeGit

lemmas unframed_rules = unframed_read unframed_with_effect unframed_with_mint unframed_returning

lemma unframed_rows:
  "unframed s (observeEffect a d v s)"
  "unframed s (closeEffect a d v s)"
  "unframed s (observeEffectToken now a d v s)"
  "unframed s (recordRevocationInventory now a d v s)"
  "unframed s (observeMint a d v s)"
  "unframed s (custodyMint now a d s)"
  "unframed s (revokeMint a d safety s)"
  "unframed s (closeMint a d v s)"
  "unframed s (beginMintCleanup a d safety s)"
  "unframed s (recordMintCleanup now a d v s)"
  "unframed s (closeMintRefused now a d v s)"
  "unframed s (finishGit a v s)"
  unfolding observeEffect_def closeEffect_def observeEffectToken_def recordRevocationInventory_def
    observeMint_def custodyMint_def revokeMint_def closeMint_def beginMintCleanup_def
    recordMintCleanup_def closeMintRefused_def finishGit_def
  by (auto intro!: unframed_rules)

subsection \<open>Every call moves the frame forward\<close>

lemma pristine_Inr: "pristine s = Inr u \<longleftrightarrow>
    s_state s = None \<and> s_enrollment s = None \<and> s_effects s = [] \<and> s_mints s = []"
  by (auto simp: pristine_def)

lemma checkpoint_valid_seq:
  "checkpoint_valid v = Inr () \<Longrightarrow> 0 \<le> sequence (as_checkpoint v) \<and> sequence (as_checkpoint v) \<le> max_safe_integer"
  by (auto simp: checkpoint_valid_def as_checkpoint_def integer_iff)

lemma permit_valid_next:
  "permit_valid v = Inr () \<Longrightarrow> next_of (p_previous (as_permit v)) (p_next (as_permit v))
     \<and> tip (p_next (as_permit v)) \<noteq> tip (p_previous (as_permit v))
     \<and> sequence (p_next (as_permit v)) \<le> max_safe_integer"
  by (auto simp: permit_valid_def bind_result_Inr_iff as_permit_def as_checkpoint_def next_of_def
      checkpoint_valid_def integer_iff json_tests)

definition forward :: "env \<Rightarrow> store \<Rightarrow> 'a outcome \<Rightarrow> bool" where
  "forward env s r \<longleftrightarrow> frame_ok env (next_store r s) \<and> frame_le s (next_store r s)"

lemma forward_Inl: "frame_ok env s \<Longrightarrow> forward env s (Inl e)"
  by (simp add: forward_def frame_le_same)

lemma forward_unframed: "frame_ok env s \<Longrightarrow> unframed s r \<Longrightarrow> forward env s r"
  using unframed_next [of s r]
  by (auto simp: forward_def frame_le_same frame_ok_def split: option.splits)

lemma forwardI:
  assumes "frame_ok env s"
    and "\<And>x s'. r = Inr (x, s') \<Longrightarrow> frame_ok env s' \<and> frame_le s s'"
  shows "forward env s r"
  using assms by (cases r) (auto simp: forward_def forward_Inl frame_le_same)

lemma forward_save:
  "s_state s = Some st \<Longrightarrow> frame_state_ok env st' \<Longrightarrow> frame_state_le st st' \<Longrightarrow>
     frame_ok env (save s st') \<and> frame_le s (save s st')"
  by (simp add: frame_ok_def frame_le_def save_def)

lemma forward_first:
  "pristine s = Inr () \<Longrightarrow> frame_state_ok env st' \<Longrightarrow> frame_ok env (save s' st') \<and> frame_le s (save s' st')"
  by (simp add: pristine_Inr frame_ok_def frame_le_def)

lemma fresh_state_ok:
  "authority c = work_authority_id env \<Longrightarrow> sequence c = 0 \<Longrightarrow> 1 \<le> n \<Longrightarrow> frame_state_ok env (fresh_state c n)"
  by (simp add: frame_state_ok_def fresh_state_def max_safe_integer_def)

lemma enroll_forward: "frame_ok env s \<Longrightarrow> forward env s (enrollAuthority env v s)"
  by (rule forwardI)
    (auto simp: enrollAuthority_def bind_result_Inr_iff Let_def bootstrap_initial
      intro!: forward_first fresh_state_ok split: if_splits)

lemma bootstrap_forward: "frame_ok env s \<Longrightarrow> forward env s (bootstrap env v f s)"
  by (rule forwardI)
    (auto simp: bootstrap_def bind_result_Inr_iff intro!: forward_first fresh_state_ok split: if_splits)

lemma frame_ok_state: "frame_ok env s \<Longrightarrow> s_state s = Some st \<Longrightarrow> frame_state_ok env st"
  by (simp add: frame_ok_def)

lemma begin_forward: "frame_ok env s \<Longrightarrow> forward env s (begin_frame env rnd v w rel s)"
proof (rule forwardI, assumption)
  fix p s' assume ok: "frame_ok env s" and "begin_frame env rnd v w rel s = Inr (p, s')"
  then obtain st where st: "s_state s = Some st" and valid: "checkpoint_valid v = Inr ()"
    and "s' = s \<or> (st_pending st = None \<and> st_checkpoint st = as_checkpoint v
      \<and> sequence (as_checkpoint v) \<noteq> max_safe_integer \<and> p_previous p = as_checkpoint v
      \<and> p_next p = (as_checkpoint v)\<lparr>sequence := sequence (as_checkpoint v) + 1, tip := rnd\<rparr>
      \<and> s' = save s (st\<lparr>st_pending := Some p\<rparr>))"
    unfolding begin_frame_def bind_result_Inr_iff read_with_Inr_iff
    by (auto simp: bind_result_Inr_iff current_Inr Let_def split: if_splits option.splits)
  then show "frame_ok env s' \<and> frame_le s s'"
    using ok frame_ok_state [OF ok st] checkpoint_valid_seq [OF valid]
    by (auto simp: frame_state_ok_def frame_state_le_def next_of_def frame_le_same intro!: forward_save [OF st]
        split: option.splits)
qed

lemma commit_forward: "frame_ok env s \<Longrightarrow> forward env s (commit_frame v w rel s)"
proof (rule forwardI, assumption)
  fix c s' assume ok: "frame_ok env s" and "commit_frame v w rel s = Inr (c, s')"
  then obtain st where st: "s_state s = Some st" "\<not> st_frozen st" and valid: "permit_valid v = Inr ()"
    and "s' = s \<or> (st_pending st = Some (as_permit v) \<and> s' = save s (st\<lparr>st_checkpoint := p_next (as_permit v),
      st_last := Some (as_permit v), st_pending := None\<rparr>))"
    unfolding commit_frame_def bind_result_Inr_iff read_with_Inr_iff
    by (elim exE conjE) (auto simp: current_Inr split: if_splits option.splits)
  then show "frame_ok env s' \<and> frame_le s s'"
    using ok frame_ok_state [OF ok st(1)] permit_valid_next [OF valid]
    by (auto simp: frame_state_ok_def frame_state_le_def next_of_def frame_le_same intro!: forward_save [OF st(1)])
qed

lemma raiseFloor_forward: "frame_ok env s \<Longrightarrow> forward env s (raiseFloor v s)"
proof (rule forwardI, assumption)
  fix u s' assume ok: "frame_ok env s" and "raiseFloor v s = Inr (u, s')"
  then obtain st where st: "s_state s = Some st" and "1 \<le> the_int v" "st_release_floor st \<le> the_int v"
    and "s' = save s (st\<lparr>st_release_floor := the_int v\<rparr>)"
    by (auto simp: raiseFloor_def bind_result_Inr_iff state_of_Inr split: if_splits)
  then show "frame_ok env s' \<and> frame_le s s'" using frame_ok_state [OF ok st]
    by (auto simp: frame_state_ok_def frame_state_le_def intro!: forward_save [OF st] split: option.splits)
qed

lemma freeze_forward: "frame_ok env s \<Longrightarrow> forward env s (freeze s)"
proof (rule forwardI, assumption)
  fix u s' assume ok: "frame_ok env s" and "freeze s = Inr (u, s')"
  then obtain st where st: "s_state s = Some st" and "s' = save s (st\<lparr>st_frozen := True\<rparr>)"
    by (auto simp: freeze_def bind_result_Inr_iff state_of_Inr)
  then show "frame_ok env s' \<and> frame_le s s'" using frame_ok_state [OF ok st]
    by (auto simp: frame_state_ok_def frame_state_le_def intro!: forward_save [OF st] split: option.splits)
qed

lemma exec_op_frame:
  assumes ok: "frame_ok env s"
  shows "frame_ok env (exec_op env p s) \<and> frame_le s (exec_op env p s)"
  by (cases p; simp; fold forward_def; intro enroll_forward bootstrap_forward begin_forward
      commit_forward raiseFloor_forward freeze_forward forward_unframed unframed_claims unframed_rows ok)


interpretation frame: invariant "exec_op env" "frame_ok env" for env
  by unfold_locales (simp add: exec_op_frame)

text \<open>
  The order of frames over any number of calls: the sequence and the floor never go back, one
  sequence number names one checkpoint, a frozen object stays frozen and the enrollment stays.
\<close>

definition frame_order :: "store \<Rightarrow> store \<Rightarrow> bool" where
  "frame_order s s' \<longleftrightarrow> (case s_state s of None \<Rightarrow> True
   | Some a \<Rightarrow> s_enrollment s' = s_enrollment s \<and> (case s_state s' of None \<Rightarrow> False
     | Some b \<Rightarrow> st_release_floor a \<le> st_release_floor b \<and> (st_frozen a \<longrightarrow> st_frozen b \<and> st_checkpoint b = st_checkpoint a)
         \<and> sequence (st_checkpoint a) \<le> sequence (st_checkpoint b)
         \<and> epoch (st_checkpoint b) = epoch (st_checkpoint a)
         \<and> (sequence (st_checkpoint b) = sequence (st_checkpoint a) \<longrightarrow> st_checkpoint b = st_checkpoint a)))"

lemma frame_le_order: "frame_ok env s \<Longrightarrow> frame_le s s' \<Longrightarrow> frame_order s s'"
  by (auto simp: frame_order_def frame_le_def frame_state_le_def frame_ok_def frame_state_ok_def next_of_def
      split: option.splits)

interpretation frame_history: progress "exec_op env" "frame_ok env" frame_order for env
proof unfold_locales
  show "frame_order s s" for s by (simp add: frame_order_def split: option.splits)
  show "frame_order s u" if "frame_order s t" "frame_order t u" for s t u
    using that by (auto simp: frame_order_def split: option.splits)
  show "frame_order s (exec_op env p s)" if "frame_ok env s" for env p s
    by (rule frame_le_order [OF that conjunct2 [OF exec_op_frame [OF that]]])
qed

lemma frame_ok_empty: "frame_ok env empty_store"
  by (simp add: frame_ok_def empty_store_def)

subsection \<open>Retries\<close>

lemma begin_frame_retry:
  assumes "begin_frame env rnd v w rel s = Inr (p, s')"
  shows "begin_frame env rnd' v w rel s' = Inr (p, s')"
proof -
  from assms obtain st where g: "checkpoint_valid v = Inr ()" "resource w" "current s rel = Inr st"
    and c: "(st_pending st = Some p \<and> p_operation p = the_str w \<and> p_previous p = as_checkpoint v \<and> s' = s)
      \<or> (p_operation p = the_str w \<and> p_previous p = as_checkpoint v \<and> s' = save s (st\<lparr>st_pending := Some p\<rparr>))"
    unfolding begin_frame_def bind_result_Inr_iff read_with_Inr_iff
    by (auto simp: bind_result_Inr_iff Let_def split: if_splits option.splits)
  from c g(3) obtain st' where "current s' rel = Inr st'" "st_pending st' = Some p"
    by (auto simp: current_Inr save_def)
  then show ?thesis using g c by (auto simp: begin_frame_def read_with_def)
qed

lemma commit_frame_retry:
  assumes "commit_frame v w rel s = Inr (c, s')"
  shows "commit_frame v w rel s' = Inr (c, s')"
proof -
  let ?p = "as_permit v"
  from assms obtain st where g: "permit_valid v = Inr ()" "checkpoint_valid w = Inr ()"
      "as_checkpoint w = p_next ?p" "current s rel = Inr st"
    and c: "(st_pending st = None \<and> st_last st = Some ?p \<and> st_checkpoint st = p_next ?p \<and> c = p_next ?p \<and> s' = s)
      \<or> (c = p_next ?p \<and> s' = save s (st\<lparr>st_checkpoint := p_next ?p, st_last := Some ?p, st_pending := None\<rparr>))"
    unfolding commit_frame_def bind_result_Inr_iff read_with_Inr_iff
    by (elim exE conjE) (auto simp: bind_result_Inr_iff split: if_splits option.splits)
  from c g(4) obtain st' where "current s' rel = Inr st'" "st_pending st' = None"
      "st_last st' = Some ?p" "st_checkpoint st' = p_next ?p"
    by (auto simp: current_Inr save_def)
  then show ?thesis using g c by (auto simp: commit_frame_def read_with_def)
qed

subsection \<open>Begin, then commit\<close>

definition permit_json :: "permit \<Rightarrow> json" where
  "permit_json p = JObj [(''operation'', JStr (p_operation p)),
     (''previous'', checkpoint_json (p_previous p)), (''next'', checkpoint_json (p_next p))]"

lemma as_permit_json [simp]: "as_permit (permit_json p) = p"
  by (simp add: as_permit_def permit_json_def)

lemma checkpoint_valid_json: "checkpoint_valid (checkpoint_json c) = Inr () \<longleftrightarrow> wf_checkpoint c"
proof -
  have "closed (checkpoint_json c) [''authority'', ''epoch'', ''sequence'', ''tip'']"
    by (auto simp: checkpoint_json_def intro!: closed_map)
  then show ?thesis
    by (auto simp: checkpoint_valid_def checkpoint_json_def wf_checkpoint_def json_tests wf_text)
qed

lemma checkpoint_valid_wf: "checkpoint_valid v = Inr () \<Longrightarrow> wf_checkpoint (as_checkpoint v)"
  by (auto simp: checkpoint_valid_def as_checkpoint_def wf_checkpoint_def json_tests wf_text)

lemma permit_valid_json:
  "permit_valid (permit_json p) = Inr () \<longleftrightarrow> resource_id (p_operation p) \<and> wf_checkpoint (p_previous p)
     \<and> wf_checkpoint (p_next p) \<and> next_of (p_previous p) (p_next p) \<and> tip (p_next p) \<noteq> tip (p_previous p)"
proof -
  have "closed (permit_json p) [''operation'', ''previous'', ''next'']"
    by (auto simp: permit_json_def intro!: closed_map)
  then show ?thesis
    by (auto simp: permit_valid_def bind_result_Inr_iff permit_json_def checkpoint_valid_json next_of_def
        resource_def str_test_iff resource_id_def) (auto simp: checkpoint_json_def)
qed

lemma begin_then_commit:
  assumes b: "begin_frame env rnd v w rel s = Inr (p, s')" and rnd: "hex64 rnd" "rnd \<noteq> tip (as_checkpoint v)"
    and fresh: "\<And>st. s_state s = Some st \<Longrightarrow> st_pending st = None"
  shows "\<exists>s''. commit_frame (permit_json p) (checkpoint_json (p_next p)) rel s' = Inr (p_next p, s'')"
proof -
  from b obtain st where g: "checkpoint_valid v = Inr ()" "resource w" "current s rel = Inr st"
    and n: "sequence (as_checkpoint v) \<noteq> max_safe_integer"
    and p: "p = \<lparr>p_operation = the_str w, p_previous = as_checkpoint v,
        p_next = (as_checkpoint v)\<lparr>sequence := sequence (as_checkpoint v) + 1, tip := rnd\<rparr>\<rparr>"
    and s': "s' = save s (st\<lparr>st_pending := Some p\<rparr>)"
    using fresh unfolding begin_frame_def bind_result_Inr_iff read_with_Inr_iff
    by (elim exE conjE) (auto simp: bind_result_Inr_iff current_Inr Let_def split: if_splits option.splits)
  have wf: "wf_checkpoint (p_previous p)" "wf_checkpoint (p_next p)"
    using checkpoint_valid_wf [OF g(1)] rnd n p by (auto simp: wf_checkpoint_def safe_def)
  have "permit_valid (permit_json p) = Inr ()" "checkpoint_valid (checkpoint_json (p_next p)) = Inr ()"
    using wf p rnd(2) g(2)
    by (auto simp: permit_valid_json checkpoint_valid_json next_of_def resource_def str_test_iff resource_id_def)
  moreover have "current s' rel = Inr (st\<lparr>st_pending := Some p\<rparr>)"
    using g(3) s' by (auto simp: current_Inr)
  ultimately show ?thesis by (simp add: commit_frame_def read_with_def)
qed


subsection \<open>Freezing stops admission and framing, not cleanup\<close>

lemma current_frozen: "s_state s = Some st \<Longrightarrow> st_frozen st \<Longrightarrow> \<exists>e. current s release = Inl e"
  by (simp add: current_def state_of_def)

lemma bind_stopped: "(\<And>x. \<not> is_ok (f x)) \<Longrightarrow> \<not> is_ok (bind_result r f)"
  by (cases r) simp_all

definition answer :: "'a outcome \<Rightarrow> err + 'a" where
  "answer r = (case r of Inl e \<Rightarrow> Inl e | Inr (x, _) \<Rightarrow> Inr x)"

definition same_rows :: "store \<Rightarrow> store \<Rightarrow> bool" where
  "same_rows s s' \<longleftrightarrow> s_effects s' = s_effects s \<and> s_mints s' = s_mints s"

lemma same_rows_lookup:
  "same_rows s s' \<Longrightarrow> effect_row s' = effect_row s \<and> mint_row s' = mint_row s \<and> slot_row s' = slot_row s"
  by (simp add: same_rows_def effect_row_def mint_row_def slot_row_def fun_eq_iff)

lemma answer_with_effect: "same_rows s s' \<Longrightarrow> answer (with_effect a s' f) = answer (with_effect a s f)"
  using same_rows_lookup [of s s']
  by (auto simp: with_effect_def effect_def answer_def bind_result_def split: sum.splits option.splits)

lemma answer_with_mint: "same_rows s s' \<Longrightarrow> answer (with_mint e a s' f) = answer (with_mint e a s f)"
  using same_rows_lookup [of s s']
  by (auto simp: with_mint_def mint_def answer_def bind_result_def split: sum.splits option.splits)

lemma answer_bind: "(\<And>x. answer (f x) = answer (g x)) \<Longrightarrow> answer (bind_result r f) = answer (bind_result r g)"
  by (cases r) (simp_all add: answer_def)

lemma answer_returning:
  "answer q = answer r \<Longrightarrow> answer (returning y q) = answer (returning y r)"
  by (auto simp: answer_def returning_def split: sum.splits prod.splits)

lemmas answer_rules = answer_bind answer_with_effect answer_with_mint answer_returning

end
