(* ===== verification/PermitSpec.thy ===== *)
theory PermitSpec imports Frames begin

section \<open>The object as a set of spent permits\<close>

text \<open>
  The abstract specification of the checkpoint object: a set of spent permits. A call hands out
  the permits \<open>permits env p s\<close>, all of them unspent, and spends exactly these. \<open>spent\<close> is the
  abstraction of the store, and \<open>spend\<close> the abstract operation.
\<close>

definition spent :: "store \<Rightarrow> permit_key set" where
  "spent s = {k. permit_spent k s}"

definition spend :: "permit_key list \<Rightarrow> permit_key set \<Rightarrow> permit_key set" where
  "spend ks m = set ks \<union> m"

definition keeps_spent :: "store \<Rightarrow> store \<Rightarrow> bool" where
  "keeps_spent s s' \<longleftrightarrow> (\<forall>k. permit_spent k s' \<longrightarrow> permit_spent k s)"

lemma keepsD: "keeps_spent s s' \<Longrightarrow> permit_spent k s' \<Longrightarrow> permit_spent k s"
  by (simp add: keeps_spent_def)

lemma keeps_refl: "keeps_spent s s" by (simp add: keeps_spent_def)

lemma keeps_next: "(\<And>x s'. r = Inr (x, s') \<Longrightarrow> keeps_spent s s') \<Longrightarrow> keeps_spent s (next_store r s)"
  by (cases r) (auto simp: keeps_refl)

lemma keeps_same_rows:
  "s_effects s' = s_effects s \<Longrightarrow> s_mints s' = s_mints s \<Longrightarrow> keeps_spent s s'"
  unfolding keeps_spent_def
proof
  fix k assume "s_effects s' = s_effects s" "s_mints s' = s_mints s"
  then show "permit_spent k s' \<longrightarrow> permit_spent k s"
    by (cases k) (simp_all add: effect_row_def mint_row_def slot_row_def git_reached_def)
qed

lemma keeps_saveEffect:
  assumes "effect_row s a = Some r" "attempt_id (e_plan r') = a"
  shows "keeps_spent s (saveEffect r' s)"
  unfolding keeps_spent_def
proof
  fix k show "permit_spent k (saveEffect r' s) \<longrightarrow> permit_spent k s"
    using assms by (cases k) (auto simp: git_reached_def)
qed

definition git_progress :: "mint_record \<Rightarrow> nat" where
  "git_progress r = (case m_git r of None \<Rightarrow> 0 | Some g \<Rightarrow> Suc (min (git_rank (g_state g)) 2))"

lemma git_progress_reached:
  "st \<noteq> Completed \<Longrightarrow>
     (case m_git r of None \<Rightarrow> False | Some g \<Rightarrow> st \<le> g_state g) \<longleftrightarrow> git_rank st < git_progress r"
  by (cases st) (auto simp: git_progress_def less_eq_git_state_def split: option.splits)

lemma keeps_saveMint:
  assumes k: "keyed s" and row: "mint_row s a = Some r" and same: "m_plan r' = m_plan r"
    "git_progress r' = git_progress r"
  shows "keeps_spent s (saveMint r' s)"
  unfolding keeps_spent_def
proof
  note rows = mint_row_saveMint [OF k row same(1)] slot_row_of_mint_row [OF k row]
  fix k' show "permit_spent k' (saveMint r' s) \<longrightarrow> permit_spent k' s"
    using row rows same(2) by (cases k') (auto simp: git_reached_def git_progress_reached)
qed

lemma keeps_with_effect:
  assumes k: "keyed s" and f: "\<And>r r'. f r = Inr r' \<Longrightarrow> e_plan r' = e_plan r"
    and w: "with_effect attempt s f = Inr (x, s')"
  shows "keeps_spent s s'"
  using w f by (auto simp: with_effect_Inr_iff intro!: keeps_saveEffect dest: keyed_effect [OF k])

lemma keeps_with_mint:
  assumes k: "keyed s"
    and f: "\<And>r r'. f r = Inr r' \<Longrightarrow> m_plan r' = m_plan r \<and> git_progress r' = git_progress r"
    and w: "with_mint e attempt s f = Inr (x, s')"
  shows "keeps_spent s s'"
  using w by (auto simp: with_mint_Inr_iff dest!: f intro: keeps_saveMint [OF k])

lemma keeps_effect_calls:
  assumes k: "keyed s"
  shows "keeps_spent s (next_store (observeEffect a d v s) s)"
    and "keeps_spent s (next_store (closeEffect a d v s) s)"
    and "keeps_spent s (next_store (observeEffectToken now a d v s) s)"
    and "keeps_spent s (next_store (recordRevocationInventory now a d v s) s)"
  by (rule keeps_next; auto simp: observeEffect_def closeEffect_def observeEffectToken_def
      recordRevocationInventory_def bind_result_Inr_iff split: if_splits option.splits
      elim!: keeps_with_effect [OF k, rotated])+

lemma keeps_mint_calls:
  assumes k: "keyed s"
  shows "keeps_spent s (next_store (observeMint a d v s) s)"
    and "keeps_spent s (next_store (custodyMint now a d s) s)"
    and "keeps_spent s (next_store (revokeMint a d safety s) s)"
    and "keeps_spent s (next_store (closeMint a d v s) s)"
    and "keeps_spent s (next_store (beginMintCleanup a d productive s) s)"
    and "keeps_spent s (next_store (recordMintCleanup now a d v s) s)"
    and "keeps_spent s (next_store (closeMintRefused now a d v s) s)"
    and "keeps_spent s (next_store (finishGit a v s) s)"
  by (rule keeps_next; auto simp: observeMint_def custodyMint_def revokeMint_def closeMint_def
      beginMintCleanup_def recordMintCleanup_def closeMintRefused_def finishGit_def
      bind_result_Inr_iff git_progress_def split: if_splits option.splits
      elim!: keeps_with_mint [OF k, rotated])+


lemma keeps_frame_calls:
  "keeps_spent s (next_store (enrollAuthority env v s) s)"
  "keeps_spent s (next_store (bootstrap env v f s) s)"
  "keeps_spent s (next_store (begin_frame env rnd v w rel s) s)"
  "keeps_spent s (next_store (commit_frame v w rel s) s)"
  "keeps_spent s (next_store (raiseFloor v s) s)"
  "keeps_spent s (next_store (freeze s) s)"
  by (rule keeps_next, rule keeps_same_rows; drule framing_rows; simp)+

subsection \<open>The calls that hand out permits\<close>

lemma repeated_claimEffect: "claimEffect env now v rel s = Inr ((False, r), s') \<Longrightarrow> s' = s"
  unfolding claimEffect_def bind_result_Inr_iff read_with_Inr_iff
  by (elim exE conjE) (simp add: Let_def split: if_split_asm option.split_asm)

lemma repeated_claimMint: "claimMint env now v rel s = Inr ((False, q), s') \<Longrightarrow> s' = s"
  unfolding claimMint_def bind_result_Inr_iff read_with_Inr_iff
  by (elim exE conjE) (auto simp: Let_def bind_result_Inr_iff split: if_split_asm option.split_asm)

lemma repeated_claimGit: "claimGit now v s = Inr ((False, q), s') \<Longrightarrow> s' = s"
  unfolding claimGit_def bind_result_Inr_iff read_with_Inr_iff
  by (elim exE conjE) (auto simp: Let_def split: if_split_asm option.split_asm)

lemma claimMint_fresh:
  "claimMint env now v rel s = Inr ((True, r), s') \<Longrightarrow> m_git r = None"
  unfolding claimMint_def bind_result_Inr_iff read_with_Inr_iff
  by (elim exE conjE) (auto simp: Let_def bind_result_Inr_iff split: if_split_asm option.split_asm)

lemma git_progress_ends:
  "m_git r = None \<Longrightarrow> git_progress r = 0"
  "g_state g = Admitted \<Longrightarrow> git_progress (r\<lparr>m_git := Some g\<rparr>) = 1"
  by (simp_all add: git_progress_def)

lemma claimGit_saved:
  "claimGit now v s = Inr ((True, r), s') \<Longrightarrow>
     \<exists>q. mint_row s (attempt_id (as_git_plan v)) = Some q \<and> m_plan r = m_plan q \<and> s' = saveMint r s
       \<and> git_progress q = 0 \<and> git_progress r = 1"
  unfolding claimGit_def bind_result_Inr_iff read_with_Inr_iff
  by (elim exE conjE) (auto simp: Let_def git_progress_ends split: if_split_asm option.split_asm)

lemma keeps_claimEffect:
  assumes c: "claimEffect env now v rel s = Inr ((b, r), s')" and k: "permit_spent k s'"
  shows "permit_spent k s \<or> b \<and> k = Create_of (attempt_id (e_plan r))"
proof (cases b)
  case True
  with c have "claimEffect env now v rel s = Inr ((True, r), s')" by simp
  from claimEffect_started [OF this] have "s' = saveEffect r s" by simp
  with k have "permit_spent k (saveEffect r s)" by simp
  then show ?thesis using True by (cases k) (simp_all add: git_reached_def split: if_splits)
next
  case False
  with c k repeated_claimEffect [of env now v rel s r s'] show ?thesis by simp
qed

lemma insertMint_rows:
  "insertMint r s = Inr s' \<Longrightarrow> effect_row s' = effect_row s
     \<and> mint_row s' b = (if b = attempt_id (m_plan r) then Some r else mint_row s b)
     \<and> slot_row s' t = (if t = slot_of (m_plan r) then Some r else slot_row s t)"
  by (auto simp: insertMint_def Let_def effect_row_def mint_row_def slot_row_def split: if_splits)

lemma keeps_claimMint:
  assumes c: "claimMint env now v rel s = Inr ((b, r), s')" and k: "permit_spent k s'"
  shows "permit_spent k s \<or> b \<and> k \<in> {Mint_of (attempt_id (m_plan r)), Mint_in (slot_of (m_plan r))}"
proof (cases b)
  case True
  with c have c': "claimMint env now v rel s = Inr ((True, r), s')" by simp
  have "insertMint r s = Inr s'" "m_git r = None"
    using claimMint_started [OF c'] claimMint_fresh [OF c'] by simp_all
  then show ?thesis using k True insertMint_rows [of r s s']
    by (cases k) (simp_all add: git_reached_def split: if_splits)
next
  case False
  with c k repeated_claimMint [of env now v rel s r s'] show ?thesis by simp
qed

lemma keeps_saved_git:
  assumes k: "keyed s" and row: "mint_row s a = Some r" and same: "m_plan r' = m_plan r"
    and up: "git_progress r' = Suc (git_progress r)" and new: "permit_spent key (saveMint r' s)"
  shows "permit_spent key s \<or> key = [Git_of a, Native_take_of a, Transport_take_of a] ! git_progress r"
proof -
  note rows = mint_row_saveMint [OF k row same] slot_row_of_mint_row [OF k row]
  have g: "git_progress r \<in> {0, 1, 2}" using up by (auto simp: git_progress_def split: option.splits)
  show ?thesis using new row rows up g
    by (cases key) (auto simp: git_reached_def git_progress_reached split: if_splits)
qed

lemma keeps_claimGit:
  assumes ok: "ledger_ok s" and c: "claimGit now v s = Inr ((b, r), s')" and k: "permit_spent k s'"
  shows "permit_spent k s \<or> b \<and> k = Git_of (attempt_id (m_plan r))"
proof (cases b)
  case True
  with c have "claimGit now v s = Inr ((True, r), s')" by simp
  from claimGit_saved [OF this] obtain q where q: "mint_row s (attempt_id (as_git_plan v)) = Some q"
    "m_plan r = m_plan q" "s' = saveMint r s" "git_progress q = 0" "git_progress r = 1" by blast
  have ky: "keyed s" using ok by (simp add: ledger_ok_def)
  show ?thesis using keeps_saved_git [OF ky q(1,2)] q k True keyed_mint [OF ky q(1)] by auto
next
  case False
  with c k repeated_claimGit [of now v s r s'] show ?thesis by simp
qed

lemma keeps_takeGit:
  assumes ok: "ledger_ok s" and c: "takeGit now v transport s = Inr (u, s')" and k: "permit_spent k s'"
  shows "permit_spent k s
    \<or> k = (if transport then Transport_take_of else Native_take_of) (attempt_id (as_git_plan v))"
proof -
  from takeGit_taken [OF c] obtain q g where q: "mint_row s (attempt_id (as_git_plan v)) = Some q"
    "m_git q = Some g" "g_state g = (if transport then Dispatching else Admitted)"
    "s' = saveMint (q\<lparr>m_git := Some (g\<lparr>g_state := if transport then Git_unknown else Dispatching\<rparr>)\<rparr>) s"
    by blast
  have ky: "keyed s" using ok by (simp add: ledger_ok_def)
  let ?q = "q\<lparr>m_git := Some (g\<lparr>g_state := if transport then Git_unknown else Dispatching\<rparr>)\<rparr>"
  have "git_progress q = (if transport then 2 else 1)" "git_progress ?q = Suc (git_progress q)"
    using q(2,3) by (simp_all add: git_progress_def)
  then show ?thesis using keeps_saved_git [OF ky q(1), of ?q k] q(4) k by (auto split: if_splits)
qed

lemma next_store_cases:
  "permit_spent k (next_store r s) \<Longrightarrow> permit_spent k s \<or> (\<exists>x s'. r = Inr (x, s') \<and> permit_spent k s')"
  by (cases r) auto

lemma permits_of_claim:
  "claimEffect env now v rel s = Inr ((b, r), s') \<Longrightarrow>
     set (permits env (Op_claimEffect now v rel) s) = (if b then {Create_of (attempt_id (e_plan r))} else {})"
  "claimMint env now v rel s = Inr ((b, q), s') \<Longrightarrow>
     set (permits env (Op_claimMint now v rel) s)
       = (if b then {Mint_of (attempt_id (m_plan q)), Mint_in (slot_of (m_plan q))} else {})"
  "claimGit now v s = Inr ((b, q), s') \<Longrightarrow>
     set (permits env (Op_claimGit now v) s) = (if b then {Git_of (attempt_id (m_plan q))} else {})"
  by (auto simp: permits_def started_def)

lemma exec_op_spent:
  assumes ok: "ledger_ok s" and k: "permit_spent k (exec_op env p s)"
  shows "permit_spent k s \<or> k \<in> set (permits env p s)"
proof -
  have ky: "keyed s" using ok by (simp add: ledger_ok_def)
  note plain = keeps_effect_calls [OF ky] keeps_mint_calls [OF ky] keeps_frame_calls
  show ?thesis
  proof (cases p)
    case (Op_claimEffect now v rel)
    with k have "permit_spent k (next_store (claimEffect env now v rel s) s)" by simp
    from next_store_cases [OF this] show ?thesis unfolding Op_claimEffect
      using keeps_claimEffect permits_of_claim(1) by (metis empty_iff insertI1 surj_pair)
  next
    case (Op_claimMint now v rel)
    with k have "permit_spent k (next_store (claimMint env now v rel s) s)" by simp
    from next_store_cases [OF this] show ?thesis unfolding Op_claimMint
      using keeps_claimMint [of env now v rel s] permits_of_claim(2) [of env now v rel s] by fastforce
  next
    case (Op_claimGit now v)
    with k have "permit_spent k (next_store (claimGit now v s) s)" by simp
    from next_store_cases [OF this] show ?thesis unfolding Op_claimGit
      using keeps_claimGit [OF ok, of now v] permits_of_claim(3) [of now v s _ _ _ env] by fastforce
  next
    case (Op_takeGit now v transport)
    have "permit_spent k s \<or> (is_ok (takeGit now v transport s)
        \<and> k = (if transport then Transport_take_of else Native_take_of) (attempt_id (as_git_plan v)))"
    proof (cases "takeGit now v transport s")
      case (Inr x)
      with k Op_takeGit keeps_takeGit [OF ok, of now v transport "fst x" "snd x" k] show ?thesis
        by (cases x) simp
    qed (use k Op_takeGit in simp)
    then show ?thesis using Op_takeGit by (auto simp: permits_def)
  qed (rule disjI1, rule keepsD [OF _ k], simp add: plain)+
qed

subsection \<open>The refinement\<close>

lemma spent_refines:
  assumes ok: "ledger_ok s"
  shows "spent (exec_op env p s) = spend (permits env p s) (spent s) \<and> set (permits env p s) \<inter> spent s = {}"
proof -
  have "permit_spent k (exec_op env p s) \<longleftrightarrow> k \<in> set (permits env p s) \<or> permit_spent k s" for k
    using exec_op_spent [OF ok] permit_fresh [OF ok] permit_permanent [OF ok] by (auto simp: grants_def)
  moreover have "\<not> permit_spent k s" if "k \<in> set (permits env p s)" for k
    using permit_fresh [OF ok, of env k p] that by (simp add: grants_def)
  ultimately show ?thesis by (auto simp: spent_def spend_def)
qed

end
