(* ===== verification/Program.thy ===== *)
theory Program imports Frames begin

section \<open>Handlers as programs\<close>

text \<open>
  A handler of a worker is an \<open>async\<close> function: it computes, and at each \<open>await\<close> it makes one call
  and continues with what the call gives back. \<open>task\<close> is that tree, over the calls and answers of one
  worker; \<open>'a prog\<close> is a task of the effect worker. \<open>Do q k\<close> makes the
  call \<open>q\<close> and goes on with \<open>k\<close> of the answer; \<open>Ret x\<close> has returned, \<open>Exc e\<close> has thrown.
  The answer is whatever the environment decides: the reply, or \<open>A_failed\<close> when the promise
  rejects (which says nothing on whether the call took effect). A handler that is killed
  between two calls is a run whose answers end early.
\<close>

subsection \<open>Calls and answers\<close>

text \<open>\<open>ledger_call\<close>: the methods of the checkpoint object the workers reach over RPC.\<close>

datatype ledger_call =
    L_lookupEffect json
  | L_lookupMint json
  | L_claimEffect json
  | L_observeEffect json json json
  | L_closeEffect json json json
  | L_observeEffectToken json json json
  | L_recordRevocation json json json
  | L_claimMint json
  | L_observeMint json json json
  | L_custodyMint json json
  | L_revokeMint json json bool
  | L_closeMint json json json
  | L_beginMintCleanup json json bool
  | L_recordMintCleanup json json json
  | L_closeMintRefused json json json
  | L_claimGit json
  | L_takeGit json bool
  | L_finishGit json json

datatype call =
    Ledger ledger_call
  | Create_repo string string string
  | Get_repo string
  | Repo_info
  | List_tokens
  | Create_token string string int
  | Revoke_token string
  | Dispose
  | Broker_open json
  | Broker_info
  | Broker_tokens
  | Broker_revoke json
  | Broker_dispose
  | Native string json
  | Probe string string
  | Executor string "string option" json
  | Clock

type_synonym body = "string list option"

datatype answer =
    A_failed
  | A_none
  | A_effect "effect_record option"
  | A_effect_claim bool effect_record
  | A_mint "mint_record option"
  | A_mint_claim bool mint_record
  | A_taken bool
  | A_json json
  | A_reply nat body
  | A_time int

subsection \<open>Programs\<close>

datatype ('q, 'y, 'a) task =
    Ret 'a
  | Exc err
  | Do 'q "'y \<Rightarrow> ('q, 'y, 'a) task"

type_synonym 'a prog = "(call, answer, 'a) task"

primrec bindp :: "('q, 'y, 'a) task \<Rightarrow> ('a \<Rightarrow> ('q, 'y, 'b) task) \<Rightarrow> ('q, 'y, 'b) task" where
  "bindp (Ret x) f = f x"
| "bindp (Exc e) f = Exc e"
| "bindp (Do q k) f = Do q (\<lambda>a. bindp (k a) f)"

text \<open>\<open>try { p } catch { h }\<close> and \<open>try { p } finally { f }\<close>.\<close>

primrec catchp :: "('q, 'y, 'a) task \<Rightarrow> ('q, 'y, 'a) task \<Rightarrow> ('q, 'y, 'a) task" where
  "catchp (Ret x) h = Ret x"
| "catchp (Exc e) h = h"
| "catchp (Do q k) h = Do q (\<lambda>a. catchp (k a) h)"

primrec finallyp :: "('q, 'y, 'a) task \<Rightarrow> ('q, 'y, unit) task \<Rightarrow> ('q, 'y, 'a) task" where
  "finallyp (Ret x) f = bindp f (\<lambda>_. Ret x)"
| "finallyp (Exc e) f = bindp f (\<lambda>_. Exc e)"
| "finallyp (Do q k) f = Do q (\<lambda>a. finallyp (k a) f)"

definition throw_if :: "bool \<Rightarrow> err \<Rightarrow> ('q, 'y, unit) task" where
  "throw_if b e = (if b then Exc e else Ret ())"

definition of_result :: "err + 'a \<Rightarrow> ('q, 'y, 'a) task" where
  "of_result r = (case r of Inl e \<Rightarrow> Exc e | Inr x \<Rightarrow> Ret x)"

subsection \<open>Single calls\<close>

text \<open>A rejected promise throws, and so does an answer of a kind the call cannot have.\<close>

definition perform :: "'q \<Rightarrow> ('y \<Rightarrow> 'a option) \<Rightarrow> ('q, 'y, 'a) task" where
  "perform q view = Do q (\<lambda>a. case view a of None \<Rightarrow> Exc Call_failed | Some x \<Rightarrow> Ret x)"

definition json_of :: "answer \<Rightarrow> json option" where
  "json_of a = (case a of A_json v \<Rightarrow> Some v | _ \<Rightarrow> None)"

definition reply_of :: "answer \<Rightarrow> (nat \<times> body) option" where
  "reply_of a = (case a of A_reply n b \<Rightarrow> Some (n, b) | _ \<Rightarrow> None)"

definition time_of :: "answer \<Rightarrow> int option" where
  "time_of a = (case a of A_time n \<Rightarrow> Some n | _ \<Rightarrow> None)"

definition done_of :: "answer \<Rightarrow> unit option" where
  "done_of a = (case a of A_failed \<Rightarrow> None | _ \<Rightarrow> Some ())"

definition effect_of :: "answer \<Rightarrow> effect_record option option" where
  "effect_of a = (case a of A_effect r \<Rightarrow> Some r | _ \<Rightarrow> None)"

definition effect_row_of :: "answer \<Rightarrow> effect_record option" where
  "effect_row_of a = (case a of A_effect r \<Rightarrow> r | _ \<Rightarrow> None)"

definition effect_claim_of :: "answer \<Rightarrow> (bool \<times> effect_record) option" where
  "effect_claim_of a = (case a of A_effect_claim b r \<Rightarrow> Some (b, r) | _ \<Rightarrow> None)"

definition mint_of :: "answer \<Rightarrow> mint_record option option" where
  "mint_of a = (case a of A_mint r \<Rightarrow> Some r | _ \<Rightarrow> None)"

definition mint_row_of :: "answer \<Rightarrow> mint_record option" where
  "mint_row_of a = (case a of A_mint r \<Rightarrow> r | _ \<Rightarrow> None)"

definition mint_claim_of :: "answer \<Rightarrow> (bool \<times> mint_record) option" where
  "mint_claim_of a = (case a of A_mint_claim b r \<Rightarrow> Some (b, r) | _ \<Rightarrow> None)"

definition taken_of :: "answer \<Rightarrow> bool option" where
  "taken_of a = (case a of A_taken b \<Rightarrow> Some b | _ \<Rightarrow> None)"

definition seconds :: "int prog" where
  "seconds = bindp (perform Clock time_of) (\<lambda>ms. Ret (ms div 1000))"

subsection \<open>Runs\<close>

datatype 'a outcome_of = Returned 'a | Threw err | Stopped

fun run_prog :: "('q, 'y, 'a) task \<Rightarrow> 'y list \<Rightarrow> ('q \<times> 'y) list \<times> 'a outcome_of" where
  "run_prog (Ret x) as = ([], Returned x)"
| "run_prog (Exc e) as = ([], Threw e)"
| "run_prog (Do q k) [] = ([], Stopped)"
| "run_prog (Do q k) (a # as) = (let (t, r) = run_prog (k a) as in ((q, a) # t, r))"

definition calls_of :: "('q, 'y, 'a) task \<Rightarrow> 'y list \<Rightarrow> 'q list" where
  "calls_of p as = map fst (fst (run_prog p as))"


lemma run_prog_Ret [simp]: "run_prog (Ret x) as = ([], Returned x)" by (cases as) simp_all

subsection \<open>Monitors\<close>

text \<open>
  A monitor watches the calls of a program: \<open>permitted\<close> says which call it may make in a state
  of the monitor, \<open>after\<close> is the next state given the answer. \<open>valid M p m Q\<close>: started in state
  \<open>m\<close>, every call of every run of \<open>p\<close> is permitted, and \<open>Q\<close> holds of the state and of the
  result if the run ends. The equations turn it into a weakest precondition.
\<close>

record ('q, 'y, 'm) watch =
  permitted :: "'m \<Rightarrow> 'q \<Rightarrow> bool"
  after :: "'m \<Rightarrow> 'q \<Rightarrow> 'y \<Rightarrow> 'm"

type_synonym 'm monitor = "(call, answer, 'm) watch"

primrec valid :: "('q, 'y, 'm) watch \<Rightarrow> ('q, 'y, 'a) task \<Rightarrow> 'm \<Rightarrow> ('m \<Rightarrow> err + 'a \<Rightarrow> bool) \<Rightarrow> bool" where
  "valid M (Ret x) m Q = Q m (Inr x)"
| "valid M (Exc e) m Q = Q m (Inl e)"
| "valid M (Do q k) m Q = (permitted M m q \<and> (\<forall>a. valid M (k a) (after M m q a) Q))"

lemma valid_bindp [simp]:
  "valid M (bindp p f) m Q =
     valid M p m (\<lambda>m r. case r of Inl e \<Rightarrow> Q m (Inl e) | Inr x \<Rightarrow> valid M (f x) m Q)"
  by (induction p arbitrary: m) simp_all

lemma valid_catchp [simp]:
  "valid M (catchp p h) m Q =
     valid M p m (\<lambda>m r. case r of Inl e \<Rightarrow> valid M h m Q | Inr x \<Rightarrow> Q m (Inr x))"
  by (induction p arbitrary: m) simp_all

lemma valid_finallyp [simp]:
  "valid M (finallyp p f) m Q =
     valid M p m (\<lambda>m r. valid M f m (\<lambda>m' u. case u of Inl e \<Rightarrow> Q m' (Inl e) | Inr _ \<Rightarrow> Q m' r))"
  by (induction p arbitrary: m) (simp_all cong: sum.case_cong)

lemma valid_perform [simp]:
  "valid M (perform q view) m Q = (permitted M m q \<and>
     (\<forall>a. Q (after M m q a) (case view a of None \<Rightarrow> Inl Call_failed | Some x \<Rightarrow> Inr x)))"
  by (auto simp: perform_def split: option.splits)

lemma valid_throw_if [simp]:
  "valid M (throw_if b e) m Q = (if b then Q m (Inl e) else Q m (Inr ()))"
  by (simp add: throw_if_def)

lemma valid_of_result [simp]: "valid M (of_result r) m Q = Q m r"
  by (cases r) (simp_all add: of_result_def)

lemma valid_mono: "valid M p m Q \<Longrightarrow> (\<And>m r. Q m r \<Longrightarrow> R m r) \<Longrightarrow> valid M p m R"
  by (induction p arbitrary: m) auto

text \<open>What a valid program does in a run.\<close>

fun accepts :: "('q, 'y, 'm) watch \<Rightarrow> 'm \<Rightarrow> ('q \<times> 'y) list \<Rightarrow> bool" where
  "accepts M m [] = True"
| "accepts M m ((q, a) # t) = (permitted M m q \<and> accepts M (after M m q a) t)"

fun after_all :: "('q, 'y, 'm) watch \<Rightarrow> 'm \<Rightarrow> ('q \<times> 'y) list \<Rightarrow> 'm" where
  "after_all M m [] = m"
| "after_all M m ((q, a) # t) = after_all M (after M m q a) t"

theorem valid_run:
  assumes "valid M p m Q" and "run_prog p as = (t, r)"
  shows "accepts M m t
     \<and> (case r of Returned x \<Rightarrow> Q (after_all M m t) (Inr x) | Threw e \<Rightarrow> Q (after_all M m t) (Inl e)
        | Stopped \<Rightarrow> True)"
  using assms
proof (induction p as arbitrary: m t r rule: run_prog.induct)
  case (4 q k a as)
  then show ?case by (cases "run_prog (k a) as") (auto split: outcome_of.splits)
qed auto


subsection \<open>Programs that make only some calls\<close>

definition only_calls :: "('q \<Rightarrow> bool) \<Rightarrow> ('q, 'y, 'a) task \<Rightarrow> bool" where
  "only_calls P p \<longleftrightarrow> valid \<lparr>permitted = (\<lambda>_ q. P q), after = (\<lambda>_ _ _. ())\<rparr> p () (\<lambda>_ _. True)"

lemma only_calls_simps [simp]:
  "only_calls P (Ret x)"
  "only_calls P (Exc e)"
  "only_calls P (Do q k) \<longleftrightarrow> P q \<and> (\<forall>a. only_calls P (k a))"
  "only_calls P (perform q view) \<longleftrightarrow> P q"
  "only_calls P (throw_if b e)"
  "only_calls P (of_result r)"
  by (auto simp: only_calls_def)

lemma only_calls_bindp [only_calls_rules]: "only_calls P p \<Longrightarrow> (\<And>x. only_calls P (f x)) \<Longrightarrow> only_calls P (bindp p f)"
  by (induction p) simp_all

lemma only_calls_catchp [only_calls_rules]: "only_calls P p \<Longrightarrow> only_calls P h \<Longrightarrow> only_calls P (catchp p h)"
  by (induction p) simp_all

lemma only_calls_finallyp [only_calls_rules]: "only_calls P p \<Longrightarrow> only_calls P f \<Longrightarrow> only_calls P (finallyp p f)"
  by (induction p) (simp_all add: only_calls_bindp)

lemma only_calls_valid:
  assumes "only_calls P p" and "\<And>m q a. P q \<Longrightarrow> permitted M m q \<and> after M m q a = m" and "\<And>r. Q m r"
  shows "valid M p m Q"
  using assms(1) by (induction p) (auto simp: assms(2,3))

lemma only_calls_run: "only_calls P p \<Longrightarrow> list_all P (calls_of p as)"
proof (induction p as rule: run_prog.induct)
  case (4 q k a as)
  then show ?case by (cases "run_prog (k a) as") (auto simp: calls_of_def)
qed (auto simp: calls_of_def)

end
