(* ===== verification/History.thy ===== *)
theory History imports Program begin

section \<open>Histories of the whole system\<close>

text \<open>
  Handlers run concurrently against one checkpoint object. A \<open>system\<close> is the object's store, the
  handlers in flight and the calls made so far. In one step an in-flight handler makes its next
  call, a new handler starts, or any other client calls the object. A ledger call takes effect
  when the object executes it; its reply may be lost (the handler sees \<open>A_failed\<close>), and a call
  may fail without taking effect. Every other call gets any answer. A handler that is killed
  is one that never moves again.

  Each handler carries, as a ghost, the permits the object has given it and it has not yet
  used. \<open>permit_monitor\<close> allows a productive call only to a handler that holds its permit, and
  takes the permit away; so a program valid for it uses every permit at most once, and
  \<open>productive_once\<close> carries the promise of the object to the provider: in no history is a
  repository created twice for an attempt, or a write token minted twice for a repository.
\<close>

subsection \<open>Ledger calls as calls of the object\<close>

definition call_op :: "int \<Rightarrow> ledger_call \<Rightarrow> ckpt_op option" where
  "call_op now c = (case c of
     L_lookupEffect _ \<Rightarrow> None
   | L_lookupMint _ \<Rightarrow> None
   | L_claimEffect v \<Rightarrow> Some (Op_claimEffect now v (JNum 1))
   | L_observeEffect a d v \<Rightarrow> Some (Op_observeEffect a d v)
   | L_closeEffect a d v \<Rightarrow> Some (Op_closeEffect a d v)
   | L_observeEffectToken a d v \<Rightarrow> Some (Op_observeEffectToken now a d v)
   | L_recordRevocation a d v \<Rightarrow> Some (Op_recordRevocation now a d v)
   | L_claimMint v \<Rightarrow> Some (Op_claimMint now v (JNum 1))
   | L_observeMint a d v \<Rightarrow> Some (Op_observeMint a d v)
   | L_custodyMint a d \<Rightarrow> Some (Op_custodyMint now a d)
   | L_revokeMint a d safety \<Rightarrow> Some (Op_revokeMint a d safety)
   | L_closeMint a d v \<Rightarrow> Some (Op_closeMint a d v)
   | L_beginMintCleanup a d productive \<Rightarrow> Some (Op_beginMintCleanup a d productive)
   | L_recordMintCleanup a d v \<Rightarrow> Some (Op_recordMintCleanup now a d v)
   | L_closeMintRefused a d v \<Rightarrow> Some (Op_closeMintRefused now a d v)
   | L_claimGit v \<Rightarrow> Some (Op_claimGit now v)
   | L_takeGit v transport \<Rightarrow> Some (Op_takeGit now v transport)
   | L_finishGit a v \<Rightarrow> Some (Op_finishGit a v))"

definition reply_with :: "('a \<Rightarrow> answer) \<Rightarrow> 'a outcome \<Rightarrow> answer" where
  "reply_with f r = (case r of Inl _ \<Rightarrow> A_failed | Inr (x, _) \<Rightarrow> f x)"

definition row_reply :: "('a option \<Rightarrow> answer) \<Rightarrow> err + 'a option \<Rightarrow> answer" where
  "row_reply f r = (case r of Inl _ \<Rightarrow> A_failed | Inr x \<Rightarrow> f x)"

definition call_reply :: "env \<Rightarrow> int \<Rightarrow> ledger_call \<Rightarrow> store \<Rightarrow> answer" where
  "call_reply env now c s = (case c of
     L_lookupEffect a \<Rightarrow> row_reply A_effect (lookupEffect a s)
   | L_lookupMint a \<Rightarrow> row_reply A_mint (lookupMint a s)
   | L_claimEffect v \<Rightarrow> reply_with (\<lambda>(b, r). A_effect_claim b r) (claimEffect env now v (JNum 1) s)
   | L_observeEffect a d v \<Rightarrow> reply_with (\<lambda>_. A_none) (observeEffect a d v s)
   | L_closeEffect a d v \<Rightarrow> reply_with (\<lambda>r. A_effect (Some r)) (closeEffect a d v s)
   | L_observeEffectToken a d v \<Rightarrow> reply_with (\<lambda>r. A_effect (Some r)) (observeEffectToken now a d v s)
   | L_recordRevocation a d v \<Rightarrow> reply_with (\<lambda>r. A_effect (Some r)) (recordRevocationInventory now a d v s)
   | L_claimMint v \<Rightarrow> reply_with (\<lambda>(b, r). A_mint_claim b r) (claimMint env now v (JNum 1) s)
   | L_observeMint a d v \<Rightarrow> reply_with (\<lambda>_. A_none) (observeMint a d v s)
   | L_custodyMint a d \<Rightarrow> reply_with (\<lambda>r. A_mint (Some r)) (custodyMint now a d s)
   | L_revokeMint a d safety \<Rightarrow> reply_with (\<lambda>_. A_none) (revokeMint a d safety s)
   | L_closeMint a d v \<Rightarrow> reply_with (\<lambda>r. A_mint (Some r)) (closeMint a d v s)
   | L_beginMintCleanup a d productive \<Rightarrow> reply_with (\<lambda>r. A_mint (Some r)) (beginMintCleanup a d productive s)
   | L_recordMintCleanup a d v \<Rightarrow> reply_with (\<lambda>r. A_mint (Some r)) (recordMintCleanup now a d v s)
   | L_closeMintRefused a d v \<Rightarrow> reply_with (\<lambda>r. A_mint (Some r)) (closeMintRefused now a d v s)
   | L_claimGit v \<Rightarrow> reply_with (\<lambda>(b, r). A_mint_claim b r) (claimGit now v s)
   | L_takeGit v transport \<Rightarrow> reply_with A_taken (takeGit now v transport s)
   | L_finishGit a v \<Rightarrow> reply_with (\<lambda>r. A_mint (Some r)) (finishGit a v s))"

definition call_store :: "env \<Rightarrow> int \<Rightarrow> ledger_call \<Rightarrow> store \<Rightarrow> store" where
  "call_store env now c s = (case call_op now c of None \<Rightarrow> s | Some p \<Rightarrow> exec_op env p s)"

subsection \<open>Permits of a handler\<close>

definition claim_started :: "(bool \<times> 'r) option \<Rightarrow> bool" where
  "claim_started r = (case r of Some (b, _) \<Rightarrow> b | None \<Rightarrow> False)"

lemma claim_started_simps [simp]:
  "claim_started (Some (b, r)) = b" "claim_started None = False"
  by (simp_all add: claim_started_def)

definition gained_from :: "ledger_call \<Rightarrow> answer \<Rightarrow> permit_key list" where
  "gained_from c a = (case c of
     L_claimEffect v \<Rightarrow> (if claim_started (effect_claim_of a) then [Create_of (attempt_id (as_plan v))] else [])
   | L_claimMint v \<Rightarrow> (if claim_started (mint_claim_of a)
       then [Mint_of (attempt_id (as_mint_plan v)), Mint_in (slot_of (as_mint_plan v))] else [])
   | L_claimGit v \<Rightarrow> (if claim_started (mint_claim_of a) then [Git_of (attempt_id (as_git_plan v))] else [])
   | L_takeGit v transport \<Rightarrow> (if taken_of a = None then []
       else [(if transport then Transport_take_of else Native_take_of) (attempt_id (as_git_plan v))])
   | _ \<Rightarrow> [])"

definition gained :: "call \<Rightarrow> answer \<Rightarrow> permit_key list" where
  "gained q a = (case q of Ledger c \<Rightarrow> gained_from c a | _ \<Rightarrow> [])"

text \<open>
  The permit a productive call needs, in a gate of the namespace \<open>ns\<close>: a creation names its attempt
  in the description, a write token is minted for the upload slot of its repository, and a Git
  execution names its attempt in the plan it carries.
\<close>

fun needed :: "string \<Rightarrow> call \<Rightarrow> permit_key option" where
  "needed ns (Create_repo repo b d) = Some (Create_of (drop 15 d))"
| "needed ns (Create_token repo sc ttl) =
     (if sc = ''write'' then Some (Mint_in (Slot ns repo (JStr ''upload''))) else None)"
| "needed ns (Native path v) = (if get v ''action'' = JStr ''git-execute''
     then Some (Git_of (the_str (get (get v ''plan'') ''attempt_id''))) else None)"
| "needed ns (Executor path auth v) = (if auth \<noteq> None
     then Some (Transport_take_of (the_str (get v ''attempt_id''))) else None)"
| "needed ns _ = None"

definition permit_monitor :: "string \<Rightarrow> permit_key list monitor" where
  "permit_monitor ns = \<lparr>permitted = (\<lambda>m q. case needed ns q of None \<Rightarrow> True | Some k \<Rightarrow> k \<in> set m),
     after = (\<lambda>m q a. gained q a @ (case needed ns q of None \<Rightarrow> m | Some k \<Rightarrow> remove1 k m))\<rparr>"

lemma permit_monitor_simps [simp]:
  "permitted (permit_monitor ns) m q = (case needed ns q of None \<Rightarrow> True | Some k \<Rightarrow> k \<in> set m)"
  "after (permit_monitor ns) m q a = gained q a @ (case needed ns q of None \<Rightarrow> m | Some k \<Rightarrow> remove1 k m)"
  by (simp_all add: permit_monitor_def)

subsection \<open>Steps\<close>

record 'a system =
  sys_store :: store
  sys_procs :: "('a prog \<times> permit_key list) list"
  sys_calls :: "call list"

text \<open>\<open>G\<close>: the handlers that may start.\<close>

definition uses_permits :: "string \<Rightarrow> 'a prog set \<Rightarrow> bool" where
  "uses_permits ns G \<longleftrightarrow> (\<forall>p \<in> G. valid (permit_monitor ns) p [] (\<lambda>_ _. True))"

inductive sys_step :: "env \<Rightarrow> string \<Rightarrow> 'a prog set \<Rightarrow> 'a system \<Rightarrow> 'a system \<Rightarrow> bool" for env ns G where
  other_client: "sys_step env ns G z (z\<lparr>sys_store := exec_op env p (sys_store z)\<rparr>)"
| start: "p \<in> G \<Longrightarrow>
     sys_step env ns G z (z\<lparr>sys_procs := (p, []) # sys_procs z\<rparr>)"
| outside: "i < length (sys_procs z) \<Longrightarrow> sys_procs z ! i = (Do q k, m) \<Longrightarrow> (\<nexists>c. q = Ledger c) \<Longrightarrow>
     sys_step env ns G z (z\<lparr>sys_procs := (sys_procs z)[i := (k a, after (permit_monitor ns) m q a)],
                          sys_calls := q # sys_calls z\<rparr>)"
| ledger: "i < length (sys_procs z) \<Longrightarrow> sys_procs z ! i = (Do (Ledger c) k, m) \<Longrightarrow>
     a = call_reply env now c (sys_store z) \<or> a = A_failed \<Longrightarrow>
     sys_step env ns G z (z\<lparr>sys_store := call_store env now c (sys_store z),
                          sys_procs := (sys_procs z)[i := (k a, after (permit_monitor ns) m (Ledger c) a)],
                          sys_calls := Ledger c # sys_calls z\<rparr>)"
| ledger_failed: "i < length (sys_procs z) \<Longrightarrow> sys_procs z ! i = (Do (Ledger c) k, m) \<Longrightarrow>
     sys_step env ns G z (z\<lparr>sys_procs := (sys_procs z)[i := (k A_failed, after (permit_monitor ns) m (Ledger c) A_failed)],
                          sys_calls := Ledger c # sys_calls z\<rparr>)"

definition start_system :: "'a system" where
  "start_system = \<lparr>sys_store = empty_store, sys_procs = [], sys_calls = []\<rparr>"

inductive reachable :: "env \<Rightarrow> string \<Rightarrow> 'a prog set \<Rightarrow> 'a system \<Rightarrow> bool" for env ns G where
  initially: "reachable env ns G start_system"
| stepped: "reachable env ns G z \<Longrightarrow> sys_step env ns G z z' \<Longrightarrow> reachable env ns G z'"

definition calls_needing :: "string \<Rightarrow> permit_key \<Rightarrow> 'a system \<Rightarrow> nat" where
  "calls_needing ns k z = length (filter (\<lambda>q. needed ns q = Some k) (sys_calls z))"

definition held :: "permit_key \<Rightarrow> 'a system \<Rightarrow> nat" where
  "held k z = sum_list (map (\<lambda>(_, m). count_list m k) (sys_procs z))"

subsection \<open>The invariant of a history\<close>

definition history_ok :: "env \<Rightarrow> string \<Rightarrow> 'a system \<Rightarrow> bool" where
  "history_ok env ns z \<longleftrightarrow> ledger_ok (sys_store z)
     \<and> (\<forall>(p, m) \<in> set (sys_procs z). valid (permit_monitor ns) p m (\<lambda>_ _. True))
     \<and> (\<forall>k. calls_needing ns k z + held k z \<le> (if permit_spent k (sys_store z) then 1 else 0))"

lemma sum_list_update_le:
  "i < length xs \<Longrightarrow> sum_list ((xs :: nat list)[i := y]) + xs ! i = sum_list xs + y"
  by (induction xs arbitrary: i) (auto split: nat.splits)

lemma held_update:
  "i < length ps \<Longrightarrow> ps ! i = (p, m) \<Longrightarrow>
     sum_list (map (\<lambda>(_, m). count_list m k) (ps[i := (p', m')])) + count_list m k
       = sum_list (map (\<lambda>(_, m). count_list m k) ps) + count_list m' k"
  using sum_list_update_le [of i "map (\<lambda>(_, m). count_list m k) ps" "count_list m' k"]
  by (simp add: map_update)

lemma claimEffect_plan:
  "claimEffect env now v rel s = Inr ((True, r), s') \<Longrightarrow> e_plan r = as_plan v"
  unfolding claimEffect_def bind_result_Inr_iff read_with_Inr_iff
  by (elim exE conjE) (auto simp: Let_def split: if_splits option.splits)

lemma claimMint_plan:
  "claimMint env now v rel s = Inr ((True, r), s') \<Longrightarrow> m_plan r = as_mint_plan v"
  unfolding claimMint_def bind_result_Inr_iff read_with_Inr_iff
  by (elim exE conjE) (auto simp: Let_def bind_result_Inr_iff split: if_splits option.splits)

lemma gained_ledger [simp]: "gained (Ledger c) a = gained_from c a"
  by (simp add: gained_def)

lemma gained_others [simp]:
  "gained (Create_repo n b d) a = []" "gained (Get_repo n) a = []" "gained Repo_info a = []"
  "gained List_tokens a = []" "gained (Create_token n sc ttl) a = []" "gained (Revoke_token t) a = []"
  "gained Dispose a = []" "gained (Broker_open v) a = []" "gained Broker_info a = []"
  "gained Broker_tokens a = []" "gained (Broker_revoke v) a = []" "gained Broker_dispose a = []"
  "gained (Native path v) a = []" "gained (Probe url t) a = []" "gained (Executor path auth v) a = []"
  "gained Clock a = []"
  by (simp_all add: gained_def)

lemma gained_outside: "\<nexists>c. q = Ledger c \<Longrightarrow> gained q a = []"
  by (cases q) (simp_all add: gained_def)

lemma gained_failed [simp]: "gained_from c A_failed = []"
  by (cases c) (simp_all add: gained_from_def effect_claim_of_def mint_claim_of_def taken_of_def)

lemma gained_once: "count_list (gained_from c a) k \<le> 1"
  by (cases c) (auto simp: gained_from_def)

lemma needed_ledger [simp]: "needed ns (Ledger c) = None"
  by simp

lemma reply_with_started:
  "claim_started (effect_claim_of (reply_with (\<lambda>(b, r). A_effect_claim b r) x)) \<longleftrightarrow> started x \<noteq> None"
  "claim_started (mint_claim_of (reply_with (\<lambda>(b, r). A_mint_claim b r) y)) \<longleftrightarrow> started y \<noteq> None"
  "taken_of (reply_with A_taken t) \<noteq> None \<longleftrightarrow> is_ok t"
  by (auto simp: reply_with_def started_def effect_claim_of_def mint_claim_of_def taken_of_def
      split: sum.splits prod.splits)

lemma claimGit_plan:
  assumes "ledger_ok s" "claimGit now v s = Inr ((True, r), s')"
  shows "attempt_id (m_plan r) = attempt_id (as_git_plan v)"
proof -
  obtain r0 where "mint_row s (attempt_id (as_git_plan v)) = Some r0" "m_plan r = m_plan r0"
    using claimGit_started [OF assms(2)] by auto
  then show ?thesis using assms(1) keyed_mint [of s "attempt_id (as_git_plan v)" r0]
    by (simp add: ledger_ok_def)
qed

lemma gained_permits:
  assumes ok: "ledger_ok s" and g: "k \<in> set (gained_from c (call_reply env now c s))"
  shows "\<exists>p. call_op now c = Some p \<and> grants env k p s"
proof (cases c)
  case (L_claimEffect v)
  then show ?thesis using g
    by (auto simp: call_reply_def gained_from_def reply_with_started call_op_def grants_def permits_def
        started_iff split: if_splits) (simp_all add: claimEffect_plan)
next
  case (L_claimMint v)
  then show ?thesis using g
    by (auto simp: call_reply_def gained_from_def reply_with_started call_op_def grants_def permits_def
        started_iff split: if_splits) (simp_all add: claimMint_plan)
next
  case (L_claimGit v)
  then show ?thesis using g
    by (auto simp: call_reply_def gained_from_def reply_with_started call_op_def grants_def permits_def
        started_iff split: if_splits) (simp_all add: claimGit_plan [OF ok])
next
  case (L_takeGit v transport)
  then show ?thesis using g reply_with_started(3) [of "takeGit now v transport s"]
    by (auto simp: call_reply_def gained_from_def call_op_def grants_def permits_def split: if_splits)
qed (use g in \<open>simp_all add: gained_from_def\<close>)

lemma call_store_spent:
  "ledger_ok s \<Longrightarrow> permit_spent k s \<Longrightarrow> permit_spent k (call_store env now c s)"
  by (auto simp: call_store_def permit_permanent split: option.splits)

lemma call_store_ok: "ledger_ok s \<Longrightarrow> ledger_ok (call_store env now c s)"
  by (auto simp: call_store_def exec_op_ok split: option.splits)

lemma gained_fresh:
  assumes "ledger_ok s" "k \<in> set (gained_from c (call_reply env now c s))"
  shows "\<not> permit_spent k s" "permit_spent k (call_store env now c s)"
  using gained_permits [OF assms] permit_fresh [OF assms(1)] by (auto simp: call_store_def)

lemma valid_update:
  assumes "\<forall>(p, m) \<in> set ps. valid M p m (\<lambda>_ _. True)" "i < length ps" "valid M p' m' (\<lambda>_ _. True)"
  shows "\<forall>(p, m) \<in> set (ps[i := (p', m')]). valid M p m (\<lambda>_ _. True)"
  using assms set_update_subset_insert [of ps i "(p', m')"] by auto

theorem sys_step_ok:
  assumes step: "sys_step env ns G z z'" and gates: "uses_permits ns G" and ok: "history_ok env ns z"
  shows "history_ok env ns z'"
  using step
proof cases
  case (other_client p)
  then show ?thesis using ok permit_permanent [of "sys_store z"]
    by (auto simp: history_ok_def exec_op_ok calls_needing_def held_def le_Suc_eq split: if_splits)
next
  case (start p)
  then show ?thesis using ok gates by (simp add: history_ok_def calls_needing_def held_def uses_permits_def)
next
  case (outside i q k m a)
  let ?m = "after (permit_monitor ns) m q a"
  have v: "valid (permit_monitor ns) (Do q k) m (\<lambda>_ _. True)"
    using ok outside(2,3) nth_mem [of i "sys_procs z"] by (auto simp: history_ok_def)
  have g: "gained q a = []" using gained_outside outside(4) by blast
  have "calls_needing ns k' z' + held k' z' = calls_needing ns k' z + held k' z" for k'
  proof -
    have h: "held k' z' + count_list m k' = held k' z + count_list ?m k'"
      using held_update [OF outside(2,3), of k' "k a" ?m] outside(1) by (simp add: held_def)
    show ?thesis
    proof (cases "needed ns q")
      case None
      then show ?thesis using h g outside(1) by (simp add: calls_needing_def)
    next
      case (Some k0)
      then have "k0 \<in> set m" using v by simp
      then have "0 < count_list m k0" by (metis count_list_0_iff gr0I)
      then show ?thesis using h g Some outside(1)
        by (cases "k' = k0") (auto simp: calls_needing_def count_list_remove1)
    qed
  qed
  moreover have "valid (permit_monitor ns) (k a) ?m (\<lambda>_ _. True)" using v by simp
  then have "\<forall>(p, m) \<in> set (sys_procs z'). valid (permit_monitor ns) p m (\<lambda>_ _. True)"
    using ok outside(1,2) valid_update [of "sys_procs z" "permit_monitor ns" i "k a" ?m]
    by (simp add: history_ok_def)
  moreover have "sys_store z' = sys_store z" using outside(1) by simp
  ultimately show ?thesis using ok unfolding history_ok_def by presburger
next
  case (ledger i c k m a now)
  let ?g = "gained_from c a" and ?s = "sys_store z"
  have ok_s: "ledger_ok ?s" using ok by (simp add: history_ok_def)
  have v: "valid (permit_monitor ns) (Do (Ledger c) k) m (\<lambda>_ _. True)"
    using ok ledger(2,3) nth_mem [of i "sys_procs z"] by (auto simp: history_ok_def)
  have count: "calls_needing ns k' z' + held k' z' \<le> (if permit_spent k' (sys_store z') then 1 else 0)" for k'
  proof -
    have "held k' z' + count_list m k' = held k' z + count_list (?g @ m) k'"
      using held_update [OF ledger(2,3), of k' "k a" "?g @ m"] ledger(1) by (simp add: held_def)
    then have h: "calls_needing ns k' z' + held k' z' = calls_needing ns k' z + held k' z + count_list ?g k'"
      using ledger(1) by (simp add: calls_needing_def)
    have old: "calls_needing ns k' z + held k' z \<le> (if permit_spent k' ?s then 1 else 0)"
      using ok by (simp add: history_ok_def)
    show ?thesis
    proof (cases "k' \<in> set ?g")
      case True
      then have "k' \<in> set (gained_from c (call_reply env now c ?s))" using ledger(4) by auto
      with gained_fresh [OF ok_s this] old h gained_once [of c a k'] ledger(1)
      show ?thesis by simp
    next
      case False
      then show ?thesis using old h call_store_spent [OF ok_s, of k' env now c] ledger(1)
        by (auto split: if_splits)
    qed
  qed
  have "valid (permit_monitor ns) (k a) (?g @ m) (\<lambda>_ _. True)" using v by simp
  then have "\<forall>(p, m) \<in> set (sys_procs z'). valid (permit_monitor ns) p m (\<lambda>_ _. True)"
    using ok ledger(1,2) valid_update [of "sys_procs z" "permit_monitor ns" i "k a" "?g @ m"]
    by (simp add: history_ok_def)
  moreover have "ledger_ok (sys_store z')" using ledger(1) call_store_ok [OF ok_s] by simp
  ultimately show ?thesis using count unfolding history_ok_def by blast
next
  case (ledger_failed i c k m)
  have v: "valid (permit_monitor ns) (Do (Ledger c) k) m (\<lambda>_ _. True)"
    using ok ledger_failed(2,3) nth_mem [of i "sys_procs z"] by (auto simp: history_ok_def)
  have "held k' z' = held k' z" for k'
    using held_update [OF ledger_failed(2,3), of k' "k A_failed" m] ledger_failed(1) by (simp add: held_def)
  moreover have "valid (permit_monitor ns) (k A_failed) m (\<lambda>_ _. True)"
    using v by (simp, metis append_Nil gained_failed)
  then have "\<forall>(p, m) \<in> set (sys_procs z'). valid (permit_monitor ns) p m (\<lambda>_ _. True)"
    using ok ledger_failed(1,2) valid_update [of "sys_procs z" "permit_monitor ns" i "k A_failed" m]
    by (simp add: history_ok_def)
  moreover have "sys_store z' = sys_store z" "calls_needing ns k' z' = calls_needing ns k' z" for k'
    using ledger_failed(1) by (simp_all add: calls_needing_def)
  ultimately show ?thesis using ok unfolding history_ok_def by presburger
qed

lemma history_ok_start: "history_ok env ns start_system"
  by (simp add: history_ok_def start_system_def ledger_ok_empty calls_needing_def held_def)

lemma reachable_ok: "reachable env ns G z \<Longrightarrow> uses_permits ns G \<Longrightarrow> history_ok env ns z"
  by (induction rule: reachable.induct) (auto intro: history_ok_start sys_step_ok)

lemma productive_once:
  assumes "reachable env ns G z" and "uses_permits ns G"
  shows "calls_needing ns k z \<le> 1"
proof -
  have "calls_needing ns k z + held k z \<le> (if permit_spent k (sys_store z) then 1 else 0)"
    using reachable_ok [OF assms] unfolding history_ok_def by blast
  then show ?thesis by (simp split: if_splits)
qed

end
