(* ===== verification/Wire.thy ===== *)
theory Wire imports History begin

section \<open>What the gates share: bodies, scopes, times and the Native store\<close>

text \<open>
  The helper functions of \<open>crates/work-effect-worker/worker.ts\<close> and \<open>mint-store.ts\<close>. \<open>lib\<close> holds
  the two platform functions the code calls on text: \<open>parse_json\<close> is \<open>TextDecoder\<close> followed by
  \<open>JSON.parse\<close> on the bytes of a body, \<open>sha256_hex\<close> the hexadecimal SHA-256 of a text. A body is the
  list of its chunks; \<open>gate_env\<close> the configuration of a gate, with its own switch.
\<close>

record lib =
  parse_json :: "string \<Rightarrow> json option"
  sha256_hex :: "string \<Rightarrow> string"

record gate_env =
  gate_enabled :: string
  gate_authority :: string
  gate_account :: string
  gate_namespace :: string

subsection \<open>Bodies\<close>

text \<open>The loop of \<open>jsonBody\<close> (limit 4096) and \<open>boundedGitBody\<close> (limit 8192) over the chunks.\<close>

fun read_chunks :: "nat \<Rightarrow> nat \<Rightarrow> string list \<Rightarrow> string option" where
  "read_chunks limit n [] = Some []"
| "read_chunks limit n (c # cs) =
     (if limit < n + length c then None
      else map_option (\<lambda>rest. c @ rest) (read_chunks limit (n + length c) cs))"

definition jsonBody :: "lib \<Rightarrow> body \<Rightarrow> err + json" where
  "jsonBody lib b = (case b of
     None \<Rightarrow> Inl Effect_invalid
   | Some cs \<Rightarrow> (case read_chunks 4096 0 cs of
       None \<Rightarrow> Inl Effect_invalid
     | Some bytes \<Rightarrow> (case parse_json lib bytes of None \<Rightarrow> Inl Not_json | Some v \<Rightarrow> Inr v)))"

lemma read_chunks_Some:
  "n \<le> limit \<Longrightarrow> read_chunks limit n cs = Some bytes \<longleftrightarrow> bytes = concat cs \<and> n + length (concat cs) \<le> limit"
proof (induction cs arbitrary: n bytes)
  case Nil
  then show ?case by auto
next
  case (Cons c cs)
  then show ?case
    by (cases "limit < n + length c") (auto simp: Cons.IH)
qed

subsection \<open>Times\<close>

text \<open>
  \<open>Date.parse\<close> on the ISO date-times the regular expression of \<open>expiry\<close> admits, in milliseconds:
  \<open>YYYY-MM-DDTHH:mm\<close>, optional seconds and fraction, and an offset (UTC when it is absent, the
  time zone of the runtime). Digits of a fraction after the third are dropped, a day is 1 to 31 and
  24:00 is the end of a day, as the engine does. Every other text is \<open>NaN\<close>.
\<close>

definition is_digit :: "char \<Rightarrow> bool" where "is_digit c \<longleftrightarrow> c \<in> set ''0123456789''"

definition number_of :: "string \<Rightarrow> int" where
  "number_of s = foldl (\<lambda>n c. n * 10 + (of_char c - 48)) 0 s"

definition all_digits :: "string \<Rightarrow> bool" where "all_digits s \<longleftrightarrow> list_all is_digit s"

definition days_from_civil :: "int \<Rightarrow> int \<Rightarrow> int \<Rightarrow> int" where
  "days_from_civil y m d =
     (let y' = (if m \<le> 2 then y - 1 else y); era = y' div 400; yoe = y' mod 400;
          doy = (153 * ((m + 9) mod 12) + 2) div 5 + d - 1;
          doe = yoe * 365 + yoe div 4 - yoe div 100 + doy
      in era * 146097 + doe - 719468)"

text \<open>The offset in minutes, then the seconds and the fraction before it.\<close>

definition zone_of :: "string \<Rightarrow> int option" where
  "zone_of z =
     (if z = [] \<or> z = ''Z'' then Some 0
      else if length z = 6 \<and> (z ! 0 = CHR ''+'' \<or> z ! 0 = CHR ''-'') \<and> z ! 3 = CHR '':''
           \<and> all_digits (take 2 (drop 1 z)) \<and> all_digits (drop 4 z)
           \<and> number_of (take 2 (drop 1 z)) \<le> 23 \<and> number_of (drop 4 z) \<le> 59
      then Some ((if z ! 0 = CHR ''-'' then -1 else 1)
                 * (number_of (take 2 (drop 1 z)) * 60 + number_of (drop 4 z)))
      else None)"

definition fraction_of :: "string \<Rightarrow> (int \<times> string) option" where
  "fraction_of s = (case s of
     [] \<Rightarrow> Some (0, [])
   | c # cs \<Rightarrow> if c \<noteq> CHR ''.'' then Some (0, s)
       else let ds = takeWhile is_digit cs in
         if ds = [] then None
         else Some (number_of (take 3 (ds @ ''00'')), dropWhile is_digit cs))"

definition seconds_of :: "string \<Rightarrow> (int \<times> int \<times> string) option" where
  "seconds_of s =
     (if take 1 s = '':'' \<and> length (take 2 (drop 1 s)) = 2 \<and> all_digits (take 2 (drop 1 s))
      then map_option (\<lambda>(ms, rest). (number_of (take 2 (drop 1 s)), ms, rest)) (fraction_of (drop 3 s))
      else Some (0, 0, s))"

definition date_parse :: "string \<Rightarrow> int option" where
  "date_parse s =
     (if length s \<ge> 16
         \<and> all_digits (take 4 s) \<and> s ! 4 = CHR ''-'' \<and> all_digits (take 2 (drop 5 s)) \<and> s ! 7 = CHR ''-''
         \<and> all_digits (take 2 (drop 8 s)) \<and> s ! 10 = CHR ''T'' \<and> all_digits (take 2 (drop 11 s))
         \<and> s ! 13 = CHR '':'' \<and> all_digits (take 2 (drop 14 s))
      then let mo = number_of (take 2 (drop 5 s)); d = number_of (take 2 (drop 8 s));
               h = number_of (take 2 (drop 11 s)); mi = number_of (take 2 (drop 14 s))
           in (case seconds_of (drop 16 s) of
                 None \<Rightarrow> None
               | Some (sec, ms, rest) \<Rightarrow> (case zone_of rest of
                   None \<Rightarrow> None
                 | Some z \<Rightarrow>
                     if 1 \<le> mo \<and> mo \<le> 12 \<and> 1 \<le> d \<and> d \<le> 31 \<and> mi \<le> 59 \<and> sec \<le> 59
                        \<and> (h \<le> 23 \<or> h = 24 \<and> mi = 0 \<and> sec = 0 \<and> ms = 0)
                     then Some ((((days_from_civil (number_of (take 4 s)) mo d * 24 + h) * 60 + mi - z) * 60
                                 + sec) * 1000 + ms)
                     else None))
      else None)"

text \<open>\<open>expiry\<close>: whole seconds, rounded up.\<close>

definition expiry :: "json \<Rightarrow> err + int" where
  "expiry v = (case v of
     JStr s \<Rightarrow>
       if length s > 40 \<or> length s < 11
          \<or> \<not> (all_digits (take 4 s) \<and> s ! 4 = CHR ''-'' \<and> all_digits (take 2 (drop 5 s))
              \<and> s ! 7 = CHR ''-'' \<and> all_digits (take 2 (drop 8 s)) \<and> s ! 10 = CHR ''T'')
       then Inl Effect_inventory
       else (case date_parse s of
           None \<Rightarrow> Inl Effect_inventory
         | Some ms \<Rightarrow> let n = - ((- ms) div 1000) in
             if n < 0 \<or> n > max_safe_integer then Inl Effect_inventory else Inr n)
   | _ \<Rightarrow> Inl Effect_inventory)"

lemma expiry_rounds_up:
  "expiry (JStr s) = Inr n \<Longrightarrow> \<exists>ms. date_parse s = Some ms \<and> ms \<le> n * 1000 \<and> n * 1000 < ms + 1000"
  by (auto simp: expiry_def Let_def split: if_splits option.splits)

lemma expiry_safe: "expiry v = Inr n \<Longrightarrow> safe n"
  by (auto simp: expiry_def Let_def safe_def split: if_splits option.splits json.splits)

subsection \<open>Scopes\<close>

definition scope_of :: "gate_env \<Rightarrow> 'a plan_scheme \<Rightarrow> err + string" where
  "scope_of env p =
     (if \<not> of_class hex_chars 32 32 (gate_account env)
         \<or> (artifacts_account p \<noteq> None \<and> artifacts_account p \<noteq> Some (gate_account env))
         \<or> namespace p \<noteq> gate_namespace env
         \<or> authority (checkpoint p) \<noteq> gate_authority env
      then Inl Effect_scope
      else Inr (''https://'' @ gate_account env @ ''.artifacts.cloudflare.net/git/''
                @ namespace p @ ''/'' @ name p @ ''.git''))"

definition productiveScope :: "gate_env \<Rightarrow> 'a plan_scheme \<Rightarrow> err + string" where
  "productiveScope env p = (if artifacts_account p = None then Inl Effect_scope else scope_of env p)"

definition branch_of :: "'a plan_scheme \<Rightarrow> string" where
  "branch_of p = (if role p = JStr ''task'' then ''work'' else ''snapshot'')"

subsection \<open>The Native store\<close>

definition op_at :: "string \<Rightarrow> err \<Rightarrow> lib \<Rightarrow> json \<Rightarrow> json prog" where
  "op_at path unavailable lib input = bindp (perform (Native path input) reply_of) (\<lambda>(status, b).
     if status \<noteq> 200 then Exc unavailable else of_result (jsonBody lib b))"

definition effect_op :: "lib \<Rightarrow> json \<Rightarrow> json prog" where
  "effect_op = op_at ''/effect'' Effect_store_unavailable"

definition mintOp :: "lib \<Rightarrow> json \<Rightarrow> json prog" where
  "mintOp = op_at ''/mint-effect'' Effect_store_unavailable"

definition gitOp :: "lib \<Rightarrow> json \<Rightarrow> json prog" where
  "gitOp = op_at ''/git-effect'' Git_store_unavailable"

definition observation_entries :: "'a mint_observation_scheme \<Rightarrow> (string \<times> json) list" where
  "observation_entries x = [(''repo_id'', JStr (o_repo_id x)), (''token_id'', JStr (o_token_id x)),
     (''scope'', o_scope x), (''expires_at'', JNum (o_expires_at x))]"

text \<open>The reply of the store to a metadata write: its identity, state and revision.\<close>

definition store_ack :: "json \<Rightarrow> string \<Rightarrow> string \<Rightarrow> int \<Rightarrow> int \<Rightarrow> bool" where
  "store_ack v attempt st lo hi \<longleftrightarrow> closed v [''id'', ''state'', ''revision'']
     \<and> get v ''id'' = JStr attempt \<and> get v ''state'' = JStr st
     \<and> integer (get v ''revision'') \<and> lo \<le> the_int (get v ''revision'')
     \<and> the_int (get v ''revision'') \<le> hi"

definition quietly :: "'a \<Rightarrow> ('q, 'y, 'a) task \<Rightarrow> ('q, 'y, 'a) task" where
  "quietly x p = catchp p (Ret x)"

lemma valid_quietly [simp]:
  "valid M (quietly x p) m Q = valid M p m (\<lambda>m r. case r of Inl e \<Rightarrow> Q m (Inr x) | Inr y \<Rightarrow> Q m (Inr y))"
  by (simp add: quietly_def cong: sum.case_cong)

lemma only_calls_quietly: "only_calls P p \<Longrightarrow> only_calls P (quietly x p)"
  by (simp add: quietly_def only_calls_catchp)

lemma only_calls_op_at: "P (Native path input) \<Longrightarrow> only_calls P (op_at path e lib input)"
  by (auto simp: op_at_def intro!: only_calls_bindp)

definition syncClosed :: "lib \<Rightarrow> effect_record \<Rightarrow> json prog" where
  "syncClosed lib r = (case e_closure r of
     None \<Rightarrow> Exc Effect_invalid
   | Some c \<Rightarrow> bindp
       (quietly False (bindp (effect_op lib (JObj
            [(''action'', JStr ''capture-closed''), (''attempt_id'', JStr (attempt_id (e_plan r))),
             (''repo_id'', JStr (c_repo_id c)), (''token_id'', JStr (c_token_id c)),
             (''expires_at'', case c_expires_at c of None \<Rightarrow> JNull | Some n \<Rightarrow> JNum n),
             (''receipt'', JStr (c_receipt c))]))
          (\<lambda>v. Ret (store_ack v (attempt_id (e_plan r)) ''closed'' 1 5))))
       (\<lambda>ok. Ret (JObj [(''attempt_id'', JStr (attempt_id (e_plan r))), (''state'', JStr ''closed''),
               (''repo_id'', JStr (c_repo_id c)), (''op_synchronized'', JBool ok)])))"

definition synchronizeMintClosure :: "lib \<Rightarrow> mint_record \<Rightarrow> json prog" where
  "synchronizeMintClosure lib r = (case (m_observation r, m_receipt r, m_refusal r) of
     (Some obs, rc, rf) \<Rightarrow>
       if m_state r \<noteq> Mint_closed \<or> (rc = None \<and> rf = None) then Exc Effect_unconfirmed
       else bindp
         (quietly False (bindp (mintOp lib (JObj
              ([(''action'', JStr (if rf \<noteq> None then ''mint-close'' else ''capture-mint-closed'')),
                (''attempt_id'', JStr (attempt_id (m_plan r))), (''digest'', JStr (digest (m_plan r)))]
               @ observation_entries obs
               @ [(''receipt'', JStr (case rf of Some (p, _) \<Rightarrow> mr_receipt p
                                       | None \<Rightarrow> (case rc of Some x \<Rightarrow> x | None \<Rightarrow> [])))]
               @ (if rf \<noteq> None then [(''key_version'', JNum (key_version (m_plan r)))] else []))))
            (\<lambda>v. Ret (store_ack v (attempt_id (m_plan r)) ''closed'' 3 max_safe_integer))))
         (\<lambda>ok. Ret (JObj [(''attempt_id'', JStr (attempt_id (m_plan r))), (''state'', JStr ''closed''),
             (''repo_id'', JStr (repo_id (m_plan r))),
             (''cleanup'', JStr (if rf \<noteq> None then ''git_bearer_refused'' else ''refused'')),
             (''op_synchronized'', JBool ok)]))
   | _ \<Rightarrow> Exc Effect_unconfirmed)"

subsection \<open>Responses\<close>

record response =
  rs_status :: nat
  rs_body :: "json option"

definition respond_json :: "nat \<Rightarrow> json \<Rightarrow> response" where
  "respond_json n v = \<lparr>rs_status = n, rs_body = Some v\<rparr>"

definition respond_empty :: "nat \<Rightarrow> response" where
  "respond_empty n = \<lparr>rs_status = n, rs_body = None\<rparr>"

definition denied_response :: "string \<Rightarrow> response" where
  "denied_response e = respond_json 409 (JObj [(''error'', JStr e)])"

record request =
  rq_method :: string
  rq_path :: string
  rq_body :: body

text \<open>
  The \<open>fetch\<close> of the gates that take an attempt: a wrong method or path is 404; a closed gate,
  a bad body and anything the handler throws are the same 409.
\<close>

definition attempt_gate ::
    "string \<Rightarrow> string \<Rightarrow> lib \<Rightarrow> gate_env \<Rightarrow> (string \<Rightarrow> json prog) \<Rightarrow> request \<Rightarrow> response prog" where
  "attempt_gate path e lib env handler rq =
     (if rq_method rq \<noteq> ''POST'' \<or> rq_path rq \<noteq> path then Ret (respond_empty 404)
      else catchp
        (bindp (throw_if (gate_enabled env \<noteq> ''true'') Effect_disabled) (\<lambda>_.
         bindp (of_result (jsonBody lib (rq_body rq))) (\<lambda>input.
         bindp (throw_if (\<not> closed input [''attempt_id''] \<or> \<not> opaque (get input ''attempt_id'')) Effect_invalid) (\<lambda>_.
         bindp (handler (the_str (get input ''attempt_id''))) (\<lambda>v. Ret (respond_json 200 v))))))
        (Ret (denied_response e)))"

subsection \<open>Ordinary calls\<close>

text \<open>Calls that neither need nor give a permit: they do not move \<open>permit_monitor\<close>.\<close>

definition ordinary :: "string \<Rightarrow> call \<Rightarrow> bool" where
  "ordinary ns q \<longleftrightarrow> needed ns q = None \<and> (case q of Ledger c \<Rightarrow> (case c of
     L_claimEffect _ \<Rightarrow> False | L_claimMint _ \<Rightarrow> False | L_claimGit _ \<Rightarrow> False | L_takeGit _ _ \<Rightarrow> False
     | _ \<Rightarrow> True) | _ \<Rightarrow> True)"

lemma ordinary_monitor:
  "ordinary ns q \<Longrightarrow> permitted (permit_monitor ns) m q \<and> after (permit_monitor ns) m q a = m"
  by (cases q) (auto simp: ordinary_def gained_def gained_from_def split: ledger_call.splits if_splits)

lemma ordinary_post:
  "only_calls (ordinary ns) p \<Longrightarrow> (\<And>r. Q m r) \<Longrightarrow> valid (permit_monitor ns) p m Q"
  by (rule only_calls_valid [where P = "ordinary ns"]) (auto simp del: permit_monitor_simps dest: ordinary_monitor)

lemmas ordinary_valid = ordinary_post [where Q = "\<lambda>_ _. True", OF _ TrueI]

lemma syncClosed_ordinary: "only_calls (ordinary ns) (syncClosed lib r)"
  by (auto simp: syncClosed_def effect_op_def ordinary_def
      intro!: only_calls_rules only_calls_quietly only_calls_op_at split: option.split)

text \<open>The wrapper keeps a handler that starts with no permit valid.\<close>

lemma attempt_gate_valid:
  assumes "\<And>a. valid (permit_monitor ns) (handler a) [] (\<lambda>_ _. True)"
  shows "valid (permit_monitor ns) (attempt_gate path e lib env handler rq) [] (\<lambda>_ _. True)"
  by (auto simp: attempt_gate_def intro!: valid_mono [OF assms] split: sum.split)

end
