(* ===== verification/InitialGate.thy ===== *)
theory InitialGate imports Wire begin

section \<open>The initial gate: one repository creation per attempt\<close>

text \<open>
  \<open>WorkEffectGate\<close> of \<open>crates/work-effect-worker/worker.ts\<close>. \<open>executeInitial\<close> asks the ledger for a
  permit, creates the repository, revokes the returned token, probes that the remote refuses it
  and closes the effect. The mutable \<open>repoId\<close> of the source is a value here: it is set once, when
  the creation has returned, so what the handler sees after a throw is known at that point.
\<close>

definition tokens_of :: "json \<Rightarrow> json list option" where
  "tokens_of v = (case get v ''tokens'' of JArr ts \<Rightarrow> Some ts | _ \<Rightarrow> None)"

definition bearer_text :: "json \<Rightarrow> bool" where
  "bearer_text v = str_test (\<lambda>s. 1 \<le> length s \<and> length s \<le> 4096
     \<and> list_all (\<lambda>c. 33 \<le> (of_char c :: nat) \<and> (of_char c :: nat) \<le> 126) s) v"

text \<open>\<open>tokenInfo\<close>: the one active write token of a new repository.\<close>

definition tokenInfo :: "json \<Rightarrow> err + json" where
  "tokenInfo v = (case tokens_of v of
     Some [t] \<Rightarrow>
       if get v ''total'' \<noteq> JNum 1 \<or> \<not> resource (get t ''id'') \<or> get t ''scope'' \<noteq> JStr ''write''
          \<or> get t ''state'' \<noteq> JStr ''active''
       then Inl Effect_inventory
       else bind_result (expiry (get t ''expiresAt'')) (\<lambda>_. Inr t)
   | _ \<Rightarrow> Inl Effect_inventory)"

text \<open>The inventory after the revocation: at most the same token, and nothing active.\<close>

definition inventory_after :: "json \<Rightarrow> json \<Rightarrow> bool" where
  "inventory_after t v = (case tokens_of v of
     None \<Rightarrow> False
   | Some ts \<Rightarrow> get v ''total'' = JNum (int (length ts)) \<and> length ts \<le> 8
       \<and> distinct (map (\<lambda>a. get a ''id'') ts)
       \<and> list_all (\<lambda>a. resource (get a ''id'')
            \<and> get a ''scope'' \<in> set [JStr ''read'', JStr ''write'']
            \<and> get a ''state'' \<in> set [JStr ''expired'', JStr ''revoked'']) ts
       \<and> list_all (\<lambda>a. get a ''id'' = get t ''id'' \<and> get a ''scope'' = get t ''scope''
            \<and> get a ''expiresAt'' = get t ''expiresAt'') ts)"

definition initial_receipt :: "lib \<Rightarrow> initial_plan \<Rightarrow> string \<Rightarrow> string \<Rightarrow> int \<Rightarrow> string" where
  "initial_receipt lib p repo token n = sha256_hex lib (stringify (JArr
     [JStr ''mikaki-initial-refusal-v1'', JStr (digest p), JStr repo, JStr token, JNum n, JNum 403]))"

definition unknown_initial :: "string \<Rightarrow> string option \<Rightarrow> json" where
  "unknown_initial attempt repo = JObj [(''attempt_id'', JStr attempt),
     (''state'', JStr ''outcome_unknown''),
     (''repo_id'', case repo of None \<Rightarrow> JNull | Some x \<Rightarrow> JStr x)]"

definition created_matches :: "initial_plan \<Rightarrow> string \<Rightarrow> json \<Rightarrow> bool" where
  "created_matches p remote v \<longleftrightarrow> resource (get v ''id'') \<and> get v ''name'' = JStr (name p)
     \<and> get v ''defaultBranch'' = JStr (branch_of p) \<and> get v ''remote'' = JStr remote"

definition info_matches :: "initial_plan \<Rightarrow> string \<Rightarrow> json \<Rightarrow> json \<Rightarrow> bool" where
  "info_matches p remote created v \<longleftrightarrow> get v ''id'' = get created ''id'' \<and> get v ''name'' = JStr (name p)
     \<and> get v ''defaultBranch'' = JStr (branch_of p) \<and> get v ''remote'' = JStr remote"

definition observe_effect_call :: "string \<Rightarrow> string \<Rightarrow> string \<Rightarrow> call" where
  "observe_effect_call attempt d repo = Ledger (L_observeEffect (JStr attempt) (JStr d) (JStr repo))"

text \<open>The calls between the creation and the revocation of the returned token.\<close>

definition observe_created :: "initial_plan \<Rightarrow> string \<Rightarrow> json \<Rightarrow> json prog" where
  "observe_created p remote created =
     bindp (throw_if (\<not> created_matches p remote created) Effect_result) (\<lambda>_.
     bindp (perform Repo_info json_of) (\<lambda>info.
     bindp (throw_if (\<not> info_matches p remote created info) Effect_result) (\<lambda>_.
     bindp (perform (observe_effect_call (attempt_id p) (digest p) (the_str (get created ''id''))) done_of) (\<lambda>_.
     bindp (perform List_tokens json_of) (\<lambda>ts. of_result (tokenInfo ts))))))"

text \<open>From the repository handle to the closed record.\<close>

definition close_created :: "lib \<Rightarrow> initial_plan \<Rightarrow> string \<Rightarrow> json \<Rightarrow> effect_record prog" where
  "close_created lib p remote created =
     bindp (finallyp (observe_created p remote created)
              (bindp (perform (Revoke_token (the_str (get created ''token''))) json_of) (\<lambda>_. Ret ()))) (\<lambda>t.
     bindp (perform List_tokens json_of) (\<lambda>rest.
     bindp (throw_if (\<not> inventory_after t rest) Effect_inventory) (\<lambda>_.
     bindp (perform (Probe (remote @ ''/info/refs?service=git-upload-pack'') (the_str (get created ''token'')))
              reply_of) (\<lambda>(status, _).
     bindp (throw_if (status \<noteq> 403) Effect_refusal_unknown) (\<lambda>_.
     bindp (perform Repo_info json_of) (\<lambda>final.
     bindp (throw_if (\<not> info_matches p remote created final) Effect_result) (\<lambda>_.
     bindp (of_result (expiry (get t ''expiresAt''))) (\<lambda>n.
       let repo = the_str (get created ''id''); token = the_str (get t ''id'') in
       perform (Ledger (L_closeEffect (JStr (attempt_id p)) (JStr (digest p)) (closure_json
         \<lparr>c_repo_id = repo, c_token_id = token, c_expires_at = Some n,
          c_receipt = initial_receipt lib p repo token n\<rparr>))) effect_row_of))))))))"

definition after_create :: "lib \<Rightarrow> initial_plan \<Rightarrow> string \<Rightarrow> json \<Rightarrow> effect_record prog" where
  "after_create lib p remote created =
     bindp (throw_if (\<not> bearer_text (get created ''token'')) Effect_result) (\<lambda>_.
     bindp (perform (Get_repo (name p)) done_of) (\<lambda>_.
       finallyp (close_created lib p remote created)
         (bindp (perform Dispose Some) (\<lambda>_. Ret ()))))"

definition unknown_after :: "initial_plan \<Rightarrow> string option \<Rightarrow> json prog" where
  "unknown_after p repo = (case repo of
     None \<Rightarrow> Ret (unknown_initial (attempt_id p) None)
   | Some x \<Rightarrow> bindp (quietly () (perform (observe_effect_call (attempt_id p) (digest p) x) done_of))
        (\<lambda>_. Ret (unknown_initial (attempt_id p) (Some x))))"

text \<open>
  The productive part. A synchronization promise the source returns from inside \<open>try\<close> is not
  awaited there, so what it throws is not caught here either.
\<close>

definition settle_created :: "lib \<Rightarrow> initial_plan \<Rightarrow> string \<Rightarrow> json option \<Rightarrow> json prog" where
  "settle_created lib p remote r = (case r of
       None \<Rightarrow> unknown_after p None
     | Some created \<Rightarrow>
         let repo = (if created_matches p remote created then Some (the_str (get created ''id'')) else None) in
         bindp (catchp (bindp (after_create lib p remote created) (\<lambda>record. Ret (Inr record)))
                  (bindp (unknown_after p repo) (\<lambda>v. Ret (Inl v)))) (\<lambda>x.
         case x of Inl v \<Rightarrow> Ret v | Inr record \<Rightarrow> syncClosed lib record))"

definition create_once :: "lib \<Rightarrow> initial_plan \<Rightarrow> string \<Rightarrow> json prog" where
  "create_once lib p remote =
     bindp (catchp
        (bindp (perform (Create_repo (name p) (branch_of p) (''mikaki initial '' @ attempt_id p)) json_of)
           (\<lambda>v. Ret (Some v)))
        (Ret None)) (settle_created lib p remote)"

definition known_effect :: "lib \<Rightarrow> string \<Rightarrow> effect_record \<Rightarrow> json prog" where
  "known_effect lib attempt r = (if e_state r = Closed then syncClosed lib r
     else Ret (unknown_initial attempt (e_repo_id r)))"

definition executeInitial :: "lib \<Rightarrow> gate_env \<Rightarrow> string \<Rightarrow> json prog" where
  "executeInitial lib env attempt =
     bindp (perform (Ledger (L_lookupEffect (JStr attempt))) effect_of) (\<lambda>previous.
     case previous of
       Some r \<Rightarrow> known_effect lib attempt r
     | None \<Rightarrow>
         bindp (effect_op lib (JObj [(''action'', JStr ''initial-plan''), (''attempt_id'', JStr attempt)])) (\<lambda>v.
         bindp (of_result (read_with initialPlan as_plan v)) (\<lambda>p.
         bindp (throw_if (attempt_id p \<noteq> attempt) Effect_invalid) (\<lambda>_.
         bindp (of_result (productiveScope env p)) (\<lambda>remote.
         bindp (perform (Ledger (L_claimEffect v)) effect_claim_of) (\<lambda>(started, record).
         if \<not> started then known_effect lib attempt record
         else create_once lib p remote))))))"

definition initial_gate :: "lib \<Rightarrow> gate_env \<Rightarrow> request \<Rightarrow> response prog" where
  "initial_gate lib env = attempt_gate ''/initial'' ''effect_unavailable_or_denied'' lib env (executeInitial lib env)"


subsection \<open>The gate uses its permit once\<close>

lemma after_create_ordinary: "only_calls (ordinary ns) (after_create lib p remote created)"
  unfolding after_create_def close_created_def observe_created_def observe_effect_call_def Let_def
  by (intro only_calls_rules; auto simp: ordinary_def intro!: only_calls_rules)

lemma unknown_after_ordinary: "only_calls (ordinary ns) (unknown_after p repo)"
  by (auto simp: unknown_after_def observe_effect_call_def ordinary_def
      intro!: only_calls_rules only_calls_quietly split: option.split)

lemma settle_created_ordinary: "only_calls (ordinary ns) (settle_created lib p remote r)"
  unfolding settle_created_def Let_def
  by (auto intro!: only_calls_rules after_create_ordinary unknown_after_ordinary syncClosed_ordinary
      split: option.split sum.split)

lemma create_once_valid:
  "valid (permit_monitor ns) (create_once lib p remote) [Create_of (attempt_id p)] (\<lambda>_ _. True)"
  by (simp add: create_once_def ordinary_valid [OF settle_created_ordinary] gained_def split: option.split)

lemma known_effect_ordinary: "only_calls (ordinary ns) (known_effect lib attempt r)"
  by (simp add: known_effect_def syncClosed_ordinary)

lemma executeInitial_valid: "valid (permit_monitor ns) (executeInitial lib env attempt) [] (\<lambda>_ _. True)"
  by (auto simp: executeInitial_def gained_from_def ordinary_valid [OF known_effect_ordinary]
      effect_op_def op_at_def intro: create_once_valid split: option.split sum.split)

lemma initial_gate_valid: "valid (permit_monitor ns) (initial_gate lib env rq) [] (\<lambda>_ _. True)"
  unfolding initial_gate_def by (rule attempt_gate_valid) (rule executeInitial_valid)


subsection \<open>Closed only after a refusal\<close>

text \<open>
  \<open>refusal_monitor\<close> remembers which secrets the provider returned, which were revoked and to which
  the remote answered 403. It allows the call that closes an effect only when one returned secret
  was revoked and refused, and the call that closes a mint only when a returned secret was refused.
\<close>

definition refused_by :: "answer \<Rightarrow> bool" where
  "refused_by a = (case reply_of a of Some (n, _) \<Rightarrow> n = 403 | None \<Rightarrow> False)"

definition returned_secret :: "call \<Rightarrow> answer \<Rightarrow> string option" where
  "returned_secret q a = (case q of
     Create_repo _ _ _ \<Rightarrow> map_option (\<lambda>v. the_str (get v ''token'')) (json_of a)
   | Create_token _ _ _ \<Rightarrow> map_option (\<lambda>v. the_str (get v ''plaintext'')) (json_of a)
   | _ \<Rightarrow> None)"

definition refusal_monitor :: "(string list \<times> string list \<times> string list) monitor" where
  "refusal_monitor = \<lparr>permitted = (\<lambda>(returned, revoked, refused) q. case q of
       Ledger (L_closeEffect _ _ _) \<Rightarrow> list_ex (\<lambda>x. x \<in> set revoked \<and> x \<in> set refused) returned
     | Ledger (L_closeMint _ _ _) \<Rightarrow> list_ex (\<lambda>x. x \<in> set refused) returned
     | _ \<Rightarrow> True),
     after = (\<lambda>(returned, revoked, refused) q a.
       (case returned_secret q a of Some x \<Rightarrow> x # returned | None \<Rightarrow> returned,
        case q of Revoke_token x \<Rightarrow> if json_of a \<noteq> None then x # revoked else revoked | _ \<Rightarrow> revoked,
        case q of Probe _ x \<Rightarrow> if refused_by a then x # refused else refused | _ \<Rightarrow> refused))\<rparr>"

lemma refusal_monitor_simps [simp]:
  "permitted refusal_monitor (g, v, f) q = (case q of
       Ledger (L_closeEffect _ _ _) \<Rightarrow> list_ex (\<lambda>x. x \<in> set v \<and> x \<in> set f) g
     | Ledger (L_closeMint _ _ _) \<Rightarrow> list_ex (\<lambda>x. x \<in> set f) g | _ \<Rightarrow> True)"
  "after refusal_monitor (g, v, f) q a =
     (case returned_secret q a of Some x \<Rightarrow> x # g | None \<Rightarrow> g,
      case q of Revoke_token x \<Rightarrow> if json_of a \<noteq> None then x # v else v | _ \<Rightarrow> v,
      case q of Probe _ x \<Rightarrow> if refused_by a then x # f else f | _ \<Rightarrow> f)"
  by (simp_all add: refusal_monitor_def)

lemma refusal_monitor_dispose [simp]: "permitted refusal_monitor m Dispose"
  by (cases m) simp

lemma returned_secret_simps [simp]:
  "returned_secret (Create_repo n b d) a = map_option (\<lambda>v. the_str (get v ''token'')) (json_of a)"
  "returned_secret (Create_token n sc ttl) a = map_option (\<lambda>v. the_str (get v ''plaintext'')) (json_of a)"
  "returned_secret (Ledger c) a = None" "returned_secret (Get_repo n) a = None" "returned_secret Repo_info a = None"
  "returned_secret List_tokens a = None" "returned_secret (Revoke_token t) a = None" "returned_secret Dispose a = None"
  "returned_secret (Native path v) a = None" "returned_secret (Probe url t) a = None" "returned_secret Clock a = None"
  by (simp_all add: returned_secret_def)

definition unclosing :: "call \<Rightarrow> bool" where
  "unclosing q = (case q of Ledger c \<Rightarrow> (case c of L_closeEffect _ _ _ \<Rightarrow> False | L_closeMint _ _ _ \<Rightarrow> False | _ \<Rightarrow> True)
     | Create_repo _ _ _ \<Rightarrow> False | Create_token _ _ _ \<Rightarrow> False
     | Revoke_token _ \<Rightarrow> False | Probe _ _ \<Rightarrow> False | _ \<Rightarrow> True)"

lemma unclosing_valid:
  "only_calls unclosing p \<Longrightarrow> (\<And>r. Q m r) \<Longrightarrow> valid refusal_monitor p m Q"
  by (rule only_calls_valid [where P = unclosing])
    (auto simp: unclosing_def returned_secret_def split: call.splits ledger_call.splits)

lemma observe_created_unclosing: "only_calls unclosing (observe_created p remote created)"
  unfolding observe_created_def observe_effect_call_def
  by (intro only_calls_rules; simp add: unclosing_def)

lemma close_created_refused:
  "the_str (get created ''token'') \<in> set g \<Longrightarrow>
     valid refusal_monitor (close_created lib p remote created) (g, v, f) (\<lambda>_ _. True)"
  unfolding close_created_def Let_def
  by (simp, rule unclosing_valid [OF observe_created_unclosing])
    (auto simp: refused_by_def list_ex_iff split: sum.splits option.splits)


lemma syncClosed_unclosing: "only_calls unclosing (syncClosed lib r)"
  by (auto simp: syncClosed_def effect_op_def unclosing_def
      intro!: only_calls_rules only_calls_quietly only_calls_op_at split: option.split)

lemma known_effect_unclosing: "only_calls unclosing (known_effect lib attempt r)"
  by (simp add: known_effect_def syncClosed_unclosing)

lemma unknown_after_unclosing: "only_calls unclosing (unknown_after p repo)"
  by (auto simp: unknown_after_def observe_effect_call_def unclosing_def
      intro!: only_calls_rules only_calls_quietly split: option.split)

lemmas initial_unclosing = unclosing_valid [OF syncClosed_unclosing] unclosing_valid [OF known_effect_unclosing]
  unclosing_valid [OF unknown_after_unclosing]

lemma after_create_refused:
  "the_str (get created ''token'') \<in> set g \<Longrightarrow> (\<And>m r. Q m r) \<Longrightarrow>
     valid refusal_monitor (after_create lib p remote created) (g, v, f) Q"
  by (auto simp: after_create_def intro!: valid_mono [OF close_created_refused] split: option.split sum.split)

lemma settle_created_refused:
  "(case r of None \<Rightarrow> True | Some created \<Rightarrow> the_str (get created ''token'') \<in> set g) \<Longrightarrow>
     valid refusal_monitor (settle_created lib p remote r) (g, v, f) (\<lambda>_ _. True)"
  by (auto simp: settle_created_def Let_def intro!: after_create_refused initial_unclosing split: option.split sum.split)

lemma create_once_refused: "valid refusal_monitor (create_once lib p remote) m (\<lambda>_ _. True)"
  by (cases m) (auto simp: create_once_def intro!: settle_created_refused split: option.split sum.split)

lemma initial_gate_refused: "valid refusal_monitor (initial_gate lib env rq) ([], [], []) (\<lambda>_ _. True)"
  by (auto simp: initial_gate_def attempt_gate_def executeInitial_def effect_op_def op_at_def
      intro!: initial_unclosing valid_mono [OF create_once_refused] split: option.split sum.split)

subsection \<open>The returned token is revoked\<close>

text \<open>
  \<open>debt_monitor\<close> keeps the usable bearers of created repositories and the secrets the gate owes a
  revocation. A bearer is owed once the handle of its repository was opened, a token returned by
  the mint at once; a debt is paid by the call that revokes that secret, or by the custody of the store.
\<close>

definition debt_monitor :: "(string list \<times> string list) monitor" where
  "debt_monitor = \<lparr>permitted = (\<lambda>_ _. True),
     after = (\<lambda>(known, owed) q a. case q of
       Create_repo _ _ _ \<Rightarrow> (case json_of a of
           Some v \<Rightarrow> (if bearer_text (get v ''token'') then the_str (get v ''token'') # known else known, owed)
         | None \<Rightarrow> (known, owed))
     | Get_repo _ \<Rightarrow> (known, if done_of a \<noteq> None then known @ owed else owed)
     | Create_token _ _ _ \<Rightarrow> (case json_of a of
           Some v \<Rightarrow> (known, if bearer_text (get v ''plaintext'') then the_str (get v ''plaintext'') # owed else owed)
         | None \<Rightarrow> (known, owed))
     | Revoke_token x \<Rightarrow> (known, removeAll x owed)
     | Ledger (L_custodyMint _ _) \<Rightarrow> (known, if mint_row_of a \<noteq> None then [] else owed)
     | _ \<Rightarrow> (known, owed))\<rparr>"

lemma debt_monitor_simps [simp]:
  "permitted debt_monitor m q"
  "after debt_monitor (known, owed) q a = (case q of
       Create_repo _ _ _ \<Rightarrow> (case json_of a of
           Some v \<Rightarrow> (if bearer_text (get v ''token'') then the_str (get v ''token'') # known else known, owed)
         | None \<Rightarrow> (known, owed))
     | Get_repo _ \<Rightarrow> (known, if done_of a \<noteq> None then known @ owed else owed)
     | Create_token _ _ _ \<Rightarrow> (case json_of a of
           Some v \<Rightarrow> (known, if bearer_text (get v ''plaintext'') then the_str (get v ''plaintext'') # owed else owed)
         | None \<Rightarrow> (known, owed))
     | Revoke_token x \<Rightarrow> (known, removeAll x owed)
     | Ledger (L_custodyMint _ _) \<Rightarrow> (known, if mint_row_of a \<noteq> None then [] else owed)
     | _ \<Rightarrow> (known, owed))"
  by (simp_all add: debt_monitor_def)

lemma debt_monitor_dispose [simp]: "after debt_monitor m Dispose a = m"
  by (cases m) simp

lemma removeAll_only [simp]: "set xs \<subseteq> {x} \<Longrightarrow> removeAll x xs = []"
  by (induction xs) auto

definition debtless :: "call \<Rightarrow> bool" where
  "debtless q = (case q of Create_repo _ _ _ \<Rightarrow> False | Get_repo _ \<Rightarrow> False | Create_token _ _ _ \<Rightarrow> False
     | Revoke_token _ \<Rightarrow> False | Ledger (L_custodyMint _ _) \<Rightarrow> False | _ \<Rightarrow> True)"

lemma debtless_valid:
  "only_calls debtless p \<Longrightarrow> (\<And>r. Q m r) \<Longrightarrow> valid debt_monitor p m Q"
  by (rule only_calls_valid [where P = debtless])
    (auto simp: debtless_def debt_monitor_def split: call.splits ledger_call.splits)

lemma observe_created_debtless: "only_calls debtless (observe_created p remote created)"
  unfolding observe_created_def observe_effect_call_def
  by (intro only_calls_rules; simp add: debtless_def)

lemma syncClosed_debtless: "only_calls debtless (syncClosed lib r)"
  by (auto simp: syncClosed_def effect_op_def debtless_def
      intro!: only_calls_rules only_calls_quietly only_calls_op_at split: option.split)

lemma unknown_after_debtless: "only_calls debtless (unknown_after p repo)"
  by (auto simp: unknown_after_def observe_effect_call_def debtless_def
      intro!: only_calls_rules only_calls_quietly split: option.split)

lemma known_effect_debtless: "only_calls debtless (known_effect lib attempt r)"
  by (simp add: known_effect_def syncClosed_debtless)

lemmas initial_debtless = debtless_valid [OF syncClosed_debtless] debtless_valid [OF known_effect_debtless]
  debtless_valid [OF unknown_after_debtless]

lemma close_created_pays:
  "set owed \<subseteq> {the_str (get created ''token'')} \<Longrightarrow>
     valid debt_monitor (close_created lib p remote created) (known, owed) (\<lambda>m _. snd m = [])"
  unfolding close_created_def Let_def
  by (simp, rule debtless_valid [OF observe_created_debtless])
    (auto split: sum.splits option.splits)

lemma after_create_pays:
  "set known \<subseteq> {the_str (get created ''token'')} \<Longrightarrow>
     valid debt_monitor (after_create lib p remote created) (known, []) (\<lambda>m _. snd m = [])"
  by (auto simp: after_create_def intro!: valid_mono [OF close_created_pays] split: option.split sum.split)

lemma settle_created_pays:
  "set known \<subseteq> (case r of None \<Rightarrow> {} | Some v \<Rightarrow> {the_str (get v ''token'')}) \<Longrightarrow>
     valid debt_monitor (settle_created lib p remote r) (known, []) (\<lambda>m _. snd m = [])"
  by (auto simp: settle_created_def Let_def intro!: valid_mono [OF after_create_pays] initial_debtless
      split: option.splits sum.splits if_splits)

lemma create_once_pays: "valid debt_monitor (create_once lib p remote) ([], []) (\<lambda>m _. snd m = [])"
  by (auto simp: create_once_def intro!: settle_created_pays initial_debtless split: option.split sum.split)

lemma initial_gate_pays: "valid debt_monitor (initial_gate lib env rq) ([], []) (\<lambda>m _. snd m = [])"
  by (auto simp: initial_gate_def attempt_gate_def executeInitial_def effect_op_def op_at_def
      intro!: initial_debtless valid_mono [OF create_once_pays] split: option.split sum.split)

end
