(* ===== verification/MintGate.thy ===== *)
theory MintGate imports InitialGate begin

section \<open>The mint gate: one token per slot, in custody or refused\<close>

text \<open>
  \<open>WorkMintGate\<close> of \<open>crates/work-effect-worker/mint.ts\<close>. After the ledger admitted the mint the gate
  calls the provider, records what was returned, hands the secret to the Native store and marks
  custody; on any failure it records the cleanup intent, revokes a returned secret, and closes
  the mint when the remote refuses it. The mutable locals of the source (\<open>repo\<close>, \<open>returned\<close>,
  \<open>observed\<close>) are the arguments of the recovery \<open>mint_failed\<close> at each point it can start from.
\<close>

definition mint_output :: "mint_record \<Rightarrow> bool \<Rightarrow> json" where
  "mint_output r synced = JObj [(''attempt_id'', JStr (attempt_id (m_plan r))),
     (''state'', JStr (case m_state r of Mint_unknown \<Rightarrow> ''outcome_unknown'' | Custodied \<Rightarrow> ''custodied''
                       | Mint_closed \<Rightarrow> ''closed'')),
     (''repo_id'', JStr (repo_id (m_plan r))),
     (''cleanup'', if m_refusal r \<noteq> None then JStr ''git_bearer_refused''
        else if m_state r = Mint_closed then JStr ''refused''
        else (case m_cleanup r of Some (c, _) \<Rightarrow> mc_method c
              | None \<Rightarrow> JStr (if m_revoke_acknowledged r then ''revoke_acknowledged'' else ''unconfirmed''))),
     (''op_synchronized'', JBool synced)]"

text \<open>
  \<open>synchronized\<close>: the status of the store can only fence custody, never grant it. The catch
  covers the status read and the fence; a failed fence leaves the record as it was.
\<close>

definition mint_status_body :: "mint_record \<Rightarrow> mint_observation \<Rightarrow> json" where
  "mint_status_body r obs = JObj ([(''action'', JStr ''mint-status''),
     (''attempt_id'', JStr (attempt_id (m_plan r))), (''digest'', JStr (digest (m_plan r)))]
     @ observation_entries obs @ [(''key_version'', JNum (key_version (m_plan r)))])"

definition fenced_by :: "mint_record \<Rightarrow> json \<Rightarrow> bool" where
  "fenced_by r v \<longleftrightarrow> closed v [''id'', ''state'', ''revision''] \<and> get v ''id'' = JStr (attempt_id (m_plan r))
     \<and> integer (get v ''revision'') \<and> includes_text [''revocation_pending'', ''closed''] (get v ''state'')"

definition abandon_call :: "mint_plan \<Rightarrow> call" where
  "abandon_call p = Ledger (L_beginMintCleanup (JStr (attempt_id p)) (JStr (digest p)) True)"

definition synchronized :: "lib \<Rightarrow> mint_record \<Rightarrow> json prog" where
  "synchronized lib r =
     (if m_state r = Mint_closed then synchronizeMintClosure lib r
      else case (m_state r, m_observation r) of
        (Custodied, Some obs) \<Rightarrow>
          bindp (quietly (r, False)
            (bindp (mintOp lib (mint_status_body r obs)) (\<lambda>v.
               if fenced_by r v
               then bindp (quietly r (perform (abandon_call (m_plan r)) mint_row_of)) (\<lambda>r'. Ret (r', False))
               else Ret (r, store_ack v (attempt_id (m_plan r)) ''captured'' 3 5))))
            (\<lambda>(r', synced). Ret (mint_output r' synced))
      | _ \<Rightarrow> Ret (mint_output r False))"

definition identity_ok :: "'a mint_core_scheme \<Rightarrow> string \<Rightarrow> json \<Rightarrow> bool" where
  "identity_ok p remote v \<longleftrightarrow> get v ''id'' = JStr (repo_id p) \<and> get v ''name'' = JStr (name p)
     \<and> get v ''remote'' = JStr remote \<and> get v ''defaultBranch'' = JStr (branch_of p)"

definition check_identity :: "'a mint_core_scheme \<Rightarrow> string \<Rightarrow> unit prog" where
  "check_identity p remote = bindp (perform Repo_info json_of) (\<lambda>v.
     throw_if (\<not> identity_ok p remote v) Effect_result)"

definition token_listed :: "json \<Rightarrow> bool" where
  "token_listed t \<longleftrightarrow> resource (get t ''id'') \<and> get t ''scope'' \<in> set [JStr ''read'', JStr ''write'']
     \<and> get t ''state'' \<in> set [JStr ''active'', JStr ''expired'', JStr ''revoked''] \<and> is_ok (expiry (get t ''expiresAt''))"

definition mint_inventory :: "json \<Rightarrow> err + json list" where
  "mint_inventory v = (case tokens_of v of
     None \<Rightarrow> Inl Effect_inventory
   | Some ts \<Rightarrow>
       if get v ''total'' \<noteq> JNum (int (length ts)) \<or> length ts > 8 \<or> \<not> distinct (map (\<lambda>t. get t ''id'') ts)
          \<or> \<not> list_all token_listed ts
       then Inl Effect_inventory else Inr ts)"

definition list_mint_tokens :: "json list prog" where
  "list_mint_tokens = bindp (perform List_tokens json_of) (\<lambda>v. of_result (mint_inventory v))"

definition find_token :: "json \<Rightarrow> json list \<Rightarrow> json option" where
  "find_token i ts = List.find (\<lambda>t. get t ''id'' = i) ts"

text \<open>Before the mint: the right repository, no active token, at least a minute to live.\<close>

definition preflight :: "mint_plan \<Rightarrow> string \<Rightarrow> (json list \<times> int) prog" where
  "preflight p remote =
     bindp (check_identity p remote) (\<lambda>_.
     bindp list_mint_tokens (\<lambda>before.
     bindp (throw_if (list_ex (\<lambda>t. get t ''state'' = JStr ''active'') before) Effect_inventory) (\<lambda>_.
     bindp (perform Clock time_of) (\<lambda>ms.
       let ttl = min 299 (expires_at p - (- ((- ms) div 1000)) - 1) in
       if ttl < 60 then Exc Effect_deadline else Ret (before, ttl)))))"

text \<open>What is worth recording of the returned metadata, whatever comes next.\<close>

definition observable :: "json list \<Rightarrow> json \<Rightarrow> bool" where
  "observable before v \<longleftrightarrow> resource (get v ''id'') \<and> find_token (get v ''id'') before = None
     \<and> get v ''scope'' \<in> set [JStr ''read'', JStr ''write'']"

definition mint_observed :: "mint_plan \<Rightarrow> json list \<Rightarrow> json \<Rightarrow> mint_observation option" where
  "mint_observed p before v =
     (if observable before v then (case expiry (get v ''expiresAt'') of
        Inl _ \<Rightarrow> None
      | Inr n \<Rightarrow> Some \<lparr>o_repo_id = repo_id p, o_token_id = the_str (get v ''id''),
                       o_scope = get v ''scope'', o_expires_at = n\<rparr>)
      else None)"

definition returned_ok :: "mint_plan \<Rightarrow> json \<Rightarrow> bool" where
  "returned_ok p v \<longleftrightarrow> closed v [''id'', ''plaintext'', ''scope'', ''expiresAt''] \<and> resource (get v ''id'')
     \<and> get v ''scope'' = JStr (scope p) \<and> bearer_text (get v ''plaintext'')"

definition same_token :: "json \<Rightarrow> json \<Rightarrow> bool" where
  "same_token a b \<longleftrightarrow> get a ''id'' = get b ''id'' \<and> get a ''state'' = get b ''state''
     \<and> get a ''scope'' = get b ''scope'' \<and> get a ''expiresAt'' = get b ''expiresAt''"

text \<open>The inventory has grown by the minted token and by nothing else.\<close>

definition one_more_token :: "mint_plan \<Rightarrow> json list \<Rightarrow> json list \<Rightarrow> json \<Rightarrow> int \<Rightarrow> bool" where
  "one_more_token p before rest v n = (case find_token (get v ''id'') rest of
     None \<Rightarrow> False
   | Some t \<Rightarrow> get t ''state'' = JStr ''active'' \<and> get t ''scope'' = JStr (scope p)
       \<and> expiry (get t ''expiresAt'') = Inr n \<and> length rest = length before + 1
       \<and> list_all (\<lambda>b. list_ex (\<lambda>a. same_token a b) rest) before
       \<and> list_all (\<lambda>a. get a ''id'' = get t ''id'' \<or> list_ex (\<lambda>b. get b ''id'' = get a ''id'') before) rest)"

definition capture_body :: "mint_plan \<Rightarrow> mint_observation \<Rightarrow> string \<Rightarrow> json" where
  "capture_body p obs secret = JObj ([(''action'', JStr ''capture-mint''),
     (''attempt_id'', JStr (attempt_id p)), (''digest'', JStr (digest p))] @ observation_entries obs
     @ [(''key_version'', JNum (key_version p)), (''key_fingerprint'', JStr (key_fingerprint p)),
        (''plaintext'', JStr secret)])"

text \<open>From the returned token to custody.\<close>

definition take_custody :: "lib \<Rightarrow> mint_plan \<Rightarrow> string \<Rightarrow> json list \<Rightarrow> json \<Rightarrow> mint_record prog" where
  "take_custody lib p remote before v =
     bindp (if observable before v
            then bindp (of_result (expiry (get v ''expiresAt''))) (\<lambda>n.
              bindp (perform (Ledger (L_observeMint (JStr (attempt_id p)) (JStr (digest p)) (observation_json
                 \<lparr>o_repo_id = repo_id p, o_token_id = the_str (get v ''id''), o_scope = get v ''scope'',
                  o_expires_at = n\<rparr>))) done_of) (\<lambda>_. Ret ()))
            else Ret ()) (\<lambda>_.
     bindp (throw_if (\<not> returned_ok p v) Effect_result) (\<lambda>_.
     bindp (of_result (expiry (get v ''expiresAt''))) (\<lambda>n.
     bindp (perform Clock time_of) (\<lambda>ms.
     case mint_observed p before v of
       None \<Rightarrow> Exc Effect_deadline
     | Some obs \<Rightarrow>
       bindp (throw_if (n \<le> ms div 1000 \<or> n > expires_at p) Effect_deadline) (\<lambda>_.
       bindp (check_identity p remote) (\<lambda>_.
       bindp list_mint_tokens (\<lambda>rest.
       bindp (throw_if (\<not> one_more_token p before rest v n) Effect_inventory) (\<lambda>_.
       bindp (mintOp lib (capture_body p obs (the_str (get v ''plaintext'')))) (\<lambda>captured.
       bindp (throw_if (\<not> store_ack captured (attempt_id p) ''captured'' 3 5) Effect_custody) (\<lambda>_.
       perform (Ledger (L_custodyMint (JStr (attempt_id p)) (JStr (digest p)))) mint_row_of))))))))))"

subsection \<open>Recovery\<close>

definition mint_receipt :: "lib \<Rightarrow> mint_plan \<Rightarrow> mint_observation \<Rightarrow> string" where
  "mint_receipt lib p obs = sha256_hex lib (stringify (JArr
     [JStr ''mikaki-mint-refusal-v1'', JStr (digest p), observation_json obs, JNum 403]))"

text \<open>The remote refuses the secret and the inventory still names it: close the mint.\<close>

definition close_refused :: "lib \<Rightarrow> mint_plan \<Rightarrow> string \<Rightarrow> string \<Rightarrow> mint_observation \<Rightarrow> mint_record prog" where
  "close_refused lib p remote secret obs =
     bindp (perform (Probe (remote @ ''/info/refs?service=git-upload-pack'') secret) reply_of) (\<lambda>(status, _).
     bindp (throw_if (status \<noteq> 403) Effect_refusal_unknown) (\<lambda>_.
     bindp (check_identity p remote) (\<lambda>_.
     bindp list_mint_tokens (\<lambda>ts.
     bindp (throw_if (case find_token (JStr (o_token_id obs)) ts of
         None \<Rightarrow> True
       | Some t \<Rightarrow> get t ''scope'' \<noteq> o_scope obs \<or> expiry (get t ''expiresAt'') \<noteq> Inr (o_expires_at obs)
           \<or> o_scope obs \<noteq> JStr (scope p) \<or> o_expires_at obs > expires_at p)
       Effect_refusal_binding_unknown) (\<lambda>_.
     perform (Ledger (L_closeMint (JStr (attempt_id p)) (JStr (digest p)) (JStr (mint_receipt lib p obs))))
       mint_row_of)))))"

definition cleanup_body :: "mint_plan \<Rightarrow> mint_observation \<Rightarrow> json" where
  "cleanup_body p obs = JObj ([(''action'', JStr ''mint-cleanup''), (''attempt_id'', JStr (attempt_id p)),
     (''digest'', JStr (digest p))] @ observation_entries obs)"

definition refuse_observed ::
    "lib \<Rightarrow> mint_plan \<Rightarrow> string \<Rightarrow> string \<Rightarrow> bool \<Rightarrow> mint_observation \<Rightarrow> mint_record option prog" where
  "refuse_observed lib p remote secret acknowledged obs =
     bindp (if acknowledged
            then quietly () (perform (Ledger (L_revokeMint (JStr (attempt_id p)) (JStr (digest p)) False)) done_of)
            else Ret ()) (\<lambda>_.
     bindp (quietly None (bindp (close_refused lib p remote secret obs) (\<lambda>r. Ret (Some r)))) (\<lambda>r.
     case r of
       Some record \<Rightarrow> Ret (Some record)
     | None \<Rightarrow> bindp (quietly () (bindp (mintOp lib (cleanup_body p obs)) (\<lambda>_. Ret ()))) (\<lambda>_. Ret None)))"

text \<open>
  The catch of the productive part: \<open>got\<close> is the repository handle, \<open>returned\<close> the result of the
  mint. It gives the record to report.
\<close>

definition mint_failed ::
    "lib \<Rightarrow> mint_plan \<Rightarrow> string \<Rightarrow> mint_record \<Rightarrow> json option \<Rightarrow> mint_observation option \<Rightarrow> mint_record prog" where
  "mint_failed lib p remote admitted returned observed =
     bindp (quietly () (perform (abandon_call p) done_of)) (\<lambda>_.
     bindp (case returned of
         None \<Rightarrow> Ret None
       | Some v \<Rightarrow>
           if bearer_text (get v ''plaintext'')
           then bindp (quietly False (bindp (perform (Revoke_token (the_str (get v ''plaintext''))) json_of)
                    (\<lambda>x. Ret (x = JBool True)))) (\<lambda>acknowledged.
                case observed of
                  None \<Rightarrow> Ret None
                | Some obs \<Rightarrow> refuse_observed lib p remote (the_str (get v ''plaintext'')) acknowledged obs)
           else Ret None) (\<lambda>closed_record.
     case closed_record of
       Some r \<Rightarrow> Ret r
     | None \<Rightarrow> bindp (perform (Ledger (L_lookupMint (JStr (attempt_id p)))) mint_of) (\<lambda>latest.
         Ret (case latest of Some r \<Rightarrow> r | None \<Rightarrow> admitted))))"

definition mint_once :: "lib \<Rightarrow> mint_plan \<Rightarrow> string \<Rightarrow> mint_record \<Rightarrow> mint_record prog" where
  "mint_once lib p remote admitted =
     bindp (catchp (bindp (perform (Get_repo (name p)) done_of) (\<lambda>_. Ret True)) (Ret False)) (\<lambda>got.
     if \<not> got then mint_failed lib p remote admitted None None
     else finallyp
       (bindp (catchp
          (bindp (preflight p remote) (\<lambda>(before, ttl).
           bindp (perform (Create_token (name p) (scope p) ttl) json_of) (\<lambda>v. Ret (Some (before, v)))))
          (Ret None)) (\<lambda>m.
        case m of
          None \<Rightarrow> mint_failed lib p remote admitted None None
        | Some (before, v) \<Rightarrow>
            catchp (take_custody lib p remote before v)
              (mint_failed lib p remote admitted (Some v) (mint_observed p before v))))
       (bindp (perform Dispose Some) (\<lambda>_. Ret ())))"

definition mint_attempt :: "lib \<Rightarrow> gate_env \<Rightarrow> string \<Rightarrow> json prog" where
  "mint_attempt lib env attempt =
     bindp (perform (Ledger (L_lookupMint (JStr attempt))) mint_of) (\<lambda>previous.
     case previous of
       Some r \<Rightarrow> synchronized lib r
     | None \<Rightarrow>
         bindp (mintOp lib (JObj [(''action'', JStr ''mint-plan''), (''attempt_id'', JStr attempt)])) (\<lambda>v.
         bindp (of_result (read_with mintPlan as_mint_plan v)) (\<lambda>p.
         bindp (throw_if (attempt_id p \<noteq> attempt) Effect_invalid) (\<lambda>_.
         bindp (of_result (productiveScope env p)) (\<lambda>remote.
         bindp (perform (Ledger (L_claimMint v)) mint_claim_of) (\<lambda>(started, record).
         if \<not> started then synchronized lib record
         else bindp (mint_once lib p remote record) (synchronized lib)))))))"

definition mint_gate :: "lib \<Rightarrow> gate_env \<Rightarrow> request \<Rightarrow> response prog" where
  "mint_gate lib env = attempt_gate ''/mint'' ''effect_unavailable_or_denied'' lib env (mint_attempt lib env)"


subsection \<open>One mint per permit\<close>

lemma synchronizeMintClosure_calls:
  "only_calls (ordinary ns) (synchronizeMintClosure lib r)"
  "only_calls unclosing (synchronizeMintClosure lib r)"
  "only_calls debtless (synchronizeMintClosure lib r)"
  by (auto simp: synchronizeMintClosure_def mintOp_def ordinary_def unclosing_def debtless_def
      intro!: only_calls_rules only_calls_quietly only_calls_op_at split: option.split)

lemma synchronized_calls:
  "only_calls (ordinary ns) (synchronized lib r)"
  "only_calls unclosing (synchronized lib r)"
  "only_calls debtless (synchronized lib r)"
  by (auto simp: synchronized_def mintOp_def ordinary_def unclosing_def debtless_def mint_status_body_def
      abandon_call_def synchronizeMintClosure_calls
      intro!: only_calls_rules only_calls_quietly only_calls_op_at split: option.split mint_state.split)

lemma check_identity_calls:
  "only_calls (ordinary ns) (check_identity p remote)"
  "only_calls unclosing (check_identity p remote)"
  "only_calls debtless (check_identity p remote)"
  by (auto simp: check_identity_def ordinary_def unclosing_def debtless_def intro!: only_calls_rules)

lemma list_mint_tokens_calls:
  "only_calls (ordinary ns) list_mint_tokens"
  "only_calls unclosing list_mint_tokens"
  "only_calls debtless list_mint_tokens"
  by (auto simp: list_mint_tokens_def ordinary_def unclosing_def debtless_def intro!: only_calls_rules)

lemma preflight_calls:
  "only_calls (ordinary ns) (preflight p remote)"
  "only_calls unclosing (preflight p remote)"
  "only_calls debtless (preflight p remote)"
  by (auto simp: preflight_def Let_def ordinary_def unclosing_def debtless_def check_identity_calls
      list_mint_tokens_calls intro!: only_calls_rules)

lemma take_custody_calls:
  "only_calls (ordinary ns) (take_custody lib p remote before v)"
  "only_calls unclosing (take_custody lib p remote before v)"
  unfolding take_custody_def mintOp_def
  by (auto simp: ordinary_def unclosing_def check_identity_calls list_mint_tokens_calls capture_body_def
      intro!: only_calls_rules only_calls_op_at split: option.split)

lemma mint_failed_ordinary: "only_calls (ordinary ns) (mint_failed lib p remote admitted returned observed)"
  unfolding mint_failed_def refuse_observed_def close_refused_def mintOp_def
  by (auto simp: ordinary_def check_identity_calls list_mint_tokens_calls cleanup_body_def abandon_call_def
      intro!: only_calls_rules only_calls_quietly only_calls_op_at split: option.split)


lemma mint_once_valid:
  assumes "scope p = ''write'' \<Longrightarrow> slot_of p = Slot ns (name p) (JStr ''upload'')"
  shows "valid (permit_monitor ns) (mint_once lib p remote r) [Mint_of (attempt_id p), Mint_in (slot_of p)] (\<lambda>_ _. True)"
  using assms
  by (auto simp: mint_once_def
      intro!: ordinary_post [OF preflight_calls(1)] ordinary_post [OF take_custody_calls(1)]
        ordinary_post [OF mint_failed_ordinary]
      split: option.split sum.split)

lemma mint_attempt_valid:
  "valid (permit_monitor (gate_namespace env)) (mint_attempt lib env attempt) [] (\<lambda>_ _. True)"
proof -
  have slot: "slot_of (as_mint_plan v) = Slot (gate_namespace env) (name (as_mint_plan v)) (JStr ''upload'')"
    if "mintPlan v = Inr ()" "productiveScope env (as_mint_plan v) = Inr remote"
      "scope (as_mint_plan v) = ''write''" for v remote
    using that mintPlan_wf [of v]
    by (auto simp: wf_mint_plan_def wf_mint_core_def productiveScope_def scope_of_def slot_of_def split: if_splits)
  show ?thesis
    by (auto simp: mint_attempt_def mintOp_def op_at_def gained_from_def
        intro!: ordinary_post [OF synchronized_calls(1)] valid_mono [OF mint_once_valid] slot
        split: option.split sum.split)
qed

lemma mint_gate_valid:
  "valid (permit_monitor (gate_namespace env)) (mint_gate lib env rq) [] (\<lambda>_ _. True)"
  unfolding mint_gate_def by (rule attempt_gate_valid) (rule mint_attempt_valid)

subsection \<open>Closed only after a refusal, and the secret is revoked or in custody\<close>

lemma close_refused_refused:
  "secret \<in> set g \<Longrightarrow> valid refusal_monitor (close_refused lib p remote secret obs) (g, v, f) (\<lambda>_ _. True)"
  by (auto simp: close_refused_def refused_by_def list_ex_iff
      intro!: bexI [of _ secret] unclosing_valid [OF check_identity_calls(2)] unclosing_valid [OF list_mint_tokens_calls(2)]
      split: option.splits sum.splits)

lemma mint_failed_refused:
  "(case returned of None \<Rightarrow> True | Some x \<Rightarrow> the_str (get x ''plaintext'') \<in> set g) \<Longrightarrow> (\<And>m r. Q m r) \<Longrightarrow>
     valid refusal_monitor (mint_failed lib p remote admitted returned observed) (g, v, f) Q"
  by (auto simp: mint_failed_def refuse_observed_def mintOp_def op_at_def abandon_call_def
      intro!: valid_mono [OF close_refused_refused] split: option.split sum.split prod.split)


lemma mint_once_refused: "valid refusal_monitor (mint_once lib p remote r) m (\<lambda>_ _. True)"
  by (cases m) (auto simp: mint_once_def
      intro!: unclosing_valid [OF preflight_calls(2)] unclosing_valid [OF take_custody_calls(2)]
        mint_failed_refused split: option.split sum.split)

lemma mint_gate_refused: "valid refusal_monitor (mint_gate lib env rq) ([], [], []) (\<lambda>_ _. True)"
  by (auto simp: mint_gate_def attempt_gate_def mint_attempt_def mintOp_def op_at_def
      intro!: unclosing_valid [OF synchronized_calls(2)] valid_mono [OF mint_once_refused]
      split: option.split sum.split)

lemma take_custody_pays:
  "valid debt_monitor (take_custody lib p remote before v) (known, owed)
     (\<lambda>m r. snd m = [] \<or> (m = (known, owed) \<and> (\<exists>e. r = Inl e)))"
  unfolding take_custody_def mintOp_def op_at_def
  by (auto intro!: debtless_valid [OF check_identity_calls(3)] debtless_valid [OF list_mint_tokens_calls(3)]
      split: option.split sum.split)

lemma close_refused_debtless: "only_calls debtless (close_refused lib p remote secret obs)"
  unfolding close_refused_def
  by (auto simp: debtless_def check_identity_calls list_mint_tokens_calls intro!: only_calls_rules)

lemma refuse_observed_debtless: "only_calls debtless (refuse_observed lib p remote secret acknowledged obs)"
  unfolding refuse_observed_def mintOp_def
  by (auto simp: debtless_def cleanup_body_def close_refused_debtless
      intro!: only_calls_rules only_calls_quietly only_calls_op_at split: option.split)

lemma mint_failed_pays:
  "set owed \<subseteq> (case returned of None \<Rightarrow> {} | Some v \<Rightarrow>
       if bearer_text (get v ''plaintext'') then {the_str (get v ''plaintext'')} else {}) \<Longrightarrow>
     valid debt_monitor (mint_failed lib p remote admitted returned observed) (known, owed) (\<lambda>m _. snd m = [])"
  by (auto simp: mint_failed_def abandon_call_def
      intro!: debtless_valid [OF refuse_observed_debtless] split: option.splits sum.splits if_splits)

lemma mint_once_pays: "valid debt_monitor (mint_once lib p remote r) ([], []) (\<lambda>m _. snd m = [])"
  by (auto simp: mint_once_def
      intro!: debtless_valid [OF preflight_calls(3)] valid_mono [OF take_custody_pays]
        mint_failed_pays split: option.split sum.split)

lemma mint_gate_pays: "valid debt_monitor (mint_gate lib env rq) ([], []) (\<lambda>m _. snd m = [])"
  by (auto simp: mint_gate_def attempt_gate_def mint_attempt_def mintOp_def op_at_def
      intro!: debtless_valid [OF synchronized_calls(3)] valid_mono [OF mint_once_pays]
      split: option.split sum.split)

end
