(* ===== verification/Maintenance.thy ===== *)
theory Maintenance imports MintGate begin

section \<open>The maintenance brokers\<close>

text \<open>
  \<open>crates/work-effect-worker/maintenance.ts\<close> and \<open>mint-maintenance.ts\<close>: the workers that own the
  physical repositories and hand out capabilities fixed to one attempt: read the repository,
  list its tokens, revoke the one token the ledger has observed. A capability is the record of
  the private fields of the source class; each of its methods is a program. \<open>refuse_broken\<close> stands
  for the \<open>catch\<close> that turns every failure of \<open>open\<close> into one error after releasing the handle.
\<close>

subsection \<open>Inventories\<close>

definition maintenance_listed :: "json \<Rightarrow> bool" where
  "maintenance_listed t \<longleftrightarrow> resource (get t ''id'') \<and> get t ''scope'' \<in> set [JStr ''read'', JStr ''write'']
     \<and> get t ''state'' \<in> set [JStr ''active'', JStr ''revoked'', JStr ''expired'']
     \<and> is_ok (expiry (get t ''createdAt'')) \<and> is_ok (expiry (get t ''expiresAt''))"

definition listed_token :: "json \<Rightarrow> json" where
  "listed_token t = JObj [(''id'', get t ''id''), (''scope'', get t ''scope''), (''state'', get t ''state''),
     (''createdAt'', get t ''createdAt''), (''expiresAt'', get t ''expiresAt'')]"

definition inventory :: "json \<Rightarrow> err + json list" where
  "inventory v = (case tokens_of v of
     None \<Rightarrow> Inl Maintenance_denied
   | Some ts \<Rightarrow>
       if get v ''total'' \<noteq> JNum (int (length ts)) \<or> length ts > 8
          \<or> \<not> distinct (map (\<lambda>t. get t ''id'') ts) \<or> \<not> list_all maintenance_listed ts
       then Inl Maintenance_denied else Inr (map listed_token ts))"

definition inventory_json :: "json list \<Rightarrow> json" where
  "inventory_json ts = JObj [(''total'', JNum (int (length ts))), (''tokens'', JArr ts)]"

lemma inventory_again: "inventory v = Inr ts \<Longrightarrow> inventory (inventory_json ts) = Inr ts"
proof -
  assume "inventory v = Inr ts"
  then obtain us where "tokens_of v = Some us" and us: "length us \<le> 8" "distinct (map (\<lambda>t. get t ''id'') us)"
      "list_all maintenance_listed us" and ts: "ts = map listed_token us"
    by (auto simp: inventory_def split: option.splits if_splits)
  have "listed_token (listed_token t) = listed_token t" "maintenance_listed (listed_token t) = maintenance_listed t"
    "get (listed_token t) ''id'' = get t ''id''" for t
    by (simp_all add: listed_token_def maintenance_listed_def)
  then show ?thesis using us
    by (simp add: ts inventory_def inventory_json_def tokens_of_def comp_def list.pred_map)
qed

subsection \<open>One repository of an unknown creation\<close>

record safety_cap =
  sc_plan :: initial_plan
  sc_remote :: string
  sc_id :: string
  sc_disposed :: bool

definition checkInfo :: "initial_plan \<Rightarrow> string \<Rightarrow> string option \<Rightarrow> json \<Rightarrow> err + json" where
  "checkInfo p remote known v =
     (if \<not> resource (get v ''id'')
         \<or> (case known of None \<Rightarrow> False | Some x \<Rightarrow> get v ''id'' \<noteq> JStr x)
         \<or> get v ''name'' \<noteq> JStr (name p) \<or> get v ''defaultBranch'' \<noteq> JStr (branch_of p)
         \<or> get v ''remote'' \<noteq> JStr remote
         \<or> get v ''description'' \<noteq> JStr (''mikaki initial '' @ attempt_id p)
      then Inl Maintenance_denied
      else Inr (JObj [(''id'', get v ''id''), (''name'', JStr (name p)), (''description'', get v ''description''),
                      (''defaultBranch'', get v ''defaultBranch''), (''remote'', JStr remote)]))"

definition safety_current :: "safety_cap \<Rightarrow> effect_record prog" where
  "safety_current c =
     (if sc_disposed c then Exc Maintenance_denied
      else bindp (perform (Ledger (L_lookupEffect (JStr (attempt_id (sc_plan c))))) effect_of) (\<lambda>row.
        case row of
          None \<Rightarrow> Exc Maintenance_denied
        | Some r \<Rightarrow>
            if e_state r \<noteq> Outcome_unknown \<or> e_plan r \<noteq> sc_plan c
               \<or> (e_repo_id r \<noteq> None \<and> e_repo_id r \<noteq> Some (sc_id c))
            then Exc Maintenance_denied else Ret r))"

definition safety_identity :: "safety_cap \<Rightarrow> (effect_record \<times> json) prog" where
  "safety_identity c =
     bindp (safety_current c) (\<lambda>r.
     bindp (perform Repo_info json_of) (\<lambda>v.
     bindp (of_result (checkInfo (sc_plan c) (sc_remote c) (Some (sc_id c)) v)) (\<lambda>info. Ret (r, info))))"

definition safety_info :: "safety_cap \<Rightarrow> json prog" where
  "safety_info c = bindp (safety_identity c) (\<lambda>(_, info). Ret info)"

definition safety_listTokens :: "safety_cap \<Rightarrow> json list prog" where
  "safety_listTokens c = bindp (safety_identity c) (\<lambda>_.
     bindp (perform List_tokens json_of) (\<lambda>v. of_result (inventory v)))"

definition safety_revokeToken :: "safety_cap \<Rightarrow> json \<Rightarrow> json prog" where
  "safety_revokeToken c input =
     bindp (throw_if (\<not> resource input) Maintenance_denied) (\<lambda>_.
     bindp (safety_identity c) (\<lambda>(r, _).
     case e_token_observation r of
       None \<Rightarrow> Exc Maintenance_denied
     | Some (t, _) \<Rightarrow>
       bindp (throw_if (e_repo_id r \<noteq> Some (sc_id c) \<or> t_repo_id t \<noteq> sc_id c \<or> JStr (t_token_id t) \<noteq> input)
                Maintenance_denied) (\<lambda>_.
       bindp (perform List_tokens json_of) (\<lambda>v.
       bindp (of_result (inventory v)) (\<lambda>ts.
       bindp (throw_if (case ts of
           [a] \<Rightarrow> get a ''id'' \<noteq> input \<or> get a ''scope'' \<noteq> JStr ''write'' \<or> get a ''state'' \<noteq> JStr ''active''
                 \<or> expiry (get a ''expiresAt'') \<noteq> Inr (t_expires_at t)
         | _ \<Rightarrow> True) Maintenance_denied) (\<lambda>_.
       bindp (safety_identity c) (\<lambda>_.
       perform (Revoke_token (the_str input)) json_of)))))))"

definition safety_dispose :: "safety_cap \<Rightarrow> safety_cap prog" where
  "safety_dispose c = (if sc_disposed c then Ret c
     else bindp (perform Dispose Some) (\<lambda>_. Ret (c\<lparr>sc_disposed := True\<rparr>)))"

definition refuse_broken :: "'a prog \<Rightarrow> 'a prog" where
  "refuse_broken p = catchp p (bindp (perform Dispose Some) (\<lambda>_. Exc Maintenance_denied))"

definition attempt_input :: "json \<Rightarrow> bool" where
  "attempt_input v \<longleftrightarrow> closed v [''attempt_id''] \<and> opaque (get v ''attempt_id'')"

definition open_safety :: "gate_env \<Rightarrow> json \<Rightarrow> safety_cap prog" where
  "open_safety env input =
     bindp (throw_if (gate_enabled env \<noteq> ''true'' \<or> \<not> attempt_input input) Maintenance_denied) (\<lambda>_.
     bindp (perform (Ledger (L_lookupEffect (get input ''attempt_id''))) effect_of) (\<lambda>row.
     case row of
       None \<Rightarrow> Exc Maintenance_denied
     | Some r \<Rightarrow>
       bindp (throw_if (e_state r \<noteq> Outcome_unknown) Maintenance_denied) (\<lambda>_.
       bindp (of_result (initialPlan (plan_json (e_plan r)))) (\<lambda>_.
       bindp (throw_if (JStr (attempt_id (e_plan r)) \<noteq> get input ''attempt_id''
           \<or> (case e_repo_id r of None \<Rightarrow> False | Some x \<Rightarrow> \<not> resource (JStr x))) Maintenance_denied) (\<lambda>_.
       bindp (of_result (scope_of env (e_plan r))) (\<lambda>remote.
       bindp (perform (Get_repo (name (e_plan r))) done_of) (\<lambda>_.
       refuse_broken (
         bindp (perform Repo_info json_of) (\<lambda>v.
         bindp (of_result (checkInfo (e_plan r) remote (e_repo_id r) v)) (\<lambda>info.
         Ret \<lparr>sc_plan = e_plan r, sc_remote = remote, sc_id = the_str (get info ''id''),
              sc_disposed = False\<rparr>))))))))))"

subsection \<open>The observed token of one mint\<close>

record mint_cap =
  mx_plan :: mint_plan
  mx_remote :: string
  mx_disposed :: bool

definition mint_identity :: "mint_plan \<Rightarrow> string \<Rightarrow> json \<Rightarrow> err + json" where
  "mint_identity p remote v =
     (if get v ''id'' \<noteq> JStr (repo_id p) \<or> get v ''name'' \<noteq> JStr (name p)
         \<or> get v ''defaultBranch'' \<noteq> JStr (branch_of p) \<or> get v ''remote'' \<noteq> JStr remote
         \<or> get v ''description'' \<noteq> JStr (''mikaki initial '' @ initial_attempt_id p)
      then Inl Maintenance_denied
      else Inr (JObj [(''id'', get v ''id''), (''name'', get v ''name''), (''defaultBranch'', get v ''defaultBranch''),
                      (''remote'', JStr remote), (''description'', get v ''description'')]))"

definition mint_current :: "mint_cap \<Rightarrow> mint_record prog" where
  "mint_current c =
     (if mx_disposed c then Exc Maintenance_denied
      else bindp (perform (Ledger (L_lookupMint (JStr (attempt_id (mx_plan c))))) mint_of) (\<lambda>row.
        case row of
          None \<Rightarrow> Exc Maintenance_denied
        | Some r \<Rightarrow>
            if m_state r \<noteq> Mint_unknown \<or> m_cleanup r \<noteq> None \<or> m_plan r \<noteq> mx_plan c
            then Exc Maintenance_denied else Ret r))"

definition mint_checked :: "mint_cap \<Rightarrow> (mint_record \<times> json) prog" where
  "mint_checked c =
     bindp (mint_current c) (\<lambda>r.
     bindp (perform Repo_info json_of) (\<lambda>v.
     bindp (of_result (mint_identity (mx_plan c) (mx_remote c) v)) (\<lambda>info.
     bindp (mint_current c) (\<lambda>_. Ret (r, info)))))"

definition mint_info :: "mint_cap \<Rightarrow> json prog" where
  "mint_info c = bindp (mint_checked c) (\<lambda>(_, info). Ret info)"

definition mint_listTokens :: "mint_cap \<Rightarrow> json list prog" where
  "mint_listTokens c =
     bindp (mint_checked c) (\<lambda>_.
     bindp (perform List_tokens json_of) (\<lambda>v.
     bindp (of_result (inventory v)) (\<lambda>ts.
     bindp (mint_checked c) (\<lambda>_. Ret ts))))"

definition mint_revokeToken :: "mint_cap \<Rightarrow> json \<Rightarrow> json prog" where
  "mint_revokeToken c input =
     bindp (throw_if (\<not> resource input) Maintenance_denied) (\<lambda>_.
     bindp (mint_checked c) (\<lambda>(r, _).
     case m_observation r of
       None \<Rightarrow> Exc Maintenance_denied
     | Some obs \<Rightarrow>
       bindp (throw_if (\<not> m_cleanup_requested r \<or> input \<noteq> JStr (o_token_id obs)
           \<or> o_repo_id obs \<noteq> repo_id (mx_plan c) \<or> o_scope obs \<noteq> JStr (scope (mx_plan c)))
           Maintenance_denied) (\<lambda>_.
       bindp (perform List_tokens json_of) (\<lambda>v.
       bindp (of_result (inventory v)) (\<lambda>ts.
       bindp (throw_if (case find_token input ts of
           None \<Rightarrow> True
         | Some t \<Rightarrow> get t ''scope'' \<noteq> o_scope obs \<or> get t ''state'' \<noteq> JStr ''active''
             \<or> expiry (get t ''expiresAt'') \<noteq> Inr (o_expires_at obs)) Maintenance_denied) (\<lambda>_.
       bindp (mint_checked c) (\<lambda>(now, _).
       bindp (throw_if (\<not> m_cleanup_requested now
           \<or> map_option (\<lambda>x. JStr (o_token_id x)) (m_observation now) \<noteq> Some input) Maintenance_denied) (\<lambda>_.
       perform (Revoke_token (the_str input)) json_of))))))))"

definition mint_dispose :: "mint_cap \<Rightarrow> mint_cap prog" where
  "mint_dispose c = (if mx_disposed c then Ret c
     else bindp (perform Dispose Some) (\<lambda>_. Ret (c\<lparr>mx_disposed := True\<rparr>)))"

definition open_mint :: "gate_env \<Rightarrow> json \<Rightarrow> mint_cap prog" where
  "open_mint env input =
     bindp (throw_if (gate_enabled env \<noteq> ''true'' \<or> \<not> attempt_input input) Maintenance_denied) (\<lambda>_.
     bindp (perform (Ledger (L_lookupMint (get input ''attempt_id''))) mint_of) (\<lambda>row.
     case row of
       None \<Rightarrow> Exc Maintenance_denied
     | Some r \<Rightarrow>
       bindp (throw_if (m_state r \<noteq> Mint_unknown \<or> m_cleanup r \<noteq> None) Maintenance_denied) (\<lambda>_.
       bindp (of_result (mintPlan (mint_plan_json (m_plan r)))) (\<lambda>_.
       bindp (throw_if (JStr (attempt_id (m_plan r)) \<noteq> get input ''attempt_id'') Maintenance_denied) (\<lambda>_.
       bindp (of_result (scope_of env (m_plan r))) (\<lambda>remote.
       bindp (perform (Get_repo (name (m_plan r))) done_of) (\<lambda>_.
       refuse_broken (
         bindp (perform Repo_info json_of) (\<lambda>v.
         bindp (of_result (mint_identity (m_plan r) remote v)) (\<lambda>_.
         Ret \<lparr>mx_plan = m_plan r, mx_remote = remote, mx_disposed = False\<rparr>))))))))))"


subsection \<open>Only the observed token is revoked\<close>

text \<open>
  \<open>revoke_monitor\<close> keeps the rows the broker has read in this call. A revocation is permitted for
  a token that a row read in the call names as the observed one, when the last row read is still
  open: an unknown creation, or an unknown mint whose cleanup was requested.
\<close>

definition observed_by_row :: "string \<Rightarrow> answer \<Rightarrow> bool" where
  "observed_by_row t a = (case a of
     A_effect (Some r) \<Rightarrow> (case e_token_observation r of Some (x, _) \<Rightarrow> t_token_id x = t | None \<Rightarrow> False)
   | A_mint (Some r) \<Rightarrow> m_cleanup_requested r \<and> (case m_observation r of Some x \<Rightarrow> o_token_id x = t | None \<Rightarrow> False)
   | _ \<Rightarrow> False)"

definition open_row :: "answer \<Rightarrow> bool" where
  "open_row a = (case a of
     A_effect (Some r) \<Rightarrow> e_state r = Outcome_unknown
   | A_mint (Some r) \<Rightarrow> m_state r = Mint_unknown \<and> m_cleanup r = None
   | _ \<Rightarrow> False)"

definition revoke_monitor :: "answer list monitor" where
  "revoke_monitor = \<lparr>permitted = (\<lambda>rows q. case q of
       Revoke_token t \<Rightarrow> (case rows of [] \<Rightarrow> False | a # _ \<Rightarrow> open_row a)
          \<and> list_ex (observed_by_row t) rows
     | Repo_info \<Rightarrow> True | List_tokens \<Rightarrow> True | Ledger c \<Rightarrow> call_op 0 c = None | _ \<Rightarrow> False),
     after = (\<lambda>rows q a. case q of Ledger _ \<Rightarrow> a # rows | _ \<Rightarrow> rows)\<rparr>"

lemma revoke_monitor_simps [simp]:
  "permitted revoke_monitor rows q = (case q of
       Revoke_token t \<Rightarrow> (case rows of [] \<Rightarrow> False | a # _ \<Rightarrow> open_row a) \<and> list_ex (observed_by_row t) rows
     | Repo_info \<Rightarrow> True | List_tokens \<Rightarrow> True | Ledger c \<Rightarrow> call_op 0 c = None | _ \<Rightarrow> False)"
  "after revoke_monitor rows q a = (case q of Ledger _ \<Rightarrow> a # rows | _ \<Rightarrow> rows)"
  by (simp_all add: revoke_monitor_def)

lemma safety_identity_rows:
  "(\<And>e rows'. Q rows' (Inl e)) \<Longrightarrow>
   (\<And>r info. e_state r = Outcome_unknown \<Longrightarrow> Q (A_effect (Some r) # rows) (Inr (r, info))) \<Longrightarrow>
     valid revoke_monitor (safety_identity c) rows Q"
  unfolding safety_identity_def safety_current_def
  by (auto simp: call_op_def effect_of_def split: option.split sum.split answer.splits)

lemma safety_revokeToken_observed: "valid revoke_monitor (safety_revokeToken c input) [] (\<lambda>_ _. True)"
  unfolding safety_revokeToken_def
  by (auto simp: open_row_def observed_by_row_def resource_def str_test_iff
      intro!: safety_identity_rows split: option.split sum.split)

lemma mint_checked_rows:
  "(\<And>e rows'. Q rows' (Inl e)) \<Longrightarrow>
   (\<And>r r' info. m_state r' = Mint_unknown \<Longrightarrow> m_cleanup r' = None \<Longrightarrow>
      Q (A_mint (Some r') # A_mint (Some r) # rows) (Inr (r, info))) \<Longrightarrow>
     valid revoke_monitor (mint_checked c) rows Q"
  unfolding mint_checked_def mint_current_def
  by (auto simp: call_op_def mint_of_def simp del: split_paired_Ex split_paired_All
      split: option.split sum.split answer.splits)

lemma mint_revokeToken_observed: "valid revoke_monitor (mint_revokeToken c input) [] (\<lambda>_ _. True)"
  unfolding mint_revokeToken_def
  by (auto simp: open_row_def observed_by_row_def resource_def str_test_iff
      intro!: mint_checked_rows split: option.split sum.split)

end
