(* ===== verification/Reconcile.thy ===== *)
theory Reconcile imports InitialGate begin

section \<open>Recovery of an admitted creation\<close>

text \<open>
  \<open>WorkEffectReconciler\<close> of \<open>crates/work-effect-worker/reconcile.ts\<close>: for an attempt whose outcome
  is unknown it opens the repository through the maintenance broker, revokes the initial token by
  its identifier and records the evidence. It never creates anything. \<open>repoId\<close> of the source is
  the repository known before the broker's answer, then the one the broker named.
\<close>

definition reconcile_matches :: "initial_plan \<Rightarrow> string \<Rightarrow> string option \<Rightarrow> json \<Rightarrow> bool" where
  "reconcile_matches p remote known v \<longleftrightarrow> resource (get v ''id'')
     \<and> (case known of None \<Rightarrow> True | Some x \<Rightarrow> get v ''id'' = JStr x)
     \<and> get v ''name'' = JStr (name p) \<and> get v ''defaultBranch'' = JStr (branch_of p)
     \<and> get v ''remote'' = JStr remote
     \<and> get v ''description'' = JStr (''mikaki initial '' @ attempt_id p)"

type_synonym sole = "string \<times> int \<times> string"

definition soleToken :: "json \<Rightarrow> err + sole" where
  "soleToken v = (case tokens_of v of
     Some [t] \<Rightarrow>
       if get v ''total'' \<noteq> JNum 1 \<or> \<not> resource (get t ''id'') \<or> get t ''scope'' \<noteq> JStr ''write''
          \<or> get t ''state'' \<notin> set [JStr ''active'', JStr ''revoked'']
       then Inl Effect_inventory
       else bind_result (expiry (get t ''expiresAt'')) (\<lambda>n.
         Inr (the_str (get t ''id''), n, the_str (get t ''state'')))
   | _ \<Rightarrow> Inl Effect_inventory)"

definition no_tokens :: "json \<Rightarrow> bool" where
  "no_tokens v \<longleftrightarrow> get v ''total'' = JNum 0 \<and> tokens_of v = Some []"

definition revocation_evidence ::
    "lib \<Rightarrow> initial_plan \<Rightarrow> string \<Rightarrow> string \<Rightarrow> int \<Rightarrow> string \<Rightarrow> revocation_inventory" where
  "revocation_evidence lib p repo token n how =
     \<lparr>t_repo_id = repo, t_token_id = token, t_expires_at = n,
      ri_receipt = sha256_hex lib (stringify (JArr [JStr ''mikaki-initial-revocation-v1'', JStr (digest p),
         JStr repo, JStr token, JStr ''write'', JNum n, JStr how])),
      ri_method = JStr how\<rparr>"

definition record_revocation :: "initial_plan \<Rightarrow> revocation_inventory \<Rightarrow> effect_record prog" where
  "record_revocation p x = perform (Ledger (L_recordRevocation (JStr (attempt_id p)) (JStr (digest p))
     (revocation_json x))) effect_row_of"

definition broker_info :: "json prog" where "broker_info = perform Broker_info json_of"
definition broker_tokens :: "json prog" where "broker_tokens = perform Broker_tokens json_of"

text \<open>The token to account for, and the proof of its revocation there is so far.\<close>

definition known_token :: "effect_record \<Rightarrow> (string \<times> int) option" where
  "known_token r = (case e_token_observation r of
     Some (t, _) \<Rightarrow> Some (t_token_id t, t_expires_at t)
   | None \<Rightarrow> map_option (\<lambda>(c, _). (t_token_id c, t_expires_at c)) (e_cleanup r))"

definition revoke_sole ::
    "lib \<Rightarrow> effect_record \<Rightarrow> string \<Rightarrow> sole \<Rightarrow> (sole \<times> revocation_inventory option) prog" where
  "revoke_sole lib r repo t = (case t of (token, n, st) \<Rightarrow>
     let p = e_plan r in
     bindp (throw_if (case known_token r of None \<Rightarrow> False | Some k \<Rightarrow> k \<noteq> (token, n)) Effect_inventory) (\<lambda>_.
     bindp (perform (Ledger (L_observeEffectToken (JStr (attempt_id p)) (JStr (digest p))
        (token_observation_json \<lparr>t_repo_id = repo, t_token_id = token, t_expires_at = n\<rparr>))) effect_row_of) (\<lambda>_.
     bindp (if st = ''active''
        then bindp (perform (Broker_revoke (JStr token)) json_of) (\<lambda>x.
             bindp (throw_if (x \<noteq> JBool True) Effect_revocation_unknown) (\<lambda>_.
             bindp (record_revocation p (revocation_evidence lib p repo token n ''revoke_acknowledged'')) (\<lambda>saved.
             Ret (map_option fst (e_cleanup saved)))))
        else Ret (map_option fst (e_cleanup r))) (\<lambda>proof_so_far.
     bindp broker_tokens (\<lambda>rest.
     bindp (if no_tokens rest \<and> proof_so_far \<noteq> None then Ret ()
            else bindp (of_result (soleToken rest)) (\<lambda>(a, an, ast).
              throw_if (ast \<noteq> ''revoked'' \<or> a \<noteq> token \<or> an \<noteq> n) Effect_inventory)) (\<lambda>_.
     Ret (t, proof_so_far)))))))"

definition account_token ::
    "lib \<Rightarrow> effect_record \<Rightarrow> string \<Rightarrow> (sole \<times> revocation_inventory option) prog" where
  "account_token lib r repo =
     bindp broker_tokens (\<lambda>listed.
     case e_cleanup r of
       Some (c, _) \<Rightarrow>
         if no_tokens listed then Ret ((t_token_id c, t_expires_at c, ''revoked''), Some c)
         else bindp (of_result (soleToken listed)) (revoke_sole lib r repo)
     | None \<Rightarrow> bindp (of_result (soleToken listed)) (revoke_sole lib r repo))"

definition capture_revocation :: "lib \<Rightarrow> initial_plan \<Rightarrow> string \<Rightarrow> sole \<Rightarrow> bool prog" where
  "capture_revocation lib p repo t = (case t of (token, n, _) \<Rightarrow>
     quietly False (bindp (perform (Native ''/effect'' (JObj [(''action'', JStr ''capture-revocation''),
         (''attempt_id'', JStr (attempt_id p)), (''digest'', JStr (digest p)), (''repo_id'', JStr repo),
         (''token_id'', JStr token), (''expires_at'', JNum n)])) reply_of) (\<lambda>(status, b).
       if status = 200 then bindp (of_result (jsonBody lib b)) (\<lambda>v.
         Ret (store_ack v (attempt_id p) ''revocation_pending'' 1 5))
       else Ret False)))"

definition reconcile_repo :: "lib \<Rightarrow> effect_record \<Rightarrow> string \<Rightarrow> string \<Rightarrow> json prog" where
  "reconcile_repo lib r remote repo = (let p = e_plan r in
     bindp (perform (observe_effect_call (attempt_id p) (digest p) repo) done_of) (\<lambda>_.
     bindp (account_token lib r repo) (\<lambda>(t, proof_so_far).
     bindp broker_info (\<lambda>v.
     bindp (throw_if (\<not> reconcile_matches p remote (Some repo) v) Effect_result) (\<lambda>_.
     bindp (record_revocation p (case proof_so_far of Some x \<Rightarrow> x
        | None \<Rightarrow> revocation_evidence lib p repo (fst t) (fst (snd t)) ''revoked_inventory'')) (\<lambda>_.
     bindp (capture_revocation lib p repo t) (\<lambda>synced.
     Ret (JObj [(''attempt_id'', JStr (attempt_id p)), (''state'', JStr ''outcome_unknown''),
        (''repo_id'', JStr repo), (''cleanup'', JStr ''initial_token_revoked''),
        (''op_synchronized'', JBool synced)]))))))))"

text \<open>The body of the \<open>try\<close>: the repository known at its end, and its result if it did not throw.\<close>

definition reconcile_open :: "lib \<Rightarrow> effect_record \<Rightarrow> string \<Rightarrow> (string option \<times> json option) prog" where
  "reconcile_open lib r remote =
     bindp (catchp
        (bindp broker_info (\<lambda>v.
         bindp (throw_if (\<not> reconcile_matches (e_plan r) remote (e_repo_id r) v) Effect_result) (\<lambda>_.
         Ret (Some (the_str (get v ''id''))))))
        (Ret None)) (\<lambda>repo.
     case repo of
       None \<Rightarrow> Ret (e_repo_id r, None)
     | Some x \<Rightarrow> catchp (bindp (reconcile_repo lib r remote x) (\<lambda>v. Ret (Some x, Some v))) (Ret (Some x, None)))"

definition reconcile_try :: "lib \<Rightarrow> effect_record \<Rightarrow> string \<Rightarrow> (string option \<times> json option) prog" where
  "reconcile_try lib r remote =
     bindp (catchp (bindp (perform (Broker_open (JObj [(''attempt_id'', JStr (attempt_id (e_plan r)))])) done_of)
                     (\<lambda>_. Ret True)) (Ret False)) (\<lambda>opened.
     if opened then finallyp (reconcile_open lib r remote) (bindp (perform Broker_dispose Some) (\<lambda>_. Ret ()))
     else Ret (e_repo_id r, None))"

definition reconcile :: "lib \<Rightarrow> gate_env \<Rightarrow> string \<Rightarrow> json prog" where
  "reconcile lib env attempt =
     bindp (perform (Ledger (L_lookupEffect (JStr attempt))) effect_of) (\<lambda>row.
     case row of
       None \<Rightarrow> Exc Effect_not_admitted
     | Some r \<Rightarrow>
         bindp (of_result (initialPlan (plan_json (e_plan r)))) (\<lambda>_.
         bindp (of_result (scope_of env (e_plan r))) (\<lambda>remote.
         bindp (throw_if (attempt_id (e_plan r) \<noteq> attempt) Effect_invalid) (\<lambda>_.
         if e_state r = Closed then syncClosed lib r
         else bindp (reconcile_try lib r remote) (\<lambda>(repo, result).
           case result of
             Some v \<Rightarrow> Ret v
           | None \<Rightarrow> bindp (perform (Ledger (L_lookupEffect (JStr attempt))) effect_of) (\<lambda>latest.
               case latest of
                 Some l \<Rightarrow> if e_state l = Closed then syncClosed lib l else Ret (unknown_initial attempt repo)
               | None \<Rightarrow> Ret (unknown_initial attempt repo)))))))"

definition reconcile_gate :: "lib \<Rightarrow> gate_env \<Rightarrow> request \<Rightarrow> response prog" where
  "reconcile_gate lib env = attempt_gate ''/reconcile'' ''effect_unavailable_or_denied'' lib env (reconcile lib env)"

subsection \<open>What recovery may do\<close>

text \<open>
  The calls of the safety binding: lookups, observations and evidence of the effect, the broker,
  and metadata writes of the Native store. No claim, no close, no provider call of its own.
\<close>

definition effect_safety :: "call \<Rightarrow> bool" where
  "effect_safety q = (case q of
     Ledger c \<Rightarrow> (case c of L_lookupEffect _ \<Rightarrow> True | L_observeEffect _ _ _ \<Rightarrow> True
       | L_observeEffectToken _ _ _ \<Rightarrow> True | L_recordRevocation _ _ _ \<Rightarrow> True | _ \<Rightarrow> False)
   | Broker_open _ \<Rightarrow> True | Broker_info \<Rightarrow> True | Broker_tokens \<Rightarrow> True | Broker_revoke _ \<Rightarrow> True
   | Broker_dispose \<Rightarrow> True
   | Native path v \<Rightarrow> path = ''/effect'' \<and> get v ''action'' \<in> set [JStr ''capture-closed'', JStr ''capture-revocation'']
   | _ \<Rightarrow> False)"

lemma syncClosed_safety: "only_calls effect_safety (syncClosed lib r)"
  by (auto simp: syncClosed_def effect_op_def effect_safety_def
      intro!: only_calls_rules only_calls_quietly only_calls_op_at split: option.split)

lemma revoke_sole_safety: "only_calls effect_safety (revoke_sole lib r repo t)"
  by (cases t) (auto simp: revoke_sole_def Let_def record_revocation_def broker_tokens_def effect_safety_def
      intro!: only_calls_rules)

lemma account_token_safety: "only_calls effect_safety (account_token lib r repo)"
  by (auto simp: account_token_def broker_tokens_def effect_safety_def revoke_sole_safety
      intro!: only_calls_rules split: option.split)

lemma reconcile_repo_safety: "only_calls effect_safety (reconcile_repo lib r remote repo)"
  unfolding reconcile_repo_def Let_def
  by (auto simp: record_revocation_def broker_info_def capture_revocation_def observe_effect_call_def
      effect_safety_def account_token_safety intro!: only_calls_rules only_calls_quietly)

lemma reconcile_gate_safety: "only_calls effect_safety (reconcile_gate lib env rq)"
  unfolding reconcile_gate_def attempt_gate_def reconcile_def reconcile_try_def reconcile_open_def broker_info_def
  by (auto simp: effect_safety_def syncClosed_safety reconcile_repo_safety
      intro!: only_calls_rules split: option.split)

end
