(* ===== verification/MintRecovery.thy ===== *)
theory MintRecovery imports Maintenance Reconcile begin

section \<open>Recovery and closure of a mint\<close>

text \<open>
  \<open>crates/work-effect-worker/mint-reconcile.ts\<close> (revoke the observed token of an unknown or cancelled
  mint and record the evidence), \<open>mint-closure.ts\<close> (retain the refusal proof the Native store
  produced and close the mint) and \<open>mint-refusal-transport.ts\<close> (the one egress that shows the
  bearer to the remote, between two checks). None of them mints.
\<close>

subsection \<open>Reconciliation\<close>

definition cleanup_evidence :: "lib \<Rightarrow> mint_plan \<Rightarrow> mint_observation \<Rightarrow> string \<Rightarrow> mint_cleanup" where
  "cleanup_evidence lib p obs how = mint_observation.extend obs (mint_cleanup.fields (JStr how)
     (sha256_hex lib (stringify (JArr [JStr ''mikaki-mint-cleanup-v1'', JStr (digest p), JStr (o_repo_id obs),
        JStr (o_token_id obs), o_scope obs, JNum (o_expires_at obs), JStr how]))))"

definition mint_unknown :: "mint_plan \<Rightarrow> json \<Rightarrow> bool \<Rightarrow> json" where
  "mint_unknown p how synced = JObj [(''attempt_id'', JStr (attempt_id p)), (''state'', JStr ''outcome_unknown''),
     (''repo_id'', JStr (repo_id p)), (''cleanup'', how), (''op_synchronized'', JBool synced)]"

definition cleanup_synchronized :: "lib \<Rightarrow> mint_record \<Rightarrow> json prog" where
  "cleanup_synchronized lib r = (case (m_cleanup r, m_observation r) of
     (Some (c, _), Some obs) \<Rightarrow>
       bindp (quietly False (bindp (mintOp lib (cleanup_body (m_plan r) obs)) (\<lambda>v.
          Ret (store_ack v (attempt_id (m_plan r)) ''revocation_pending'' 3 5)))) (\<lambda>synced.
       Ret (mint_unknown (m_plan r) (mc_method c) synced))
   | _ \<Rightarrow> Exc Effect_unconfirmed)"

definition broker_inventory :: "json list prog" where
  "broker_inventory = bindp broker_tokens (\<lambda>v. of_result (inventory v))"

definition token_as_observed :: "mint_observation \<Rightarrow> json \<Rightarrow> bool" where
  "token_as_observed obs t \<longleftrightarrow> get t ''scope'' = o_scope obs \<and> expiry (get t ''expiresAt'') = Inr (o_expires_at obs)"

text \<open>The method of the evidence: what revoked the observed token.\<close>

definition revoke_observed :: "mint_record \<Rightarrow> mint_observation \<Rightarrow> json \<Rightarrow> string prog" where
  "revoke_observed r obs t =
     bindp (throw_if (\<not> token_as_observed obs t) Effect_inventory) (\<lambda>_.
     bindp (if get t ''state'' = JStr ''active''
        then bindp (perform (Broker_revoke (JStr (o_token_id obs))) json_of) (\<lambda>x.
             bindp (throw_if (x \<noteq> JBool True) Effect_revocation_unknown) (\<lambda>_.
             bindp (perform (Ledger (L_revokeMint (JStr (attempt_id (m_plan r))) (JStr (digest (m_plan r))) True)) done_of) (\<lambda>_.
             Ret (''revoke_acknowledged'', True))))
        else if get t ''state'' = JStr ''revoked'' then Ret (''revoked_inventory'', m_revoke_acknowledged r)
        else Exc Effect_revocation_unknown) (\<lambda>(how, acknowledged).
     bindp broker_inventory (\<lambda>rest.
     bindp (throw_if (case find_token (JStr (o_token_id obs)) rest of
         Some a \<Rightarrow> \<not> token_as_observed obs a \<or> get a ''state'' \<noteq> JStr ''revoked''
       | None \<Rightarrow> False) Effect_inventory) (\<lambda>_.
     bindp (throw_if (find_token (JStr (o_token_id obs)) rest = None \<and> \<not> acknowledged) Effect_revocation_unknown) (\<lambda>_.
     Ret how)))))"

definition reconcile_mint_repo :: "lib \<Rightarrow> mint_record \<Rightarrow> (json + mint_record) prog" where
  "reconcile_mint_repo lib r =
     bindp broker_inventory (\<lambda>ts.
     case m_observation r of
       None \<Rightarrow> Ret (Inl (mint_unknown (m_plan r) (JStr ''token_unobserved'') False))
     | Some obs \<Rightarrow>
       bindp (of_result (mintObservation (observation_json obs))) (\<lambda>_.
       bindp (case find_token (JStr (o_token_id obs)) ts of
           None \<Rightarrow> if m_revoke_acknowledged r then Ret ''revoke_acknowledged'' else Exc Effect_revocation_unknown
         | Some t \<Rightarrow> revoke_observed r obs t) (\<lambda>how.
       bindp broker_info (\<lambda>_.
       bindp (perform (Ledger (L_recordMintCleanup (JStr (attempt_id (m_plan r))) (JStr (digest (m_plan r)))
          (mint_cleanup_json (cleanup_evidence lib (m_plan r) obs how)))) mint_row_of) (\<lambda>saved.
       Ret (Inr saved))))))"

definition reconcile_mint_try :: "lib \<Rightarrow> mint_record \<Rightarrow> (json + mint_record) prog" where
  "reconcile_mint_try lib r = catchp
     (bindp (perform (Broker_open (JObj [(''attempt_id'', JStr (attempt_id (m_plan r)))])) done_of) (\<lambda>_.
      finallyp (reconcile_mint_repo lib r) (bindp (perform Broker_dispose Some) (\<lambda>_. Ret ()))))
     (Ret (Inl (mint_unknown (m_plan r) (JStr ''unconfirmed'') False)))"

definition reconcile_mint :: "lib \<Rightarrow> gate_env \<Rightarrow> bool \<Rightarrow> string \<Rightarrow> json prog" where
  "reconcile_mint lib env cancel attempt =
     bindp (perform (Ledger (L_lookupMint (JStr attempt))) mint_of) (\<lambda>row.
     case row of
       None \<Rightarrow> Exc Effect_not_recoverable
     | Some r \<Rightarrow>
       bindp (throw_if (\<not> cancel \<and> m_state r = Custodied) Effect_not_recoverable) (\<lambda>_.
       bindp (of_result (mintPlan (mint_plan_json (m_plan r)))) (\<lambda>_.
       bindp (of_result (scope_of env (m_plan r))) (\<lambda>_.
       bindp (throw_if (attempt_id (m_plan r) \<noteq> attempt) Effect_invalid) (\<lambda>_.
       if m_state r = Mint_closed then synchronizeMintClosure lib r
       else if m_cleanup r \<noteq> None then cleanup_synchronized lib r
       else bindp (perform (Ledger (L_beginMintCleanup (JStr attempt) (JStr (digest (m_plan r))) cancel)) mint_row_of) (\<lambda>q.
         bindp (reconcile_mint_try lib (q\<lparr>m_plan := m_plan r\<rparr>)) (\<lambda>x.
         case x of Inl v \<Rightarrow> Ret v | Inr saved \<Rightarrow> cleanup_synchronized lib saved)))))))"

definition mint_reconcile_gate :: "lib \<Rightarrow> gate_env \<Rightarrow> request \<Rightarrow> response prog" where
  "mint_reconcile_gate lib env rq =
     (if rq_path rq = ''/cancel-mint''
      then attempt_gate ''/cancel-mint'' ''effect_unavailable_or_denied'' lib env (reconcile_mint lib env True) rq
      else attempt_gate ''/reconcile-mint'' ''effect_unavailable_or_denied'' lib env (reconcile_mint lib env False) rq)"

subsection \<open>Closure by refusal\<close>

definition refusal_status_body :: "string \<Rightarrow> mint_record \<Rightarrow> mint_observation \<Rightarrow> json" where
  "refusal_status_body action r obs = JObj ([(''action'', JStr action), (''attempt_id'', JStr (attempt_id (m_plan r))),
     (''digest'', JStr (digest (m_plan r)))] @ observation_entries obs
     @ [(''key_version'', JNum (key_version (m_plan r)))]
     @ (if action = ''mint-close'' then [(''receipt'', JStr (case m_refusal r of Some (x, _) \<Rightarrow> mr_receipt x | None \<Rightarrow> []))]
        else []))"

definition closure_synchronized :: "lib \<Rightarrow> mint_record \<Rightarrow> json prog" where
  "closure_synchronized lib r = (case (m_refusal r, m_observation r) of
     (Some _, Some obs) \<Rightarrow>
       if m_state r \<noteq> Mint_closed then Exc Closure_unconfirmed
       else bindp (quietly False (bindp (mintOp lib (refusal_status_body ''mint-close'' r obs)) (\<lambda>v.
          Ret (store_ack v (attempt_id (m_plan r)) ''closed'' 4 6)))) (\<lambda>synced.
       Ret (JObj [(''attempt_id'', JStr (attempt_id (m_plan r))), (''repo_id'', JStr (repo_id (m_plan r))),
          (''state'', JStr ''closed''), (''cleanup'', JStr ''git_bearer_refused''), (''op_synchronized'', JBool synced)]))
   | _ \<Rightarrow> Exc Closure_unconfirmed)"

definition refusal_unconfirmed :: "mint_plan \<Rightarrow> json" where
  "refusal_unconfirmed p = JObj [(''attempt_id'', JStr (attempt_id p)), (''repo_id'', JStr (repo_id p)),
     (''state'', JStr ''outcome_unknown''), (''cleanup'', JStr ''refusal_unconfirmed''), (''op_synchronized'', JBool False)]"

definition close_mint :: "lib \<Rightarrow> gate_env \<Rightarrow> string \<Rightarrow> json prog" where
  "close_mint lib env attempt =
     bindp (perform (Ledger (L_lookupMint (JStr attempt))) mint_of) (\<lambda>row.
     case row of
       None \<Rightarrow> Exc Closure_denied
     | Some r \<Rightarrow> (case m_observation r of
         None \<Rightarrow> Exc Closure_denied
       | Some obs \<Rightarrow>
         bindp (throw_if (\<not> m_cleanup_requested r \<or> m_cleanup r = None \<or> m_state r = Custodied) Closure_denied) (\<lambda>_.
         bindp (of_result (mintPlan (mint_plan_json (m_plan r)))) (\<lambda>_.
         bindp (of_result (scope_of env (m_plan r))) (\<lambda>_.
         bindp (throw_if (attempt_id (m_plan r) \<noteq> attempt) Closure_denied) (\<lambda>_.
         if m_state r = Mint_closed then closure_synchronized lib r
         else catchp
           (bindp (mintOp lib (refusal_status_body ''mint-refusal'' r obs)) (\<lambda>proof_v.
            bindp (of_result (mintRefusal proof_v)) (\<lambda>_.
            bindp (perform (Ledger (L_closeMintRefused (JStr attempt) (JStr (digest (m_plan r))) proof_v)) mint_row_of) (\<lambda>saved.
            closure_synchronized lib saved))))
           (bindp (perform (Ledger (L_lookupMint (JStr attempt))) mint_of) (\<lambda>latest.
            case latest of
              Some l \<Rightarrow> if m_state l = Mint_closed then closure_synchronized lib l else Ret (refusal_unconfirmed (m_plan r))
            | None \<Rightarrow> Ret (refusal_unconfirmed (m_plan r))))))))))"

definition mint_closure_gate :: "lib \<Rightarrow> gate_env \<Rightarrow> request \<Rightarrow> response prog" where
  "mint_closure_gate lib env = attempt_gate ''/close-mint'' ''closure_unavailable_or_denied'' lib env (close_mint lib env)"

subsection \<open>The refusal transport\<close>

record refusal_request =
  rr_method :: string
  rr_url :: string
  rr_attempt :: "string option"
  rr_authorization :: "string option"
  rr_has_body :: bool

definition bearer_header :: "string \<Rightarrow> bool" where
  "bearer_header s \<longleftrightarrow> take 7 s = ''Bearer '' \<and> bearer_text (JStr (drop 7 s))"

text \<open>\<open>check\<close>: the row and the repository are what they were, and the token is revoked.\<close>

definition refusal_check :: "mint_record \<Rightarrow> mint_observation \<Rightarrow> string \<Rightarrow> unit prog" where
  "refusal_check r obs remote = (let p = m_plan r in
     bindp (perform (Ledger (L_lookupMint (JStr (attempt_id p)))) mint_of) (\<lambda>row.
     bindp (perform Repo_info json_of) (\<lambda>v.
     case row of
       None \<Rightarrow> Exc Refusal_denied
     | Some l \<Rightarrow>
       bindp (throw_if (m_state l \<noteq> Mint_unknown \<or> m_refusal l \<noteq> None \<or> m_plan l \<noteq> p
           \<or> m_cleanup l \<noteq> m_cleanup r \<or> m_observation l \<noteq> Some obs
           \<or> \<not> is_ok (mint_identity p remote v)) Refusal_denied) (\<lambda>_.
       bindp (perform List_tokens json_of) (\<lambda>tv.
       bindp (of_result (inventory tv)) (\<lambda>ts.
       throw_if (case find_token (JStr (o_token_id obs)) ts of
           Some t \<Rightarrow> get t ''state'' \<noteq> JStr ''revoked'' \<or> \<not> token_as_observed obs t
         | None \<Rightarrow> \<not> m_revoke_acknowledged l) Refusal_denied))))))"

definition refusal_body :: "gate_env \<Rightarrow> refusal_request \<Rightarrow> response prog" where
  "refusal_body env rq = (case (rr_attempt rq, rr_authorization rq) of
     (Some attempt, Some authorization) \<Rightarrow>
       bindp (throw_if (gate_enabled env \<noteq> ''true'' \<or> rr_method rq \<noteq> ''GET'' \<or> \<not> opaque (JStr attempt)
           \<or> \<not> bearer_header authorization \<or> rr_has_body rq) Refusal_denied) (\<lambda>_.
       bindp (perform (Ledger (L_lookupMint (JStr attempt))) mint_of) (\<lambda>row.
       case row of
         None \<Rightarrow> Exc Refusal_denied
       | Some r \<Rightarrow> (case m_observation r of
           None \<Rightarrow> Exc Refusal_denied
         | Some obs \<Rightarrow>
           bindp (throw_if (m_state r \<noteq> Mint_unknown \<or> \<not> m_cleanup_requested r \<or> m_cleanup r = None
               \<or> m_refusal r \<noteq> None) Refusal_denied) (\<lambda>_.
           bindp (of_result (mintPlan (mint_plan_json (m_plan r)))) (\<lambda>_.
           bindp (of_result (scope_of env (m_plan r))) (\<lambda>remote.
           bindp (throw_if (attempt_id (m_plan r) \<noteq> attempt
               \<or> rr_url rq \<noteq> remote @ ''/info/refs?service=git-upload-pack'') Refusal_denied) (\<lambda>_.
           bindp (perform (Get_repo (name (m_plan r))) done_of) (\<lambda>_.
           finallyp
             (bindp (refusal_check r obs remote) (\<lambda>_.
              bindp (perform (Probe (rr_url rq) (drop 7 authorization)) reply_of) (\<lambda>(status, _).
              bindp (throw_if (status \<noteq> 403) Refusal_unconfirmed) (\<lambda>_.
              bindp (refusal_check r obs remote) (\<lambda>_. Ret (respond_empty 403))))))
             (bindp (perform Dispose Some) (\<lambda>_. Ret ()))))))))))
   | _ \<Rightarrow> Exc Refusal_denied)"

definition refusal_transport :: "gate_env \<Rightarrow> refusal_request \<Rightarrow> response prog" where
  "refusal_transport env rq = catchp (refusal_body env rq) (Ret (respond_empty 409))"


subsection \<open>What recovery of a mint may do, and in which order\<close>

definition mint_safety :: "call \<Rightarrow> bool" where
  "mint_safety q = (case q of
     Ledger c \<Rightarrow> (case c of L_lookupMint _ \<Rightarrow> True | L_beginMintCleanup _ _ _ \<Rightarrow> True
       | L_revokeMint _ _ safety \<Rightarrow> safety | L_recordMintCleanup _ _ _ \<Rightarrow> True | _ \<Rightarrow> False)
   | Broker_open _ \<Rightarrow> True | Broker_info \<Rightarrow> True | Broker_tokens \<Rightarrow> True | Broker_revoke _ \<Rightarrow> True
   | Broker_dispose \<Rightarrow> True
   | Native path v \<Rightarrow> path = ''/mint-effect''
       \<and> get v ''action'' \<in> set [JStr ''mint-close'', JStr ''capture-mint-closed'', JStr ''mint-cleanup'']
   | _ \<Rightarrow> False)"

lemma synchronizeMintClosure_safety: "only_calls mint_safety (synchronizeMintClosure lib r)"
  by (auto simp: synchronizeMintClosure_def mintOp_def mint_safety_def
      intro!: only_calls_rules only_calls_quietly only_calls_op_at split: option.split)

lemma cleanup_synchronized_safety: "only_calls mint_safety (cleanup_synchronized lib r)"
  by (auto simp: cleanup_synchronized_def mintOp_def cleanup_body_def mint_safety_def
      intro!: only_calls_rules only_calls_quietly only_calls_op_at split: option.split)

lemma revoke_observed_safety: "only_calls mint_safety (revoke_observed r obs t)"
  by (auto simp: revoke_observed_def broker_inventory_def broker_tokens_def mint_safety_def
      intro!: only_calls_rules)

lemma reconcile_mint_repo_safety: "only_calls mint_safety (reconcile_mint_repo lib r)"
  by (auto simp: reconcile_mint_repo_def broker_inventory_def broker_tokens_def broker_info_def mint_safety_def
      revoke_observed_safety intro!: only_calls_rules split: option.split)

lemma reconcile_mint_safety: "only_calls mint_safety (reconcile_mint lib env cancel attempt)"
  by (auto simp: reconcile_mint_def reconcile_mint_try_def mint_safety_def synchronizeMintClosure_safety
      cleanup_synchronized_safety reconcile_mint_repo_safety intro!: only_calls_rules split: option.split sum.split)

lemma attempt_gate_only_calls:
  "(\<And>a. only_calls P (handler a)) \<Longrightarrow> only_calls P (attempt_gate path e lib env handler rq)"
  by (auto simp: attempt_gate_def intro!: only_calls_rules)

lemma mint_reconcile_gate_safety: "only_calls mint_safety (mint_reconcile_gate lib env rq)"
  by (simp add: mint_reconcile_gate_def attempt_gate_only_calls reconcile_mint_safety)

text \<open>
  \<open>intent_monitor\<close>: the broker is reached only after the cleanup intent is durable, and a
  revocation is acknowledged only after the broker confirmed it.
\<close>

definition intent_monitor :: "(bool \<times> bool) monitor" where
  "intent_monitor = \<lparr>permitted = (\<lambda>(intent, confirmed) q. case q of
       Broker_open _ \<Rightarrow> intent | Broker_info \<Rightarrow> intent | Broker_tokens \<Rightarrow> intent | Broker_revoke _ \<Rightarrow> intent
     | Ledger (L_revokeMint _ _ _) \<Rightarrow> confirmed
     | _ \<Rightarrow> True),
     after = (\<lambda>(intent, confirmed) q a. case q of
       Ledger (L_beginMintCleanup _ _ _) \<Rightarrow> (intent \<or> mint_row_of a \<noteq> None, confirmed)
     | Broker_revoke _ \<Rightarrow> (intent, json_of a = Some (JBool True))
     | _ \<Rightarrow> (intent, confirmed))\<rparr>"

lemma intent_monitor_simps [simp]:
  "permitted intent_monitor (x, y) q = (case q of
       Broker_open _ \<Rightarrow> x | Broker_info \<Rightarrow> x | Broker_tokens \<Rightarrow> x | Broker_revoke _ \<Rightarrow> x
     | Ledger (L_revokeMint _ _ _) \<Rightarrow> y | _ \<Rightarrow> True)"
  "after intent_monitor (x, y) q a = (case q of
       Ledger (L_beginMintCleanup _ _ _) \<Rightarrow> (x \<or> mint_row_of a \<noteq> None, y)
     | Broker_revoke _ \<Rightarrow> (x, json_of a = Some (JBool True)) | _ \<Rightarrow> (x, y))"
  by (simp_all add: intent_monitor_def)

lemma synchronizers_intent:
  "(\<And>r. Q m r) \<Longrightarrow> valid intent_monitor (synchronizeMintClosure lib r) m Q"
  "(\<And>r. Q m r) \<Longrightarrow> valid intent_monitor (cleanup_synchronized lib r) m Q"
  by (cases m, auto simp: synchronizeMintClosure_def cleanup_synchronized_def mintOp_def op_at_def
      split: option.split sum.split prod.split)+

lemma revoke_observed_intent: "valid intent_monitor (revoke_observed r obs t) (True, False) (\<lambda>m _. fst m)"
  by (auto simp: revoke_observed_def broker_inventory_def broker_tokens_def split: option.split sum.split prod.split)

lemma reconcile_mint_repo_intent: "valid intent_monitor (reconcile_mint_repo lib r) (True, False) (\<lambda>_ _. True)"
  by (auto simp: reconcile_mint_repo_def broker_inventory_def broker_tokens_def broker_info_def
      intro!: valid_mono [OF revoke_observed_intent] split: option.split sum.split prod.split)

lemma reconcile_mint_intent: "valid intent_monitor (reconcile_mint lib env cancel attempt) (False, False) (\<lambda>_ _. True)"
  by (auto simp: reconcile_mint_def reconcile_mint_try_def
      intro!: synchronizers_intent valid_mono [OF reconcile_mint_repo_intent] split: option.split sum.split)

lemma attempt_gate_valid_any:
  assumes "\<And>a. valid M (handler a) m (\<lambda>_ _. True)"
  shows "valid M (attempt_gate path e lib env handler rq) m (\<lambda>_ _. True)"
  by (auto simp: attempt_gate_def intro!: valid_mono [OF assms] split: sum.split)

lemma mint_reconcile_gate_intent: "valid intent_monitor (mint_reconcile_gate lib env rq) (False, False) (\<lambda>_ _. True)"
  by (simp add: mint_reconcile_gate_def attempt_gate_valid_any reconcile_mint_intent)

subsection \<open>The refusal transport answers 403 only for a refused bearer\<close>

text \<open>
  The monitor counts the checks that passed: the inventories listed. The bearer of the request
  leaves once, for the URL of the request, after one check; 403 is answered only when the remote
  answered it and the check ran again.
\<close>

definition egress_monitor :: "refusal_request \<Rightarrow> (nat \<times> nat option) monitor" where
  "egress_monitor rq = \<lparr>permitted = (\<lambda>(listed, answered) q. case q of
       Probe url s \<Rightarrow> listed = Suc 0 \<and> answered = None \<and> url = rr_url rq \<and> rr_authorization rq = Some (''Bearer '' @ s)
     | Ledger c \<Rightarrow> call_op 0 c = None | Get_repo _ \<Rightarrow> True | Repo_info \<Rightarrow> True | List_tokens \<Rightarrow> True
     | Dispose \<Rightarrow> True | _ \<Rightarrow> False),
     after = (\<lambda>(listed, answered) q a. case q of
       Probe _ _ \<Rightarrow> (listed, Some (case reply_of a of None \<Rightarrow> 0 | Some (n, _) \<Rightarrow> n))
     | List_tokens \<Rightarrow> (listed + 1, answered)
     | _ \<Rightarrow> (listed, answered))\<rparr>"

lemma egress_monitor_simps [simp]:
  "permitted (egress_monitor rq) (x, y) q = (case q of
       Probe url s \<Rightarrow> x = Suc 0 \<and> y = None \<and> url = rr_url rq \<and> rr_authorization rq = Some (''Bearer '' @ s)
     | Ledger c \<Rightarrow> call_op 0 c = None | Get_repo _ \<Rightarrow> True | Repo_info \<Rightarrow> True | List_tokens \<Rightarrow> True
     | Dispose \<Rightarrow> True | _ \<Rightarrow> False)"
  "after (egress_monitor rq) (x, y) q a = (case q of
       Probe _ _ \<Rightarrow> (x, Some (case reply_of a of None \<Rightarrow> 0 | Some (n, _) \<Rightarrow> n))
     | List_tokens \<Rightarrow> (x + 1, y) | _ \<Rightarrow> (x, y))"
  by (simp_all only: egress_monitor_def watch.simps prod.case)

lemma refusal_check_egress:
  "(\<And>e x'. Q (x', y) (Inl e)) \<Longrightarrow> Q (Suc x, y) (Inr ()) \<Longrightarrow>
     valid (egress_monitor rq) (refusal_check r obs remote) (x, y) Q"
  by (auto simp: refusal_check_def Let_def call_op_def split: option.split sum.split)

lemma bearer_header_drop: "bearer_header s \<Longrightarrow> s = ''Bearer '' @ drop 7 s"
  by (metis append_take_drop_id bearer_header_def)

lemma refusal_body_egress:
  "valid (egress_monitor rq) (refusal_body env rq) (0, None)
     (\<lambda>m r. case r of Inr x \<Rightarrow> m = (2, Some 403) \<and> rs_status x = 403 | Inl _ \<Rightarrow> True)"
  by (auto simp: refusal_body_def call_op_def respond_empty_def intro!: refusal_check_egress bearer_header_drop [simplified]
      split: option.split sum.split)

lemma refusal_transport_egress:
  "valid (egress_monitor rq) (refusal_transport env rq) (0, None)
     (\<lambda>m r. case r of Inr x \<Rightarrow> (if m = (2, Some 403) then rs_status x \<in> {403, 409} else rs_status x = 409)
            | Inl _ \<Rightarrow> False)"
  by (auto simp: refusal_transport_def respond_empty_def intro!: valid_mono [OF refusal_body_egress]
      split: sum.splits)

end
