(* ===== verification/GitUse.thy ===== *)
theory GitUse imports MintRecovery begin

section \<open>Git use of a custodied mint\<close>

text \<open>
  \<open>crates/work-effect-worker/git.ts\<close> (the gate: one admitted exchange per mint),
  \<open>git-transport.ts\<close> (the bridge to the Git executor, which takes the permit itself and checks the
  mint, the repository and the token around it) and \<open>preparation.ts\<close>. A plan is passed on as the JSON
  it arrived as; the transport compares its text with the text the ledger retained.
\<close>

subsection \<open>The gate\<close>

definition git_state_text :: "git_state \<Rightarrow> string" where
  "git_state_text st = (case st of Admitted \<Rightarrow> ''admitted'' | Dispatching \<Rightarrow> ''dispatching''
     | Git_unknown \<Rightarrow> ''outcome_unknown'' | Completed \<Rightarrow> ''completed'')"

definition git_cleanup :: "lib \<Rightarrow> mint_record \<Rightarrow> unit prog" where
  "git_cleanup lib r = (case m_observation r of
     None \<Rightarrow> Ret ()
   | Some obs \<Rightarrow> quietly () (bindp (mintOp lib (cleanup_body (m_plan r) obs)) (\<lambda>_. Ret ())))"

definition git_report :: "string \<Rightarrow> mint_record \<Rightarrow> response prog" where
  "git_report attempt r = (case m_git r of
     None \<Rightarrow> Exc Call_failed
   | Some g \<Rightarrow> Ret (respond_json 200 (JObj [(''attempt_id'', JStr attempt),
       (''state'', JStr (git_state_text (g_state g))),
       (''result'', case g_result g of None \<Rightarrow> JNull | Some x \<Rightarrow> git_result_json x)])))"

definition finish_git :: "lib \<Rightarrow> string \<Rightarrow> json \<Rightarrow> response prog" where
  "finish_git lib attempt result =
     bindp (perform (Ledger (L_finishGit (JStr attempt) result)) mint_row_of) (\<lambda>r.
     bindp (git_cleanup lib r) (\<lambda>_. git_report attempt r))"

definition execute_git :: "lib \<Rightarrow> string \<Rightarrow> json \<Rightarrow> json prog" where
  "execute_git lib attempt v =
     quietly JNull
       (bindp (gitOp lib (JObj [(''action'', JStr ''git-execute''), (''attempt_id'', JStr attempt), (''plan'', v)])) (\<lambda>x.
        bindp (of_result (gitResult x (as_git_plan v))) (\<lambda>_. Ret x)))"

definition git_attempt :: "lib \<Rightarrow> string \<Rightarrow> response prog" where
  "git_attempt lib attempt =
     bindp (perform (Ledger (L_lookupMint (JStr attempt))) mint_of) (\<lambda>row.
     case Option.bind row (\<lambda>r. map_option (\<lambda>_. r) (m_git r)) of
       Some r \<Rightarrow> if m_state r = Mint_closed then git_report attempt r else finish_git lib attempt JNull
     | None \<Rightarrow>
         bindp (gitOp lib (JObj [(''action'', JStr ''git-plan''), (''attempt_id'', JStr attempt)])) (\<lambda>v.
         bindp (of_result (gitPlan v)) (\<lambda>_.
         bindp (perform (Ledger (L_claimGit v)) mint_claim_of) (\<lambda>(started, record).
         if \<not> started then git_report attempt record
         else bindp (execute_git lib attempt v) (finish_git lib attempt)))))"

definition git_gate :: "lib \<Rightarrow> gate_env \<Rightarrow> request \<Rightarrow> response prog" where
  "git_gate lib env rq = catchp
     (bindp (throw_if (gate_enabled env \<noteq> ''true'' \<or> rq_method rq \<noteq> ''POST'' \<or> rq_path rq \<noteq> ''/git'') Git_denied) (\<lambda>_.
      bindp (of_result (jsonBody lib (rq_body rq))) (\<lambda>input.
      bindp (throw_if (\<not> attempt_input input) Git_invalid) (\<lambda>_.
      git_attempt lib (the_str (get input ''attempt_id''))))))
     (Ret (denied_response ''git_unavailable_or_denied''))"

subsection \<open>The transport\<close>

record git_request =
  gq_method :: string
  gq_url :: string
  gq_authorization :: "string option"
  gq_body :: body

definition executor_reply :: "lib \<Rightarrow> string \<Rightarrow> string option \<Rightarrow> json \<Rightarrow> err \<Rightarrow> json prog" where
  "executor_reply lib path auth v e = bindp (perform (Executor path auth v) reply_of) (\<lambda>(status, b).
     bindp (throw_if (status \<noteq> 200) e) (\<lambda>_. of_result (jsonBody lib b)))"

definition git_prepare :: "lib \<Rightarrow> gate_env \<Rightarrow> git_request \<Rightarrow> response prog" where
  "git_prepare lib env rq =
     bindp (throw_if (gate_enabled env \<noteq> ''true'' \<or> gq_method rq \<noteq> ''POST'' \<or> gq_authorization rq \<noteq> None) Git_denied) (\<lambda>_.
     bindp (of_result (jsonBody lib (gq_body rq))) (\<lambda>p.
     bindp (throw_if (\<not> closed p [''disclosure_digest''] \<or> \<not> hex (get p ''disclosure_digest'')) Git_denied) (\<lambda>_.
     bindp (executor_reply lib ''/git-prepare'' None p Git_denied) (\<lambda>v.
     bindp (throw_if (\<not> closed v [''ready'', ''disclosure_digest''] \<or> get v ''ready'' \<noteq> JBool True
         \<or> get v ''disclosure_digest'' \<noteq> get p ''disclosure_digest'') Git_denied) (\<lambda>_.
     Ret (respond_json 200 v))))))"

text \<open>\<open>check\<close>: the mint is in custody and its exchange in the given state, with this very plan.\<close>

definition git_check :: "git_plan \<Rightarrow> json \<Rightarrow> string \<Rightarrow> git_state \<Rightarrow> unit prog" where
  "git_check p v remote st =
     bindp (perform (Ledger (L_lookupMint (JStr (attempt_id p)))) mint_of) (\<lambda>row.
     bindp (perform Repo_info json_of) (\<lambda>info.
     bindp (throw_if (case row of
         None \<Rightarrow> True
       | Some r \<Rightarrow> m_state r \<noteq> Custodied \<or> m_cleanup_requested r
           \<or> (case m_git r of None \<Rightarrow> True | Some g \<Rightarrow> g_state g \<noteq> st \<or> g_text g \<noteq> v)
           \<or> get info ''id'' \<noteq> JStr (repo_id p) \<or> get info ''name'' \<noteq> JStr (name p)
           \<or> get info ''remote'' \<noteq> JStr remote \<or> get info ''defaultBranch'' \<noteq> JStr (branch p)
           \<or> get info ''description'' \<noteq> JStr (''mikaki initial '' @ initial_attempt_id p)) Git_denied) (\<lambda>_.
     bindp (perform List_tokens json_of) (\<lambda>tv.
     bindp (of_result (inventory tv)) (\<lambda>ts.
     bindp (perform Clock time_of) (\<lambda>ms.
     throw_if (case find_token (JStr (o_token_id (observation p))) ts of
         None \<Rightarrow> True
       | Some t \<Rightarrow> get t ''state'' \<noteq> JStr ''active'' \<or> get t ''scope'' \<noteq> JStr (scope p)
           \<or> expiry (get t ''expiresAt'') \<noteq> Inr (o_expires_at (observation p))
           \<or> length (filter (\<lambda>a. get a ''state'' = JStr ''active'') ts) \<noteq> 1
           \<or> o_expires_at (observation p) \<le> ms div 1000 + 5) Git_denied))))))"

definition dispatch_git :: "lib \<Rightarrow> git_plan \<Rightarrow> json \<Rightarrow> string \<Rightarrow> string \<Rightarrow> json prog" where
  "dispatch_git lib p v remote auth =
     bindp (git_check p v remote Dispatching) (\<lambda>_.
     bindp (perform (Ledger (L_takeGit v True)) taken_of) (\<lambda>taken.
     bindp (throw_if (\<not> taken) Git_denied) (\<lambda>_.
     bindp (git_check p v remote Git_unknown) (\<lambda>_.
     bindp (executor_reply lib ''/git-execute'' (Some auth) v Git_unknown_outcome) (\<lambda>x.
     bindp (of_result (gitResult x p)) (\<lambda>_.
     bindp (git_check p v remote Git_unknown) (\<lambda>_. Ret x)))))))"

definition git_execute :: "lib \<Rightarrow> gate_env \<Rightarrow> git_request \<Rightarrow> response prog" where
  "git_execute lib env rq = (case gq_authorization rq of
     None \<Rightarrow> Exc Git_denied
   | Some auth \<Rightarrow>
     bindp (throw_if (gate_enabled env \<noteq> ''true'' \<or> gq_method rq \<noteq> ''POST''
         \<or> gq_url rq \<noteq> ''https://private.invalid/git-execute'' \<or> \<not> bearer_header auth) Git_denied) (\<lambda>_.
     bindp (of_result (jsonBody lib (gq_body rq))) (\<lambda>v.
     bindp (of_result (read_with gitPlan as_git_plan v)) (\<lambda>p.
     bindp (of_result (productiveScope env p)) (\<lambda>remote.
     bindp (perform (Get_repo (name p)) done_of) (\<lambda>_.
     bindp (finallyp (dispatch_git lib p v remote auth) (bindp (perform Dispose Some) (\<lambda>_. Ret ()))) (\<lambda>x.
     Ret (respond_json 200 x))))))))"

definition git_transport :: "lib \<Rightarrow> gate_env \<Rightarrow> git_request \<Rightarrow> response prog" where
  "git_transport lib env rq = catchp
     (if gq_url rq = ''https://private.invalid/git-prepare'' then git_prepare lib env rq else git_execute lib env rq)
     (Ret (respond_empty 409))"

subsection \<open>The preparation trigger\<close>

definition preparation_gate :: "lib \<Rightarrow> gate_env \<Rightarrow> request \<Rightarrow> response prog" where
  "preparation_gate lib env rq = catchp
     (bindp (throw_if (gate_enabled env \<noteq> ''true'' \<or> rq_method rq \<noteq> ''POST''
         \<or> rq_path rq \<noteq> ''/verify-preparation'') Preparation_denied) (\<lambda>_.
      bindp (of_result (jsonBody lib (rq_body rq))) (\<lambda>input.
      bindp (throw_if (\<not> closed input [''preparation_id''] \<or> \<not> opaque (get input ''preparation_id'')) Preparation_invalid) (\<lambda>_.
      bindp (gitOp lib (JObj [(''action'', JStr ''preparation-verify''),
          (''preparation_id'', get input ''preparation_id'')])) (\<lambda>v.
      Ret (respond_json 200 v))))))
     (Ret (denied_response ''preparation_unavailable_or_denied''))"

subsection \<open>One execution per permit\<close>

lemma git_cleanup_ordinary: "only_calls (ordinary ns) (git_cleanup lib r)"
  by (auto simp: git_cleanup_def mintOp_def cleanup_body_def ordinary_def
      intro!: only_calls_rules only_calls_quietly only_calls_op_at split: option.split)

lemma git_report_ordinary: "only_calls (ordinary ns) (git_report attempt r)"
  by (simp add: git_report_def split: option.split)

lemma finish_git_ordinary: "only_calls (ordinary ns) (finish_git lib attempt v)"
  by (auto simp: finish_git_def ordinary_def git_cleanup_ordinary git_report_ordinary intro!: only_calls_rules)

lemma execute_git_valid:
  "(\<And>r. Q [] r) \<Longrightarrow> valid (permit_monitor ns) (execute_git lib attempt v) [Git_of (attempt_id (as_git_plan v))] Q"
  by (auto simp: execute_git_def gitOp_def op_at_def as_git_plan_def as_mint_core_def as_plan_def
      plan.defs mint_core.defs git_plan.defs split: option.split sum.split)

lemma git_attempt_valid: "valid (permit_monitor ns) (git_attempt lib attempt) [] (\<lambda>_ _. True)"
  by (auto simp: git_attempt_def gitOp_def op_at_def gained_from_def
      intro!: ordinary_post [OF git_report_ordinary] ordinary_post [OF finish_git_ordinary] execute_git_valid
      split: option.split sum.split)

lemma git_gate_valid: "valid (permit_monitor ns) (git_gate lib env rq) [] (\<lambda>_ _. True)"
  by (auto simp: git_gate_def intro!: valid_mono [OF git_attempt_valid] split: sum.split)

lemma git_check_ordinary: "only_calls (ordinary ns) (git_check p v remote st)"
  by (auto simp: git_check_def ordinary_def intro!: only_calls_rules)

lemma dispatch_git_valid:
  "valid (permit_monitor ns) (dispatch_git lib (as_git_plan v) v remote auth) [] (\<lambda>_ _. True)"
  by (auto simp: dispatch_git_def executor_reply_def gained_from_def as_git_plan_def as_mint_core_def as_plan_def
      plan.defs mint_core.defs git_plan.defs
      intro!: ordinary_post [OF git_check_ordinary] split: option.split sum.split)

lemma git_transport_valid: "valid (permit_monitor ns) (git_transport lib env rq) [] (\<lambda>_ _. True)"
  by (auto simp: git_transport_def git_prepare_def git_execute_def executor_reply_def
      intro!: valid_mono [OF dispatch_git_valid] split: option.split sum.split)

end
