(* ===== verification/Entrypoints.thy ===== *)
theory Entrypoints imports GitUse begin

section \<open>The entrypoints of the checkpoint worker\<close>

text \<open>
  The classes after \<open>WorkCheckpoint\<close> in \<open>crates/work-checkpoint-worker/worker.ts\<close>: the fixed
  HTTP bridges (\<open>WorkCheckpointService\<close>, \<open>WorkPreparationEvidence\<close>, \<open>WorkGitExecutionCheckpoint\<close>)
  as functions from a request and the store of the object, and the RPC classes as the methods
  each of them offers. A gate is bound to one class, so its model may call nothing else.
\<close>

subsection \<open>RPC classes\<close>

datatype entrypoint =
    WorkGitCheckpoint | WorkGitDispatch | WorkEffectCheckpoint | WorkEffectLookup
  | WorkMintCheckpoint | WorkMintLookup | WorkMintRefusalCheckpoint | WorkMintMaintenance
  | WorkEffectMaintenance

text \<open>
  The maintenance classes fix the flags themselves: \<open>begin\<close> and \<open>cancel\<close> are
  \<open>beginMintCleanup\<close> with either value, \<open>revoked\<close> is the guarded one.
\<close>

definition offers :: "entrypoint \<Rightarrow> ledger_call \<Rightarrow> bool" where
  "offers e c = (case e of
     WorkGitCheckpoint \<Rightarrow> (case c of L_lookupMint _ \<Rightarrow> True | L_claimGit _ \<Rightarrow> True | L_finishGit _ _ \<Rightarrow> True
       | _ \<Rightarrow> False)
   | WorkGitDispatch \<Rightarrow> (case c of L_takeGit _ transport \<Rightarrow> transport | _ \<Rightarrow> False)
   | WorkEffectCheckpoint \<Rightarrow> (case c of L_lookupEffect _ \<Rightarrow> True | L_claimEffect _ \<Rightarrow> True
       | L_observeEffect _ _ _ \<Rightarrow> True | L_closeEffect _ _ _ \<Rightarrow> True | _ \<Rightarrow> False)
   | WorkEffectLookup \<Rightarrow> (case c of L_lookupEffect _ \<Rightarrow> True | _ \<Rightarrow> False)
   | WorkMintCheckpoint \<Rightarrow> (case c of L_lookupMint _ \<Rightarrow> True | L_claimMint _ \<Rightarrow> True
       | L_observeMint _ _ _ \<Rightarrow> True | L_closeMint _ _ _ \<Rightarrow> True | L_custodyMint _ _ \<Rightarrow> True
       | L_beginMintCleanup _ _ productive \<Rightarrow> productive | L_revokeMint _ _ safety \<Rightarrow> \<not> safety | _ \<Rightarrow> False)
   | WorkMintLookup \<Rightarrow> (case c of L_lookupMint _ \<Rightarrow> True | _ \<Rightarrow> False)
   | WorkMintRefusalCheckpoint \<Rightarrow> (case c of L_lookupMint _ \<Rightarrow> True | L_closeMintRefused _ _ _ \<Rightarrow> True
       | _ \<Rightarrow> False)
   | WorkMintMaintenance \<Rightarrow> (case c of L_lookupMint _ \<Rightarrow> True | L_beginMintCleanup _ _ _ \<Rightarrow> True
       | L_revokeMint _ _ safety \<Rightarrow> safety | L_recordMintCleanup _ _ _ \<Rightarrow> True | _ \<Rightarrow> False)
   | WorkEffectMaintenance \<Rightarrow> (case c of L_lookupEffect _ \<Rightarrow> True | L_observeEffect _ _ _ \<Rightarrow> True
       | L_recordRevocation _ _ _ \<Rightarrow> True | L_observeEffectToken _ _ _ \<Rightarrow> True | _ \<Rightarrow> False))"

definition bound_to :: "entrypoint list \<Rightarrow> call \<Rightarrow> bool" where
  "bound_to es q = (case q of Ledger c \<Rightarrow> list_ex (\<lambda>e. offers e c) es | _ \<Rightarrow> True)"

lemma only_calls_weaken: "only_calls P p \<Longrightarrow> (\<And>q. P q \<Longrightarrow> Q q) \<Longrightarrow> only_calls Q p"
  by (induction p) auto

lemma unconcerned: "only_calls (\<lambda>q. \<nexists>c. q = Ledger c) p \<Longrightarrow> only_calls (bound_to es) p"
  by (erule only_calls_weaken) (auto simp: bound_to_def split: call.split)

lemmas bound_simps = bound_to_def offers_def

lemma syncClosed_bound: "only_calls (bound_to es) (syncClosed lib r)"
  by (auto simp: syncClosed_def effect_op_def bound_simps
      intro!: only_calls_rules only_calls_quietly only_calls_op_at split: option.split)

lemma synchronizeMintClosure_bound: "only_calls (bound_to es) (synchronizeMintClosure lib r)"
  by (auto simp: synchronizeMintClosure_def mintOp_def bound_simps
      intro!: only_calls_rules only_calls_quietly only_calls_op_at split: option.split)

lemma initial_gate_bound: "only_calls (bound_to [WorkEffectCheckpoint]) (initial_gate lib env rq)"
proof -
  have unknown: "only_calls (bound_to [WorkEffectCheckpoint]) (unknown_after p repo)" for p repo
    by (auto simp: unknown_after_def observe_effect_call_def bound_simps
        intro!: only_calls_rules only_calls_quietly split: option.split)
  have created: "only_calls (bound_to [WorkEffectCheckpoint]) (after_create lib p remote created)" for p remote created
    unfolding after_create_def close_created_def observe_created_def observe_effect_call_def Let_def
    by (auto simp: bound_simps intro!: only_calls_rules)
  have known: "only_calls (bound_to [WorkEffectCheckpoint]) (known_effect lib a r)" for a r
    by (simp add: known_effect_def syncClosed_bound)
  have once: "only_calls (bound_to [WorkEffectCheckpoint]) (create_once lib p remote)" for p remote
    unfolding create_once_def settle_created_def Let_def
    by (auto simp: bound_simps unknown created syncClosed_bound intro!: only_calls_rules split: option.split sum.split)
  show ?thesis
    unfolding initial_gate_def attempt_gate_def executeInitial_def effect_op_def
    by (auto simp: known once bound_simps intro!: only_calls_rules only_calls_op_at split: option.split)
qed

lemma mint_gate_bound: "only_calls (bound_to [WorkMintCheckpoint]) (mint_gate lib env rq)"
proof -
  let ?P = "bound_to [WorkMintCheckpoint]"
  have sync: "only_calls ?P (synchronized lib r)" for r
    by (auto simp: synchronized_def mintOp_def mint_status_body_def abandon_call_def synchronizeMintClosure_bound
        bound_simps intro!: only_calls_rules only_calls_quietly only_calls_op_at split: option.split mint_state.split)
  have ident: "only_calls ?P (check_identity p remote)" for p :: mint_plan and remote
    by (auto simp: check_identity_def bound_simps intro!: only_calls_rules)
  have listing: "only_calls ?P list_mint_tokens"
    by (auto simp: list_mint_tokens_def bound_simps intro!: only_calls_rules)
  have pre: "only_calls ?P (preflight p remote)" for p remote
    by (auto simp: preflight_def Let_def ident listing bound_simps intro!: only_calls_rules)
  have custody: "only_calls ?P (take_custody lib p remote before v)" for p remote before v
    unfolding take_custody_def mintOp_def
    by (auto simp: bound_simps ident listing intro!: only_calls_rules only_calls_op_at split: option.split)
  have failed: "only_calls ?P (mint_failed lib p remote r returned observed)" for p remote r returned observed
    unfolding mint_failed_def refuse_observed_def close_refused_def mintOp_def
    by (auto simp: bound_simps ident listing abandon_call_def
        intro!: only_calls_rules only_calls_quietly only_calls_op_at split: option.split)
  have once: "only_calls ?P (mint_once lib p remote r)" for p remote r
    unfolding mint_once_def
    by (auto simp: bound_simps pre custody failed intro!: only_calls_rules split: option.split)
  show ?thesis
    unfolding mint_gate_def attempt_gate_def mint_attempt_def mintOp_def
    by (auto simp: sync once bound_simps intro!: only_calls_rules only_calls_op_at split: option.split)
qed

lemma git_gate_bound: "only_calls (bound_to [WorkGitCheckpoint]) (git_gate lib env rq)"
  unfolding git_gate_def git_attempt_def finish_git_def execute_git_def gitOp_def
  by (auto simp: bound_simps git_report_def git_cleanup_def mintOp_def
      intro!: only_calls_rules only_calls_quietly only_calls_op_at split: option.split)

lemma git_transport_bound: "only_calls (bound_to [WorkMintLookup, WorkGitDispatch]) (git_transport lib env rq)"
  unfolding git_transport_def git_prepare_def git_execute_def dispatch_git_def git_check_def executor_reply_def
  by (auto simp: bound_simps intro!: only_calls_rules split: option.split)

lemma mint_closure_gate_bound: "only_calls (bound_to [WorkMintRefusalCheckpoint]) (mint_closure_gate lib env rq)"
proof -
  have sync: "only_calls (bound_to [WorkMintRefusalCheckpoint]) (closure_synchronized lib r)" for r
    by (auto simp: closure_synchronized_def mintOp_def bound_simps
        intro!: only_calls_rules only_calls_quietly only_calls_op_at split: option.split)
  show ?thesis
    unfolding mint_closure_gate_def attempt_gate_def close_mint_def mintOp_def
    by (auto simp: sync bound_simps intro!: only_calls_rules only_calls_op_at split: option.split)
qed

lemma reconcile_gates_bound:
  "only_calls (bound_to [WorkEffectMaintenance]) (reconcile_gate lib env rq)"
  "only_calls (bound_to [WorkMintMaintenance]) (mint_reconcile_gate lib env rq)"
  by (rule only_calls_weaken [OF reconcile_gate_safety],
      auto simp: effect_safety_def bound_simps split: call.splits ledger_call.splits)
    (rule only_calls_weaken [OF mint_reconcile_gate_safety],
      auto simp: mint_safety_def bound_simps split: call.splits ledger_call.splits)

subsection \<open>The bridge of the frame\<close>

definition permit_option_json :: "permit option \<Rightarrow> json" where
  "permit_option_json p = (case p of None \<Rightarrow> JNull | Some x \<Rightarrow> permit_json x)"

definition state_json :: "ckpt_state \<Rightarrow> json" where
  "state_json st = JObj [(''checkpoint'', checkpoint_json (st_checkpoint st)),
     (''pending'', permit_option_json (st_pending st)), (''last'', permit_option_json (st_last st)),
     (''release_floor'', JNum (st_release_floor st)), (''frozen'', JBool (st_frozen st))]"

definition call_object :: "('a \<Rightarrow> json) \<Rightarrow> 'a outcome \<Rightarrow> (json \<times> store) option" where
  "call_object f r = (case r of Inl _ \<Rightarrow> None | Inr (x, s) \<Rightarrow> Some (f x, s))"

text \<open>The action of a closed message; the outer option is a message that is no action.\<close>

definition service_action :: "env \<Rightarrow> string \<Rightarrow> json \<Rightarrow> store \<Rightarrow> (json \<times> store) option option" where
  "service_action env rnd input s =
     (if closed input [''action'', ''release''] \<and> get input ''action'' = JStr ''status''
      then Some (call_object state_json (status_of (get input ''release'') s))
      else if closed input [''action'', ''release'', ''expected'', ''operation''] \<and> get input ''action'' = JStr ''begin''
      then Some (call_object permit_json
             (begin_frame env rnd (get input ''expected'') (get input ''operation'') (get input ''release'') s))
      else if closed input [''action'', ''release'', ''permit'', ''observed''] \<and> get input ''action'' = JStr ''commit''
      then Some (call_object checkpoint_json
             (commit_frame (get input ''permit'') (get input ''observed'') (get input ''release'') s))
      else None)"

definition unavailable :: response where
  "unavailable = denied_response ''checkpoint_unavailable''"

definition checkpoint_service :: "lib \<Rightarrow> env \<Rightarrow> string \<Rightarrow> request \<Rightarrow> store \<Rightarrow> response \<times> store" where
  "checkpoint_service lib env rnd rq s =
     (if rq_method rq \<noteq> ''POST'' \<or> rq_path rq \<noteq> ''/checkpoint'' then (respond_empty 404, s)
      else case rq_body rq of
        None \<Rightarrow> (respond_empty 400, s)
      | Some cs \<Rightarrow> (case read_chunks 4096 0 cs of
          None \<Rightarrow> (respond_empty 413, s)
        | Some bytes \<Rightarrow> (case parse_json lib bytes of
            None \<Rightarrow> (unavailable, s)
          | Some input \<Rightarrow>
              if \<not> resource (JStr (work_authority_id env)) then (unavailable, s)
              else (case service_action env rnd input s of
                  None \<Rightarrow> (respond_empty 400, s)
                | Some None \<Rightarrow> (unavailable, s)
                | Some (Some (v, s')) \<Rightarrow> (respond_json 200 v, s')))))"

subsection \<open>Evidence and the native permit\<close>

definition boundedGitBody :: "lib \<Rightarrow> body \<Rightarrow> err + json" where
  "boundedGitBody lib b = (case b of
     None \<Rightarrow> Inl Git_invalid
   | Some cs \<Rightarrow> (case read_chunks 8192 0 cs of
       None \<Rightarrow> Inl Git_invalid
     | Some bytes \<Rightarrow> (case parse_json lib bytes of None \<Rightarrow> Inl Not_json | Some v \<Rightarrow> Inr v)))"

definition evidence_json :: "initial_evidence list \<times> mint_evidence list \<Rightarrow> json" where
  "evidence_json e = JObj [(''format_version'', JNum 1),
     (''initial'', JArr (map (\<lambda>i. JObj [(''plan'', plan_json (ie_plan i)),
        (''closure'', closure_json (ie_closure i))]) (fst e))),
     (''mint'', JArr (map (\<lambda>m. JObj [(''plan'', mint_plan_json (me_plan m)),
        (''observation'', observation_json (me_observation m)),
        (''refusal'', mint_refusal_json (me_refusal m)),
        (''git'', JObj [(''plan'', git_plan_json (me_git_plan m)), (''result'', git_result_json (me_git_result m))])])
        (snd e)))]"

definition evidence_service :: "lib \<Rightarrow> env \<Rightarrow> request \<Rightarrow> store \<Rightarrow> response" where
  "evidence_service lib env rq s =
     (if rq_method rq \<noteq> ''POST'' \<or> rq_path rq \<noteq> ''/preparation-evidence'' then respond_empty 404
      else case (if \<not> resource (JStr (work_authority_id env)) then Inl Checkpoint_invalid
                 else bind_result (boundedGitBody lib (rq_body rq)) (\<lambda>v. preparationEvidence v s)) of
        Inl _ \<Rightarrow> denied_response ''preparation_evidence_unavailable''
      | Inr e \<Rightarrow> respond_json 200 (evidence_json e))"

definition git_permit_service :: "lib \<Rightarrow> env \<Rightarrow> int \<Rightarrow> request \<Rightarrow> store \<Rightarrow> response \<times> store" where
  "git_permit_service lib env now rq s =
     (if rq_method rq \<noteq> ''POST'' \<or> rq_path rq \<noteq> ''/git-permit'' then (respond_empty 404, s)
      else case bind_result (boundedGitBody lib (rq_body rq)) (\<lambda>v.
             if \<not> resource (JStr (work_authority_id env)) then Inl Checkpoint_invalid
             else takeGit now v False s) of
        Inl _ \<Rightarrow> (respond_empty 409, s)
      | Inr (taken, s') \<Rightarrow> (respond_json 200 (JObj [(''taken'', JBool taken)]), s'))"

text \<open>A bridge that does not answer 200 has changed nothing.\<close>

lemma checkpoint_service_refused:
  "checkpoint_service lib env rnd rq s = (rs, s') \<Longrightarrow> rs_status rs \<noteq> 200 \<Longrightarrow> s' = s"
  by (auto simp: checkpoint_service_def respond_empty_def respond_json_def unavailable_def denied_response_def
      split: if_splits option.splits)

lemma git_permit_service_refused:
  "git_permit_service lib env now rq s = (rs, s') \<Longrightarrow> rs_status rs \<noteq> 200 \<Longrightarrow> s' = s"
  by (auto simp: git_permit_service_def respond_empty_def respond_json_def split: if_splits sum.splits)

lemma call_object_Some: "call_object f r = Some (v, s') \<Longrightarrow> \<exists>x. r = Inr (x, s') \<and> v = f x"
  by (auto simp: call_object_def split: sum.splits)

lemma checkpoint_service_op:
  assumes "checkpoint_service lib env rnd rq s = (rs, s')"
  shows "s' = s \<or> (\<exists>p. s' = exec_op env p s)"
proof -
  have "s'' = s \<or> (\<exists>p. s'' = exec_op env p s)" if "service_action env rnd input s = Some (Some (v, s''))" for input v s''
  proof -
    from that consider
        "call_object state_json (status_of (get input ''release'') s) = Some (v, s'')"
      | "call_object permit_json (begin_frame env rnd (get input ''expected'') (get input ''operation'') (get input ''release'') s) = Some (v, s'')"
      | "call_object checkpoint_json (commit_frame (get input ''permit'') (get input ''observed'') (get input ''release'') s) = Some (v, s'')"
      by (auto simp: service_action_def split: if_splits)
    then show ?thesis
    proof cases
      case 1
      then show ?thesis by (auto dest!: call_object_Some simp: status_of_def bind_result_Inr_iff)
    next
      case 2
      then have "s'' = exec_op env (Op_begin rnd (get input ''expected'') (get input ''operation'') (get input ''release'')) s"
        by (auto dest!: call_object_Some)
      then show ?thesis by blast
    next
      case 3
      then have "s'' = exec_op env (Op_commit (get input ''permit'') (get input ''observed'') (get input ''release'')) s"
        by (auto dest!: call_object_Some)
      then show ?thesis by blast
    qed
  qed
  then show ?thesis using assms
    by (auto simp: checkpoint_service_def split: if_splits option.splits)
qed

end
