(* ===== verification/Lifecycle.thy ===== *)
theory Lifecycle imports Entrypoints begin

section \<open>A complete lifecycle of the ledger\<close>

text \<open>
  One run of the object from the empty store: enrollment, an initial creation that is admitted,
  observed and closed, an upload mint that is admitted, observed, taken into custody and used for
  one Git exchange, cleaned up and closed by refusal. The lemmas evaluate it; they show that
  the promises of \<open>LedgerLaws\<close> are about runs in which every permit is handed out.
\<close>

definition rep :: "nat \<Rightarrow> char \<Rightarrow> string" where "rep n c = replicate n c"

definition demo_env :: env where
  "demo_env = \<lparr>work_authority_id = ''authority'', bootstrap_packet_pin = None, object_id = ''object''\<rparr>"

definition demo_checkpoint :: checkpoint where
  "demo_checkpoint = \<lparr>authority = ''authority'', epoch = rep 64 CHR ''a'', sequence = 0, tip = rep 64 CHR ''b''\<rparr>"

definition demo_plan :: initial_plan where
  "demo_plan = \<lparr>attempt_id = rep 43 CHR ''i'', digest = rep 64 CHR ''1'', namespace = ''ns'',
     name = ''wk-'' @ rep 32 CHR ''c'' @ ''-code'', role = JStr ''task'', deadline = 1000,
     checkpoint = demo_checkpoint, artifacts_account = Some (rep 32 CHR ''d'')\<rparr>"

definition demo_closure :: closure_evidence where
  "demo_closure = \<lparr>c_repo_id = ''repo-1'', c_token_id = ''token-0'', c_expires_at = Some 300,
     c_receipt = rep 64 CHR ''2''\<rparr>"

definition demo_core :: mint_core where
  "demo_core = \<lparr>attempt_id = rep 43 CHR ''u'', digest = rep 64 CHR ''3'', namespace = ''ns'',
     name = ''wk-'' @ rep 32 CHR ''c'' @ ''-code'', role = JStr ''task'', deadline = 1000,
     checkpoint = demo_checkpoint, artifacts_account = Some (rep 32 CHR ''d''),
     purpose = JStr ''upload'', scope = ''write'', repo_id = ''repo-1'',
     initial_attempt_id = rep 43 CHR ''i'', key_version = 1, key_fingerprint = rep 64 CHR ''4''\<rparr>"

definition demo_mint :: mint_plan where
  "demo_mint = mint_core.extend demo_core (mint_plan.fields 400)"

definition demo_observation :: mint_observation where
  "demo_observation = \<lparr>o_repo_id = ''repo-1'', o_token_id = ''token-1'', o_scope = JStr ''write'', o_expires_at = 390\<rparr>"

definition demo_git :: git_plan where
  "demo_git = mint_core.extend demo_core (git_plan.fields (rep 64 CHR ''5'') (rep 64 CHR ''6'')
     (rep 40 CHR ''7'') (rep 40 CHR ''8'') ''work'' demo_observation)"

definition demo_result :: git_result where
  "demo_result = \<lparr>gr_method = ''git_push_accepted'', gr_commit = rep 40 CHR ''7'', gr_tree = rep 40 CHR ''8'',
     gr_branch = ''work'', gr_commits = 2, gr_objects = 5, gr_object_bytes = 100,
     gr_inventory_sha256 = rep 64 CHR ''9'', gr_receipt = rep 64 CHR ''a''\<rparr>"

definition demo_cleanup :: mint_cleanup where
  "demo_cleanup = mint_observation.extend demo_observation (mint_cleanup.fields (JStr ''revoked_inventory'') (rep 64 CHR ''b''))"

definition demo_refusal :: mint_refusal where
  "demo_refusal = mint_observation.extend demo_observation (mint_refusal.fields 1 (rep 64 CHR ''c''))"

definition ia :: json where "ia = JStr (rep 43 CHR ''i'')"
definition ua :: json where "ua = JStr (rep 43 CHR ''u'')"

definition demo_open :: "ckpt_op list" where
  "demo_open = [Op_bootstrap (checkpoint_json demo_checkpoint) (JNum 1)]"

definition demo_initial :: "ckpt_op list" where
  "demo_initial =
    [Op_claimEffect 200 (plan_json demo_plan) (JNum 1),
     Op_observeEffect ia (JStr (rep 64 CHR ''1'')) (JStr ''repo-1''),
     Op_closeEffect ia (JStr (rep 64 CHR ''1'')) (closure_json demo_closure)]"

definition demo_upload :: "ckpt_op list" where
  "demo_upload =
    [Op_claimMint 200 (mint_plan_json demo_mint) (JNum 1),
     Op_observeMint ua (JStr (rep 64 CHR ''3'')) (observation_json demo_observation),
     Op_custodyMint 210 ua (JStr (rep 64 CHR ''3''))]"

definition demo_exchange :: "ckpt_op list" where
  "demo_exchange =
    [Op_claimGit 220 (git_plan_json demo_git),
     Op_takeGit 221 (git_plan_json demo_git) False,
     Op_takeGit 222 (git_plan_json demo_git) True,
     Op_finishGit ua (git_result_json demo_result)]"

definition demo_finish :: "ckpt_op list" where
  "demo_finish =
    [Op_recordMintCleanup 240 ua (JStr (rep 64 CHR ''3'')) (mint_cleanup_json demo_cleanup),
     Op_closeMintRefused 250 ua (JStr (rep 64 CHR ''3'')) (mint_refusal_json demo_refusal)]"

definition demo_frame :: ckpt_state where
  "demo_frame = \<lparr>st_checkpoint = demo_checkpoint, st_pending = None, st_last = None,
     st_release_floor = 1, st_frozen = False\<rparr>"

definition demo_effect_row :: effect_record where
  "demo_effect_row = \<lparr>e_plan = demo_plan, e_state = Closed, e_repo_id = Some ''repo-1'',
     e_closure = Some demo_closure, e_cleanup = None, e_token_observation = None\<rparr>"

definition demo_mint_row :: "mint_state \<Rightarrow> bool \<Rightarrow> (mint_cleanup \<times> int) option \<Rightarrow> (mint_refusal \<times> int) option
    \<Rightarrow> git_record option \<Rightarrow> mint_record" where
  "demo_mint_row st requested c p g = \<lparr>m_plan = demo_mint, m_state = st, m_observation = Some demo_observation,
     m_revoke_acknowledged = False, m_cleanup_requested = requested, m_receipt = None,
     m_cleanup = c, m_refusal = p, m_git = g\<rparr>"

definition demo_store :: "(string \<times> slot \<times> mint_record) list \<Rightarrow> store" where
  "demo_store ms = \<lparr>s_state = Some demo_frame, s_enrollment = None,
     s_effects = [(rep 43 CHR ''i'', demo_effect_row)], s_mints = ms\<rparr>"

definition demo_row :: "mint_record \<Rightarrow> (string \<times> slot \<times> mint_record) list" where
  "demo_row r = [(rep 43 CHR ''u'', slot_of demo_mint, r)]"

definition demo_git_row :: "git_state \<Rightarrow> git_result option \<Rightarrow> git_record option" where
  "demo_git_row st x = Some \<lparr>g_plan = demo_git, g_text = git_plan_json demo_git, g_state = st, g_result = x\<rparr>"

lemma demo_after_initial:
  "run_ops (exec_op demo_env) (demo_open @ demo_initial) empty_store = demo_store []"
  by code_simp

lemma demo_after_upload:
  "run_ops (exec_op demo_env) demo_upload (demo_store []) =
     demo_store (demo_row (demo_mint_row Custodied False None None None))"
  by code_simp

lemma demo_claimGit:
  "exec_op demo_env (Op_claimGit 220 (git_plan_json demo_git))
      (demo_store (demo_row (demo_mint_row Custodied False None None None))) =
    demo_store (demo_row (demo_mint_row Custodied False None None (demo_git_row Admitted None)))"
  by code_simp

lemma demo_takeGit_native:
  "exec_op demo_env (Op_takeGit 221 (git_plan_json demo_git) False)
      (demo_store (demo_row (demo_mint_row Custodied False None None (demo_git_row Admitted None)))) =
    demo_store (demo_row (demo_mint_row Custodied False None None (demo_git_row Dispatching None)))"
  by code_simp

lemma demo_takeGit_transport:
  "exec_op demo_env (Op_takeGit 222 (git_plan_json demo_git) True)
      (demo_store (demo_row (demo_mint_row Custodied False None None (demo_git_row Dispatching None)))) =
    demo_store (demo_row (demo_mint_row Custodied False None None (demo_git_row Git_unknown None)))"
  by code_simp

lemma demo_finishGit:
  "exec_op demo_env (Op_finishGit ua (git_result_json demo_result))
      (demo_store (demo_row (demo_mint_row Custodied False None None (demo_git_row Git_unknown None)))) =
    demo_store (demo_row (demo_mint_row Mint_unknown True None None (demo_git_row Completed (Some demo_result))))"
  by code_simp

lemma demo_after_exchange:
  "run_ops (exec_op demo_env) demo_exchange (demo_store (demo_row (demo_mint_row Custodied False None None None))) =
     demo_store (demo_row (demo_mint_row Mint_unknown True None None (demo_git_row Completed (Some demo_result))))"
  by (simp only: demo_exchange_def run_ops.simps demo_claimGit demo_takeGit_native
      demo_takeGit_transport demo_finishGit)

lemma demo_after_finish:
  "run_ops (exec_op demo_env) demo_finish
     (demo_store (demo_row (demo_mint_row Mint_unknown True None None (demo_git_row Completed (Some demo_result))))) =
   demo_store (demo_row (demo_mint_row Mint_closed True (Some (demo_cleanup, 240)) (Some (demo_refusal, 250))
     (demo_git_row Completed (Some demo_result))))"
  by code_simp

definition demo_ops :: "ckpt_op list" where
  "demo_ops = demo_open @ demo_initial @ demo_upload @ demo_exchange @ demo_finish"

lemma demo_end:
  "run_ops (exec_op demo_env) demo_ops empty_store =
   demo_store (demo_row (demo_mint_row Mint_closed True (Some (demo_cleanup, 240)) (Some (demo_refusal, 250))
     (demo_git_row Completed (Some demo_result))))"
  unfolding demo_ops_def append_assoc [symmetric] run_ops_append [of _ "_ @ _"] run_ops_append [of _ _ demo_finish]
  by (simp only: run_ops_append demo_after_initial [unfolded run_ops_append] demo_after_upload
      demo_after_exchange demo_after_finish)

subsection \<open>The readback of the same upload\<close>

definition demo_read_core :: mint_core where
  "demo_read_core = demo_core\<lparr>attempt_id := rep 43 CHR ''r'', digest := rep 64 CHR ''d'',
     purpose := JStr ''readback'', scope := ''read''\<rparr>"

definition demo_read_mint :: mint_plan where
  "demo_read_mint = mint_core.extend demo_read_core (mint_plan.fields 500)"

definition demo_read_observation :: mint_observation where
  "demo_read_observation = \<lparr>o_repo_id = ''repo-1'', o_token_id = ''token-2'', o_scope = JStr ''read'', o_expires_at = 480\<rparr>"

definition demo_read_git :: git_plan where
  "demo_read_git = mint_core.extend demo_read_core (git_plan.fields (rep 64 CHR ''5'') (rep 64 CHR ''6'')
     (rep 40 CHR ''7'') (rep 40 CHR ''8'') ''work'' demo_read_observation)"

definition ra :: json where "ra = JStr (rep 43 CHR ''r'')"

definition demo_read_take :: "ckpt_op list" where
  "demo_read_take =
    [Op_claimMint 300 (mint_plan_json demo_read_mint) (JNum 1),
     Op_observeMint ra (JStr (rep 64 CHR ''d'')) (observation_json demo_read_observation),
     Op_custodyMint 310 ra (JStr (rep 64 CHR ''d''))]"

definition demo_closed_upload :: mint_record where
  "demo_closed_upload = demo_mint_row Mint_closed True (Some (demo_cleanup, 240)) (Some (demo_refusal, 250))
     (demo_git_row Completed (Some demo_result))"

definition demo_read_row :: "git_record option \<Rightarrow> mint_record" where
  "demo_read_row g = \<lparr>m_plan = demo_read_mint, m_state = Custodied, m_observation = Some demo_read_observation,
     m_revoke_acknowledged = False, m_cleanup_requested = False, m_receipt = None,
     m_cleanup = None, m_refusal = None, m_git = g\<rparr>"

definition demo_two_rows :: "git_record option \<Rightarrow> store" where
  "demo_two_rows g = demo_store ((rep 43 CHR ''r'', slot_of demo_read_mint, demo_read_row g) # demo_row demo_closed_upload)"

definition demo_read_exchange :: git_record where
  "demo_read_exchange = \<lparr>g_plan = demo_read_git, g_text = git_plan_json demo_read_git, g_state = Admitted, g_result = None\<rparr>"

lemma demo_read_taken:
  "run_ops (exec_op demo_env) demo_read_take (demo_store (demo_row demo_closed_upload)) = demo_two_rows None"
  by code_simp

lemma demo_read_claimed:
  "exec_op demo_env (Op_claimGit 320 (git_plan_json demo_read_git)) (demo_two_rows None)
     = demo_two_rows (Some demo_read_exchange)"
  by code_simp

definition demo_read_ops :: "ckpt_op list" where
  "demo_read_ops = demo_ops @ demo_read_take @ [Op_claimGit 320 (git_plan_json demo_read_git)]"

lemma demo_read_end:
  "run_ops (exec_op demo_env) demo_read_ops empty_store = demo_two_rows (Some demo_read_exchange)"
  by (simp add: demo_read_ops_def demo_end demo_read_taken demo_read_claimed del: exec_op.simps flip: demo_closed_upload_def)

lemma demo_rows:
  "mint_row (demo_two_rows g) (rep 43 CHR ''r'') = Some (demo_read_row g)"
  "mint_row (demo_two_rows g) (rep 43 CHR ''u'') = Some demo_closed_upload"
  "effect_row (demo_two_rows g) (rep 43 CHR ''i'') = Some demo_effect_row"
  by (simp_all add: demo_two_rows_def demo_store_def demo_row_def mint_row_def effect_row_def rep_def)

end
