(* ===== verification/Promises.thy ===== *)
theory Promises imports PermitSpec Lifecycle begin

section \<open>What the checkpoint object promises, stated for its callers\<close>

text \<open>
  The properties of the durable object over every run from the empty store: permits, the
  invariant and its consequences across rows, the order of frames, retries, what a frozen object
  refuses, and what cleanup may still do. The witnesses are the run of \<open>Lifecycle\<close>.
\<close>

subsection \<open>Rows only grow\<close>

lemma effect_ext_trans: "effect_ext a b \<Longrightarrow> effect_ext b c \<Longrightarrow> effect_ext a c"
  by (auto simp: effect_ext_def)

lemma mint_ext_trans: "mint_ext a b \<Longrightarrow> mint_ext b c \<Longrightarrow> mint_ext a c"
  unfolding mint_ext_def
  by (cases "m_git a"; cases "m_git b"; cases "m_git c"; (elim conjE)?; simp; metis order_trans)

definition rows_grow :: "store \<Rightarrow> store \<Rightarrow> bool" where
  "rows_grow s s' \<longleftrightarrow>
     (\<forall>a r. effect_row s a = Some r \<longrightarrow> (\<exists>r'. effect_row s' a = Some r' \<and> effect_ext r r'))
   \<and> (\<forall>a r. mint_row s a = Some r \<longrightarrow> (\<exists>r'. mint_row s' a = Some r' \<and> mint_ext r r'))"

interpretation rows: progress "exec_op env" ledger_ok rows_grow for env
proof unfold_locales
  show "rows_grow s s" for s by (auto simp: rows_grow_def)
  show "rows_grow s u" if "rows_grow s t" "rows_grow t u" for s t u
    using that unfolding rows_grow_def by (meson effect_ext_trans mint_ext_trans)
  show "rows_grow s (exec_op env p s)" if "ledger_ok s" for env p s
    using exec_op_effect [OF that] exec_op_mint [OF that] by (simp add: rows_grow_def)
qed

subsection \<open>Frozen\<close>

lemma current_blocked: "s_state s = Some st \<Longrightarrow> st_frozen st \<Longrightarrow> current s release = Inl Checkpoint_blocked"
  by (simp add: current_def state_of_def)

lemma frozen_calls:
  assumes "s_state s = Some st" "st_frozen st"
  shows "\<not> is_ok (claimEffect env now v rel s)" "\<not> is_ok (claimMint env now v rel s)"
    "\<not> is_ok (claimGit now v s)" "\<not> is_ok (takeGit now v transport s)"
    "\<not> is_ok (begin_frame env rnd v w rel s)" "\<not> is_ok (commit_frame v w rel s)"
  unfolding claimEffect_def claimMint_def claimGit_def takeGit_def begin_frame_def commit_frame_def
  by (rule bind_stopped, simp add: current_blocked [OF assms] bind_stopped)+

subsection \<open>Repeated claims\<close>

lemma saveEffect_current: "current (saveEffect r s) rel = current s rel"
  by (simp add: current_def state_of_def)








subsection \<open>Cleanup does not look at the frame\<close>

lemma answer_if: "answer x = answer y \<Longrightarrow> answer (if c then z else x) = answer (if c then z else y)"
  by simp

lemmas answer_intros = answer_if answer_bind answer_returning

subsection \<open>Permits\<close>

text \<open>C1. Over every sequence of calls of the object, from the empty store, each permit (to create the
  repository of an attempt, to mint for an attempt or for a slot, to admit, take or dispatch a Git
  exchange) is handed out at most once.\<close>

theorem permit_once: "count_ops (grants env k) (exec_op env) ps empty_store \<le> 1"
  by (rule permit.admitted_once [OF ledger_ok_empty])

text \<open>C2. Refinement: the object is a set of spent permits. Whatever was called before, the next call
  spends exactly the permits it hands out, and none of them was spent.\<close>

theorem object_refines_permit_set:
  "spent (exec_op env p (run_ops (exec_op env) ps empty_store))
       = spend (permits env p (run_ops (exec_op env) ps empty_store)) (spent (run_ops (exec_op env) ps empty_store))
   \<and> set (permits env p (run_ops (exec_op env) ps empty_store)) \<inter> spent (run_ops (exec_op env) ps empty_store) = {}"
  by (rule spent_refines [OF ledger_ok_run])

text \<open>C3. Every reachable store is consistent: rows are keyed by their attempt and slot, at most 256
  in all, each row is well formed in itself, every mint belongs to a closed creation and every
  readback exchange to a closed upload.\<close>

theorem ledger_consistent: "ledger_ok (run_ops (exec_op env) ps empty_store)"
  by (rule ledger_ok_run)

subsection \<open>Rows that need each other\<close>

text \<open>C4. A mint is in the ledger only when the creation it names is closed, for the same repository,
  namespace, name and deadline.\<close>

theorem mint_needs_closed_creation:
  assumes "mint_row (run_ops (exec_op env) ps empty_store) a = Some r"
  shows "\<exists>e c. effect_row (run_ops (exec_op env) ps empty_store) (initial_attempt_id (m_plan r)) = Some e
     \<and> e_state e = Closed \<and> e_closure e = Some c \<and> c_repo_id c = repo_id (m_plan r)
     \<and> namespace (e_plan e) = namespace (m_plan r) \<and> name (e_plan e) = name (m_plan r)
     \<and> deadline (e_plan e) = deadline (m_plan r)"
  using ledger_ok_mint [OF ledger_ok_run assms]
  by (auto simp: initial_closed_for_def split: option.splits)

theorem mint_needs_closed_creation_witness:
  "\<exists>e c. effect_row (run_ops (exec_op demo_env) demo_read_ops empty_store) (rep 43 CHR ''i'') = Some e
     \<and> e_state e = Closed \<and> e_closure e = Some c \<and> c_repo_id c = ''repo-1''"
  using mint_needs_closed_creation [of demo_env demo_read_ops "rep 43 CHR ''r''" "demo_read_row (Some demo_read_exchange)"]
  by (auto simp: demo_read_end demo_rows demo_read_row_def demo_read_mint_def demo_read_core_def demo_core_def
      mint_core.defs mint_plan.defs)

text \<open>C5. A Git exchange that reads a repository back is in the ledger only when the upload mint of the
  same repository is closed by a refused bearer and its own exchange completed with the same
  preparation, disclosure, commit, tree and branch.\<close>

theorem readback_follows_closed_upload:
  assumes "mint_row (run_ops (exec_op env) ps empty_store) a = Some r" and "m_git r = Some g"
    and "purpose (g_plan g) = JStr ''readback''"
  shows "\<exists>u h x. slot_row (run_ops (exec_op env) ps empty_store)
        (Slot (namespace (g_plan g)) (name (g_plan g)) (JStr ''upload'')) = Some u
     \<and> m_state u = Mint_closed \<and> m_refusal u \<noteq> None \<and> m_git u = Some h \<and> g_state h = Completed
     \<and> g_result h = Some x \<and> repo_id (m_plan u) = repo_id (g_plan g)
     \<and> preparation_digest (g_plan h) = preparation_digest (g_plan g)
     \<and> disclosure_digest (g_plan h) = disclosure_digest (g_plan g)
     \<and> commit (g_plan h) = commit (g_plan g) \<and> tree (g_plan h) = tree (g_plan g)
     \<and> branch (g_plan h) = branch (g_plan g)"
  using ledger_ok_mint [OF ledger_ok_run assms(1)] assms(2,3)
  by (auto simp: git_follows_upload_def upload_closed_for_def split: option.splits)

theorem readback_follows_closed_upload_witness:
  "\<exists>u h x. slot_row (run_ops (exec_op demo_env) demo_read_ops empty_store)
        (Slot (namespace demo_read_git) (name demo_read_git) (JStr ''upload'')) = Some u
     \<and> m_state u = Mint_closed \<and> m_refusal u \<noteq> None \<and> m_git u = Some h \<and> g_state h = Completed
     \<and> g_result h = Some x \<and> commit (g_plan h) = commit demo_read_git"
proof -
  have "mint_row (run_ops (exec_op demo_env) demo_read_ops empty_store) (rep 43 CHR ''r'')
      = Some (demo_read_row (Some demo_read_exchange))"
    by (simp add: demo_read_end demo_rows)
  moreover have "m_git (demo_read_row (Some demo_read_exchange)) = Some demo_read_exchange"
    "purpose (g_plan demo_read_exchange) = JStr ''readback''" "g_plan demo_read_exchange = demo_read_git"
    by (simp_all add: demo_read_row_def demo_read_exchange_def demo_read_git_def demo_read_core_def demo_core_def
        mint_core.defs git_plan.defs)
  ultimately show ?thesis
    using readback_follows_closed_upload [of demo_env demo_read_ops _ _ demo_read_exchange] by metis
qed

subsection \<open>What stays\<close>

text \<open>C6. Evidence is immutable: a plan, an observation, a proof or a result that was once in the
  ledger is there, unchanged, after any further calls.\<close>

theorem evidence_immutable:
  assumes "evidence_at (run_ops (exec_op env) ps empty_store) k = Some v"
  shows "evidence_at (run_ops (exec_op env) (ps @ qs) empty_store) k = Some v"
  using ledger_evidence.kept_run [OF ledger_ok_run assms] by simp

theorem evidence_immutable_witness:
  "evidence_at (run_ops (exec_op demo_env) (demo_read_ops @ [Op_freeze]) empty_store) (Effect_plan_of (rep 43 CHR ''i''))
     = Some (V_plan demo_plan)"
  by (rule evidence_immutable) (simp add: demo_read_end demo_rows demo_effect_row_def)

text \<open>C7. Rows only grow: an effect or a mint keeps its plan and its evidence, a closed row stays
  closed, a requested cleanup stays requested, and an exchange only moves forward from admitted to
  dispatching to unknown to completed.\<close>

theorem rows_only_grow:
  "rows_grow (run_ops (exec_op env) ps empty_store) (run_ops (exec_op env) (ps @ qs) empty_store)"
  by (rule rows.later_runs [OF ledger_ok_empty])

subsection \<open>Frames\<close>

text \<open>C8. The frame of the authority never goes back: over any calls, the sequence and the release
  floor do not decrease, one sequence number names one checkpoint, the epoch and the enrollment stay,
  and a frozen object stays frozen at its checkpoint.\<close>

theorem frames_never_go_back:
  "frame_order (run_ops (exec_op env) ps empty_store) (run_ops (exec_op env) (ps @ qs) empty_store)"
  by (rule frame_history.later_runs [OF frame_ok_empty])

text \<open>C9. The frame of a reachable object belongs to its authority, its sequence is a safe integer, the
  pending permit starts at the checkpoint, and the checkpoint is the end of the last permit.\<close>

theorem frame_consistent: "frame_ok env (run_ops (exec_op env) ps empty_store)"
  by (rule frame.inv_run [OF frame_ok_empty])

text \<open>C10. Retrying \<open>begin\<close> or \<open>commit\<close> after a lost reply gives the same answer and changes nothing,
  even though the retry draws a new tip.\<close>

theorem frame_retries:
  "(begin_frame env rnd v w rel s = Inr (p, s') \<longrightarrow> begin_frame env rnd' v w rel s' = Inr (p, s'))
   \<and> (commit_frame v' w' rel' t = Inr (c, t') \<longrightarrow> commit_frame v' w' rel' t' = Inr (c, t'))"
  using begin_frame_retry commit_frame_retry by blast

definition demo_tip :: string where "demo_tip = rep 64 CHR ''e''"

definition demo_permit :: permit where
  "demo_permit = \<lparr>p_operation = ''op-1'', p_previous = demo_checkpoint,
     p_next = demo_checkpoint\<lparr>sequence := 1, tip := demo_tip\<rparr>\<rparr>"

definition demo_framed :: "permit option \<Rightarrow> permit option \<Rightarrow> checkpoint \<Rightarrow> store" where
  "demo_framed pending past c = empty_store\<lparr>s_state := Some \<lparr>st_checkpoint = c, st_pending = pending,
     st_last = past, st_release_floor = 1, st_frozen = False\<rparr>\<rparr>"

lemma demo_begin:
  "begin_frame demo_env demo_tip (checkpoint_json demo_checkpoint) (JStr ''op-1'') (JNum 1)
     (demo_framed None None demo_checkpoint) = Inr (demo_permit, demo_framed (Some demo_permit) None demo_checkpoint)"
  by code_simp

lemma demo_commit:
  "commit_frame (permit_json demo_permit) (checkpoint_json (p_next demo_permit)) (JNum 1)
     (demo_framed (Some demo_permit) None demo_checkpoint)
     = Inr (p_next demo_permit, demo_framed None (Some demo_permit) (p_next demo_permit))"
  by code_simp

theorem frame_retries_witness:
  "begin_frame demo_env (rep 64 CHR ''f'') (checkpoint_json demo_checkpoint) (JStr ''op-1'') (JNum 1)
     (demo_framed (Some demo_permit) None demo_checkpoint) = Inr (demo_permit, demo_framed (Some demo_permit) None demo_checkpoint)
   \<and> commit_frame (permit_json demo_permit) (checkpoint_json (p_next demo_permit)) (JNum 1)
     (demo_framed None (Some demo_permit) (p_next demo_permit))
     = Inr (p_next demo_permit, demo_framed None (Some demo_permit) (p_next demo_permit))"
  using conjunct1 [OF frame_retries, THEN mp, OF demo_begin] conjunct2 [OF frame_retries, THEN mp, OF demo_commit] by blast

text \<open>C11. A frame that was begun can be committed: when no permit was pending and the drawn tip is a
  digest other than the old one, the returned permit and its next checkpoint commit successfully.\<close>

theorem begun_frame_commits:
  assumes "begin_frame env rnd v w rel s = Inr (p, s')" and "hex64 rnd" and "rnd \<noteq> tip (as_checkpoint v)"
    and "s_state s = Some st" and "st_pending st = None"
  shows "\<exists>s''. commit_frame (permit_json p) (checkpoint_json (p_next p)) rel s' = Inr (p_next p, s'')"
  by (rule begin_then_commit [OF assms(1-3)]) (use assms(4,5) in simp)

theorem begun_frame_commits_witness:
  "\<exists>s''. commit_frame (permit_json demo_permit) (checkpoint_json (p_next demo_permit)) (JNum 1)
     (demo_framed (Some demo_permit) None demo_checkpoint) = Inr (p_next demo_permit, s'')"
  by (rule begun_frame_commits [OF demo_begin])
    (code_simp, code_simp, simp add: demo_framed_def, simp)

subsection \<open>Errors\<close>

text \<open>C12. A frozen object admits nothing and frames nothing: every claim, take, begin and commit
  throws, and leaves the store as it was.\<close>

theorem frozen_refuses:
  assumes "s_state s = Some st" and "st_frozen st"
  shows "\<not> is_ok (claimEffect env now v rel s) \<and> \<not> is_ok (claimMint env now v rel s)
     \<and> \<not> is_ok (claimGit now v s) \<and> \<not> is_ok (takeGit now v transport s)
     \<and> \<not> is_ok (begin_frame env rnd v w rel s) \<and> \<not> is_ok (commit_frame v w rel s)
     \<and> exec_op env (Op_claimEffect now v rel) s = s \<and> exec_op env (Op_claimMint now v rel) s = s"
proof -
  have same: "\<not> is_ok r \<Longrightarrow> next_store r s = s" for r :: "'a outcome" by (cases r) simp_all
  show ?thesis using frozen_calls [OF assms] by (auto intro!: same)
qed

theorem frozen_refuses_witness:
  "\<not> is_ok (claimGit 220 (git_plan_json demo_git)
      (demo_store (demo_row (demo_mint_row Custodied False None None None))\<lparr>s_state := Some (demo_frame\<lparr>st_frozen := True\<rparr>)\<rparr>))"
  using frozen_refuses [of "demo_store (demo_row (demo_mint_row Custodied False None None None))\<lparr>s_state := Some (demo_frame\<lparr>st_frozen := True\<rparr>)\<rparr>"
      "demo_frame\<lparr>st_frozen := True\<rparr>" demo_env 220 "git_plan_json demo_git"] by simp

text \<open>C13. Recording what already happened never depends on the frame: on stores with the same rows,
  every observation, custody, cleanup and closure call has the same answer whatever the checkpoint,
  the pending permit, the release floor and the frozen flag are.\<close>

theorem cleanup_ignores_frame:
  defines "reframed x s \<equiv> s\<lparr>s_state := x\<rparr>"
  shows "answer (observeEffect a d v (reframed x s)) = answer (observeEffect a d v s)
   \<and> answer (closeEffect a d v (reframed x s)) = answer (closeEffect a d v s)
   \<and> answer (observeEffectToken now a d v (reframed x s)) = answer (observeEffectToken now a d v s)
   \<and> answer (recordRevocationInventory now a d v (reframed x s)) = answer (recordRevocationInventory now a d v s)
   \<and> answer (observeMint a d v (reframed x s)) = answer (observeMint a d v s)
   \<and> answer (custodyMint now a d (reframed x s)) = answer (custodyMint now a d s)
   \<and> answer (revokeMint a d safety (reframed x s)) = answer (revokeMint a d safety s)
   \<and> answer (closeMint a d v (reframed x s)) = answer (closeMint a d v s)
   \<and> answer (beginMintCleanup a d productive (reframed x s)) = answer (beginMintCleanup a d productive s)
   \<and> answer (recordMintCleanup now a d v (reframed x s)) = answer (recordMintCleanup now a d v s)
   \<and> answer (closeMintRefused now a d v (reframed x s)) = answer (closeMintRefused now a d v s)
   \<and> answer (finishGit a v (reframed x s)) = answer (finishGit a v s)"
proof -
  have rows: "same_rows s (reframed x s)" by (simp add: reframed_def same_rows_def)
  note keep = answer_intros answer_with_effect [OF rows] answer_with_mint [OF rows]
  show ?thesis
    unfolding observeEffect_def closeEffect_def observeEffectToken_def recordRevocationInventory_def
      observeMint_def custodyMint_def revokeMint_def closeMint_def beginMintCleanup_def
      recordMintCleanup_def closeMintRefused_def finishGit_def
    by (intro conjI keep)
qed




text \<open>C15. The role test accepts the one-element array of a role, because it compares \<open>String(role)\<close>.
  A creation admitted with such a role cannot be retried: the stored array is never \<open>===\<close> the
  repeated one, so the same plan is refused as a conflict.\<close>

theorem array_role_conflicts_with_itself:
  assumes "claimEffect env now v rel s = Inr ((True, e), s')" and "role (e_plan e) = JArr xs"
  shows "claimEffect env now v rel s' = Inl Effect_conflict"
proof -
  have s': "s' = saveEffect e s" "e_plan e = as_plan v"
    using claimEffect_started [OF assms(1)] claimEffect_plan [OF assms(1)] by simp_all
  then show ?thesis using assms
    unfolding claimEffect_def bind_result_Inr_iff read_with_Inr_iff
    by (elim exE conjE) (auto simp: read_with_def saveEffect_current Let_def strict_eq_def
        split: if_split_asm option.split_asm)
qed

definition demo_array_plan :: initial_plan where
  "demo_array_plan = demo_plan\<lparr>role := JArr [JStr ''snapshot''], name := ''wk-'' @ rep 32 CHR ''c'' @ ''-snapshot''\<rparr>"

lemma demo_array_admitted:
  "claimEffect demo_env 200 (plan_json demo_array_plan) (JNum 1) (demo_store [] \<lparr>s_effects := []\<rparr>) =
     Inr ((True, fresh_effect demo_array_plan), demo_store [] \<lparr>s_effects := [(rep 43 CHR ''i'', fresh_effect demo_array_plan)]\<rparr>)"
  by code_simp

theorem array_role_conflicts_with_itself_witness:
  "claimEffect demo_env 200 (plan_json demo_array_plan) (JNum 1)
     (demo_store [] \<lparr>s_effects := [(rep 43 CHR ''i'', fresh_effect demo_array_plan)]\<rparr>) = Inl Effect_conflict"
  by (rule array_role_conflicts_with_itself [OF demo_array_admitted, of "[JStr ''snapshot'']"])
    (simp add: fresh_effect_def demo_array_plan_def)

end
