(* ===== verification/Messages.thy ===== *)
theory Messages imports Lifecycle begin

section \<open>What the messages and the evidence projection promise\<close>

text \<open>
  The properties of the closed messages (what a reader accepts, what is read back of what was
  written, what the key comparison does) and of \<open>preparationEvidence\<close>. The evidence witness is a
  store of two closed creations and four closed mints.
\<close>

subsection \<open>Messages\<close>

text \<open>C16. Round trip of the closed messages: what the workers write of a record is read back as the
  same record, and the reader accepts it exactly when the record is well formed.\<close>

theorem messages_round_trip:
  "as_plan (plan_json p) = p \<and> (initialPlan (plan_json p) = Inr () \<longleftrightarrow> wf_plan p)
   \<and> as_mint_plan (mint_plan_json m) = m \<and> (mintPlan (mint_plan_json m) = Inr () \<longleftrightarrow> wf_mint_plan m)
   \<and> as_git_plan (git_plan_json g) = g \<and> (gitPlan (git_plan_json g) = Inr () \<longleftrightarrow> wf_git_plan g)
   \<and> as_observation (observation_json x) = x \<and> (mintObservation (observation_json x) = Inr () \<longleftrightarrow> wf_observation x)
   \<and> as_closure (closure_json c) = c \<and> (Protocol.closure (closure_json c) = Inr () \<longleftrightarrow> wf_closure c)
   \<and> as_mint_cleanup (mint_cleanup_json y) = y \<and> (mintCleanup (mint_cleanup_json y) = Inr () \<longleftrightarrow> wf_mint_cleanup y)
   \<and> as_mint_refusal (mint_refusal_json z) = z \<and> (mintRefusal (mint_refusal_json z) = Inr () \<longleftrightarrow> wf_mint_refusal z)
   \<and> as_revocation (revocation_json w) = w \<and> (revocationInventory (revocation_json w) = Inr () \<longleftrightarrow> wf_revocation w)"
  by (simp add: initialPlan_json mintPlan_json gitPlan_json mintObservation_json closure_json_ok mintCleanup_json
      mintRefusal_json revocationInventory_json)

text \<open>C17. A plan the readers accept is well formed: its texts have the fixed classes and lengths, its
  numbers are safe integers, a token never outlives the deadline, only an upload writes, and the
  observed token of a Git plan is for its repository and scope.\<close>

theorem accepted_plans_well_formed:
  "(initialPlan v = Inr () \<longrightarrow> wf_plan (as_plan v)) \<and> (mintPlan v = Inr () \<longrightarrow> wf_mint_plan (as_mint_plan v))
   \<and> (gitPlan v = Inr () \<longrightarrow> wf_git_plan (as_git_plan v))
   \<and> (gitResult v p = Inr () \<longrightarrow> wf_git_result p (as_git_result v))"
  by (simp add: initialPlan_wf mintPlan_wf gitPlan_wf gitResult_wf)

lemma demo_messages:
  "initialPlan (plan_json demo_plan) = Inr ()" "mintPlan (mint_plan_json demo_mint) = Inr ()"
  "gitPlan (git_plan_json demo_git) = Inr ()" "gitResult (git_result_json demo_result) demo_git = Inr ()"
  by code_simp+

theorem accepted_plans_well_formed_witness:
  "wf_plan demo_plan \<and> wf_mint_plan demo_mint \<and> wf_git_plan demo_git \<and> wf_git_result demo_git demo_result"
  using accepted_plans_well_formed [of "plan_json demo_plan"] accepted_plans_well_formed [of "mint_plan_json demo_mint"]
    accepted_plans_well_formed [of "git_plan_json demo_git"]
    accepted_plans_well_formed [of "git_result_json demo_result" demo_git]
  by (simp add: demo_messages)

text \<open>The order of the keys of a message does not matter: the readers of creation and mint plans
  give the same verdict on objects with the same entries.\<close>

theorem key_order_is_irrelevant:
  assumes "mset (map fst kvs) = mset (map fst lws)" and "map_of kvs = map_of lws"
  shows "initialPlan (JObj kvs) = initialPlan (JObj lws) \<and> mintPlan (JObj kvs) = mintPlan (JObj lws)"
  using initialPlan_order [of "JObj kvs" "JObj lws"] mintPlan_order [of "JObj kvs" "JObj lws"] assms
  by (auto simp: same_object_def)

theorem key_order_is_irrelevant_witness:
  "initialPlan (JObj [(''a'', JNull), (''b'', JNull)]) = initialPlan (JObj [(''b'', JNull), (''a'', JNull)])"
  using key_order_is_irrelevant [of "[(''a'', JNull), (''b'', JNull)]" "[(''b'', JNull), (''a'', JNull)]"]
  by (auto simp: fun_eq_iff)



subsection \<open>The evidence of a preparation\<close>

lemma evidence_entry_Inl:
  "evidence_entry a seen s = Inr (Inl x) \<Longrightarrow> \<exists>r. effect_row s (the_str (get a ''attempt_id'')) = Some r
     \<and> e_state r = Closed \<and> ie_plan x = e_plan r \<and> e_closure r = Some (ie_closure x)
     \<and> the_str (get a ''attempt_id'') \<notin> set seen"
  unfolding evidence_entry_def
  by (auto simp: bind_result_Inr_iff effect_def mint_def split: if_split_asm option.split_asm)

lemma evidence_entry_Inr:
  "evidence_entry a seen s = Inr (Inr x) \<Longrightarrow> \<exists>r g t. mint_row s (the_str (get a ''attempt_id'')) = Some r
     \<and> m_state r = Mint_closed \<and> me_plan x = m_plan r \<and> m_observation r = Some (me_observation x)
     \<and> m_refusal r = Some (me_refusal x, t) \<and> m_git r = Some g \<and> g_state g = Completed
     \<and> g_plan g = me_git_plan x \<and> g_result g = Some (me_git_result x)
     \<and> the_str (get a ''attempt_id'') \<notin> set seen"
  unfolding evidence_entry_def
  by (auto simp: bind_result_Inr_iff effect_def mint_def split: if_split_asm option.split_asm)

definition evidence_of_effect :: "store \<Rightarrow> initial_evidence \<Rightarrow> bool" where
  "evidence_of_effect s i \<longleftrightarrow> (\<exists>r. effect_row s (attempt_id (ie_plan i)) = Some r
     \<and> e_state r = Closed \<and> e_plan r = ie_plan i \<and> e_closure r = Some (ie_closure i))"

definition evidence_of_mint :: "store \<Rightarrow> mint_evidence \<Rightarrow> bool" where
  "evidence_of_mint s m \<longleftrightarrow> (\<exists>r g t. mint_row s (attempt_id (me_plan m)) = Some r
     \<and> m_state r = Mint_closed \<and> m_plan r = me_plan m \<and> m_observation r = Some (me_observation m)
     \<and> m_refusal r = Some (me_refusal m, t) \<and> m_git r = Some g \<and> g_state g = Completed
     \<and> g_plan g = me_git_plan m \<and> g_result g = Some (me_git_result m))"

lemma evidence_list_sound:
  assumes ky: "keyed s"
  shows "evidence_list as seen s = Inr (is, ms) \<Longrightarrow>
     list_all (evidence_of_effect s) is \<and> list_all (evidence_of_mint s) ms
     \<and> distinct (map (attempt_id \<circ> ie_plan) is) \<and> distinct (map (attempt_id \<circ> me_plan) ms)
     \<and> (attempt_id \<circ> ie_plan) ` set is \<inter> (attempt_id \<circ> me_plan) ` set ms = {}
     \<and> ((attempt_id \<circ> ie_plan) ` set is \<union> (attempt_id \<circ> me_plan) ` set ms) \<inter> set seen = {}"
proof (induction as arbitrary: seen "is" ms)
  case Nil
  then show ?case by simp
next
  case (Cons a as)
  let ?a = "the_str (get a ''attempt_id'')"
  from Cons.prems obtain x where e: "evidence_entry a seen s = Inr x"
    and c: "bind_result (evidence_list as (?a # seen) s) (\<lambda>(is, ms).
       case x of Inl i \<Rightarrow> Inr (i # is, ms) | Inr m \<Rightarrow> Inr (is, m # ms)) = Inr (is, ms)"
    by (auto simp: bind_result_Inr_iff)
  from c obtain is' ms' where rest: "evidence_list as (?a # seen) s = Inr (is', ms')"
    and r: "case x of Inl i \<Rightarrow> is = i # is' \<and> ms = ms' | Inr m \<Rightarrow> is = is' \<and> ms = m # ms'"
    by (cases x) (auto simp: bind_result_Inr_iff)
  show ?case
  proof (cases x)
    case (Inl i)
    with evidence_entry_Inl e obtain r where row: "effect_row s ?a = Some r" "e_state r = Closed"
      "ie_plan i = e_plan r" "e_closure r = Some (ie_closure i)" "?a \<notin> set seen" by blast
    then have "attempt_id (ie_plan i) = ?a" using keyed_effect [OF ky row(1)] by simp
    then show ?thesis using Cons.IH [OF rest] r Inl row by (auto simp: evidence_of_effect_def)
  next
    case (Inr m)
    with evidence_entry_Inr e obtain r g t where row: "mint_row s ?a = Some r" "m_state r = Mint_closed"
      "me_plan m = m_plan r" "m_observation r = Some (me_observation m)" "m_refusal r = Some (me_refusal m, t)"
      "m_git r = Some g" "g_state g = Completed" "g_plan g = me_git_plan m" "g_result g = Some (me_git_result m)"
      "?a \<notin> set seen" by blast
    then have "attempt_id (me_plan m) = ?a" using keyed_mint [OF ky row(1)] by simp
    then show ?thesis using Cons.IH [OF rest] r Inr row by (auto simp: evidence_of_mint_def)
  qed
qed

text \<open>C20. The evidence a preparation is given is what the ledger retains: two closed creations and four
  mints closed by a refused bearer with a completed exchange, of six different attempts, each exactly
  as its row has it. Every reachable store is keyed (C3).\<close>

theorem preparation_evidence_is_retained:
  assumes "keyed s" and "preparationEvidence v s = Inr (is, ms)"
  shows "length is = 2 \<and> length ms = 4
     \<and> distinct (map (attempt_id \<circ> ie_plan) is @ map (attempt_id \<circ> me_plan) ms)
     \<and> list_all (evidence_of_effect s) is \<and> list_all (evidence_of_mint s) ms"
proof -
  from assms(2) obtain as where "evidence_list as [] s = Inr (is, ms)" "length is = 2" "length ms = 4"
    unfolding preparationEvidence_def by (auto simp: bind_result_Inr_iff split: json.splits if_split_asm)
  then show ?thesis using evidence_list_sound [OF assms(1), of as "[]" "is" ms] by auto
qed

definition demo_initial_row :: "char \<Rightarrow> string \<times> effect_record" where
  "demo_initial_row c = (rep 43 c, demo_effect_row\<lparr>e_plan := demo_plan\<lparr>attempt_id := rep 43 c\<rparr>\<rparr>)"

definition demo_closed_row :: "char \<Rightarrow> string \<Rightarrow> string \<times> slot \<times> mint_record" where
  "demo_closed_row c n = (let p = demo_mint\<lparr>attempt_id := rep 43 c, namespace := n\<rparr> in
     (rep 43 c, slot_of p, demo_closed_upload\<lparr>m_plan := p,
        m_git := Some \<lparr>g_plan = demo_git\<lparr>attempt_id := rep 43 c, namespace := n\<rparr>, g_text = JNull,
           g_state = Completed, g_result = Some demo_result\<rparr>\<rparr>))"

definition demo_six :: store where
  "demo_six = \<lparr>s_state = Some demo_frame, s_enrollment = None,
     s_effects = map demo_initial_row ''ij'',
     s_mints = map2 demo_closed_row ''uvwx'' [''a'', ''b'', ''c'', ''d'']\<rparr>"

definition demo_ask :: "string \<Rightarrow> char \<Rightarrow> json" where
  "demo_ask use c = JObj [(''attempt_id'', JStr (rep 43 c)), (''purpose'', JStr use)]"

definition demo_initial_evidence :: "char \<Rightarrow> initial_evidence" where
  "demo_initial_evidence c = \<lparr>ie_plan = demo_plan\<lparr>attempt_id := rep 43 c\<rparr>, ie_closure = demo_closure\<rparr>"

definition demo_mint_evidence :: "char \<Rightarrow> string \<Rightarrow> mint_evidence" where
  "demo_mint_evidence c n = \<lparr>me_plan = demo_mint\<lparr>attempt_id := rep 43 c, namespace := n\<rparr>,
     me_observation = demo_observation, me_refusal = demo_refusal,
     me_git_plan = demo_git\<lparr>attempt_id := rep 43 c, namespace := n\<rparr>, me_git_result = demo_result\<rparr>"

definition demo_request :: json where
  "demo_request = JObj [(''attempts'', JArr (map (demo_ask ''initial'') ''ij'' @ map (demo_ask ''upload'') ''uvwx''))]"

lemma demo_six_keyed: "keyed demo_six"
proof -
  have "distinct (map fst (s_effects demo_six))" "distinct (map fst (s_mints demo_six))"
    "distinct (map (\<lambda>(_, t, _). t) (s_mints demo_six))" "ledger_entries demo_six = 6"
    "\<forall>(a, r) \<in> set (s_effects demo_six). attempt_id (e_plan r) = a"
    by code_simp+
  moreover have "\<forall>(a, t, r) \<in> set (s_mints demo_six). attempt_id (m_plan r) = a \<and> slot_of (m_plan r) = t"
    by code_simp
  ultimately show ?thesis by (simp add: keyed_def)
qed

lemma demo_entry_i: "evidence_entry (demo_ask ''initial'' CHR ''i'') [] demo_six = Inr (Inl (demo_initial_evidence CHR ''i''))"
  by code_simp

lemma demo_entry_j: "evidence_entry (demo_ask ''initial'' CHR ''j'') [] demo_six = Inr (Inl (demo_initial_evidence CHR ''j''))"
  by code_simp

lemma demo_entry_u: "evidence_entry (demo_ask ''upload'' CHR ''u'') [] demo_six = Inr (Inr (demo_mint_evidence CHR ''u'' ''a''))"
  by code_simp

lemma demo_entry_v: "evidence_entry (demo_ask ''upload'' CHR ''v'') [] demo_six = Inr (Inr (demo_mint_evidence CHR ''v'' ''b''))"
  by code_simp

lemma demo_entry_w: "evidence_entry (demo_ask ''upload'' CHR ''w'') [] demo_six = Inr (Inr (demo_mint_evidence CHR ''w'' ''c''))"
  by code_simp

lemma demo_entry_x: "evidence_entry (demo_ask ''upload'' CHR ''x'') [] demo_six = Inr (Inr (demo_mint_evidence CHR ''x'' ''d''))"
  by code_simp

lemmas demo_entries = demo_entry_i demo_entry_j demo_entry_u demo_entry_v demo_entry_w demo_entry_x

lemma evidence_entry_unseen:
  "evidence_entry a [] s = Inr x \<Longrightarrow> the_str (get a ''attempt_id'') \<notin> set seen \<Longrightarrow> evidence_entry a seen s = Inr x"
  by (simp add: evidence_entry_def split: if_split_asm)

lemma demo_ask_id: "the_str (get (demo_ask use c) ''attempt_id'') = rep 43 c"
  by (simp add: demo_ask_def)

lemma rep_inject: "rep 43 c = rep 43 d \<longleftrightarrow> c = d"
  by (simp add: rep_def)

lemma demo_six_evidence:
  "preparationEvidence demo_request demo_six = Inr (map demo_initial_evidence ''ij'', map2 demo_mint_evidence ''uvwx'' [''a'', ''b'', ''c'', ''d''])"
proof -
  have "closed demo_request [''attempts'']" by (simp add: demo_request_def closed_map)
  moreover have "evidence_list (map (demo_ask ''initial'') ''ij'' @ map (demo_ask ''upload'') ''uvwx'') [] demo_six
      = Inr (map demo_initial_evidence ''ij'', map2 demo_mint_evidence ''uvwx'' [''a'', ''b'', ''c'', ''d''])"
    by (simp add: demo_ask_id evidence_entry_unseen [OF demo_entry_i] evidence_entry_unseen [OF demo_entry_j]
        evidence_entry_unseen [OF demo_entry_u] evidence_entry_unseen [OF demo_entry_v]
        evidence_entry_unseen [OF demo_entry_w] evidence_entry_unseen [OF demo_entry_x] rep_inject)
  ultimately show ?thesis by (simp add: preparationEvidence_def demo_request_def)
qed

theorem preparation_evidence_is_retained_witness:
  "length (map demo_initial_evidence ''ij'') = 2
     \<and> list_all (evidence_of_mint demo_six) (map2 demo_mint_evidence ''uvwx'' [''a'', ''b'', ''c'', ''d''])"
  using preparation_evidence_is_retained [OF demo_six_keyed demo_six_evidence] by blast

end
