(* ===== verification/Rehearsal.thy ===== *)
theory Rehearsal imports Entrypoints Lifecycle begin

section \<open>One run of the gates, evaluated\<close>

text \<open>
  Concrete requests and answers for the plans of \<open>Lifecycle\<close>: a creation that is admitted, made,
  revoked, refused and closed, and a mint that is admitted, made and then abandoned because the
  store did not take custody; then the recovery of that mint, the transport of its refusal and the
  broker's revocation. \<open>demo_lib\<close> reads a few short texts, each the name of a message, and
  its digest is a constant.
\<close>

definition demo_native :: "string \<Rightarrow> string \<Rightarrow> int \<Rightarrow> json" where
  "demo_native a st n = JObj [(''id'', JStr a), (''state'', JStr st), (''revision'', JNum n)]"

definition demo_ask_for :: "string \<Rightarrow> json" where
  "demo_ask_for a = JObj [(''attempt_id'', JStr a)]"

definition demo_lib :: lib where
  "demo_lib = \<lparr>parse_json = map_of
      [(''ask i'', demo_ask_for (rep 43 CHR ''i'')), (''ask u'', demo_ask_for (rep 43 CHR ''u'')),
       (''plan i'', plan_json demo_plan), (''plan u'', mint_plan_json demo_mint),
       (''closed i'', demo_native (rep 43 CHR ''i'') ''closed'' 2), (''closed u'', demo_native (rep 43 CHR ''u'') ''closed'' 4)],
     sha256_hex = (\<lambda>_. rep 64 CHR ''2'')\<rparr>"

definition demo_gate :: gate_env where
  "demo_gate = \<lparr>gate_enabled = ''true'', gate_authority = ''authority'', gate_account = rep 32 CHR ''d'',
     gate_namespace = ''ns''\<rparr>"

definition demo_request :: "string \<Rightarrow> string \<Rightarrow> request" where
  "demo_request path text = \<lparr>rq_method = ''POST'', rq_path = path, rq_body = Some [text]\<rparr>"

definition demo_ok :: "string \<Rightarrow> answer" where
  "demo_ok text = A_reply 200 (Some [text])"

definition demo_remote :: json where
  "demo_remote = JStr (''https://'' @ rep 32 CHR ''d'' @ ''.artifacts.cloudflare.net/git/ns/wk-'' @ rep 32 CHR ''c'' @ ''-code.git'')"

definition demo_info :: "json \<Rightarrow> json" where
  "demo_info extra = JObj [(''id'', JStr ''repo-1''), (''name'', JStr (name demo_plan)), (''defaultBranch'', JStr ''work''),
     (''remote'', demo_remote), (''description'', JStr (''mikaki initial '' @ rep 43 CHR ''i'')), (''token'', extra)]"

definition demo_token :: "string \<Rightarrow> string \<Rightarrow> json" where
  "demo_token i st = JObj [(''id'', JStr i), (''scope'', JStr ''write''), (''state'', JStr st),
     (''expiresAt'', JStr ''1970-01-01T00:05:00Z'')]"

definition demo_tokens :: "json list \<Rightarrow> json" where
  "demo_tokens ts = JObj [(''tokens'', JArr ts), (''total'', JNum (int (length ts)))]"

text \<open>The creation: what each call is answered, in the order of the calls.\<close>

definition demo_create_answers :: "answer list" where
  "demo_create_answers = [A_effect None, demo_ok ''plan i'',
     A_effect_claim True (fresh_effect demo_plan), A_json (demo_info (JStr ''secret'')), A_none,
     A_json (demo_info JNull), A_none, A_json (demo_tokens [demo_token ''token-0'' ''active'']),
     A_json (JBool True), A_json (demo_tokens []), A_reply 403 None, A_json (demo_info JNull),
     A_effect (Some demo_effect_row), A_none, demo_ok ''closed i'']"

definition demo_create_calls :: "call list" where
  "demo_create_calls =
    [Ledger (L_lookupEffect ia), Native ''/effect'' (JObj [(''action'', JStr ''initial-plan''), (''attempt_id'', ia)]),
     Ledger (L_claimEffect (plan_json demo_plan)),
     Create_repo (name demo_plan) ''work'' (''mikaki initial '' @ rep 43 CHR ''i''), Get_repo (name demo_plan), Repo_info,
     Ledger (L_observeEffect ia (JStr (rep 64 CHR ''1'')) (JStr ''repo-1'')), List_tokens, Revoke_token ''secret'',
     List_tokens, Probe (the_str demo_remote @ ''/info/refs?service=git-upload-pack'') ''secret'', Repo_info,
     Ledger (L_closeEffect ia (JStr (rep 64 CHR ''1'')) (closure_json demo_closure)), Dispose,
     Native ''/effect'' (JObj [(''action'', JStr ''capture-closed''), (''attempt_id'', ia), (''repo_id'', JStr ''repo-1''),
       (''token_id'', JStr ''token-0''), (''expires_at'', JNum 300), (''receipt'', JStr (rep 64 CHR ''2''))])]"

lemma demo_create_run:
  "run_prog (initial_gate demo_lib demo_gate (demo_request ''/initial'' ''ask i'')) demo_create_answers =
     (zip demo_create_calls demo_create_answers, Returned (respond_json 200 (JObj [(''attempt_id'', ia),
        (''state'', JStr ''closed''), (''repo_id'', JStr ''repo-1''), (''op_synchronized'', JBool True)])))"
  by code_simp

text \<open>The mint: the store does not answer the capture, so the gate revokes, probes and closes.\<close>

definition demo_minted :: json where
  "demo_minted = JObj [(''id'', JStr ''token-1''), (''plaintext'', JStr ''secret''), (''scope'', JStr ''write''),
     (''expiresAt'', JStr ''1970-01-01T00:06:30Z'')]"

definition demo_listed :: "string \<Rightarrow> json" where
  "demo_listed st = demo_tokens [JObj [(''id'', JStr ''token-1''), (''scope'', JStr ''write''), (''state'', JStr st),
     (''expiresAt'', JStr ''1970-01-01T00:06:30Z'')]]"

definition demo_closed_row :: mint_record where
  "demo_closed_row = (demo_mint_row Mint_closed True None None None)\<lparr>m_receipt := Some (rep 64 CHR ''2'')\<rparr>"

definition demo_mint_answers :: "answer list" where
  "demo_mint_answers = [A_mint None, demo_ok ''plan u'', A_mint_claim True (fresh_mint demo_mint), A_none,
     A_json (demo_info JNull), A_json (demo_tokens []), A_time 200000, A_json demo_minted, A_none, A_time 201000,
     A_json (demo_info JNull), A_json (demo_listed ''active''), A_failed, A_none, A_json (JBool True), A_none,
     A_reply 403 None, A_json (demo_info JNull), A_json (demo_listed ''revoked''), A_mint (Some demo_closed_row), A_none,
     demo_ok ''closed u'']"

definition demo_mint_calls :: "call list" where
  "demo_mint_calls = (let d = JStr (rep 64 CHR ''3''); obs = observation_entries demo_observation in
    [Ledger (L_lookupMint ua), Native ''/mint-effect'' (JObj [(''action'', JStr ''mint-plan''), (''attempt_id'', ua)]),
     Ledger (L_claimMint (mint_plan_json demo_mint)), Get_repo (name demo_plan), Repo_info, List_tokens, Clock,
     Create_token (name demo_plan) ''write'' 199, Ledger (L_observeMint ua d (observation_json demo_observation)),
     Clock, Repo_info, List_tokens, Native ''/mint-effect'' (capture_body demo_mint demo_observation ''secret''),
     Ledger (L_beginMintCleanup ua d True), Revoke_token ''secret'', Ledger (L_revokeMint ua d False),
     Probe (the_str demo_remote @ ''/info/refs?service=git-upload-pack'') ''secret'', Repo_info, List_tokens,
     Ledger (L_closeMint ua d (JStr (rep 64 CHR ''2''))), Dispose,
     Native ''/mint-effect'' (JObj ([(''action'', JStr ''capture-mint-closed''), (''attempt_id'', ua), (''digest'', d)]
       @ obs @ [(''receipt'', JStr (rep 64 CHR ''2''))]))])"

lemma demo_mint_run:
  "run_prog (mint_gate demo_lib demo_gate (demo_request ''/mint'' ''ask u'')) demo_mint_answers =
     (zip demo_mint_calls demo_mint_answers, Returned (respond_json 200 (JObj [(''attempt_id'', ua),
        (''state'', JStr ''closed''), (''repo_id'', JStr ''repo-1''), (''cleanup'', JStr ''refused''),
        (''op_synchronized'', JBool True)])))"
  by code_simp

subsection \<open>Recovery, refusal and the brokers\<close>

definition demo_listing :: "string \<Rightarrow> json" where
  "demo_listing st = demo_tokens [JObj [(''id'', JStr ''token-1''), (''scope'', JStr ''write''), (''state'', JStr st),
     (''createdAt'', JStr ''1970-01-01T00:03:00Z''), (''expiresAt'', JStr ''1970-01-01T00:06:30Z'')]]"

definition demo_recover_answers :: "answer list" where
  "demo_recover_answers = [A_mint (Some (demo_mint_row Mint_unknown False None None None)),
     A_mint (Some (demo_mint_row Mint_unknown True None None None)), A_none, A_json (demo_listing ''active''),
     A_json (JBool True), A_none, A_json (demo_listing ''revoked''), A_json (demo_info JNull),
     A_mint (Some (demo_mint_row Mint_unknown True (Some (demo_cleanup, 240)) None None)), A_none, A_failed]"

definition demo_recover_calls :: "call list" where
  "demo_recover_calls = (let d = JStr (rep 64 CHR ''3'') in
    [Ledger (L_lookupMint ua), Ledger (L_beginMintCleanup ua d False), Broker_open (demo_ask_for (rep 43 CHR ''u'')),
     Broker_tokens, Broker_revoke (JStr ''token-1''), Ledger (L_revokeMint ua d True), Broker_tokens, Broker_info,
     Ledger (L_recordMintCleanup ua d (mint_cleanup_json (cleanup_evidence demo_lib demo_mint demo_observation ''revoke_acknowledged''))),
     Broker_dispose, Native ''/mint-effect'' (cleanup_body demo_mint demo_observation)])"

lemma demo_recover_run:
  "run_prog (mint_reconcile_gate demo_lib demo_gate (demo_request ''/reconcile-mint'' ''ask u'')) demo_recover_answers =
     (zip demo_recover_calls demo_recover_answers, Returned (respond_json 200
        (mint_unknown demo_mint (JStr ''revoked_inventory'') False)))"
  by code_simp

definition demo_probe_url :: string where
  "demo_probe_url = the_str demo_remote @ ''/info/refs?service=git-upload-pack''"

definition demo_refusal_request :: refusal_request where
  "demo_refusal_request = \<lparr>rr_method = ''GET'', rr_url = demo_probe_url, rr_attempt = Some (rep 43 CHR ''u''),
     rr_authorization = Some ''Bearer secret'', rr_has_body = False\<rparr>"

definition demo_refusal_answers :: "answer list" where
  "demo_refusal_answers = (let row = A_mint (Some (demo_mint_row Mint_unknown True (Some (demo_cleanup, 240)) None None));
       check = [row, A_json (demo_info JNull), A_json (demo_listing ''revoked'')] in
     [row, A_none] @ check @ [A_reply 403 None] @ check @ [A_none])"

definition demo_refusal_calls :: "call list" where
  "demo_refusal_calls = (let check = [Ledger (L_lookupMint ua), Repo_info, List_tokens] in
     [Ledger (L_lookupMint ua), Get_repo (name demo_plan)] @ check @ [Probe demo_probe_url ''secret''] @ check @ [Dispose])"

lemma demo_refusal_run:
  "run_prog (refusal_transport demo_gate demo_refusal_request) demo_refusal_answers =
     (zip demo_refusal_calls demo_refusal_answers, Returned (respond_empty 403))"
  by code_simp

definition demo_cap :: mint_cap where
  "demo_cap = \<lparr>mx_plan = demo_mint, mx_remote = the_str demo_remote, mx_disposed = False\<rparr>"

definition demo_revoke_answers :: "answer list" where
  "demo_revoke_answers = (let row = A_mint (Some (demo_mint_row Mint_unknown True None None None));
       check = [row, A_json (demo_info JNull), row] in
     check @ [A_json (demo_listing ''active'')] @ check @ [A_json (JBool True)])"

definition demo_revoke_calls :: "call list" where
  "demo_revoke_calls = (let look = Ledger (L_lookupMint ua); check = [look, Repo_info, look] in
     check @ [List_tokens] @ check @ [Revoke_token ''token-1''])"

lemma demo_revoke_run:
  "run_prog (mint_revokeToken demo_cap (JStr ''token-1'')) demo_revoke_answers =
     (zip demo_revoke_calls demo_revoke_answers, Returned (JBool True))"
  by code_simp

end
