(* ===== verification/Conduct.thy ===== *)
theory Conduct imports Rehearsal begin

section \<open>What a run of a handler does\<close>

text \<open>
  The monitors of the gate theories, read as statements on the trace of a run: the list of the calls
  a handler made with the answers it got, for every request and every list of answers. A run whose
  answers end early is a handler that was killed.
\<close>

subsection \<open>Traces of accepted runs\<close>

lemma accepts_split: "accepts M m (t @ (q, a) # u) \<Longrightarrow> permitted M (after_all M m t) q"
  by (induction t arbitrary: m) auto


lemma valid_accepts: "valid M p m Q \<Longrightarrow> accepts M m (fst (run_prog p as))"
  using valid_run [of M p m Q as "fst (run_prog p as)" "snd (run_prog p as)"] by simp


lemma json_of_iff [simp]: "json_of a = Some v \<longleftrightarrow> a = A_json v"
  by (cases a) (auto simp: json_of_def)

lemma refusals_of_trace:
  "after_all refusal_monitor (g, v, f) t = (g', v', f') \<Longrightarrow>
     (x \<in> set g' \<longrightarrow> x \<in> set g \<or> (\<exists>(q, y) \<in> set t. returned_secret q y = Some x))
   \<and> (x \<in> set v' \<longrightarrow> x \<in> set v \<or> (\<exists>y. (Revoke_token x, A_json y) \<in> set t))
   \<and> (x \<in> set f' \<longrightarrow> x \<in> set f \<or> (\<exists>url b. (Probe url x, A_reply 403 b) \<in> set t))"
proof (induction t arbitrary: g v f)
  case (Cons z t)
  obtain q a where z: "z = (q, a)" by (cases z)
  obtain h w k where m: "after refusal_monitor (g, v, f) q a = (h, w, k)"
    by (cases "after refusal_monitor (g, v, f) q a")
  have "refused_by a \<Longrightarrow> \<exists>b. a = A_reply 403 b"
    by (cases a) (auto simp: refused_by_def reply_of_def)
  then have one: "x \<in> set h \<longrightarrow> x \<in> set g \<or> returned_secret q a = Some x"
    "x \<in> set w \<longrightarrow> x \<in> set v \<or> (q = Revoke_token x \<and> (\<exists>y. a = A_json y))"
    "x \<in> set k \<longrightarrow> x \<in> set f \<or> (\<exists>url b. q = Probe url x \<and> a = A_reply 403 b)"
    using m by (auto split: call.splits if_splits option.splits)
  from Cons.prems z m have "after_all refusal_monitor (h, w, k) t = (g', v', f')" by simp
  from Cons.IH [OF this] one z show ?case by (simp, blast)
qed simp



lemma trace_at: "n < length t \<Longrightarrow> t ! n = z \<Longrightarrow> t = take n t @ z # drop (Suc n) t"
  by (metis id_take_nth_drop)

subsection \<open>Closing\<close>



text \<open>C22. The mint gate closes a mint with a receipt only after a secret returned to this very run
  was refused by the Git remote with 403.\<close>

theorem mint_closed_after_refusal:
  assumes "fst (run_prog (mint_gate lib env rq) as) = t @ (Ledger (L_closeMint a d v), x) # u"
  shows "\<exists>secret. (\<exists>(q, y) \<in> set t. returned_secret q y = Some secret)
     \<and> (\<exists>url b. (Probe url secret, A_reply 403 b) \<in> set t)"
proof -
  obtain g r f where m: "after_all refusal_monitor ([], [], []) t = (g, r, f)" by (rule prod_cases3)
  have "permitted refusal_monitor (g, r, f) (Ledger (L_closeMint a d v))"
    using accepts_split [of refusal_monitor "([], [], [])" t] valid_accepts [OF mint_gate_refused] assms m by metis
  then obtain s where "s \<in> set g" "s \<in> set f" by (auto simp: list_ex_iff)
  then show ?thesis using refusals_of_trace [OF m, of s] by auto
qed

theorem mint_closed_after_refusal_witness:
  "\<exists>secret. (\<exists>(q, y) \<in> set (take 19 (zip demo_mint_calls demo_mint_answers)). returned_secret q y = Some secret)
     \<and> (\<exists>url b. (Probe url secret, A_reply 403 b) \<in> set (take 19 (zip demo_mint_calls demo_mint_answers)))"
proof -
  let ?t = "zip demo_mint_calls demo_mint_answers"
  have "fst (run_prog (mint_gate demo_lib demo_gate (demo_request ''/mint'' ''ask u'')) demo_mint_answers)
      = take 19 ?t @ (Ledger (L_closeMint ua (JStr (rep 64 CHR ''3'')) (JStr (rep 64 CHR ''2''))),
           A_mint (Some demo_closed_row)) # drop 20 ?t"
    using trace_at [of 19 ?t] by (simp add: demo_mint_run) (simp add: demo_mint_calls_def demo_mint_answers_def Let_def)
  then show ?thesis using mint_closed_after_refusal by blast
qed

subsection \<open>Secrets\<close>



text \<open>C24. The recovery gates never create, mint, claim or close: whatever they are asked and answered,
  they only read rows, drive the broker, and record observations and evidence.\<close>

theorem recovery_only_cleans_up:
  "list_all effect_safety (calls_of (reconcile_gate lib env rq) as)
   \<and> list_all mint_safety (calls_of (mint_reconcile_gate lib env rq) as)"
  by (simp add: only_calls_run reconcile_gate_safety mint_reconcile_gate_safety)

lemma intents_of_trace:
  "after_all intent_monitor (x, y) t = (x', y') \<Longrightarrow>
     (x' \<longrightarrow> x \<or> (\<exists>a d b r. (Ledger (L_beginMintCleanup a d b), A_mint (Some r)) \<in> set t))
   \<and> (y' \<longrightarrow> y \<or> (\<exists>i. (Broker_revoke i, A_json (JBool True)) \<in> set t))"
proof (induction t arbitrary: x y)
  case (Cons z t)
  obtain q a where z: "z = (q, a)" by (cases z)
  obtain v w where m: "after intent_monitor (x, y) q a = (v, w)" by (cases "after intent_monitor (x, y) q a")
  have "mint_row_of a \<noteq> None \<Longrightarrow> \<exists>r. a = A_mint (Some r)"
    by (cases a) (auto simp: mint_row_of_def split: option.splits)
  then have one: "v \<longrightarrow> x \<or> (\<exists>c d b r. q = Ledger (L_beginMintCleanup c d b) \<and> a = A_mint (Some r))"
    "w \<longrightarrow> y \<or> (\<exists>i. q = Broker_revoke i \<and> a = A_json (JBool True))"
    using m by (auto split: call.splits ledger_call.splits)
  from Cons.prems z m have "after_all intent_monitor (v, w) t = (x', y')" by simp
  from Cons.IH [OF this] one z show ?case by (simp, blast)
qed simp

definition reaches_broker :: "call \<Rightarrow> bool" where
  "reaches_broker q = (case q of Broker_open _ \<Rightarrow> True | Broker_info \<Rightarrow> True | Broker_tokens \<Rightarrow> True
     | Broker_revoke _ \<Rightarrow> True | _ \<Rightarrow> False)"

text \<open>C25. The recovery of a mint reaches the broker only after the ledger has recorded the intent to
  clean up, and acknowledges a revocation only after the broker confirmed one.\<close>

theorem intent_before_broker:
  assumes "fst (run_prog (mint_reconcile_gate lib env rq) as) = t @ (q, x) # u"
  shows "(reaches_broker q \<longrightarrow> (\<exists>a d b r. (Ledger (L_beginMintCleanup a d b), A_mint (Some r)) \<in> set t))
     \<and> (\<forall>a d b. q = Ledger (L_revokeMint a d b) \<longrightarrow> (\<exists>i. (Broker_revoke i, A_json (JBool True)) \<in> set t))"
proof -
  obtain i c where m: "after_all intent_monitor (False, False) t = (i, c)" by (rule prod.exhaust)
  have "permitted intent_monitor (i, c) q"
    using accepts_split [of intent_monitor "(False, False)" t q x u] valid_accepts [OF mint_reconcile_gate_intent] assms m
    by metis
  then show ?thesis using intents_of_trace [OF m] by (auto simp: reaches_broker_def split: call.splits)
qed

theorem intent_before_broker_witness:
  "\<exists>a d b r. (Ledger (L_beginMintCleanup a d b), A_mint (Some r)) \<in> set (take 4 (zip demo_recover_calls demo_recover_answers))"
proof -
  let ?t = "zip demo_recover_calls demo_recover_answers"
  have "fst (run_prog (mint_reconcile_gate demo_lib demo_gate (demo_request ''/reconcile-mint'' ''ask u'')) demo_recover_answers)
      = take 4 ?t @ (Broker_revoke (JStr ''token-1''), A_json (JBool True)) # drop 5 ?t"
    using trace_at [of 4 ?t] by (simp add: demo_recover_run) (simp add: demo_recover_calls_def demo_recover_answers_def Let_def)
  from conjunct1 [OF intent_before_broker [OF this]] show ?thesis by (simp add: reaches_broker_def)
qed

subsection \<open>Egress\<close>







subsection \<open>Bindings\<close>

text \<open>Each gate calls only the methods that its class of the checkpoint worker offers: the mint
  gate cannot touch a creation, a recovery gate cannot claim or close, the Git transport can only take.\<close>

theorem gates_keep_to_their_binding:
  "list_all (bound_to [WorkEffectCheckpoint]) (calls_of (initial_gate lib env rq) as)
   \<and> list_all (bound_to [WorkMintCheckpoint]) (calls_of (mint_gate lib env rq) as)
   \<and> list_all (bound_to [WorkGitCheckpoint]) (calls_of (git_gate lib env rq) as)
   \<and> list_all (bound_to [WorkMintLookup, WorkGitDispatch]) (calls_of (git_transport lib env grq) as)
   \<and> list_all (bound_to [WorkMintRefusalCheckpoint]) (calls_of (mint_closure_gate lib env rq) as)
   \<and> list_all (bound_to [WorkEffectMaintenance]) (calls_of (reconcile_gate lib env rq) as)
   \<and> list_all (bound_to [WorkMintMaintenance]) (calls_of (mint_reconcile_gate lib env rq) as)"
  by (simp add: only_calls_run initial_gate_bound mint_gate_bound git_gate_bound git_transport_bound
      mint_closure_gate_bound reconcile_gates_bound)


end
