(* ===== verification/Composition.thy ===== *)
theory Composition imports Conduct PermitSpec begin

section \<open>The gates and the object together\<close>

text \<open>
  Every gate of the effect worker, started any number of times, runs concurrently with every other
  client of the object. \<open>gates\<close> are the handlers that may start; \<open>drive\<close> executes a schedule, so
  that a history can be evaluated.
\<close>

subsection \<open>Every gate uses its permits\<close>

definition gates :: "lib \<Rightarrow> gate_env \<Rightarrow> response prog set" where
  "gates lib genv = range (initial_gate lib genv) \<union> range (mint_gate lib genv) \<union> range (git_gate lib genv)
     \<union> range (git_transport lib genv) \<union> range (preparation_gate lib genv) \<union> range (reconcile_gate lib genv)
     \<union> range (mint_reconcile_gate lib genv) \<union> range (mint_closure_gate lib genv) \<union> range (refusal_transport genv)"

lemma safety_ordinary: "effect_safety q \<or> mint_safety q \<Longrightarrow> ordinary ns q"
  by (auto simp: effect_safety_def mint_safety_def ordinary_def split: call.splits ledger_call.splits)

lemma preparation_gate_ordinary: "only_calls (ordinary ns) (preparation_gate lib env rq)"
  by (auto simp: preparation_gate_def gitOp_def ordinary_def intro!: only_calls_rules only_calls_op_at)

lemma refusal_check_ordinary: "only_calls (ordinary ns) (refusal_check r obs remote)"
  by (auto simp: refusal_check_def Let_def ordinary_def intro!: only_calls_rules split: option.split)

lemma refusal_transport_ordinary: "only_calls (ordinary ns) (refusal_transport env rq)"
  by (auto simp: refusal_transport_def refusal_body_def ordinary_def refusal_check_ordinary
      intro!: only_calls_rules split: option.split)

lemma closure_synchronized_ordinary: "only_calls (ordinary ns) (closure_synchronized lib r)"
  by (auto simp: closure_synchronized_def mintOp_def refusal_status_body_def ordinary_def
      intro!: only_calls_rules only_calls_quietly only_calls_op_at split: option.split)

lemma mint_closure_gate_ordinary: "only_calls (ordinary ns) (mint_closure_gate lib env rq)"
  unfolding mint_closure_gate_def close_mint_def mintOp_def
  by (rule attempt_gate_only_calls) (auto simp: refusal_status_body_def ordinary_def closure_synchronized_ordinary
      intro!: only_calls_rules only_calls_op_at split: option.split)

lemma reconcile_gates_ordinary:
  "only_calls (ordinary ns) (reconcile_gate lib env rq)" "only_calls (ordinary ns) (mint_reconcile_gate lib env rq)"
  using only_calls_weaken [OF reconcile_gate_safety] only_calls_weaken [OF mint_reconcile_gate_safety] safety_ordinary
  by blast+

lemma gates_use_permits: "uses_permits (gate_namespace genv) (gates lib genv)"
  by (auto simp: uses_permits_def gates_def
      intro: initial_gate_valid mint_gate_valid git_gate_valid git_transport_valid
        ordinary_valid [OF preparation_gate_ordinary] ordinary_valid [OF refusal_transport_ordinary]
        ordinary_valid [OF mint_closure_gate_ordinary] ordinary_valid [OF reconcile_gates_ordinary(1)]
        ordinary_valid [OF reconcile_gates_ordinary(2)])

subsection \<open>Schedules\<close>

datatype 'a move =
    Client ckpt_op
  | Start "'a prog"
  | Answer nat answer
  | Execute nat int

text \<open>\<open>Answer i a\<close>: handler \<open>i\<close> makes its next call, which is not to the ledger, and gets \<open>a\<close>;
  \<open>Execute i now\<close>: its next call is executed by the object at the time \<open>now\<close>.\<close>

definition is_ledger :: "call \<Rightarrow> bool" where
  "is_ledger q = (case q of Ledger _ \<Rightarrow> True | _ \<Rightarrow> False)"

lemma is_ledger_iff: "is_ledger q \<longleftrightarrow> (\<exists>c. q = Ledger c)"
  by (cases q) (simp_all add: is_ledger_def)

definition drive :: "env \<Rightarrow> string \<Rightarrow> 'a move \<Rightarrow> 'a system \<Rightarrow> 'a system" where
  "drive env ns mv z = (case mv of
     Client p \<Rightarrow> z\<lparr>sys_store := exec_op env p (sys_store z)\<rparr>
   | Start p \<Rightarrow> z\<lparr>sys_procs := (p, []) # sys_procs z\<rparr>
   | Answer i a \<Rightarrow> if i < length (sys_procs z) then (case sys_procs z ! i of
         (Do q k, m) \<Rightarrow> if is_ledger q then z
           else z\<lparr>sys_procs := (sys_procs z)[i := (k a, after (permit_monitor ns) m q a)],
                  sys_calls := q # sys_calls z\<rparr>
       | _ \<Rightarrow> z) else z
   | Execute i now \<Rightarrow> if i < length (sys_procs z) then (case sys_procs z ! i of
         (Do (Ledger c) k, m) \<Rightarrow> (let a = call_reply env now c (sys_store z) in
            z\<lparr>sys_store := call_store env now c (sys_store z),
              sys_procs := (sys_procs z)[i := (k a, after (permit_monitor ns) m (Ledger c) a)],
              sys_calls := Ledger c # sys_calls z\<rparr>)
       | _ \<Rightarrow> z) else z)"

definition starts_in :: "'a prog set \<Rightarrow> 'a move \<Rightarrow> bool" where
  "starts_in G mv = (case mv of Start p \<Rightarrow> p \<in> G | _ \<Rightarrow> True)"

lemma drive_reachable:
  assumes "reachable env ns G z" and "starts_in G mv"
  shows "reachable env ns G (drive env ns mv z)"
proof -
  have "drive env ns mv z = z \<or> sys_step env ns G z (drive env ns mv z)"
  proof (cases mv)
    case (Client p)
    then show ?thesis by (simp add: drive_def sys_step.other_client)
  next
    case (Start p)
    then show ?thesis using assms(2) by (simp add: drive_def starts_in_def sys_step.start)
  next
    case (Answer i a)
    then show ?thesis
      using sys_step.outside [of i z _ _ _ env ns G a]
      by (auto simp: drive_def is_ledger_iff simp del: permit_monitor_simps split: task.split prod.split if_split)
  next
    case (Execute i now)
    then show ?thesis
      using sys_step.ledger [of i z _ _ _ _ env now ns G]
      by (auto simp: drive_def Let_def simp del: permit_monitor_simps split: task.split call.split prod.split)
  qed
  then show ?thesis using assms(1) reachable.stepped by metis
qed

lemma drive_all_reachable:
  "list_all (starts_in G) mvs \<Longrightarrow> reachable env ns G z \<Longrightarrow> reachable env ns G (fold (drive env ns) mvs z)"
  by (induction mvs arbitrary: z) (simp_all add: drive_reachable)

text \<open>Two creation gates for one attempt: both look it up, both read the plan, both claim.\<close>

definition demo_race :: "response move list" where
  "demo_race = map Client demo_open
     @ [Start (initial_gate demo_lib demo_gate (demo_request ''/initial'' ''ask i'')),
        Start (initial_gate demo_lib demo_gate (demo_request ''/initial'' ''ask i'')),
        Execute 0 200, Execute 1 200, Answer 0 (demo_ok ''plan i''), Answer 1 (demo_ok ''plan i''),
        Execute 1 201, Execute 0 202, Answer 0 (A_json (demo_info (JStr ''secret''))),
        Answer 1 (A_json (demo_info (JStr ''secret'')))]"

definition demo_raced :: "response system" where
  "demo_raced = fold (drive demo_env ''ns'') demo_race start_system"

lemma demo_race_starts: "list_all (starts_in (gates demo_lib demo_gate)) demo_race"
  by (simp add: demo_race_def demo_open_def starts_in_def gates_def)

lemma demo_raced_reachable: "reachable demo_env ''ns'' (gates demo_lib demo_gate) demo_raced"
  unfolding demo_raced_def by (rule drive_all_reachable [OF demo_race_starts reachable.initially])

lemma demo_raced_calls:
  "sys_calls demo_raced =
    [Create_repo (name demo_plan) ''work'' (''mikaki initial '' @ rep 43 CHR ''i''),
     Ledger (L_claimEffect (plan_json demo_plan)), Ledger (L_claimEffect (plan_json demo_plan)),
     Native ''/effect'' (JObj [(''action'', JStr ''initial-plan''), (''attempt_id'', ia)]),
     Native ''/effect'' (JObj [(''action'', JStr ''initial-plan''), (''attempt_id'', ia)]),
     Ledger (L_lookupEffect ia), Ledger (L_lookupEffect ia)]"
  by code_simp

subsection \<open>What a history promises\<close>

lemma calls_at_most_once:
  assumes "reachable env ns G z" and "uses_permits ns G" and "\<And>q. P q \<Longrightarrow> needed ns q = Some k"
  shows "length (filter P (sys_calls z)) \<le> 1"
proof -
  have "length (filter P qs) \<le> length (filter (\<lambda>q. needed ns q = Some k) qs)" for qs
    by (induction qs) (auto simp: assms(3))
  then show ?thesis using productive_once [OF assms(1,2), of k] unfolding calls_needing_def
    by (rule order_trans)
qed

text \<open>C30. However many gates run, crash, race and lose replies, and whatever other clients do: a
  repository is created at most once for an attempt, a write token is minted at most once for a
  repository, and the Git exchange of an attempt is executed at most once on either way.\<close>

theorem provider_calls_happen_once:
  assumes "reachable env (gate_namespace genv) (gates lib genv) z"
  shows "length (filter (\<lambda>q. \<exists>n b. q = Create_repo n b (''mikaki initial '' @ a)) (sys_calls z)) \<le> 1
     \<and> length (filter (\<lambda>q. \<exists>ttl. q = Create_token n ''write'' ttl) (sys_calls z)) \<le> 1
     \<and> length (filter (\<lambda>q. \<exists>path v. q = Native path v \<and> get v ''action'' = JStr ''git-execute''
          \<and> get (get v ''plan'') ''attempt_id'' = JStr a) (sys_calls z)) \<le> 1
     \<and> length (filter (\<lambda>q. \<exists>path auth v. q = Executor path (Some auth) v \<and> get v ''attempt_id'' = JStr a)
          (sys_calls z)) \<le> 1"
  by (intro conjI; rule calls_at_most_once [OF assms gates_use_permits]) auto

theorem provider_calls_happen_once_witness:
  "length (filter (\<lambda>q. \<exists>n b. q = Create_repo n b (''mikaki initial '' @ rep 43 CHR ''i'')) (sys_calls demo_raced)) \<le> 1
   \<and> Create_repo (name demo_plan) ''work'' (''mikaki initial '' @ rep 43 CHR ''i'') \<in> set (sys_calls demo_raced)"
  using provider_calls_happen_once [of demo_env demo_gate demo_lib demo_raced] demo_raced_reachable
  by (simp add: demo_gate_def demo_raced_calls)

lemma unspent_run:
  "ledger_ok s \<Longrightarrow> count_ops (grants env k) (exec_op env) ps s = 0 \<Longrightarrow>
     permit_spent k (run_ops (exec_op env) ps s) \<longleftrightarrow> permit_spent k s"
proof (induction ps arbitrary: s)
  case (Cons p ps)
  have "spent (exec_op env p s) = spend (permits env p s) (spent s)" using spent_refines [OF Cons.prems(1)] by blast
  moreover have "k \<notin> set (permits env p s)" using Cons.prems(2) by (auto simp: grants_def split: if_splits)
  ultimately have "permit_spent k (exec_op env p s) \<longleftrightarrow> permit_spent k s" by (auto simp: spent_def spend_def)
  then show ?case using Cons by (simp add: exec_op_ok split: if_splits)
qed simp

lemma spent_stays:
  "ledger_ok s \<Longrightarrow> permit_spent k s \<Longrightarrow> permit_spent k (run_ops (exec_op env) ps s)"
  by (induction ps arbitrary: s) (simp_all add: exec_op_ok permit_permanent)

lemma granted_is_spent:
  "ledger_ok s \<Longrightarrow> count_ops (grants env k) (exec_op env) ps s \<noteq> 0 \<Longrightarrow> permit_spent k (run_ops (exec_op env) ps s)"
proof (induction ps arbitrary: s)
  case (Cons p ps)
  show ?case
  proof (cases "grants env k p s")
    case True
    then have "permit_spent k (exec_op env p s)" using permit_fresh [OF Cons.prems(1)] by blast
    then show ?thesis using spent_stays [OF exec_op_ok [OF Cons.prems(1)]] by simp
  next
    case False
    then show ?thesis using Cons by (simp add: exec_op_ok)
  qed
qed simp

lemma unspent_empty: "\<not> permit_spent k empty_store"
  by (cases k) (simp_all add: empty_store_def effect_row_def mint_row_def slot_row_def git_reached_def)

text \<open>A permit is spent in the ledger exactly when it was handed out: whatever was called, the rows
  of the store say which permits left it, each once.\<close>

theorem spent_means_handed_out:
  "permit_spent k (run_ops (exec_op env) ps empty_store) \<longleftrightarrow> count_ops (grants env k) (exec_op env) ps empty_store = 1"
proof -
  have "count_ops (grants env k) (exec_op env) ps empty_store \<le> 1" by (rule permit.admitted_once [OF ledger_ok_empty])
  then show ?thesis
    using unspent_run [OF ledger_ok_empty, of env k ps] granted_is_spent [OF ledger_ok_empty, of env k ps] unspent_empty
    by (cases "count_ops (grants env k) (exec_op env) ps empty_store = 0") auto
qed

text \<open>Every kind of permit can be had: one lifecycle of an upload hands out the permits to create,
  to mint, and to admit, take and dispatch its Git exchange, and ends with both rows closed.\<close>

theorem lifecycle_completes:
  "list_all (\<lambda>k. permit_spent k (run_ops (exec_op demo_env) demo_ops empty_store))
     [Create_of (rep 43 CHR ''i''), Mint_of (rep 43 CHR ''u''), Mint_in (slot_of demo_mint), Git_of (rep 43 CHR ''u''),
      Native_take_of (rep 43 CHR ''u''), Transport_take_of (rep 43 CHR ''u'')]
   \<and> map_option e_state (effect_row (run_ops (exec_op demo_env) demo_ops empty_store) (rep 43 CHR ''i'')) = Some Closed
   \<and> map_option m_state (mint_row (run_ops (exec_op demo_env) demo_ops empty_store) (rep 43 CHR ''u'')) = Some Mint_closed"
  unfolding demo_end by code_simp

end
