(* ===== verification/HostCalls.thy ===== *)
theory HostCalls imports Program "HOL-Library.Multiset" begin

section \<open>Objects that run their handlers themselves\<close>

text \<open>
  The Git host and its qualification are durable objects whose handlers run inside the object: a
  stretch of code between two \<open>await\<close>s reads and writes the object's tables and flags at once.
  \<open>host_call\<close> are the calls of such a handler, with \<open>Own op\<close> for one stretch; \<open>site_step\<close> is the
  object with its handlers in flight. The object may restart at any time: its handlers are gone, and
  \<open>reset\<close> says what is left of its state.
\<close>

subsection \<open>Calls\<close>

datatype 'o host_call =
    Own 'o
  | Storage_sync
  | Running
  | Inspect
  | Start_container string bool
  | Set_inactivity int
  | Now
  | Sleep int
  | Port_get string
  | Port_provision string "string option"
  | Port_execute string json
  | Bucket_get string
  | Object_prepare string
  | Object_status string
  | Object_restart string
  | Object_execute string string json

datatype host_answer =
    H_failed
  | H_done
  | H_count int
  | H_flag bool
  | H_json json
  | H_time int
  | H_image "string option"
  | H_reply nat body
  | H_object "(int \<times> string) option"

definition h_done :: "host_answer \<Rightarrow> unit option" where
  "h_done a = (case a of H_failed \<Rightarrow> None | _ \<Rightarrow> Some ())"

definition h_count :: "host_answer \<Rightarrow> int option" where
  "h_count a = (case a of H_count n \<Rightarrow> Some n | _ \<Rightarrow> None)"

definition h_flag :: "host_answer \<Rightarrow> bool option" where
  "h_flag a = (case a of H_flag b \<Rightarrow> Some b | _ \<Rightarrow> None)"

definition h_json :: "host_answer \<Rightarrow> json option" where
  "h_json a = (case a of H_json v \<Rightarrow> Some v | _ \<Rightarrow> None)"

definition h_time :: "host_answer \<Rightarrow> int option" where
  "h_time a = (case a of H_time n \<Rightarrow> Some n | _ \<Rightarrow> None)"

definition h_image :: "host_answer \<Rightarrow> string option option" where
  "h_image a = (case a of H_image x \<Rightarrow> Some x | _ \<Rightarrow> None)"

definition h_reply :: "host_answer \<Rightarrow> (nat \<times> body) option" where
  "h_reply a = (case a of H_reply n b \<Rightarrow> Some (n, b) | _ \<Rightarrow> None)"

definition h_object :: "host_answer \<Rightarrow> (int \<times> string) option option" where
  "h_object a = (case a of H_object x \<Rightarrow> Some x | _ \<Rightarrow> None)"

lemma host_views [simp]:
  "h_done H_failed = None" "h_done H_done = Some ()"
  "h_count a = Some n \<longleftrightarrow> a = H_count n" "h_flag a = Some b \<longleftrightarrow> a = H_flag b" "h_json a = Some v \<longleftrightarrow> a = H_json v"
  "h_time a = Some n \<longleftrightarrow> a = H_time n" "h_image a = Some x \<longleftrightarrow> a = H_image x"
  "h_reply a = Some (st, t) \<longleftrightarrow> a = H_reply st t" "h_object a = Some y \<longleftrightarrow> a = H_object y"
  by (cases a; auto simp: h_done_def h_count_def h_flag_def h_json_def h_time_def h_image_def h_reply_def h_object_def)+

type_synonym ('o, 'a) host_task = "('o host_call, host_answer, 'a) task"

subsection \<open>How many calls a program makes\<close>

fun within :: "nat \<Rightarrow> ('q, 'y, 'a) task \<Rightarrow> bool" where
  "within n (Ret x) = True"
| "within n (Exc e) = True"
| "within 0 (Do q k) = False"
| "within (Suc n) (Do q k) = (\<forall>a. within n (k a))"

lemma within_mono: "within n p \<Longrightarrow> n \<le> n' \<Longrightarrow> within n' p"
proof (induction n p arbitrary: n' rule: within.induct)
  case (4 n q k)
  then show ?case by (cases n') auto
qed auto

lemma within_bindp: "within n p \<Longrightarrow> (\<And>x. within n' (f x)) \<Longrightarrow> within (n + n') (bindp p f)"
  by (induction n p rule: within.induct) (auto intro: within_mono [OF _ le_add2])

lemma within_catchp: "within n p \<Longrightarrow> within n' h \<Longrightarrow> within (n + n') (catchp p h)"
  by (induction n p rule: within.induct) (auto intro: within_mono [OF _ le_add2])

lemma within_perform [simp]: "within (Suc n) (perform q view)"
  by (auto simp: perform_def split: option.split)

lemma within_atoms [simp]: "within n (throw_if b e)" "within n (of_result r)"
  by (cases n; simp add: throw_if_def of_result_def split: sum.split)+

text \<open>The first call of a sequence, and a computation that makes none.\<close>

lemma within_then: "(\<And>x. within n (f x)) \<Longrightarrow> within (Suc n) (bindp (perform q view) f)"
  using within_bindp [of 1 "perform q view" n f] by simp

lemma within_pure:
  "within n (g ()) \<Longrightarrow> within n (bindp (throw_if b e) g)"
  "(\<And>x. within n (h x)) \<Longrightarrow> within n (bindp (of_result z) h)"
  by (simp_all add: throw_if_def of_result_def split: sum.split)

lemma within_ends:
  assumes "within n p" and "n \<le> length as" and "run_prog p as = (t, r)"
  shows "r \<noteq> Stopped"
  using assms
proof (induction n p arbitrary: as t r rule: within.induct)
  case (4 n q k)
  then obtain a as' where "as = a # as'" by (cases as) auto
  with 4 show ?case by (cases "run_prog (k a) as'") (auto split: prod.splits)
qed auto

subsection \<open>An object with its handlers\<close>

text \<open>
  A handler carries the permits it holds: those its own stretches gained, less those its calls used.
  \<open>permit_watch\<close> lets a call use only permits in hand.
\<close>

record ('s, 'o, 'a, 'k) site =
  site_state :: 's
  site_procs :: "(('o, 'a) host_task \<times> 'k multiset) list"
  site_calls :: "'o host_call list"

definition permit_watch ::
    "('o \<Rightarrow> 'k multiset) \<Rightarrow> ('o host_call \<Rightarrow> 'k multiset) \<Rightarrow> ('o host_call, host_answer, 'k multiset) watch" where
  "permit_watch gains uses = \<lparr>permitted = (\<lambda>m q. uses q \<subseteq># m),
     after = (\<lambda>m q a. case q of
       Own op \<Rightarrow> if h_done a = None then m else m + gains op
     | _ \<Rightarrow> m - uses q)\<rparr>"

lemma permit_watch_simps [simp]:
  "permitted (permit_watch gains uses) m q \<longleftrightarrow> uses q \<subseteq># m"
  "after (permit_watch gains uses) m q a = (case q of Own op \<Rightarrow> if h_done a = None then m else m + gains op
     | _ \<Rightarrow> m - uses q)"
  by (simp_all add: permit_watch_def)

inductive site_step ::
    "('o \<Rightarrow> 's \<Rightarrow> err + (host_answer \<times> 's)) \<Rightarrow> ('s \<Rightarrow> 's) \<Rightarrow> ('o host_call, host_answer, 'k multiset) watch
     \<Rightarrow> ('o, 'a) host_task set \<Rightarrow> ('s, 'o, 'a, 'k) site \<Rightarrow> ('s, 'o, 'a, 'k) site \<Rightarrow> bool"
  for step reset M G where
  start: "p \<in> G \<Longrightarrow> site_step step reset M G z (z\<lparr>site_procs := (p, {#}) # site_procs z\<rparr>)"
| own: "i < length (site_procs z) \<Longrightarrow> site_procs z ! i = (Do (Own op) k, m) \<Longrightarrow> step op (site_state z) = Inr (a, s') \<Longrightarrow>
     h_done a \<noteq> None \<Longrightarrow>
     site_step step reset M G z (z\<lparr>site_state := s', site_procs := (site_procs z)[i := (k a, after M m (Own op) a)],
                            site_calls := Own op # site_calls z\<rparr>)"
| own_threw: "i < length (site_procs z) \<Longrightarrow> site_procs z ! i = (Do (Own op) k, m) \<Longrightarrow> step op (site_state z) = Inl e \<Longrightarrow>
     site_step step reset M G z (z\<lparr>site_procs := (site_procs z)[i := (k H_failed, after M m (Own op) H_failed)],
                            site_calls := Own op # site_calls z\<rparr>)"
| outside: "i < length (site_procs z) \<Longrightarrow> site_procs z ! i = (Do q k, m) \<Longrightarrow> (\<nexists>op. q = Own op) \<Longrightarrow>
     site_step step reset M G z (z\<lparr>site_procs := (site_procs z)[i := (k a, after M m q a)],
                            site_calls := q # site_calls z\<rparr>)"
| restart: "site_step step reset M G z (z\<lparr>site_state := reset (site_state z), site_procs := []\<rparr>)"

inductive site_reachable ::
    "('o \<Rightarrow> 's \<Rightarrow> err + (host_answer \<times> 's)) \<Rightarrow> ('s \<Rightarrow> 's) \<Rightarrow> ('o host_call, host_answer, 'k multiset) watch
     \<Rightarrow> ('o, 'a) host_task set \<Rightarrow> 's \<Rightarrow> ('s, 'o, 'a, 'k) site \<Rightarrow> bool"
  for step reset M G s0 where
  initially: "site_reachable step reset M G s0 \<lparr>site_state = s0, site_procs = [], site_calls = []\<rparr>"
| stepped: "site_reachable step reset M G s0 z \<Longrightarrow> site_step step reset M G z z' \<Longrightarrow> site_reachable step reset M G s0 z'"

definition uses_of :: "('o host_call \<Rightarrow> 'k multiset) \<Rightarrow> 'k \<Rightarrow> 'o host_call list \<Rightarrow> nat" where
  "uses_of uses k qs = sum_list (map (\<lambda>q. count (uses q) k) qs)"

lemma uses_of_filter:
  assumes "\<And>q. P q \<Longrightarrow> k \<in># uses q"
  shows "length (filter P qs) \<le> uses_of uses k qs"
proof (induction qs)
  case (Cons q qs)
  have "P q \<Longrightarrow> 0 < count (uses q) k" using assms [of q] by simp
  then show ?case using Cons by (auto simp: uses_of_def simp del: count_greater_zero_iff)
qed simp

definition in_hand :: "'k \<Rightarrow> (('o, 'a) host_task \<times> 'k multiset) list \<Rightarrow> nat" where
  "in_hand k ps = sum_list (map (\<lambda>(_, m). count m k) ps)"

lemma in_hand_update:
  "i < length ps \<Longrightarrow> ps ! i = (p, m) \<Longrightarrow> in_hand k (ps[i := (p', m')]) + count m k = in_hand k ps + count m' k"
  unfolding in_hand_def by (induction ps arbitrary: i) (auto split: nat.splits)

subsection \<open>Permits are used within what the state admits\<close>

text \<open>
  \<open>capacity k s\<close>: how many permits \<open>k\<close> the rows of \<open>s\<close> ever admitted. A stretch that gains permits
  adds as much capacity, and neither a stretch nor a restart takes any away.
\<close>

locale permit_object =
  fixes step :: "'o \<Rightarrow> 's \<Rightarrow> err + (host_answer \<times> 's)"
    and reset :: "'s \<Rightarrow> 's"
    and gains :: "'o \<Rightarrow> 'k multiset"
    and uses :: "'o host_call \<Rightarrow> 'k multiset"
    and capacity :: "'k \<Rightarrow> 's \<Rightarrow> nat"
    and sane :: "'s \<Rightarrow> bool"
  assumes gained: "step op s = Inr (a, s') \<Longrightarrow> capacity k s + count (gains op) k \<le> capacity k s'"
    and kept_reset: "capacity k s \<le> capacity k (reset s)"
    and own_uses: "uses (Own op) = {#}"
    and sane_step: "step op s = Inr (a, s') \<Longrightarrow> sane s \<Longrightarrow> sane s'"
    and sane_reset: "sane s \<Longrightarrow> sane (reset s)"
begin

abbreviation "watch \<equiv> permit_watch gains uses"

definition accounted :: "('s, 'o, 'a, 'k) site \<Rightarrow> bool" where
  "accounted z \<longleftrightarrow> (\<forall>(p, m) \<in> set (site_procs z). valid watch p m (\<lambda>_ _. True)) \<and> sane (site_state z)
     \<and> (\<forall>k. uses_of uses k (site_calls z) + in_hand k (site_procs z) \<le> capacity k (site_state z))"

lemma valid_at:
  "accounted z \<Longrightarrow> i < length (site_procs z) \<Longrightarrow> site_procs z ! i = (p, m) \<Longrightarrow> valid watch p m (\<lambda>_ _. True)"
  using nth_mem [of i "site_procs z"] by (auto simp: accounted_def)

lemma procs_update:
  assumes "accounted z" and "valid watch p' m' (\<lambda>_ _. True)"
  shows "\<forall>(p, m) \<in> set ((site_procs z)[i := (p', m')]). valid watch p m (\<lambda>_ _. True)"
  using assms set_update_subset_insert [of "site_procs z" i "(p', m')"] by (auto simp: accounted_def)

lemma accounted_step:
  assumes "site_step step reset watch G z z'"
    and G: "\<forall>p \<in> G. valid watch p {#} (\<lambda>_ _. True)" and ok: "accounted z"
  shows "accounted z'"
proof -
  have old: "uses_of uses k (site_calls z) + in_hand k (site_procs z) \<le> capacity k (site_state z)" for k
    using ok by (simp add: accounted_def)
  show ?thesis using assms(1)
  proof cases
    case (start p)
    then show ?thesis using ok G by (simp add: accounted_def in_hand_def)
  next
    case (own i op f m a s')
    have next_ok: "valid watch (f a) (m + gains op) (\<lambda>_ _. True)"
      using valid_at [OF ok own(2,3)] own(5) by simp (metis option.distinct(1))
    have "uses_of uses k (site_calls z') + in_hand k (site_procs z') \<le> capacity k (site_state z')" for k
      using in_hand_update [OF own(2,3), of k "f a" "m + gains op"] gained [OF own(4), of k] old [of k] own(1,5)
      by (simp add: uses_of_def own_uses)
    then show ?thesis using procs_update [OF ok next_ok] own(1,5) sane_step [OF own(4)] ok by (simp add: accounted_def)
  next
    case (own_threw i op f m e)
    have next_ok: "valid watch (f H_failed) m (\<lambda>_ _. True)"
      using valid_at [OF ok own_threw(2,3)] by simp (metis host_views(1))
    have "in_hand k (site_procs z') = in_hand k (site_procs z)" for k
      using in_hand_update [OF own_threw(2,3), of k "f H_failed" m] own_threw(1) by simp
    then show ?thesis using procs_update [OF ok next_ok] own_threw(1) ok
      by (simp add: accounted_def uses_of_def own_uses)
  next
    case (outside i q f m a)
    have after: "after watch m q b = m - uses q" for b using outside(4) by (cases q) simp_all
    have next_ok: "valid watch (f a) (m - uses q) (\<lambda>_ _. True)" and may: "uses q \<subseteq># m"
      using valid_at [OF ok outside(2,3)] after by (auto simp del: permit_watch_simps(2))
    have z': "site_procs z' = (site_procs z)[i := (f a, m - uses q)]" "site_state z' = site_state z"
      "site_calls z' = q # site_calls z"
      using outside(1) after by (simp_all del: permit_watch_simps(2))
    have "uses_of uses k (site_calls z') + in_hand k (site_procs z') \<le> capacity k (site_state z')" for k
      using in_hand_update [OF outside(2,3), of k "f a" "m - uses q"] mset_subset_eq_count [OF may, of k] old [of k]
      by (simp add: z' uses_of_def)
    then show ?thesis using procs_update [OF ok next_ok, of i] ok by (simp add: accounted_def z')
  next
    case restart
    have "uses_of uses k (site_calls z) \<le> capacity k (reset (site_state z))" for k
      using old [of k] kept_reset [of k "site_state z"] by simp
    then show ?thesis using restart ok sane_reset by (simp add: accounted_def in_hand_def)
  qed
qed

theorem uses_within_capacity:
  assumes "site_reachable step reset watch G s0 z"
    and "\<forall>p \<in> G. valid watch p {#} (\<lambda>_ _. True)" and "sane s0"
  shows "uses_of uses k (site_calls z) \<le> capacity k (site_state z) \<and> sane (site_state z)"
proof -
  have "accounted z" using assms
    by (induction rule: site_reachable.induct) (simp_all add: accounted_step, simp add: accounted_def uses_of_def in_hand_def)
  then show ?thesis by (auto simp: accounted_def intro: le_trans [OF le_add1])
qed

end

subsection \<open>Runs of one handler\<close>

text \<open>
  A run of a program gives a history of the object when the stretches in its trace were answered by the
  object: \<open>follows\<close> is the state they lead to.
\<close>

definition own_op :: "'o host_call \<Rightarrow> 'o option" where
  "own_op q = (case q of Own op \<Rightarrow> Some op | _ \<Rightarrow> None)"

lemma own_op_iff: "own_op q = Some op \<longleftrightarrow> q = Own op" "own_op q = None \<longleftrightarrow> (\<nexists>op. q = Own op)"
  by (cases q; simp add: own_op_def)+

fun follows :: "('o \<Rightarrow> 's \<Rightarrow> err + (host_answer \<times> 's)) \<Rightarrow> 's \<Rightarrow> ('o host_call \<times> host_answer) list \<Rightarrow> 's option" where
  "follows step s [] = Some s"
| "follows step s ((q, a) # t) = (case own_op q of
     None \<Rightarrow> follows step s t
   | Some op \<Rightarrow> (case step op s of
       Inl _ \<Rightarrow> if a = H_failed then follows step s t else None
     | Inr (b, s') \<Rightarrow> if a = b \<and> h_done b \<noteq> None then follows step s' t else None))"

lemma site_move:
  assumes "site_reachable step reset M G s0 z" and "site_procs z = (Do q k, m) # ps"
    and "follows step (site_state z) ((q, a) # t) = Some s'"
  shows "\<exists>z'. site_reachable step reset M G s0 z' \<and> follows step (site_state z') t = Some s'
     \<and> site_procs z' = (k a, after M m q a) # ps \<and> site_calls z' = q # site_calls z"
proof -
  have at: "0 < length (site_procs z)" "site_procs z ! 0 = (Do q k, m)" using assms(2) by simp_all
  show ?thesis
  proof (cases "own_op q")
    case None
    then have "\<nexists>op. q = Own op" by (simp add: own_op_iff)
    from site_step.outside [of 0 z q k m step reset M G a, OF at this] show ?thesis
      using assms None site_reachable.stepped [OF assms(1)] by (intro exI conjI) (assumption, auto)
  next
    case (Some op)
    then have q: "q = Own op" by (simp add: own_op_iff)
    show ?thesis
    proof (cases "step op (site_state z)")
      case (Inl e)
      from site_step.own_threw [of 0 z op k m step e reset M G, OF at [unfolded q] Inl] show ?thesis
        using assms Some Inl q site_reachable.stepped [OF assms(1)]
        by (intro exI conjI) (assumption, auto split: if_splits)
    next
      case (Inr r)
      then obtain b s1 where r: "step op (site_state z) = Inr (b, s1)" by (cases r) simp
      then have b: "a = b" "h_done b \<noteq> None" using assms(3) Some by (auto split: if_splits)
      from site_step.own [of 0 z op k m step b s1 reset M G, OF at [unfolded q] r b(2)] show ?thesis
        using assms Some r b q site_reachable.stepped [OF assms(1)] by (intro exI conjI) (assumption, auto)
    qed
  qed
qed

lemma site_run:
  assumes "run_prog p as = (t, r)" and "site_reachable step reset M G s0 z" and "site_procs z = (p, m) # ps"
    and "follows step (site_state z) t = Some s'"
  shows "\<exists>z'. site_reachable step reset M G s0 z' \<and> site_state z' = s' \<and> site_calls z' = rev (map fst t) @ site_calls z"
  using assms
proof (induction p as arbitrary: z m t r rule: run_prog.induct)
  case (4 q k a as)
  obtain t' where t: "t = (q, a) # t'" "run_prog (k a) as = (t', r)"
    using "4.prems"(1) by (cases "run_prog (k a) as") auto
  obtain z' where z': "site_reachable step reset M G s0 z'" "follows step (site_state z') t' = Some s'"
    "site_procs z' = (k a, after M m q a) # ps" "site_calls z' = q # site_calls z"
    using site_move [OF "4.prems"(2,3), of a t' s'] "4.prems"(4) t(1) by blast
  show ?case using "4.IH" [OF t(2) z'(1,3,2)] z'(4) t(1) by auto
qed auto

text \<open>One request on a reachable object, and a restart.\<close>

lemma site_request:
  assumes "site_reachable step reset M G s0 z" and "p \<in> G" and "run_prog p as = (t, r)"
    and "follows step (site_state z) t = Some s'"
  shows "\<exists>z'. site_reachable step reset M G s0 z' \<and> site_state z' = s' \<and> site_calls z' = rev (map fst t) @ site_calls z"
  using site_run [OF assms(3) site_reachable.stepped [OF assms(1) site_step.start [OF assms(2)]], of "{#}" "site_procs z" s'] assms(4)
  by simp

text \<open>Requests one after the other.\<close>

fun serves :: "('o \<Rightarrow> 's \<Rightarrow> err + (host_answer \<times> 's)) \<Rightarrow> 's \<Rightarrow> (('o, 'a) host_task \<times> host_answer list) list \<Rightarrow> ('s \<times> 'o host_call list) option" where
  "serves step s [] = Some (s, [])"
| "serves step s ((p, as) # rest) = (let t = fst (run_prog p as) in case follows step s t of
     None \<Rightarrow> None
   | Some s' \<Rightarrow> map_option (\<lambda>(u, qs). (u, map fst t @ qs)) (serves step s' rest))"

lemma site_requests:
  assumes "site_reachable step reset M G s0 z" and "fst ` set reqs \<subseteq> G" and "serves step (site_state z) reqs = Some (s', qs)"
  shows "\<exists>z'. site_reachable step reset M G s0 z' \<and> site_state z' = s' \<and> site_calls z' = rev qs @ site_calls z"
  using assms
proof (induction reqs arbitrary: z qs)
  case (Cons x reqs)
  obtain p as where x: "x = (p, as)" by (cases x)
  obtain t r where t: "run_prog p as = (t, r)" by (cases "run_prog p as")
  obtain s1 qs1 where s1: "follows step (site_state z) t = Some s1" "serves step s1 reqs = Some (s', qs1)" "qs = map fst t @ qs1"
    using Cons.prems(3) by (auto simp: x t Let_def split: option.splits)
  have p: "p \<in> G" using Cons.prems(2) x by simp
  obtain z1 where z1: "site_reachable step reset M G s0 z1" "site_state z1 = s1" "site_calls z1 = rev (map fst t) @ site_calls z"
    using site_request [OF Cons.prems(1) p t s1(1)] by blast
  have sub: "fst ` set reqs \<subseteq> G" using Cons.prems(2) by simp
  show ?case using Cons.IH [OF z1(1) sub, of qs1] s1 z1 by (auto simp: rev_map)
qed auto

lemma site_restart:
  assumes "site_reachable step reset M G s0 z"
  shows "\<exists>z'. site_reachable step reset M G s0 z' \<and> site_state z' = reset (site_state z) \<and> site_calls z' = site_calls z"
  using site_reachable.stepped [OF assms site_step.restart] by (intro exI conjI) (assumption, simp_all)

end
