(* ===== verification/Schema.thy ===== *)
theory Schema imports Json begin

section \<open>Schemas\<close>

text \<open>
  What the schema library checks for the objects the workers read: a strict object has no other key, an
  integer is a safe integer in its range. A value that was parsed from a text has no \<open>undefined\<close> entry, so an
  optional entry is absent exactly when reading it gives \<open>undefined\<close>.
\<close>

definition strict_object :: "json \<Rightarrow> string list \<Rightarrow> bool" where
  "strict_object v ks = (case v of JObj kvs \<Rightarrow> list_all (\<lambda>k. k \<in> set ks) (map fst kvs) | _ \<Rightarrow> False)"

definition int_in :: "json \<Rightarrow> int \<Rightarrow> int \<Rightarrow> bool" where
  "int_in v lo hi = (case v of JNum n \<Rightarrow> lo \<le> n \<and> n \<le> hi | _ \<Rightarrow> False)"

definition is_bool :: "json \<Rightarrow> bool" where
  "is_bool v = (case v of JBool _ \<Rightarrow> True | _ \<Rightarrow> False)"

definition optional :: "json \<Rightarrow> string \<Rightarrow> (json \<Rightarrow> bool) \<Rightarrow> bool" where
  "optional v k p \<longleftrightarrow> get v k = JUndef \<or> p (get v k)"

definition oid :: "json \<Rightarrow> bool" where
  "oid = str_test (of_class hex_chars 40 40)"

lemma oid_iff: "oid v \<longleftrightarrow> (\<exists>s. v = JStr s \<and> of_class hex_chars 40 40 s)"
  by (simp add: oid_def str_test_iff)

lemma int_in_iff: "int_in v lo hi \<longleftrightarrow> (\<exists>n. v = JNum n \<and> lo \<le> n \<and> n \<le> hi)"
  by (cases v) (simp_all add: int_in_def)

end
