(* ===== verification/GitHost.thy ===== *)
theory GitHost imports HostCalls GitUse Schema begin

section \<open>The Git host worker\<close>

text \<open>
  \<open>crates/work-git-host-worker/worker.ts\<close> and \<open>registry.ts\<close>: the router, the durable object that owns
  one Linux container, its readiness protocol and the provisioning of the sealed registry.

  The object's SQLite tables and its private \<open>#busy\<close> flag are the record \<open>host_object\<close>; every stretch
  of the source between two \<open>await\<close>s that reads or writes them is one \<open>host_op\<close>, executed atomically.
  Everything else a handler awaits is a call with any answer. \<open>start\<close> and \<open>running\<close> of the container
  are calls too. Bodies that are discarded (\<open>body.cancel()\<close>) and the stage names of the log are left out.
\<close>

subsection \<open>The configuration and the request\<close>

record host_env =
  he_enabled :: string
  he_account :: string
  he_namespace :: string
  he_authority :: string
  he_disclosure :: string
  he_registry :: string

record host_request =
  hq_method :: string
  hq_url :: string
  hq_authorization :: "string option"
  hq_content_type :: "string option"
  hq_body :: body

definition host_enabled :: "host_env \<Rightarrow> bool" where
  "host_enabled env \<longleftrightarrow> he_enabled env = ''true''
     \<and> of_class hex_chars 32 32 (he_account env) \<and> of_class namespace_chars 1 63 (he_namespace env)
     \<and> of_class resource_chars 1 128 (he_authority env)
     \<and> of_class hex_chars 64 64 (he_disclosure env) \<and> of_class hex_chars 64 64 (he_registry env)"

definition host_bearer :: "string option \<Rightarrow> bool" where
  "host_bearer h = (case h of None \<Rightarrow> False
     | Some s \<Rightarrow> bearer_header s \<and> 16 \<le> length (drop 7 s))"

definition host_frame :: "host_env \<Rightarrow> string \<Rightarrow> string \<Rightarrow> string \<Rightarrow> string" where
  "host_frame env ns auth d = stringify (JArr [JStr (he_account env), JStr ns, JStr auth, JStr d, JStr (he_registry env)])"

definition checkedGitHostPlan ::
    "lib \<Rightarrow> host_env \<Rightarrow> host_request \<Rightarrow> ('o, git_plan \<times> json) host_task" where
  "checkedGitHostPlan lib env rq =
     bindp (throw_if (\<not> host_enabled env \<or> hq_method rq \<noteq> ''POST''
         \<or> hq_url rq \<noteq> ''https://private.invalid/git-execute'' \<or> \<not> host_bearer (hq_authorization rq)
         \<or> hq_content_type rq \<noteq> Some ''application/json'') Git_host_denied) (\<lambda>_.
     bindp (of_result (jsonBody lib (hq_body rq))) (\<lambda>v.
     bindp (of_result (read_with gitPlan as_git_plan v)) (\<lambda>p.
     bindp (perform Now h_time) (\<lambda>ms.
     bindp (throw_if (artifacts_account p \<noteq> Some (he_account env) \<or> namespace p \<noteq> he_namespace env
         \<or> authority (checkpoint p) \<noteq> he_authority env \<or> disclosure_digest p \<noteq> he_disclosure env
         \<or> o_expires_at (observation p) \<le> ms div 1000 + 5) Git_host_denied) (\<lambda>_.
     Ret (p, v))))))"

subsection \<open>The sealed registry\<close>

text \<open>\<open>gitRegistrySchema\<close>: strict objects, so no other key; the integers are safe integers in their range.\<close>

record registry_entry =
  re_role :: string
  re_commit :: string
  re_tree :: string
  re_commits :: int
  re_objects :: int
  re_object_bytes :: int
  re_inventory_sha256 :: string
  re_pack_bytes :: int
  re_pack_sha256 :: string

record git_registry =
  rg_disclosure :: string
  rg_task :: registry_entry
  rg_snapshot :: registry_entry

definition entry_schema :: "json \<Rightarrow> bool" where
  "entry_schema v \<longleftrightarrow> strict_object v [''role'', ''commit'', ''tree'', ''commits'', ''objects'', ''object_bytes'',
       ''inventory_sha256'', ''pack_bytes'', ''pack_sha256'']
     \<and> get v ''role'' \<in> set [JStr ''task'', JStr ''snapshot''] \<and> oid (get v ''commit'') \<and> oid (get v ''tree'')
     \<and> int_in (get v ''commits'') 1 4096 \<and> int_in (get v ''objects'') 1 65536
     \<and> int_in (get v ''object_bytes'') 1 67108864 \<and> hex (get v ''inventory_sha256'')
     \<and> int_in (get v ''pack_bytes'') 32 67108864 \<and> hex (get v ''pack_sha256'')"

definition as_entry :: "json \<Rightarrow> registry_entry" where
  "as_entry v = \<lparr>re_role = the_str (get v ''role''), re_commit = the_str (get v ''commit''),
     re_tree = the_str (get v ''tree''), re_commits = the_int (get v ''commits''),
     re_objects = the_int (get v ''objects''), re_object_bytes = the_int (get v ''object_bytes''),
     re_inventory_sha256 = the_str (get v ''inventory_sha256''), re_pack_bytes = the_int (get v ''pack_bytes''),
     re_pack_sha256 = the_str (get v ''pack_sha256'')\<rparr>"

definition gitRegistrySchema :: "json \<Rightarrow> git_registry option" where
  "gitRegistrySchema v = (case get v ''entries'' of
     JArr [a, b] \<Rightarrow>
       if strict_object v [''format_version'', ''disclosure_digest'', ''entries''] \<and> get v ''format_version'' = JNum 1
          \<and> hex (get v ''disclosure_digest'') \<and> entry_schema a \<and> entry_schema b
          \<and> get a ''role'' = JStr ''task'' \<and> get b ''role'' = JStr ''snapshot'' \<and> get b ''commits'' = JNum 1
       then Some \<lparr>rg_disclosure = the_str (get v ''disclosure_digest''), rg_task = as_entry a, rg_snapshot = as_entry b\<rparr>
       else None
   | _ \<Rightarrow> None)"

subsection \<open>Readiness of the container\<close>

definition provision_send :: "string \<Rightarrow> string option \<Rightarrow> ('o, unit) host_task" where
  "provision_send path body = bindp (perform (Port_provision path body) h_reply) (\<lambda>(status, _).
     throw_if (status \<noteq> 204) Git_host_provision_failed)"

definition send_pack :: "string \<Rightarrow> registry_entry \<Rightarrow> ('o, unit) host_task" where
  "send_pack prefix e = bindp (perform (Bucket_get (prefix @ re_role e @ ''.pack'')) h_object) (\<lambda>pack.
     case pack of
       None \<Rightarrow> Exc Git_host_package_unavailable
     | Some (n, bytes) \<Rightarrow>
         if n \<noteq> re_pack_bytes e then Exc Git_host_package_unavailable
         else provision_send (re_role e) (Some bytes))"

definition provisionGitHost :: "lib \<Rightarrow> host_env \<Rightarrow> ('o, unit) host_task" where
  "provisionGitHost lib env = (let prefix = ''registry/'' @ he_registry env @ ''/'' in
     bindp (perform (Bucket_get (prefix @ ''registry.json'')) h_object) (\<lambda>x.
     case x of
       None \<Rightarrow> Exc Git_host_package_unavailable
     | Some (n, bytes) \<Rightarrow>
         bindp (throw_if (n > 4096) Git_host_package_unavailable) (\<lambda>_.
         bindp (throw_if (sha256_hex lib bytes \<noteq> he_registry env) Git_host_package_mismatch) (\<lambda>_.
         case parse_json lib bytes of
           None \<Rightarrow> Exc Not_json
         | Some v \<Rightarrow> (case gitRegistrySchema v of
             None \<Rightarrow> Exc Git_host_package_mismatch
           | Some r \<Rightarrow>
               bindp (throw_if (rg_disclosure r \<noteq> he_disclosure env) Git_host_package_mismatch) (\<lambda>_.
               bindp (provision_send ''registry'' (Some bytes)) (\<lambda>_.
               bindp (send_pack prefix (rg_task r)) (\<lambda>_.
               bindp (send_pack prefix (rg_snapshot r)) (\<lambda>_.
               provision_send ''activate'' None)))))))))"

text \<open>
  The polling loop. \<open>fuel\<close> bounds the polls of the model; \<open>health_polls\<close> of them are always
  enough when the clock moves on by the sleep (lemma \<open>health_needs_no_more\<close>).
\<close>

definition health_polls :: nat where "health_polls = 101"

fun await_health :: "nat \<Rightarrow> int \<Rightarrow> ('o, unit) host_task" where
  "await_health 0 until = Exc Out_of_fuel"
| "await_health (Suc fuel) until =
     bindp (catchp (bindp (perform (Port_get ''/health'') h_reply) (\<lambda>(status, _). Ret (status = 200))) (Ret False)) (\<lambda>ready.
     if ready then Ret ()
     else bindp (perform Now h_time) (\<lambda>now.
       if now \<ge> until then Exc Git_host_not_ready
       else bindp (perform (Sleep 200) h_done) (\<lambda>_. await_health fuel until)))"

declare await_health.simps(2) [simp del]

text \<open>
  \<open>readyGitHost\<close> in its parts: \<open>container_up\<close> finds the right image running or starts it,
  \<open>ready_reply\<close> asks \<open>/ready\<close>, and once more after provisioning, and \<open>ready_value\<close> checks
  the reply; \<open>ready_host\<close> is all of it once there is a container. \<open>cont\<close> is \<open>c\<close>,
  with \<open>c.images.host\<close> of it. It returns the image and whether this call started the container.
\<close>

definition container_up :: "bool \<Rightarrow> string \<Rightarrow> bool \<Rightarrow> bool \<Rightarrow> ('o, unit) host_task" where
  "container_up running host internet allow_start =
     (if running then bindp (perform Inspect h_image) (\<lambda>x. throw_if (x \<noteq> Some host) Git_host_old_image)
      else if \<not> allow_start then Exc Git_host_not_ready
      else perform (Start_container host internet) h_done)"

definition ready_reply :: "lib \<Rightarrow> host_env \<Rightarrow> ('o, nat \<times> body) host_task" where
  "ready_reply lib env =
     bindp (perform (Port_get ''/ready'') h_reply) (\<lambda>r.
     if fst r = 503
     then bindp (provisionGitHost lib env) (\<lambda>_. perform (Port_get ''/ready'') h_reply)
     else Ret r)"

definition ready_value :: "lib \<Rightarrow> host_env \<Rightarrow> nat \<times> body \<Rightarrow> ('o, unit) host_task" where
  "ready_value lib env r =
     bindp (throw_if (fst r \<noteq> 200) Git_host_not_ready) (\<lambda>_.
     bindp (of_result (jsonBody lib (snd r))) (\<lambda>v.
     throw_if (\<not> closed v [''disclosure_digest'', ''registry_sha256'']
         \<or> get v ''registry_sha256'' \<noteq> JStr (he_registry env)
         \<or> get v ''disclosure_digest'' \<noteq> JStr (he_disclosure env)) Git_host_readiness_mismatch))"

definition ready_host :: "lib \<Rightarrow> host_env \<Rightarrow> bool \<Rightarrow> bool \<Rightarrow> bool \<Rightarrow> string \<Rightarrow> ('o, string \<times> bool) host_task" where
  "ready_host lib env internet allow_start running host =
     bindp (container_up running host internet allow_start) (\<lambda>_.
     bindp (perform (Set_inactivity 60000) h_done) (\<lambda>_.
     bindp (perform Now h_time) (\<lambda>now.
     bindp (await_health health_polls (now + 20000)) (\<lambda>_.
     bindp (ready_reply lib env) (\<lambda>r.
     bindp (ready_value lib env r) (\<lambda>_. Ret (host, \<not> running)))))))"

definition readyGitHost ::
    "lib \<Rightarrow> host_env \<Rightarrow> string option option \<Rightarrow> bool \<Rightarrow> bool \<Rightarrow> ('o, string \<times> bool) host_task" where
  "readyGitHost lib env cont internet allow_start =
     bindp (perform Running h_flag) (\<lambda>running.
     case cont of
       Some (Some host) \<Rightarrow> ready_host lib env internet allow_start running host
     | _ \<Rightarrow> Exc Git_host_unavailable)"

subsection \<open>The object\<close>

record host_object =
  ho_busy :: bool
  ho_frame :: "string option"
  ho_attempts :: "(string \<times> string \<times> string \<times> string) list"
  ho_preflight :: bool
  ho_ready :: bool

definition new_host :: host_object where
  "new_host = \<lparr>ho_busy = False, ho_frame = None, ho_attempts = [], ho_preflight = False, ho_ready = False\<rparr>"

text \<open>
  \<open>Enter\<close> tests and sets the flag; \<open>Enter_ready\<close> also asks for the row of \<open>host_ready\<close>. \<open>Admit_preflight\<close>
  and \<open>Retain_attempt\<close> are the two transactions: an error leaves the tables as they were. The columns
  \<open>role\<close> and \<open>purpose\<close> are bound from JSON values; \<open>None\<close> stands for a value SQLite does not bind as text.
\<close>

datatype host_op =
    Enter
  | Enter_ready
  | Admit_preflight string
  | Retain_attempt string string "string option" "string option" string
  | Mark_ready
  | Leave

definition frame_row :: "string \<Rightarrow> host_object \<Rightarrow> bool" where
  "frame_row frame h \<longleftrightarrow> ho_frame h = None \<or> ho_frame h = Some frame"

definition admit_preflight :: "string \<Rightarrow> host_object \<Rightarrow> err + host_object" where
  "admit_preflight frame h =
     (if ho_attempts h \<noteq> [] then Inl Git_host_denied
      else if \<not> frame_row frame h then Inl Git_host_denied
      else if ho_preflight h then Inl Row_exists
      else Inr (h\<lparr>ho_frame := Some frame, ho_preflight := True\<rparr>))"

definition retainGitHostAttempt ::
    "string \<Rightarrow> string \<Rightarrow> string option \<Rightarrow> string option \<Rightarrow> string \<Rightarrow> host_object \<Rightarrow> err + host_object" where
  "retainGitHostAttempt frame a role_text purpose_text plan_text h =
     (if \<not> frame_row frame h then Inl Git_host_frame_mismatch
      else (case (role_text, purpose_text) of
          (Some r, Some u) \<Rightarrow>
            if list_ex (\<lambda>(b, r', u', _). b = a \<or> (r' = r \<and> u' = u)) (ho_attempts h) then Inl Row_exists
            else Inr (h\<lparr>ho_frame := Some frame, ho_attempts := (a, r, u, plan_text) # ho_attempts h\<rparr>)
        | _ \<Rightarrow> Inl Row_exists))"

definition host_step :: "host_op \<Rightarrow> host_object \<Rightarrow> err + (host_answer \<times> host_object)" where
  "host_step op h = map_sum id (Pair H_done) (case op of
     Enter \<Rightarrow> if ho_busy h then Inl Git_host_denied else Inr (h\<lparr>ho_busy := True\<rparr>)
   | Enter_ready \<Rightarrow> if ho_busy h then Inl Git_host_busy
       else if \<not> ho_ready h then Inl Git_host_not_ready else Inr (h\<lparr>ho_busy := True\<rparr>)
   | Admit_preflight frame \<Rightarrow> admit_preflight frame h
   | Retain_attempt frame a r u t \<Rightarrow> retainGitHostAttempt frame a r u t h
   | Mark_ready \<Rightarrow> if ho_ready h then Inl Row_exists else Inr (h\<lparr>ho_ready := True\<rparr>)
   | Leave \<Rightarrow> Inr (h\<lparr>ho_busy := False\<rparr>))"

definition leave :: "(host_op, unit) host_task" where
  "leave = bindp (perform (Own Leave) h_done) (\<lambda>_. Ret ())"

text \<open>\<open>prepare\<close>: one readiness admission per object. \<open>nargs\<close> is the number of arguments of the call.\<close>

definition host_prepare :: "lib \<Rightarrow> host_env \<Rightarrow> string option option \<Rightarrow> nat \<Rightarrow> (host_op, json) host_task" where
  "host_prepare lib env cont nargs =
     bindp (throw_if (nargs \<noteq> 0 \<or> \<not> host_enabled env) Git_host_denied) (\<lambda>_.
     bindp (perform (Own Enter) h_done) (\<lambda>_.
     finallyp (catchp
       (bindp (perform (Own (Admit_preflight
            (host_frame env (he_namespace env) (he_authority env) (he_disclosure env)))) h_done) (\<lambda>_.
        bindp (perform Storage_sync h_done) (\<lambda>_.
        bindp (readyGitHost lib env cont True True) (\<lambda>_.
        bindp (perform (Own Mark_ready) h_done) (\<lambda>_.
        bindp (perform Storage_sync h_done) (\<lambda>_.
        Ret (JObj [(''ready'', JBool True), (''disclosure_digest'', JStr (he_disclosure env))])))))))
       (Exc Git_host_denied)) leave))"

definition host_exchange ::
    "lib \<Rightarrow> host_env \<Rightarrow> string option option \<Rightarrow> string \<Rightarrow> json \<Rightarrow> (host_op, nat \<times> body) host_task" where
  "host_exchange lib env cont authorization v =
     bindp (readyGitHost lib env cont True False) (\<lambda>_. perform (Port_execute authorization v) h_reply)"

text \<open>The \<open>fetch\<close> of the object: retain the attempt, then one exchange, then check its reply.\<close>

fun host_reply :: "lib \<Rightarrow> git_plan \<Rightarrow> nat \<times> body \<Rightarrow> (host_op, response) host_task" where
  "host_reply lib p (code, b) =
     bindp (throw_if (code \<noteq> 200) Git_host_unknown) (\<lambda>_.
     bindp (of_result (jsonBody lib b)) (\<lambda>x.
     bindp (of_result (gitResult x p)) (\<lambda>_. Ret (respond_json 200 x))))"

fun host_admitted ::
    "lib \<Rightarrow> (json \<Rightarrow> string option) \<Rightarrow> host_env \<Rightarrow> string option option \<Rightarrow> string option
     \<Rightarrow> git_plan \<times> json \<Rightarrow> (host_op, response) host_task" where
  "host_admitted lib sql_text env cont authorization (p, v) =
     bindp (perform Running h_flag) (\<lambda>running.
     bindp (throw_if (cont = None \<or> \<not> running) Git_host_not_ready) (\<lambda>_.
     bindp (perform (Own Enter_ready) h_done) (\<lambda>_.
     finallyp
       (bindp (perform (Own (Retain_attempt
            (host_frame env (namespace p) (authority (checkpoint p)) (disclosure_digest p))
            (attempt_id p) (sql_text (role p)) (sql_text (purpose p)) (stringify v))) h_done) (\<lambda>_.
        bindp (perform Storage_sync h_done) (\<lambda>_.
        bindp (host_exchange lib env cont (case authorization of Some x \<Rightarrow> x | None \<Rightarrow> []) v) (host_reply lib p))))
       leave)))"

definition host_fetch ::
    "lib \<Rightarrow> (json \<Rightarrow> string option) \<Rightarrow> host_env \<Rightarrow> string option option \<Rightarrow> host_request \<Rightarrow> (host_op, response) host_task" where
  "host_fetch lib sql_text env cont rq =
     (if he_enabled env \<noteq> ''true'' then Ret (respond_empty 404)
      else catchp
        (bindp (checkedGitHostPlan lib env rq) (host_admitted lib sql_text env cont (hq_authorization rq)))
        (Ret (respond_empty 409)))"

text \<open>The router: \<open>WorkGitHost\<close>, which holds no state and passes the checked plan to the object.\<close>

definition object_name :: "string \<Rightarrow> string \<Rightarrow> string" where
  "object_name auth d = auth @ '':'' @ d"

definition work_git_host :: "lib \<Rightarrow> host_env \<Rightarrow> host_request \<Rightarrow> ('o, response) host_task" where
  "work_git_host lib env rq =
     (if he_enabled env \<noteq> ''true'' then Ret (respond_empty 404)
      else catchp
        (if hq_url rq = ''https://private.invalid/git-prepare''
         then bindp (throw_if (\<not> host_enabled env \<or> hq_method rq \<noteq> ''POST'' \<or> hq_authorization rq \<noteq> None
                  \<or> hq_content_type rq \<noteq> Some ''application/json'') Git_host_denied) (\<lambda>_.
              bindp (of_result (jsonBody lib (hq_body rq))) (\<lambda>p.
              bindp (throw_if (\<not> closed p [''disclosure_digest'']
                  \<or> get p ''disclosure_digest'' \<noteq> JStr (he_disclosure env)) Git_host_denied) (\<lambda>_.
              bindp (perform (Object_prepare (object_name (he_authority env) (he_disclosure env))) h_json) (\<lambda>v.
              Ret (respond_json 200 v)))))
         else bindp (checkedGitHostPlan lib env rq) (\<lambda>(p, v).
              bindp (perform (Object_execute (object_name (authority (checkpoint p)) (disclosure_digest p))
                  (case hq_authorization rq of Some x \<Rightarrow> x | None \<Rightarrow> []) v) h_reply) (\<lambda>(status, b).
              Ret \<lparr>rs_status = status, rs_body = (case b of None \<Rightarrow> None | Some cs \<Rightarrow> parse_json lib (concat cs))\<rparr>)))
        (Ret (respond_empty 409)))"

subsection \<open>One exchange per attempt and per purpose\<close>

datatype host_key = Attempt string | Purpose string string

definition host_keys :: "string \<Rightarrow> string option \<Rightarrow> string option \<Rightarrow> host_key multiset" where
  "host_keys a x y = add_mset (Attempt a) (case (x, y) of (Some r, Some u) \<Rightarrow> {#Purpose r u#} | _ \<Rightarrow> {#})"

text \<open>Retaining a row gains the keys of its attempt and columns; the exchange of a plan uses them.\<close>

definition host_gains :: "host_op \<Rightarrow> host_key multiset" where
  "host_gains op = (case op of Retain_attempt _ a x y _ \<Rightarrow> host_keys a x y | _ \<Rightarrow> {#})"

definition host_uses :: "(json \<Rightarrow> string option) \<Rightarrow> 'o host_call \<Rightarrow> host_key multiset" where
  "host_uses sql_text q = (case q of
     Port_execute _ v \<Rightarrow> host_keys (attempt_id (as_git_plan v)) (sql_text (role (as_git_plan v)))
       (sql_text (purpose (as_git_plan v)))
   | _ \<Rightarrow> {#})"

fun host_retained :: "host_key \<Rightarrow> host_object \<Rightarrow> bool" where
  "host_retained (Attempt a) h = list_ex (\<lambda>(b, _, _, _). b = a) (ho_attempts h)"
| "host_retained (Purpose r u) h = list_ex (\<lambda>(_, r', u', _). r' = r \<and> u' = u) (ho_attempts h)"

definition host_capacity :: "host_key \<Rightarrow> host_object \<Rightarrow> nat" where
  "host_capacity k h = (if host_retained k h then 1 else 0)"

definition restarted :: "host_object \<Rightarrow> host_object" where
  "restarted h = h\<lparr>ho_busy := False\<rparr>"

lemma host_step_Inr:
  "host_step op h = Inr (a, h') \<longleftrightarrow> a = H_done \<and> (case op of
       Enter \<Rightarrow> \<not> ho_busy h \<and> h' = h\<lparr>ho_busy := True\<rparr>
     | Enter_ready \<Rightarrow> \<not> ho_busy h \<and> ho_ready h \<and> h' = h\<lparr>ho_busy := True\<rparr>
     | Admit_preflight frame \<Rightarrow> admit_preflight frame h = Inr h'
     | Retain_attempt frame b r u t \<Rightarrow> retainGitHostAttempt frame b r u t h = Inr h'
     | Mark_ready \<Rightarrow> \<not> ho_ready h \<and> h' = h\<lparr>ho_ready := True\<rparr>
     | Leave \<Rightarrow> h' = h\<lparr>ho_busy := False\<rparr>)"
  unfolding host_step_def
  by (cases "case op of
       Enter \<Rightarrow> if ho_busy h then Inl Git_host_denied else Inr (h\<lparr>ho_busy := True\<rparr>)
     | Enter_ready \<Rightarrow> if ho_busy h then Inl Git_host_busy
         else if \<not> ho_ready h then Inl Git_host_not_ready else Inr (h\<lparr>ho_busy := True\<rparr>)
     | Admit_preflight frame \<Rightarrow> admit_preflight frame h
     | Retain_attempt frame a r u t \<Rightarrow> retainGitHostAttempt frame a r u t h
     | Mark_ready \<Rightarrow> if ho_ready h then Inl Row_exists else Inr (h\<lparr>ho_ready := True\<rparr>)
     | Leave \<Rightarrow> Inr (h\<lparr>ho_busy := False\<rparr>)")
    (auto split: host_op.splits if_splits)

lemma retain_Inr:
  "retainGitHostAttempt frame a x y t h = Inr h' \<longleftrightarrow> frame_row frame h \<and> (\<exists>r u. x = Some r \<and> y = Some u
     \<and> \<not> host_retained (Attempt a) h \<and> \<not> host_retained (Purpose r u) h
     \<and> h' = h\<lparr>ho_frame := Some frame, ho_attempts := (a, r, u, t) # ho_attempts h\<rparr>)"
  by (auto simp: retainGitHostAttempt_def list_ex_iff split: option.splits if_splits)

lemma admit_preflight_Inr:
  "admit_preflight frame h = Inr h' \<longleftrightarrow> ho_attempts h = [] \<and> frame_row frame h \<and> \<not> ho_preflight h
     \<and> h' = h\<lparr>ho_frame := Some frame, ho_preflight := True\<rparr>"
  by (auto simp: admit_preflight_def)

interpretation git_host: permit_object host_step restarted host_gains "host_uses sql_text" host_capacity "\<lambda>_. True"
  for sql_text
proof unfold_locales
  fix op h a h' k
  assume step: "host_step op h = Inr (a, h')"
  have "k \<in># host_gains op \<Longrightarrow> \<not> host_retained k h \<and> host_retained k h'" and "count (host_gains op) k \<le> 1"
    using step by (auto simp: host_gains_def host_keys_def host_step_Inr retain_Inr split: host_op.splits option.splits)
  moreover have "host_retained k h \<Longrightarrow> host_retained k h'"
    using step by (cases k) (auto simp: host_step_Inr retain_Inr admit_preflight_Inr split: host_op.splits)
  ultimately show "host_capacity k h + count (host_gains op) k \<le> host_capacity k h'"
    by (cases "k \<in># host_gains op") (auto simp: host_capacity_def not_in_iff)
next
  fix k h show "host_capacity k h \<le> host_capacity k (restarted h)"
    by (cases k) (simp_all add: restarted_def host_capacity_def)
qed (simp_all add: host_uses_def)

end
