(* ===== verification/HostLaws.thy ===== *)
theory HostLaws imports GitHost begin

section \<open>What the Git host promises\<close>

text \<open>
  One exchange per attempt and per pair of role and purpose, over every history of the object with
  crashes and restarts; the polling of the container ends; only the sealed registry is provisioned,
  in its fixed order; a \<open>fetch\<close> starts nothing.
\<close>

subsection \<open>Handlers keep to their permits\<close>

text \<open>Calls that neither gain nor use a permit.\<close>

definition permitless :: "host_op host_call \<Rightarrow> bool" where
  "permitless q = (case q of Own op \<Rightarrow> host_gains op = {#} | Port_execute _ _ \<Rightarrow> False | _ \<Rightarrow> True)"

lemma permitless_valid:
  "only_calls permitless p \<Longrightarrow> (\<And>r. Q m r) \<Longrightarrow> valid (permit_watch host_gains (host_uses sql_text)) p m Q"
  by (rule only_calls_valid [where P = permitless])
    (auto simp: permitless_def host_uses_def split: host_call.splits)

lemma provision_send_only: "P (Port_provision path body) \<Longrightarrow> only_calls P (provision_send path body)"
  by (auto simp: provision_send_def intro!: only_calls_rules)

lemma send_pack_only:
  "P (Bucket_get (prefix @ re_role e @ ''.pack'')) \<Longrightarrow> (\<And>b. P (Port_provision (re_role e) (Some b))) \<Longrightarrow>
     only_calls P (send_pack prefix e)"
  by (auto simp: send_pack_def intro!: only_calls_rules provision_send_only split: option.split)

lemma await_health_only:
  "P (Port_get ''/health'') \<Longrightarrow> P Now \<Longrightarrow> P (Sleep 200) \<Longrightarrow> only_calls P (await_health fuel until)"
  by (induction fuel) (auto simp: await_health.simps intro!: only_calls_rules)

lemma provision_only:
  assumes "\<And>k. P (Bucket_get k)" and "\<And>path b. P (Port_provision path b)"
  shows "only_calls P (provisionGitHost lib env)"
  using assms by (auto simp: provisionGitHost_def Let_def
      intro!: only_calls_rules provision_send_only send_pack_only split: option.split)

lemma ready_only:
  assumes "\<And>k. P (Bucket_get k)" and "\<And>path b. P (Port_provision path b)" and "\<And>path. P (Port_get path)"
    and "P Now" and "P (Sleep 200)" and "P Running" and "P Inspect" and "P (Set_inactivity 60000)"
    and "allow_start \<Longrightarrow> P (Start_container (the (the cont)) internet)"
  shows "only_calls P (readyGitHost lib env cont internet allow_start)"
  using assms by (auto simp: readyGitHost_def ready_host_def container_up_def ready_reply_def ready_value_def
      intro!: only_calls_rules await_health_only provision_only split: option.split)

lemma ready_permitless: "only_calls permitless (readyGitHost lib env cont internet allow_start)"
  by (rule ready_only) (simp_all add: permitless_def)

lemma checked_plan_only: "P Now \<Longrightarrow> only_calls P (checkedGitHostPlan lib env rq)"
  by (auto simp: checkedGitHostPlan_def intro!: only_calls_rules)

lemma checked_plan_valid:
  "(\<And>e. Q {#} (Inl e)) \<Longrightarrow> (\<And>v. Q {#} (Inr (as_git_plan v, v))) \<Longrightarrow>
     valid (permit_watch host_gains (host_uses sql_text)) (checkedGitHostPlan lib env rq) {#} Q"
  by (auto simp: checkedGitHostPlan_def read_with_Inr_iff host_uses_def split: sum.split option.split)

lemma exchange_valid:
  assumes "host_uses sql_text (Port_execute auth v :: host_op host_call) \<subseteq># m" and "\<And>m r. Q m r"
  shows "valid (permit_watch host_gains (host_uses sql_text)) (host_exchange lib env cont auth v) m Q"
  using assms by (auto simp: host_exchange_def intro!: permitless_valid [OF ready_permitless] split: sum.split)

lemma host_uses_simps [simp]:
  "host_uses sql_text (Own op) = {#}" "host_uses sql_text Running = {#}" "host_uses sql_text Storage_sync = {#}"
  "host_gains Enter_ready = {#}" "host_gains Leave = {#}"
  "host_gains (Retain_attempt fr a x y t) = host_keys a x y"
  "host_uses sql_text (Port_execute auth v) = host_keys (attempt_id (as_git_plan v))
     (sql_text (role (as_git_plan v))) (sql_text (purpose (as_git_plan v)))"
  by (simp_all add: host_uses_def host_gains_def)

lemma leave_valid: "(\<And>r. Q m r) \<Longrightarrow> valid (permit_watch host_gains (host_uses sql_text)) leave m Q"
  by (simp add: leave_def split: option.split)

lemma host_fetch_valid:
  "valid (permit_watch host_gains (host_uses sql_text)) (host_fetch lib sql_text env cont rq) {#} (\<lambda>_ _. True)"
  by (auto simp: host_fetch_def intro!: checked_plan_valid exchange_valid leave_valid
      split: option.split sum.split)

lemma host_prepare_permitless: "only_calls permitless (host_prepare lib env cont nargs)"
  by (auto simp: host_prepare_def leave_def permitless_def host_gains_def
      intro!: only_calls_rules ready_only)

text \<open>The handlers of the object: any number of calls of either.\<close>

definition host_handlers ::
    "lib \<Rightarrow> (json \<Rightarrow> string option) \<Rightarrow> host_env \<Rightarrow> string option option \<Rightarrow> (host_op, response) host_task set" where
  "host_handlers lib sql_text env cont = range (host_fetch lib sql_text env cont)
     \<union> range (\<lambda>n. bindp (host_prepare lib env cont n) (\<lambda>v. Ret (respond_json 200 v)))"

lemma host_handlers_valid:
  "\<forall>p \<in> host_handlers lib sql_text env cont. valid (permit_watch host_gains (host_uses sql_text)) p {#} (\<lambda>_ _. True)"
proof -
  have "only_calls permitless (bindp (host_prepare lib env cont n) (\<lambda>v. Ret (respond_json 200 v)))" for n
    by (intro only_calls_rules host_prepare_permitless) simp
  then show ?thesis by (auto simp: host_handlers_def intro!: host_fetch_valid intro: permitless_valid)
qed

lemma host_uses_once:
  assumes "site_reachable host_step restarted (permit_watch host_gains (host_uses sql_text))
      (host_handlers lib sql_text env cont) s0 z"
    and "\<And>q. P q \<Longrightarrow> k \<in># host_uses sql_text q"
  shows "length (filter P (site_calls z)) \<le> 1"
proof -
  have "length (filter P (site_calls z)) \<le> uses_of (host_uses sql_text) k (site_calls z)"
    by (rule uses_of_filter [OF assms(2)])
  moreover have "uses_of (host_uses sql_text) k (site_calls z) \<le> 1"
    using git_host.uses_within_capacity [OF assms(1) host_handlers_valid, of k] by (simp add: host_capacity_def split: if_splits)
  ultimately show ?thesis by (rule order_trans)
qed

subsection \<open>The polling ends\<close>

text \<open>
  \<open>clock_runs c t\<close>: along the trace \<open>t\<close> the clock never goes back, and a completed sleep takes at
  least its time.
\<close>

fun clock_runs :: "int \<Rightarrow> ('o host_call \<times> host_answer) list \<Rightarrow> bool" where
  "clock_runs c [] = True"
| "clock_runs c ((q, a) # t) = (case q of
     Now \<Rightarrow> (case a of H_time n \<Rightarrow> c \<le> n \<and> clock_runs n t | _ \<Rightarrow> clock_runs c t)
   | Sleep d \<Rightarrow> clock_runs (if h_done a = None then c else c + d) t
   | _ \<Rightarrow> clock_runs c t)"

text \<open>The same as a watch: its state is the earliest time it can be, and \<open>None\<close> once an answer broke the rule.\<close>

definition clock_watch :: "('o host_call, host_answer, int option) watch" where
  "clock_watch = \<lparr>permitted = (\<lambda>_ _. True),
     after = (\<lambda>m q a. case m of None \<Rightarrow> None | Some c \<Rightarrow> (case q of
        Now \<Rightarrow> (case a of H_time n \<Rightarrow> if c \<le> n then Some n else None | _ \<Rightarrow> Some c)
      | Sleep d \<Rightarrow> Some (if h_done a = None then c else c + d)
      | _ \<Rightarrow> Some c))\<rparr>"

lemma clock_runs_watch: "clock_runs c t \<longleftrightarrow> after_all clock_watch (Some c) t \<noteq> None"
proof (induction c t rule: clock_runs.induct)
  case (2 c q a t)
  have gone: "after_all clock_watch None t = None" for t :: "('o host_call \<times> host_answer) list"
    by (induction t) (auto simp: clock_watch_def)
  show ?case using 2 gone by (cases q) (auto simp: clock_watch_def split: host_answer.split)
qed simp

lemma clock_valid:
  "valid clock_watch p None (\<lambda>m r. m = None)"
  by (induction p) (auto simp: clock_watch_def)

lemma clock_other:
  "only_calls (\<lambda>q. q \<noteq> Now \<and> (\<forall>d. q \<noteq> Sleep d)) p \<Longrightarrow> (\<And>r. Q m r) \<Longrightarrow> valid clock_watch p m Q"
  by (rule only_calls_valid [where P = "\<lambda>q. q \<noteq> Now \<and> (\<forall>d. q \<noteq> Sleep d)"])
    (auto simp: clock_watch_def split: host_call.split option.split)

lemma clock_gone: "(\<And>r. Q None r) \<Longrightarrow> valid clock_watch p None Q"
  by (rule valid_mono [OF clock_valid]) simp

lemma clock_after [simp]:
  "permitted clock_watch m q"
  "after clock_watch (Some c) Now a = (case a of H_time n \<Rightarrow> if c \<le> n then Some n else None | _ \<Rightarrow> Some c)"
  "after clock_watch (Some c) (Sleep d) a = Some (if h_done a = None then c else c + d)"
  "after clock_watch (Some c) (Port_get path) a = Some c"
  "after clock_watch None q a = None"
  "after clock_watch m Running a = m" "after clock_watch m (Set_inactivity d) a = m"
  by (simp_all add: clock_watch_def split: option.split)

lemma await_health_in_time:
  assumes "until \<le> c + 200 * int fuel"
  shows "valid clock_watch (await_health (Suc fuel) until :: ('o, unit) host_task) (Some c) (\<lambda>m r. m = None \<or> r \<noteq> Inl Out_of_fuel)"
  using assms
proof (induction fuel arbitrary: c)
  case 0
  then show ?case unfolding await_health.simps
    by (auto intro!: clock_gone split: option.split sum.split host_answer.split simp: h_time_def)
next
  case (Suc fuel)
  have later: "valid clock_watch (await_health (Suc fuel) until :: ('o, unit) host_task) (Some (n + 200)) (\<lambda>m r. m = None \<or> r \<noteq> Inl Out_of_fuel)"
    if "c \<le> n" for n by (rule Suc.IH) (use Suc.prems that in simp)
  then show ?case unfolding await_health.simps(2) [of "Suc fuel"]
    by (auto intro!: clock_gone split: option.split sum.split host_answer.split simp: h_time_def)
qed

lemma await_health_within: "within (3 * fuel) (await_health fuel until :: ('o, unit) host_task)"
proof (induction fuel)
  case (Suc fuel)
  have poll: "within (Suc 0) (catchp (bindp (perform (Port_get ''/health'') h_reply) (\<lambda>(status, _). Ret (status = 200))) (Ret False))"
    using within_catchp [OF within_then [of 0]] by force
  have later: "within (Suc (Suc (3 * fuel))) (if ready then Ret ()
     else bindp (perform Now h_time) (\<lambda>now. if until \<le> now then Exc Git_host_not_ready
        else bindp (perform (Sleep 200) h_done) (\<lambda>_. await_health fuel until)) :: ('o, unit) host_task)" for ready
    using Suc by (auto intro!: within_then)
  have "within (Suc 0 + Suc (Suc (3 * fuel))) (await_health (Suc fuel) until :: ('o, unit) host_task)"
    unfolding await_health.simps by (rule within_bindp [OF poll later])
  then show ?case by (rule within_mono) simp
qed simp

lemma provision_send_within: "within (Suc n) (provision_send path body)"
  by (auto simp: provision_send_def intro!: within_then)

lemma send_pack_within: "within (Suc (Suc n)) (send_pack prefix e)"
  by (auto simp: send_pack_def intro!: within_then provision_send_within split: option.split)

lemma provision_within: "within 7 (provisionGitHost lib env)"
proof -
  have packs: "within 6 (bindp (provision_send ''registry'' (Some bytes)) (\<lambda>_. bindp (send_pack prefix a) (\<lambda>_.
      bindp (send_pack prefix b) (\<lambda>_. provision_send ''activate'' None))))" for bytes prefix a b
    using within_bindp [OF provision_send_within [of 0] within_bindp [OF send_pack_within [of 0]
        within_bindp [OF send_pack_within [of 0] provision_send_within [of 0]]]] by (simp add: eval_nat_numeral)
  have "within (Suc 6) (provisionGitHost lib env)" unfolding provisionGitHost_def Let_def
    by (rule within_then) (auto intro!: within_pure packs split: option.split)
  then show ?thesis by simp
qed

lemma ready_parts_within:
  "within 1 (container_up running host internet allow_start)"
  "within 9 (ready_reply lib env)"
  "within 0 (ready_value lib env r)"
proof -
  have again: "within (7 + 1) (bindp (provisionGitHost lib env) (\<lambda>_. perform (Port_get ''/ready'') h_reply))"
    by (rule within_bindp [OF provision_within]) simp
  have "within (Suc (7 + 1)) (ready_reply lib env)"
    unfolding ready_reply_def by (intro within_then) (simp only: again within.simps split: if_split, simp)
  then show "within 9 (ready_reply lib env)" by simp
qed (auto simp: container_up_def ready_value_def intro!: within_then within_pure)

lemma ready_within: "within 316 (readyGitHost lib env cont internet allow_start)"
proof -
  have await: "within 303 (await_health health_polls until)" for until
    using await_health_within [of health_polls] by (simp add: health_polls_def)
  have "within (1 + Suc (Suc (303 + (9 + (0 + 0))))) (ready_host lib env internet allow_start running host)" for running host
    unfolding ready_host_def
    by (intro within_bindp [OF ready_parts_within(1)] within_then within_bindp [OF await]
        within_bindp [OF ready_parts_within(2)] within_bindp [OF ready_parts_within(3)]) simp
  then have host: "within 315 (ready_host lib env internet allow_start running host)" for running host by simp
  have "within (Suc 315) (readyGitHost lib env cont internet allow_start)"
    unfolding readyGitHost_def by (rule within_then) (auto simp: host split: option.split)
  then show ?thesis by simp
qed

text \<open>No answer of \<open>ready_reply\<close> or \<open>ready_value\<close> is out of fuel.\<close>

lemma jsonBody_fuel: "jsonBody lib b \<noteq> Inl Out_of_fuel"
  by (auto simp: jsonBody_def split: option.splits)

lemma ready_in_time:
  "valid clock_watch (readyGitHost lib env cont internet allow_start) (Some c) (\<lambda>m r. m = None \<or> r \<noteq> Inl Out_of_fuel)"
proof -
  let ?Q = "\<lambda>m r. m = None \<or> r \<noteq> Inl Out_of_fuel"
  have await: "valid clock_watch (await_health health_polls (n + 20000)) (Some n) ?Q" for n
    using await_health_in_time [of "n + 20000" n 100] by (simp add: health_polls_def)
  have reply: "valid clock_watch (ready_reply lib env) m (\<lambda>_ r. r \<noteq> Inl Out_of_fuel)" for m
    by (auto simp: ready_reply_def provisionGitHost_def Let_def provision_send_def send_pack_def split: option.split sum.split)
  have up: "valid clock_watch (container_up running host internet allow_start) m (\<lambda>m' r. m' = m \<and> r \<noteq> Inl Out_of_fuel)"
    for running host m by (cases m) (auto simp: container_up_def clock_watch_def split: option.split sum.split)
  show ?thesis
    by (auto simp: readyGitHost_def ready_host_def ready_value_def jsonBody_fuel split: option.split sum.split host_answer.split
      intro!: valid_mono [OF up] valid_mono [OF await] valid_mono [OF reply] clock_gone)
qed

lemma ready_ends:
  assumes "run_prog (readyGitHost lib env cont internet allow_start) as = (t, r)" and "clock_runs c t" and "316 \<le> length as"
  shows "r \<noteq> Stopped \<and> r \<noteq> Threw Out_of_fuel"
proof
  show "r \<noteq> Stopped" by (rule within_ends [OF ready_within assms(3,1)])
  show "r \<noteq> Threw Out_of_fuel"
    using valid_run [OF ready_in_time assms(1)] assms(2) by (auto simp: clock_runs_watch)
qed

subsection \<open>Only the sealed registry is provisioned\<close>

text \<open>
  What may be posted to \<open>/provision\<close>, in order: the bytes the environment's digest seals, which are a
  registry of the disclosure, then a pack for each of its two entries, then the activation.
\<close>

definition sealed :: "lib \<Rightarrow> host_env \<Rightarrow> (string \<times> string option) list \<Rightarrow> bool" where
  "sealed lib env posts \<longleftrightarrow> (\<exists>bytes v r task snapshot later. sha256_hex lib bytes = he_registry env
     \<and> parse_json lib bytes = Some v \<and> gitRegistrySchema v = Some r \<and> rg_disclosure r = he_disclosure env
     \<and> posts @ later = [(''registry'', Some bytes), (''task'', Some task), (''snapshot'', Some snapshot), (''activate'', None)])"

text \<open>The watch keeps the posts so far, and whether each was answered 204: after another answer none may follow.\<close>

definition sealed_watch :: "lib \<Rightarrow> host_env \<Rightarrow> ('o host_call, host_answer, (string \<times> string option) list \<times> bool) watch" where
  "sealed_watch lib env = \<lparr>permitted = (\<lambda>(posts, ok) q. case q of
       Port_provision path b \<Rightarrow> ok \<and> sealed lib env (posts @ [(path, b)])
     | _ \<Rightarrow> True),
     after = (\<lambda>(posts, ok) q a. case q of
       Port_provision path b \<Rightarrow> (posts @ [(path, b)], ok \<and> (\<exists>t. h_reply a = Some (204, t)))
     | _ \<Rightarrow> (posts, ok))\<rparr>"

lemma sealed_watch_simps [simp]:
  "permitted (sealed_watch lib env) (posts, ok) (Port_provision path b) \<longleftrightarrow> ok \<and> sealed lib env (posts @ [(path, b)])"
  "after (sealed_watch lib env) (posts, ok) (Port_provision path b) a =
     (posts @ [(path, b)], ok \<and> (\<exists>t. h_reply a = Some (204, t)))"
  "permitted (sealed_watch lib env) m (Bucket_get k)" "after (sealed_watch lib env) m (Bucket_get k) a = m"
  "permitted (sealed_watch lib env) m (Port_get path)" "after (sealed_watch lib env) m (Port_get path) a = m"
  by (auto simp: sealed_watch_def split: prod.split)

definition postless :: "'o host_call \<Rightarrow> bool" where
  "postless q \<longleftrightarrow> (\<forall>path b. q \<noteq> Port_provision path b)"

lemma postless_simps [simp]:
  "\<not> postless (Port_provision path b)" "postless (Own op)" "postless Storage_sync" "postless Running" "postless Inspect"
  "postless (Start_container x i)" "postless (Set_inactivity d)" "postless Now" "postless (Sleep d)"
  "postless (Port_get path)" "postless (Port_execute auth v)" "postless (Bucket_get k)"
  by (simp_all add: postless_def)

lemma sealed_other:
  "only_calls postless p \<Longrightarrow> (\<And>r. Q m r) \<Longrightarrow> valid (sealed_watch lib env) p m Q"
  by (rule only_calls_valid [where P = postless])
    (auto simp: sealed_watch_def postless_def split: host_call.split)

lemma registry_roles: "gitRegistrySchema v = Some r \<Longrightarrow> re_role (rg_task r) = ''task'' \<and> re_role (rg_snapshot r) = ''snapshot''"
  by (auto simp: gitRegistrySchema_def as_entry_def split: json.splits list.splits if_splits)

lemma provision_sealed:
  "valid (sealed_watch lib env) (provisionGitHost lib env) ([], True) (\<lambda>_ _. True)"
  by (auto simp: provisionGitHost_def Let_def provision_send_def send_pack_def sealed_def registry_roles
      split: option.split sum.split)

text \<open>Programs that post nothing go before and after one that posts.\<close>

abbreviation "keeps_sealed lib env p \<equiv> valid (sealed_watch lib env) p ([], True) (\<lambda>_ _. True)"

lemma sealed_before:
  "only_calls postless p \<Longrightarrow> (\<And>x. keeps_sealed lib env (f x)) \<Longrightarrow> keeps_sealed lib env (bindp p f)"
  unfolding valid_bindp by (rule sealed_other) (auto split: sum.split)

lemma sealed_after:
  "keeps_sealed lib env p \<Longrightarrow> (\<And>x. only_calls postless (f x)) \<Longrightarrow> keeps_sealed lib env (bindp p f)"
  "keeps_sealed lib env p \<Longrightarrow> only_calls postless h \<Longrightarrow> keeps_sealed lib env (catchp p h)"
  "keeps_sealed lib env p \<Longrightarrow> only_calls postless g \<Longrightarrow> keeps_sealed lib env (finallyp p g)"
  unfolding valid_bindp valid_catchp valid_finallyp
  by (erule valid_mono; simp add: sealed_other split: sum.split)+

lemma postless_parts:
  "only_calls postless (container_up running host internet allow_start)"
  "only_calls postless (await_health fuel until)"
  "only_calls postless (ready_value lib env r)"
  "only_calls postless leave"
  "only_calls postless (checkedGitHostPlan lib env rq)"
  by (auto simp: container_up_def ready_value_def leave_def
      intro!: only_calls_rules await_health_only checked_plan_only)

lemma reply_sealed: "keeps_sealed lib env (ready_reply lib env)"
  unfolding ready_reply_def
  by (intro sealed_before) (auto simp: sealed_after(1) provision_sealed simp del: valid_bindp)

lemma ready_host_sealed: "keeps_sealed lib env (ready_host lib env internet allow_start running host)"
  unfolding ready_host_def
  by (intro sealed_before postless_parts sealed_after(1) reply_sealed only_calls_rules; simp)

lemma ready_sealed: "keeps_sealed lib env (readyGitHost lib env cont internet allow_start)"
  unfolding readyGitHost_def
  by (rule sealed_before) (auto simp: ready_host_sealed split: option.split)

lemma handlers_sealed: "p \<in> host_handlers lib sql_text env cont \<Longrightarrow> keeps_sealed lib env p"
proof -
  have exchange: "keeps_sealed lib env (host_exchange lib env cont auth v)" for auth v
    unfolding host_exchange_def by (intro sealed_after(1) ready_sealed) simp
  have "keeps_sealed lib env (host_fetch lib sql_text env cont rq)" for rq
  proof -
    have reply: "only_calls postless (host_reply lib p r)" for p r by (cases r) (auto intro!: only_calls_rules)
    have "keeps_sealed lib env (host_admitted lib sql_text env cont auth x)" for auth x
      by (cases x, simp only: host_admitted.simps)
        (intro sealed_before sealed_after postless_parts exchange reply only_calls_rules; simp)
    then show ?thesis unfolding host_fetch_def
      by (simp only: split: if_split, intro conjI allI impI sealed_before sealed_after postless_parts only_calls_rules; simp)
  qed
  moreover have "keeps_sealed lib env (bindp (host_prepare lib env cont n) (\<lambda>v. Ret (respond_json 200 v)))" for n
    unfolding host_prepare_def
    by (intro sealed_before sealed_after postless_parts ready_sealed only_calls_rules; simp)
  ultimately show "p \<in> host_handlers lib sql_text env cont \<Longrightarrow> keeps_sealed lib env p"
    by (auto simp: host_handlers_def)
qed

end
