(* ===== verification/HostPromises.thy ===== *)
theory HostPromises imports HostLaws Rehearsal begin

section \<open>Promises of the Git host\<close>

subsection \<open>A preparation and an exchange, evaluated\<close>

definition host_demo_env :: host_env where
  "host_demo_env = \<lparr>he_enabled = ''true'', he_account = rep 32 CHR ''d'', he_namespace = ''ns'', he_authority = ''authority'',
     he_disclosure = disclosure_digest demo_git, he_registry = rep 64 CHR ''2''\<rparr>"

definition host_demo_entry :: "string \<Rightarrow> json" where
  "host_demo_entry r = JObj [(''role'', JStr r), (''commit'', JStr (rep 40 CHR ''7'')), (''tree'', JStr (rep 40 CHR ''8'')),
     (''commits'', JNum 1), (''objects'', JNum 3), (''object_bytes'', JNum 100), (''inventory_sha256'', JStr (rep 64 CHR ''9'')),
     (''pack_bytes'', JNum 32), (''pack_sha256'', JStr (rep 64 CHR ''a''))]"

definition host_demo_lib :: lib where
  "host_demo_lib = \<lparr>parse_json = map_of
      [(''git'', git_plan_json demo_git), (''result'', git_result_json demo_result),
       (''ready'', JObj [(''registry_sha256'', JStr (rep 64 CHR ''2'')), (''disclosure_digest'', JStr (disclosure_digest demo_git))]),
       (''registry'', JObj [(''format_version'', JNum 1), (''disclosure_digest'', JStr (disclosure_digest demo_git)),
          (''entries'', JArr [host_demo_entry ''task'', host_demo_entry ''snapshot''])])],
     sha256_hex = (\<lambda>_. rep 64 CHR ''2'')\<rparr>"

definition host_demo_text :: "json \<Rightarrow> string option" where
  "host_demo_text v = (case v of JStr s \<Rightarrow> Some s | _ \<Rightarrow> None)"

definition host_demo_plan :: json where "host_demo_plan = git_plan_json demo_git"

definition host_demo_request :: host_request where
  "host_demo_request = \<lparr>hq_method = ''POST'', hq_url = ''https://private.invalid/git-execute'',
     hq_authorization = Some (''Bearer '' @ rep 20 CHR ''s''), hq_content_type = Some ''application/json'', hq_body = Some [''git'']\<rparr>"

lemma host_demo_facts:
  "jsonBody host_demo_lib (Some [''git'']) = Inr host_demo_plan"
  "read_with gitPlan as_git_plan host_demo_plan = Inr demo_git"
  "host_enabled host_demo_env" "host_bearer (hq_authorization host_demo_request)"
  unfolding host_demo_plan_def by code_simp+

lemma host_demo_checked:
  "checkedGitHostPlan host_demo_lib host_demo_env host_demo_request =
     bindp (perform Now h_time) (\<lambda>ms. bindp (throw_if (390 \<le> ms div 1000 + 5) Git_host_denied) (\<lambda>_. Ret (demo_git, host_demo_plan)))"
proof -
  have fields: "artifacts_account demo_git = Some (he_account host_demo_env)" "namespace demo_git = he_namespace host_demo_env"
    "authority (checkpoint demo_git) = he_authority host_demo_env" "disclosure_digest demo_git = he_disclosure host_demo_env"
    "o_expires_at (observation demo_git) = 390" by code_simp+
  have rq: "hq_method host_demo_request = ''POST''" "hq_url host_demo_request = ''https://private.invalid/git-execute''"
    "hq_content_type host_demo_request = Some ''application/json''" "hq_body host_demo_request = Some [''git'']"
    by (simp_all add: host_demo_request_def)
  show ?thesis by (simp add: checkedGitHostPlan_def host_demo_facts fields rq throw_if_def of_result_def)
qed

definition "host_demo_fetch = host_fetch host_demo_lib host_demo_text host_demo_env (Some (Some ''image'')) host_demo_request"

lemma host_demo_fetch_code [code]:
  "host_demo_fetch = catchp (bindp (bindp (perform Now h_time) (\<lambda>ms.
      bindp (throw_if (390 \<le> ms div 1000 + 5) Git_host_denied) (\<lambda>_. Ret (demo_git, host_demo_plan))))
     (host_admitted host_demo_lib host_demo_text host_demo_env (Some (Some ''image'')) (hq_authorization host_demo_request)))
     (Ret (respond_empty 409))"
  by (simp add: host_demo_fetch_def host_fetch_def host_demo_checked host_demo_env_def [THEN arg_cong [where f = he_enabled]])

text \<open>
  A ready object takes the exchange and is restarted before the reply; the same request then comes again
  and is refused by the retained attempt.
\<close>

definition host_demo_exchange :: "host_answer list" where
  "host_demo_exchange = [H_time 200000, H_flag True, H_done, H_done, H_done, H_flag True, H_image (Some ''image''), H_done,
     H_time 200100, H_reply 200 None, H_reply 200 (Some [''ready'']), H_reply 200 (Some [''result''])]"

definition host_demo_again :: "host_answer list" where
  "host_demo_again = [H_time 201000, H_flag True, H_done, H_failed, H_done]"

definition host_demo_ready :: host_object where
  "host_demo_ready = new_host\<lparr>ho_preflight := True, ho_ready := True\<rparr>"

type_synonym host_trace = "(host_op host_call \<times> host_answer) list"

definition host_demo_first :: host_trace where "host_demo_first = fst (run_prog host_demo_fetch host_demo_exchange)"
definition host_demo_second :: host_trace where "host_demo_second = fst (run_prog host_demo_fetch host_demo_again)"
definition host_demo_kept :: "host_object option" where "host_demo_kept = follows host_step host_demo_ready host_demo_first"

definition is_exchange_of_u :: "host_op host_call \<Rightarrow> bool" where
  "is_exchange_of_u q = (case q of Port_execute _ v \<Rightarrow> attempt_id (as_git_plan v) = rep 43 CHR ''u'' | _ \<Rightarrow> False)"

lemma is_exchange_iff:
  "is_exchange_of_u q \<longleftrightarrow> (\<exists>auth v. q = Port_execute auth v \<and> attempt_id (as_git_plan v) = rep 43 CHR ''u'')"
  by (auto simp: is_exchange_of_u_def split: host_call.splits)

lemma host_demo_runs:
  "(let t = host_demo_first; h = follows host_step host_demo_ready t; u = host_demo_second in
     h \<noteq> None \<and> follows host_step (restarted (the h)) u \<noteq> None \<and> length u = 5
     \<and> map (\<lambda>(q, _). is_exchange_of_u q) t = replicate 11 False @ [True])"
  by code_simp

abbreviation "host_demo_handlers \<equiv> host_handlers host_demo_lib host_demo_text host_demo_env (Some (Some ''image''))"

lemma host_demo_history:
  "\<exists>z :: (host_object, host_op, response, host_key) site.
     site_reachable host_step restarted (permit_watch host_gains (host_uses host_demo_text)) host_demo_handlers host_demo_ready z
     \<and> site_calls z = rev (map fst host_demo_second) @ rev (map fst host_demo_first)
     \<and> filter is_exchange_of_u (site_calls z) \<noteq> []"
proof -
  let ?R = "site_reachable host_step restarted (permit_watch host_gains (host_uses host_demo_text)) host_demo_handlers host_demo_ready"
  let ?z0 = "\<lparr>site_state = host_demo_ready, site_procs = [], site_calls = []\<rparr>"
  have handler: "host_demo_fetch \<in> host_demo_handlers" by (auto simp: host_handlers_def host_demo_fetch_def)
  obtain h where h: "follows host_step host_demo_ready host_demo_first = Some h"
    and "follows host_step (restarted h) host_demo_second \<noteq> None" and sent: "map (\<lambda>(q, _). is_exchange_of_u q) host_demo_first
       = replicate 11 False @ [True]"
    using host_demo_runs by (auto simp: Let_def)
  then obtain h' where h': "follows host_step (restarted h) host_demo_second = Some h'" by blast
  obtain z1 where z1: "?R z1" "site_state z1 = h" "site_calls z1 = rev (map fst host_demo_first)"
    using site_request [OF site_reachable.initially handler, of host_demo_exchange host_demo_first] h
    by (fastforce simp: host_demo_first_def intro: prod.collapse [symmetric])
  obtain z2 where z2: "?R z2" "site_state z2 = restarted h" "site_calls z2 = rev (map fst host_demo_first)"
    using site_restart [OF z1(1)] z1 by metis
  obtain z3 where z3: "?R z3" "site_calls z3 = rev (map fst host_demo_second) @ rev (map fst host_demo_first)"
    using site_request [OF z2(1) handler, of host_demo_again host_demo_second] h' z2
    by (fastforce simp: host_demo_second_def intro: prod.collapse [symmetric])
  have "True \<in> set (map (\<lambda>(q, _). is_exchange_of_u q) host_demo_first)" unfolding sent by simp
  then have "\<exists>q \<in> set (map fst host_demo_first). is_exchange_of_u q" by force
  then have "filter is_exchange_of_u (site_calls z3) \<noteq> []" unfolding z3(2) by (auto simp: filter_empty_conv)
  then show ?thesis using z3 by blast
qed

subsection \<open>The promises\<close>

text \<open>C33. Over every history of the Git host, with any requests, crashes and restarts, the productive exchange
  is sent at most once for an attempt, and at most once for a role and purpose, whatever the state it began in.\<close>

theorem host_exchanges_once:
  assumes "site_reachable host_step restarted (permit_watch host_gains (host_uses sql_text))
      (host_handlers lib sql_text env cont) h z"
  shows "length (filter (\<lambda>q. \<exists>auth v. q = Port_execute auth v \<and> attempt_id (as_git_plan v) = a) (site_calls z)) \<le> 1
     \<and> length (filter (\<lambda>q. \<exists>auth v. q = Port_execute auth v \<and> sql_text (role (as_git_plan v)) = Some r
          \<and> sql_text (purpose (as_git_plan v)) = Some u) (site_calls z)) \<le> 1"
proof
  show "length (filter (\<lambda>q. \<exists>auth v. q = Port_execute auth v \<and> attempt_id (as_git_plan v) = a) (site_calls z)) \<le> 1"
    by (rule host_uses_once [OF assms, where k = "Attempt a"]) (auto simp: host_keys_def)
  show "length (filter (\<lambda>q. \<exists>auth v. q = Port_execute auth v \<and> sql_text (role (as_git_plan v)) = Some r
          \<and> sql_text (purpose (as_git_plan v)) = Some u) (site_calls z)) \<le> 1"
    by (rule host_uses_once [OF assms, where k = "Purpose r u"]) (auto simp: host_keys_def)
qed

theorem host_exchanges_once_witness:
  "\<exists>z :: (host_object, host_op, response, host_key) site. length (filter is_exchange_of_u (site_calls z)) = 1"
proof -
  obtain z :: "(host_object, host_op, response, host_key) site" where z:
    "site_reachable host_step restarted (permit_watch host_gains (host_uses host_demo_text)) host_demo_handlers host_demo_ready z"
    "filter is_exchange_of_u (site_calls z) \<noteq> []" using host_demo_history by blast
  have "length (filter is_exchange_of_u (site_calls z)) \<le> 1"
    unfolding is_exchange_iff [abs_def] using host_exchanges_once [OF z(1)] by blast
  then show ?thesis using z(2) by (intro exI [of _ z]) (auto simp: le_Suc_eq)
qed


definition host_demo_late :: "host_answer list" where
  "host_demo_late = [H_flag True, H_image (Some ''image''), H_done, H_time 0, H_reply 500 None, H_time 19900, H_done,
     H_failed, H_time 20100]"

lemma host_demo_late_run:
  "snd (run_prog (readyGitHost host_demo_lib host_demo_env (Some (Some ''image'')) True False :: (host_op, string \<times> bool) host_task)
     (host_demo_late @ replicate 307 H_failed)) = Threw Git_host_not_ready"
  by code_simp




definition host_demo_prepare :: "(host_op, response) host_task" where
  "host_demo_prepare = bindp (host_prepare host_demo_lib host_demo_env (Some (Some ''image'')) 0) (\<lambda>v. Ret (respond_json 200 v))"

definition host_demo_provision :: "host_answer list" where
  "host_demo_provision = [H_done, H_done, H_done, H_flag False, H_done, H_done, H_time 0, H_reply 200 None,
     H_reply 503 None, H_object (Some (900, ''registry'')), H_reply 204 None, H_object (Some (32, ''pack 1'')),
     H_reply 204 None, H_object (Some (32, ''pack 2'')), H_reply 204 None, H_reply 204 None, H_reply 200 (Some [''ready'']),
     H_done, H_done, H_done]"

lemma host_demo_posts:
  "(let (t, r) = run_prog host_demo_prepare host_demo_provision in
     (concat (map (\<lambda>(q, _). case q of Port_provision path _ \<Rightarrow> [path] | _ \<Rightarrow> []) t), r)) =
   ([''registry'', ''task'', ''snapshot'', ''activate''],
    Returned (respond_json 200 (JObj [(''ready'', JBool True), (''disclosure_digest'', JStr (disclosure_digest demo_git))])))"
  by code_simp


end
