(* ===== verification/Qualification.thy ===== *)
theory Qualification imports HostLaws begin

section \<open>The qualification of the Git host\<close>

text \<open>
  \<open>crates/work-git-host-worker/qualification.ts\<close>: an object that measures whether the container becomes
  ready, at most three times, and once more after a restart from a stopped process; it never dispatches
  an exchange. Its rows are the record \<open>qual_object\<close>; a stretch between two \<open>await\<close>s is a \<open>qual_op\<close>.
  A retained result is kept as the JSON value that its text is written from and read back to.
\<close>

subsection \<open>Configuration\<close>

record qual_env =
  qe_provision :: string
  qe_host :: host_env

definition configured :: "qual_env \<Rightarrow> bool" where
  "configured env \<longleftrightarrow> qe_provision env = ''true'' \<and> he_enabled (qe_host env) = ''false''
     \<and> of_class hex_chars 32 32 (he_account (qe_host env)) \<and> he_namespace (qe_host env) = ''mikaki-dev''
     \<and> he_authority (qe_host env) = ''mikaki-git-host-qualification-v1''
     \<and> of_class hex_chars 64 64 (he_disclosure (qe_host env)) \<and> of_class hex_chars 64 64 (he_registry (qe_host env))"

definition RESTART :: string where "RESTART = ''inactive_restart_v1''"

definition qual_frame :: "qual_env \<Rightarrow> string" where
  "qual_frame env = host_frame (qe_host env) (he_namespace (qe_host env)) (he_authority (qe_host env)) (he_disclosure (qe_host env))"

text \<open>The image a restart accepts: in the account's registry, by digest.\<close>

definition image_chars :: string where
  "image_chars = ''abcdefghijklmnopqrstuvwxyz0123456789_.:/-''"

definition registry_image :: "string \<Rightarrow> string \<Rightarrow> bool" where
  "registry_image account s = (let p = ''registry.cloudflare.com/'' @ account @ ''/'';
       rest = drop (length p) s; path = takeWhile (\<lambda>c. c \<noteq> CHR ''@'') rest; pin = drop (length path) rest in
     length s \<le> 512 \<and> take (length p) s = p \<and> of_class image_chars 1 512 path
     \<and> take 8 pin = ''@sha256:'' \<and> of_class hex_chars 64 64 (drop 8 pin))"

subsection \<open>The object\<close>

record qual_object =
  qo_busy :: bool
  qo_frame :: "string option"
  qo_attempts :: "int list"
  qo_restart :: "(string \<times> string) option"
  qo_outcomes :: "(string \<times> json) list"

definition new_qual :: qual_object where
  "new_qual = \<lparr>qo_busy = False, qo_frame = None, qo_attempts = [], qo_restart = None, qo_outcomes = []\<rparr>"

datatype qual_op =
    Q_enter
  | Q_attempt
  | Q_restart string
  | Q_retain string json
  | Q_status "(string \<times> json) list"
  | Q_leave

text \<open>\<open>#requireFrame\<close>: no row makes \<open>one()\<close> throw.\<close>

definition requireFrame :: "string \<Rightarrow> qual_object \<Rightarrow> bool" where
  "requireFrame frame q \<longleftrightarrow> qo_frame q = Some frame"

definition slots :: "string list" where "slots = [''1'', ''2'', ''3'', RESTART]"

definition qual_result :: "string \<Rightarrow> qual_object \<Rightarrow> json" where
  "qual_result s q = (case map_of (qo_outcomes q) s of None \<Rightarrow> JNull | Some v \<Rightarrow> v)"

definition qual_retain :: "string \<Rightarrow> json \<Rightarrow> qual_object \<Rightarrow> err + qual_object" where
  "qual_retain s v q =
     (if s \<in> fst ` set (qo_outcomes q) \<or> s \<notin> set slots
         \<or> \<not> (1 \<le> length (stringify v) \<and> length (stringify v) \<le> 4096) then Inl Row_exists
      else Inr (q\<lparr>qo_outcomes := qo_outcomes q @ [(s, v)]\<rparr>))"

definition qual_attempt :: "string \<Rightarrow> qual_object \<Rightarrow> err + (int \<times> qual_object)" where
  "qual_attempt frame q =
     (let n = int (length (qo_attempts q)) + 1 in
      if qo_frame q \<noteq> None \<and> qo_frame q \<noteq> Some frame then Inl Qualification_denied
      else if n \<in> set (qo_attempts q) \<or> \<not> (1 \<le> n \<and> n \<le> 3) then Inl Row_exists
      else Inr (n, q\<lparr>qo_frame := Some frame, qo_attempts := qo_attempts q @ [n]\<rparr>))"

definition qual_restart :: "string \<Rightarrow> string \<Rightarrow> qual_object \<Rightarrow> err + qual_object" where
  "qual_restart frame img q =
     (if \<not> requireFrame frame q then Inl Qualification_denied
      else if length (qo_attempts q) \<noteq> 3 then Inl Qualification_denied
      else if qo_restart q \<noteq> None then Inl Row_exists
      else Inr (q\<lparr>qo_restart := Some (frame, img)\<rparr>))"

text \<open>\<open>status\<close> reads only; \<open>container\<close> are the entries it takes from the container.\<close>

definition qual_status :: "qual_env \<Rightarrow> (string \<times> json) list \<Rightarrow> qual_object \<Rightarrow> err + json" where
  "qual_status env container q =
     (let frame = qual_frame env in
      if qo_busy q then Inl Qualification_denied
      else if qo_frame q \<noteq> None \<and> \<not> requireFrame frame q then Inl Qualification_denied
      else if (case qo_restart q of None \<Rightarrow> False | Some (f, _) \<Rightarrow> f \<noteq> frame) then Inl Qualification_denied
      else Inr (JObj ([(''kind'', JStr ''git_host_infrastructure_status''),
          (''registry_sha256'', JStr (he_registry (qe_host env))), (''disclosure_digest'', JStr (he_disclosure (qe_host env))),
          (''frame_present'', JBool (qo_frame q \<noteq> None))]
        @ container
        @ [(''attempts'', JArr (map (\<lambda>n. JObj [(''ordinal'', JNum n), (''result'', qual_result (string_of_int n) q)])
             (sort (qo_attempts q)))),
           (''restart'', case qo_restart q of None \<Rightarrow> JNull
              | Some (_, i) \<Rightarrow> JObj [(''image'', JStr i), (''result'', qual_result RESTART q)]),
           (''internet_enabled'', JBool False), (''git_dispatches'', JNum 0)])))"

definition qual_step :: "qual_env \<Rightarrow> qual_op \<Rightarrow> qual_object \<Rightarrow> err + (host_answer \<times> qual_object)" where
  "qual_step env op q = (case op of
     Q_enter \<Rightarrow> if qo_busy q then Inl Qualification_denied else Inr (H_done, q\<lparr>qo_busy := True\<rparr>)
   | Q_attempt \<Rightarrow> map_sum id (\<lambda>(n, q'). (H_count n, q')) (qual_attempt (qual_frame env) q)
   | Q_restart img \<Rightarrow> map_sum id (Pair H_done) (qual_restart (qual_frame env) img q)
   | Q_retain s v \<Rightarrow> map_sum id (Pair H_done) (qual_retain s v q)
   | Q_status container \<Rightarrow> map_sum id (\<lambda>v. (H_json v, q)) (qual_status env container q)
   | Q_leave \<Rightarrow> Inr (H_done, q\<lparr>qo_busy := False\<rparr>))"

definition qual_leave :: "(qual_op, unit) host_task" where
  "qual_leave = bindp (perform (Own Q_leave) h_done) (\<lambda>_. Ret ())"

subsection \<open>The handlers\<close>

definition retain :: "string \<Rightarrow> json \<Rightarrow> (qual_op, unit) host_task" where
  "retain s v = bindp (perform (Own (Q_retain s v)) h_done) (\<lambda>_. perform Storage_sync h_done)"

definition failed_result :: "string \<Rightarrow> json" where
  "failed_result s = JObj [(''kind'', JStr ''git_host_infrastructure_failed''), (''slot'', JStr s), (''reason'', JStr ''not_ready'')]"

text \<open>\<open>try p\<close>: what \<open>p\<close> returned, or \<open>None\<close> when it threw.\<close>

definition tried :: "('o, 'a) host_task \<Rightarrow> ('o, 'a option) host_task" where
  "tried p = catchp (bindp p (\<lambda>x. Ret (Some x))) (Ret None)"

text \<open>Measure readiness and retain the outcome under its slot; \<open>result\<close> is built from the measured time.\<close>

definition measured ::
    "(qual_op, string \<times> bool) host_task \<Rightarrow> string \<Rightarrow> (string \<times> bool \<Rightarrow> int \<Rightarrow> json) \<Rightarrow> (qual_op, json) host_task" where
  "measured p s result =
     bindp (perform Storage_sync h_done) (\<lambda>_.
     bindp (perform Now h_time) (\<lambda>started_at.
     bindp (tried p) (\<lambda>ready. case ready of
       None \<Rightarrow> bindp (retain s (failed_result s)) (\<lambda>_. Exc Qualification_denied)
     | Some r \<Rightarrow> bindp (perform Now h_time) (\<lambda>now. let v = result r (now - started_at) in
         bindp (retain s v) (\<lambda>_. Ret v)))))"

definition prepare_result :: "qual_env \<Rightarrow> int \<Rightarrow> string \<times> bool \<Rightarrow> int \<Rightarrow> json" where
  "prepare_result env n r ms = JObj [(''kind'', JStr ''git_host_infrastructure''), (''ready'', JBool True),
     (''registry_sha256'', JStr (he_registry (qe_host env))), (''disclosure_digest'', JStr (he_disclosure (qe_host env))),
     (''image'', JStr (fst r)), (''started'', JBool (snd r)), (''ordinal'', JNum n), (''elapsed_ms'', JNum ms),
     (''internet_enabled'', JBool False), (''git_dispatches'', JNum 0)]"

definition restart_result :: "qual_env \<Rightarrow> string \<times> bool \<Rightarrow> int \<Rightarrow> json" where
  "restart_result env r ms = JObj [(''kind'', JStr ''git_host_infrastructure_restart''), (''experiment'', JStr RESTART),
     (''prior_attempts'', JNum 3), (''ready'', JBool True),
     (''registry_sha256'', JStr (he_registry (qe_host env))), (''disclosure_digest'', JStr (he_disclosure (qe_host env))),
     (''image'', JStr (fst r)), (''started'', JBool True), (''elapsed_ms'', JNum ms),
     (''internet_enabled'', JBool False), (''git_dispatches'', JNum 0)]"

text \<open>The common frame of both: the arguments and the configuration, the flag, and one error for all.\<close>

definition admitted_once :: "qual_env \<Rightarrow> nat \<Rightarrow> (qual_op, json) host_task \<Rightarrow> (qual_op, json) host_task" where
  "admitted_once env nargs p =
     bindp (throw_if (nargs \<noteq> 0 \<or> \<not> configured env) Qualification_denied) (\<lambda>_.
     bindp (perform (Own Q_enter) h_done) (\<lambda>_.
     finallyp (catchp p (Exc Qualification_denied)) qual_leave))"

definition qualification_prepare :: "lib \<Rightarrow> qual_env \<Rightarrow> string option option \<Rightarrow> nat \<Rightarrow> (qual_op, json) host_task" where
  "qualification_prepare lib env cont nargs = admitted_once env nargs
     (bindp (perform (Own Q_attempt) h_count) (\<lambda>n.
      measured (readyGitHost lib (qe_host env) cont False True) (string_of_int n) (prepare_result env n)))"

definition started_ready :: "lib \<Rightarrow> qual_env \<Rightarrow> string option option \<Rightarrow> (qual_op, string \<times> bool) host_task" where
  "started_ready lib env cont = bindp (readyGitHost lib (qe_host env) cont False True) (\<lambda>r.
     bindp (throw_if (\<not> snd r) Qualification_denied) (\<lambda>_. Ret r))"

definition qualifyRestart :: "lib \<Rightarrow> qual_env \<Rightarrow> string option option \<Rightarrow> nat \<Rightarrow> (qual_op, json) host_task" where
  "qualifyRestart lib env cont nargs = admitted_once env nargs
     (bindp (perform Running h_flag) (\<lambda>running. case cont of
        Some (Some img) \<Rightarrow>
          bindp (throw_if (running \<or> \<not> registry_image (he_account (qe_host env)) img) Qualification_denied) (\<lambda>_.
          bindp (perform (Own (Q_restart img)) h_done) (\<lambda>_.
          measured (started_ready lib env cont) RESTART (restart_result env)))
      | _ \<Rightarrow> Exc Qualification_denied))"

definition qualification_status :: "qual_env \<Rightarrow> string option option \<Rightarrow> nat \<Rightarrow> (qual_op, json) host_task" where
  "qualification_status env cont nargs =
     bindp (throw_if (nargs \<noteq> 0 \<or> \<not> configured env) Qualification_denied) (\<lambda>_.
     bindp (perform Running h_flag) (\<lambda>running.
     perform (Own (Q_status [(''container_available'', JBool (cont \<noteq> None)),
         (''container_running'', JBool (cont \<noteq> None \<and> running)),
         (''image'', case cont of Some (Some i) \<Rightarrow> JStr i | _ \<Rightarrow> JNull)])) h_json))"

text \<open>The service \<open>WorkGitHostQualification\<close>: each method checks the same and calls the object of the frame.\<close>

definition qualification_service :: "qual_env \<Rightarrow> nat \<Rightarrow> (string \<Rightarrow> 'o host_call) \<Rightarrow> ('o, json) host_task" where
  "qualification_service env nargs call =
     bindp (throw_if (nargs \<noteq> 0 \<or> \<not> configured env) Qualification_denied) (\<lambda>_.
     perform (call (object_name (he_authority (qe_host env)) (he_disclosure (qe_host env)))) h_json)"

subsection \<open>Starts are counted\<close>

datatype qual_key = Container_start | Git_exchange

definition qual_gains :: "qual_op \<Rightarrow> qual_key multiset" where
  "qual_gains op = (case op of Q_attempt \<Rightarrow> {#Container_start#} | Q_restart _ \<Rightarrow> {#Container_start#} | _ \<Rightarrow> {#})"

definition qual_uses :: "'o host_call \<Rightarrow> qual_key multiset" where
  "qual_uses q = (case q of Start_container _ _ \<Rightarrow> {#Container_start#} | Port_execute _ _ \<Rightarrow> {#Git_exchange#} | _ \<Rightarrow> {#})"

fun qual_capacity :: "qual_key \<Rightarrow> qual_object \<Rightarrow> nat" where
  "qual_capacity Container_start q = length (qo_attempts q) + (if qo_restart q = None then 0 else 1)"
| "qual_capacity Git_exchange q = 0"

definition qual_sane :: "qual_object \<Rightarrow> bool" where
  "qual_sane q \<longleftrightarrow> qo_attempts q = [1..int (length (qo_attempts q))] \<and> length (qo_attempts q) \<le> 3
     \<and> (qo_restart q \<noteq> None \<longrightarrow> length (qo_attempts q) = 3)
     \<and> distinct (map fst (qo_outcomes q)) \<and> set (map fst (qo_outcomes q)) \<subseteq> set slots"

definition qual_restarted :: "qual_object \<Rightarrow> qual_object" where
  "qual_restarted q = q\<lparr>qo_busy := False\<rparr>"

lemma qual_step_Inr:
  "qual_step env op q = Inr (a, q') \<longleftrightarrow> (case op of
     Q_enter \<Rightarrow> \<not> qo_busy q \<and> a = H_done \<and> q' = q\<lparr>qo_busy := True\<rparr>
   | Q_attempt \<Rightarrow> (\<exists>n. a = H_count n \<and> qual_attempt (qual_frame env) q = Inr (n, q'))
   | Q_restart img \<Rightarrow> a = H_done \<and> qual_restart (qual_frame env) img q = Inr q'
   | Q_retain s v \<Rightarrow> a = H_done \<and> qual_retain s v q = Inr q'
   | Q_status container \<Rightarrow> q' = q \<and> (\<exists>v. a = H_json v \<and> qual_status env container q = Inr v)
   | Q_leave \<Rightarrow> a = H_done \<and> q' = q\<lparr>qo_busy := False\<rparr>)"
proof -
  have mapped: "map_sum id f r = Inr y \<longleftrightarrow> (\<exists>x. r = Inr x \<and> y = f x)" for f :: "'x \<Rightarrow> 'y" and r :: "err + 'x" and y
    by (cases r) auto
  show ?thesis by (auto simp: qual_step_def mapped split: qual_op.split)
qed

lemma qual_attempt_sane: "qual_attempt frame q = Inr (n, q') \<Longrightarrow> qual_sane q \<Longrightarrow> qual_sane q'"
  by (auto simp: qual_attempt_def qual_sane_def Let_def upto_rec2 image_subset_iff split: if_splits)

lemma qual_retain_sane: "qual_retain s v q = Inr q' \<Longrightarrow> qual_sane q \<Longrightarrow> qual_sane q'"
  by (auto simp: qual_retain_def qual_sane_def image_subset_iff split: if_splits)

lemma qual_restart_sane: "qual_restart frame img q = Inr q' \<Longrightarrow> qual_sane q \<Longrightarrow> qual_sane q'"
  by (auto simp: qual_restart_def qual_sane_def image_subset_iff split: if_splits)

lemma qual_step_sane: "qual_step env op q = Inr (a, q') \<Longrightarrow> qual_sane q \<Longrightarrow> qual_sane q'"
  by (auto simp: qual_step_Inr split: qual_op.splits
      intro: qual_attempt_sane qual_retain_sane qual_restart_sane) (simp_all add: qual_sane_def)

interpretation qualification: permit_object "qual_step env" qual_restarted qual_gains qual_uses qual_capacity qual_sane
  for env
proof unfold_locales
  fix op q a q' k
  assume "qual_step env op q = Inr (a, q')"
  then show "qual_capacity k q + count (qual_gains op) k \<le> qual_capacity k q'"
    by (cases k) (auto simp: qual_step_Inr qual_gains_def qual_attempt_def qual_restart_def qual_retain_def Let_def
        split: qual_op.splits if_splits)
next
  fix k q show "qual_capacity k q \<le> qual_capacity k (qual_restarted q)" by (cases k) (simp_all add: qual_restarted_def)
next
  fix q show "qual_sane q \<Longrightarrow> qual_sane (qual_restarted q)" by (simp add: qual_sane_def qual_restarted_def)
qed (auto simp: qual_uses_def qual_step_sane)

subsection \<open>The handlers keep to their permits\<close>

definition qual_free :: "qual_op host_call \<Rightarrow> bool" where
  "qual_free q \<longleftrightarrow> qual_uses q = {#} \<and> (\<forall>op. q = Own op \<longrightarrow> qual_gains op = {#})"

abbreviation "qual_watch \<equiv> permit_watch qual_gains qual_uses"

lemma qual_free_valid:
  "only_calls qual_free p \<Longrightarrow> (\<And>r. Q m r) \<Longrightarrow> valid qual_watch p m Q"
  by (rule only_calls_valid [where P = qual_free]) (auto simp: qual_free_def split: host_call.splits)

lemma qual_free_simps [simp]:
  "qual_free Running" "qual_free Inspect" "qual_free Now" "qual_free (Sleep d)" "qual_free (Set_inactivity d)"
  "qual_free Storage_sync" "qual_free (Port_get path)" "qual_free (Bucket_get key)" "qual_free (Port_provision path b)"
  "qual_free (Own Q_enter)" "qual_free (Own Q_leave)" "qual_free (Own (Q_retain s v))" "qual_free (Own (Q_status c))"
  by (simp_all add: qual_free_def qual_uses_def qual_gains_def)

lemma qual_parts_free:
  "only_calls qual_free (retain s v)" "only_calls qual_free qual_leave"
  "only_calls qual_free (await_health fuel until)" "only_calls qual_free (ready_reply lib env)"
  "only_calls qual_free (ready_value lib env r)"
  by (auto simp: retain_def qual_leave_def ready_reply_def ready_value_def intro!: only_calls_rules await_health_only provision_only)

text \<open>Readiness starts the container at most once, with the permit in hand.\<close>

lemma ready_starts_once:
  assumes "Container_start \<in># m"
  shows "valid qual_watch (readyGitHost lib env cont internet allow_start) m (\<lambda>_ _. True)"
proof -
  have rest: "valid qual_watch (bindp (perform (Set_inactivity 60000) h_done) (\<lambda>_. bindp (perform Now h_time) (\<lambda>now.
     bindp (await_health health_polls (now + 20000)) (\<lambda>_. bindp (ready_reply lib env) (\<lambda>r.
     bindp (ready_value lib env r) (\<lambda>_. Ret (host, \<not> running))))))) m' (\<lambda>_ _. True)" for host running m'
    by (rule qual_free_valid) (auto intro!: only_calls_rules qual_parts_free)
  have "valid qual_watch (container_up running host internet allow_start) m (\<lambda>_ _. True)" for running host
    using assms by (auto simp: container_up_def qual_uses_def split: option.split sum.split)
  then have "valid qual_watch (ready_host lib env internet allow_start running host) m (\<lambda>_ _. True)" for running host
    unfolding ready_host_def valid_bindp [of _ "container_up running host internet allow_start"]
    by (rule valid_mono) (simp add: rest split: sum.split del: valid_bindp)
  then show ?thesis by (simp add: readyGitHost_def qual_uses_def split: option.split)
qed

lemma measured_valid:
  assumes "valid qual_watch p m (\<lambda>_ _. True)"
  shows "valid qual_watch (measured p s result) m (\<lambda>_ _. True)"
proof -
  have after: "valid qual_watch (case ready of None \<Rightarrow> bindp (retain s (failed_result s)) (\<lambda>_. Exc Qualification_denied)
     | Some r \<Rightarrow> bindp (perform Now h_time) (\<lambda>now. let v = result r (now - started_at) in bindp (retain s v) (\<lambda>_. Ret v)))
     m' (\<lambda>_ _. True)" for ready started_at m'
    by (rule qual_free_valid) (auto simp: Let_def intro!: only_calls_rules qual_parts_free split: option.split)
  have "valid qual_watch (tried p) m (\<lambda>_ _. True)" using assms by (simp add: tried_def valid_mono split: sum.split)
  then have "valid qual_watch (bindp (tried p) (\<lambda>ready. case ready of
       None \<Rightarrow> bindp (retain s (failed_result s)) (\<lambda>_. Exc Qualification_denied)
     | Some r \<Rightarrow> bindp (perform Now h_time) (\<lambda>now. let v = result r (now - started_at) in bindp (retain s v) (\<lambda>_. Ret v))))
     m (\<lambda>_ _. True)" for started_at
    unfolding valid_bindp [of _ "tried p"] by (rule valid_mono) (simp add: after split: sum.split)
  then show ?thesis by (simp add: measured_def qual_uses_def split: option.split del: valid_bindp [of _ "tried p"])
qed

definition qual_handlers :: "lib \<Rightarrow> qual_env \<Rightarrow> string option option \<Rightarrow> (qual_op, json) host_task set" where
  "qual_handlers lib env cont = range (qualification_prepare lib env cont) \<union> range (qualifyRestart lib env cont)
     \<union> range (qualification_status env cont)"

lemma admitted_once_valid:
  assumes "valid qual_watch p {#} (\<lambda>_ _. True)"
  shows "valid qual_watch (admitted_once env nargs p) {#} (\<lambda>_ _. True)"
proof -
  have "valid qual_watch (finallyp (catchp p (Exc Qualification_denied)) qual_leave) {#} (\<lambda>_ _. True)"
    using assms by (auto intro!: valid_mono [OF assms] qual_free_valid qual_parts_free split: sum.split)
  then show ?thesis by (auto simp: admitted_once_def qual_uses_def qual_gains_def split: option.split simp del: valid_finallyp)
qed

lemma qual_handlers_valid: "\<forall>p \<in> qual_handlers lib env cont. valid qual_watch p {#} (\<lambda>_ _. True)"
proof -
  have "valid qual_watch (qualification_prepare lib env cont n) {#} (\<lambda>_ _. True)" for n
    unfolding qualification_prepare_def
    by (rule admitted_once_valid)
      (auto simp: qual_uses_def qual_gains_def h_done_def intro!: measured_valid ready_starts_once split: option.split host_answer.splits)
  moreover have started: "valid qual_watch (started_ready lib env cont) m (\<lambda>_ _. True)" if "Container_start \<in># m" for m cont
    unfolding started_ready_def valid_bindp [of _ "readyGitHost lib (qe_host env) cont False True"]
    by (rule valid_mono [OF ready_starts_once [OF that]]) (simp split: sum.split)
  have "valid qual_watch (qualifyRestart lib env cont n) {#} (\<lambda>_ _. True)" for n
    unfolding qualifyRestart_def
    by (rule admitted_once_valid)
      (auto simp: qual_uses_def qual_gains_def intro!: measured_valid started split: option.split)
  moreover have "valid qual_watch (qualification_status env cont n) {#} (\<lambda>_ _. True)" for n
    by (rule qual_free_valid) (auto simp: qualification_status_def intro!: only_calls_rules)
  ultimately show ?thesis by (auto simp: qual_handlers_def)
qed

end
