(* ===== verification/CopyWorkflow.thy ===== *)
theory CopyWorkflow imports Wire Schema begin

section \<open>The copy workflow\<close>

text \<open>
  \<open>crates/work-copy-worker/worker.ts\<close>: the starter of a copy job, the workflow that advances it step by
  step, and the schedule that starts what is pending. The job itself is kept by the store behind
  \<open>OP_COPY_STORE\<close>; its replies and those of the workflow engine are answers of calls.
\<close>

subsection \<open>Calls\<close>

datatype copy_call =
    Op_copy json
  | Workflow_create string json
  | Workflow_get string
  | Workflow_status string

datatype copy_answer =
    C_failed
  | C_reply nat body
  | C_text string

definition c_reply :: "copy_answer \<Rightarrow> (nat \<times> body) option" where
  "c_reply a = (case a of C_reply n b \<Rightarrow> Some (n, b) | _ \<Rightarrow> None)"

definition c_text :: "copy_answer \<Rightarrow> string option" where
  "c_text a = (case a of C_text s \<Rightarrow> Some s | _ \<Rightarrow> None)"

type_synonym 'a copy_task = "(copy_call, copy_answer, 'a) task"

subsection \<open>Replies of the store\<close>

text \<open>The union \<open>response\<close>. Of a job the workflow uses the state; the other entries are only checked.\<close>

datatype copy_state = Copy_queued | Copy_running | Copy_blocked | Copy_verified

datatype copy_reply =
    Preparations "string list"
  | Cleanup string bool
  | Job string copy_state int

definition state_of_text :: "json \<Rightarrow> copy_state option" where
  "state_of_text v = (case v of
     JStr s \<Rightarrow> map_of [(''queued'', Copy_queued), (''running'', Copy_running), (''blocked'', Copy_blocked),
       (''verified'', Copy_verified)] s
   | _ \<Rightarrow> None)"

definition read_pending :: "json \<Rightarrow> copy_reply option" where
  "read_pending v = (if strict_object v [''preparations''] then (case get v ''preparations'' of
       JArr rows \<Rightarrow> if length rows \<le> 20
           \<and> list_all (\<lambda>r. strict_object r [''preparation_id''] \<and> opaque (get r ''preparation_id'')) rows
         then Some (Preparations (map (\<lambda>r. the_str (get r ''preparation_id'')) rows)) else None
     | _ \<Rightarrow> None) else None)"

definition read_cleanup :: "json \<Rightarrow> copy_reply option" where
  "read_cleanup v = (if strict_object v [''preparation_id'', ''cleanup_pending''] \<and> opaque (get v ''preparation_id'')
     then (case get v ''cleanup_pending'' of JBool b \<Rightarrow> Some (Cleanup (the_str (get v ''preparation_id'')) b) | _ \<Rightarrow> None)
     else None)"

definition read_job :: "json \<Rightarrow> copy_reply option" where
  "read_job v = (if strict_object v [''preparation_id'', ''state'', ''next_step'', ''total_steps'', ''inflight'', ''updated_at'', ''review_digest'']
       \<and> opaque (get v ''preparation_id'') \<and> int_in (get v ''next_step'') 0 19
       \<and> optional v ''total_steps'' (\<lambda>x. x = JNum 19) \<and> optional v ''inflight'' is_bool
       \<and> optional v ''updated_at'' (\<lambda>x. int_in x 1 max_safe_integer) \<and> optional v ''review_digest'' hex
     then map_option (\<lambda>st. Job (the_str (get v ''preparation_id'')) st (the_int (get v ''next_step''))) (state_of_text (get v ''state''))
     else None)"

definition copy_response :: "json \<Rightarrow> copy_reply option" where
  "copy_response v = (case read_pending v of Some r \<Rightarrow> Some r | None \<Rightarrow>
     (case read_cleanup v of Some r \<Rightarrow> Some r | None \<Rightarrow> read_job v))"

fun reply_id :: "copy_reply \<Rightarrow> string option" where
  "reply_id (Preparations _) = None"
| "reply_id (Cleanup p _) = Some p"
| "reply_id (Job p _ _) = Some p"

subsection \<open>Calls of the store\<close>

text \<open>\<open>op\<close>: \<open>prep\<close> is the \<open>preparation_id\<close> of the input, if it has one. \<open>copy_value\<close> is what it makes of a reply.\<close>

fun copy_value :: "lib \<Rightarrow> string option \<Rightarrow> nat \<times> body \<Rightarrow> err + copy_reply" where
  "copy_value lib prep (code, b) =
     (if code \<noteq> 200 then Inl Copy_unavailable
      else bind_result (jsonBody lib b) (\<lambda>v. case copy_response v of
         None \<Rightarrow> Inl Copy_reply
       | Some r \<Rightarrow> if prep \<noteq> None \<and> reply_id r \<noteq> prep then Inl Copy_identity else Inr r))"

definition copy_action :: "string \<Rightarrow> string \<Rightarrow> (string \<times> json) list \<Rightarrow> json" where
  "copy_action act p entries = JObj ([(''action'', JStr act), (''preparation_id'', JStr p)] @ entries)"

definition copy_op :: "lib \<Rightarrow> json \<Rightarrow> string option \<Rightarrow> copy_reply copy_task" where
  "copy_op lib v prep = bindp (perform (Op_copy v) c_reply) (\<lambda>r. of_result (copy_value lib prep r))"

definition advance_op :: "lib \<Rightarrow> string \<Rightarrow> nat \<Rightarrow> copy_reply copy_task" where
  "advance_op lib p n = copy_op lib (copy_action ''advance'' p [(''step'', JNum (int n))]) (Some p)"

definition cancel_op :: "lib \<Rightarrow> string \<Rightarrow> copy_reply copy_task" where
  "cancel_op lib p = copy_op lib (copy_action ''cancel'' p []) (Some p)"

definition copy_input :: "json \<Rightarrow> err + string" where
  "copy_input v = (if \<not> closed v [''preparation_id''] \<or> \<not> opaque (get v ''preparation_id'') then Inl Copy_invalid
     else Inr (the_str (get v ''preparation_id'')))"

subsection \<open>Starting a workflow\<close>

definition instance_id :: "string \<Rightarrow> string" where "instance_id p = ''copy-'' @ p"

definition terminal_states :: "string list" where
  "terminal_states = [''complete'', ''errored'', ''terminated'']"

definition start_existing :: "lib \<Rightarrow> string \<Rightarrow> unit copy_task" where
  "start_existing lib p =
     bindp (perform (Workflow_get (instance_id p)) c_text) (\<lambda>i.
     bindp (throw_if (i \<noteq> instance_id p) Copy_identity) (\<lambda>_.
     bindp (perform (Workflow_status (instance_id p)) c_text) (\<lambda>st.
     if st \<in> set terminal_states then bindp (cancel_op lib p) (\<lambda>_. Ret ()) else Ret ())))"

definition start_copy :: "lib \<Rightarrow> string \<Rightarrow> json copy_task" where
  "start_copy lib p =
     bindp (catchp
       (bindp (perform (Workflow_create (instance_id p) (JObj [(''preparation_id'', JStr p)])) c_text) (\<lambda>i.
        throw_if (i \<noteq> instance_id p) Copy_identity))
       (start_existing lib p)) (\<lambda>_.
     Ret (JObj [(''preparation_id'', JStr p), (''workflow_id'', JStr (instance_id p))]))"

definition copy_starter :: "lib \<Rightarrow> string \<Rightarrow> request \<Rightarrow> response copy_task" where
  "copy_starter lib enabled rq =
     (if enabled \<noteq> ''true'' \<or> rq_method rq \<noteq> ''POST'' \<or> rq_path rq \<noteq> ''/start'' then Ret (respond_empty 404)
      else catchp
        (bindp (of_result (jsonBody lib (rq_body rq))) (\<lambda>v.
         bindp (of_result (copy_input v)) (\<lambda>p.
         bindp (start_copy lib p) (\<lambda>x. Ret (respond_json 200 x)))))
        (Ret (respond_json 409 (JObj [(''error'', JStr ''copy_unavailable_or_denied'')]))))"

fun start_all :: "lib \<Rightarrow> string list \<Rightarrow> unit copy_task" where
  "start_all lib [] = Ret ()"
| "start_all lib (p # ps) = bindp (start_copy lib p) (\<lambda>_. start_all lib ps)"

definition copy_scheduled :: "lib \<Rightarrow> string \<Rightarrow> unit copy_task" where
  "copy_scheduled lib enabled =
     (if enabled \<noteq> ''true'' then Ret ()
      else bindp (copy_op lib (JObj [(''action'', JStr ''pending'')]) None) (\<lambda>r. case r of
          Preparations ps \<Rightarrow> start_all lib ps
        | _ \<Rightarrow> Exc Copy_pending))"

subsection \<open>The workflow\<close>

text \<open>
  \<open>step.do(name, {retries: {limit}}, f)\<close> of the engine: a step whose result was retained in an earlier run of the
  same instance answers it (\<open>memo\<close>); otherwise \<open>f\<close> runs, and again after a failure, \<open>limit\<close> times at most.
\<close>

type_synonym step_memo = "string \<Rightarrow> copy_reply option"

primrec retried :: "nat \<Rightarrow> ('q, 'y, 'a) task \<Rightarrow> ('q, 'y, 'a) task" where
  "retried 0 p = p"
| "retried (Suc n) p = catchp p (retried n p)"

definition step_do :: "step_memo \<Rightarrow> string \<Rightarrow> nat \<Rightarrow> copy_reply copy_task \<Rightarrow> copy_reply copy_task" where
  "step_do memo step_name limit p = (case memo step_name of Some r \<Rightarrow> Ret r | None \<Rightarrow> retried limit p)"

definition step_name :: "nat \<Rightarrow> string" where
  "step_name n = ''native-copy-step-'' @ string_of_int (int n)"

text \<open>The loop from \<open>ordinal\<close>, with \<open>todo\<close> steps left.\<close>

fun advance_from :: "lib \<Rightarrow> step_memo \<Rightarrow> string \<Rightarrow> nat \<Rightarrow> nat \<Rightarrow> copy_state copy_task" where
  "advance_from lib memo p 0 ordinal = Exc Copy_incomplete"
| "advance_from lib memo p (Suc todo) ordinal =
     bindp (step_do memo (step_name ordinal) 0 (advance_op lib p ordinal)) (\<lambda>r. case r of
       Job _ st _ \<Rightarrow>
         if st \<noteq> Copy_running then Ret (if st = Copy_verified then Copy_verified else Copy_blocked)
         else advance_from lib memo p todo (Suc ordinal)
     | _ \<Rightarrow> Exc Copy_reply)"

definition total_steps :: nat where "total_steps = 19"

definition copy_run :: "lib \<Rightarrow> step_memo \<Rightarrow> string \<Rightarrow> json \<Rightarrow> string \<Rightarrow> (string \<times> copy_state) copy_task" where
  "copy_run lib memo enabled payload instance_name =
     bindp (of_result (copy_input payload)) (\<lambda>p.
     bindp (throw_if (instance_name \<noteq> instance_id p) Copy_identity) (\<lambda>_.
     bindp (throw_if (enabled \<noteq> ''true'') Copy_disabled) (\<lambda>_.
     catchp (bindp (advance_from lib memo p total_steps 0) (\<lambda>st. Ret (p, st)))
       (bindp (step_do memo ''retain-copy-stop'' 2 (cancel_op lib p)) (\<lambda>_. Ret (p, Copy_blocked))))))"

end
