(* ===== verification/CopyLaws.thy ===== *)
theory CopyLaws imports CopyWorkflow begin

section \<open>What the copy workflow promises\<close>

text \<open>
  A run of the workflow sends its steps in order, each once and only while every earlier step answered
  \<open>running\<close>, and after anything else only asks the store to cancel. \<open>copy_phase\<close> is where a run stands:
  the next step to answer, the state that ended it, or the number of failed cancellations.
\<close>

datatype copy_phase =
    Next nat
  | Ended copy_state
  | Stopping nat
  | Stopped_safely

definition advance_json :: "string \<Rightarrow> nat \<Rightarrow> json" where
  "advance_json p n = copy_action ''advance'' p [(''step'', JNum (int n))]"

definition cancel_json :: "string \<Rightarrow> json" where
  "cancel_json p = copy_action ''cancel'' p []"

lemma action_simps [simp]:
  "get (advance_json p n) ''action'' = JStr ''advance''" "get (advance_json p n) ''step'' = JNum (int n)"
  "get (cancel_json p) ''action'' = JStr ''cancel''"
  by (simp_all add: advance_json_def cancel_json_def copy_action_def)

text \<open>The retained results let the run pass from step \<open>n\<close> to step \<open>k\<close>; it is stuck when it cannot go on from there.\<close>

definition passed :: "step_memo \<Rightarrow> nat \<Rightarrow> nat \<Rightarrow> bool" where
  "passed memo n k \<longleftrightarrow> (\<forall>i \<in> {n..<k}. \<exists>q x. memo (step_name i) = Some (Job q Copy_running x))"

definition stuck :: "step_memo \<Rightarrow> nat \<Rightarrow> bool" where
  "stuck memo n \<longleftrightarrow> (\<exists>k \<in> {n..total_steps}. passed memo n k \<and> (k = total_steps
     \<or> (\<exists>r. memo (step_name k) = Some r \<and> (\<forall>q st x. r \<noteq> Job q st x))))"

definition memo_verified :: "step_memo \<Rightarrow> nat \<Rightarrow> bool" where
  "memo_verified memo n \<longleftrightarrow> (\<exists>k \<in> {n..<total_steps}. passed memo n k \<and> (\<exists>q x. memo (step_name k) = Some (Job q Copy_verified x)))"

definition store_answer :: "lib \<Rightarrow> string \<Rightarrow> copy_answer \<Rightarrow> copy_reply option" where
  "store_answer lib p a = (case c_reply a of None \<Rightarrow> None
     | Some r \<Rightarrow> (case copy_value lib (Some p) r of Inl _ \<Rightarrow> None | Inr x \<Rightarrow> Some x))"

definition copy_watch :: "lib \<Rightarrow> step_memo \<Rightarrow> string \<Rightarrow> (copy_call, copy_answer, copy_phase) watch" where
  "copy_watch lib memo p = \<lparr>permitted = (\<lambda>m q. case m of
       Next n \<Rightarrow> (\<exists>k \<in> {n..<total_steps}. passed memo n k \<and> memo (step_name k) = None \<and> q = Op_copy (advance_json p k))
          \<or> (stuck memo n \<and> q = Op_copy (cancel_json p))
     | Stopping k \<Rightarrow> k < 3 \<and> q = Op_copy (cancel_json p)
     | _ \<Rightarrow> False),
     after = (\<lambda>m q a. case q of
       Op_copy v \<Rightarrow>
         if get v ''action'' = JStr ''advance'' then (case store_answer lib p a of
             Some (Job _ st _) \<Rightarrow> if st = Copy_running then Next (Suc (nat (the_int (get v ''step'')))) else Ended st
           | _ \<Rightarrow> Stopping 0)
         else (case store_answer lib p a of
             Some _ \<Rightarrow> Stopped_safely
           | None \<Rightarrow> Stopping (case m of Stopping k \<Rightarrow> Suc k | _ \<Rightarrow> 1))
     | _ \<Rightarrow> m)\<rparr>"

lemma copy_watch_simps [simp]:
  "permitted (copy_watch lib memo p) (Next n) (Op_copy (advance_json p k)) \<longleftrightarrow>
     (\<exists>j \<in> {n..<total_steps}. passed memo n j \<and> memo (step_name j) = None \<and> advance_json p k = advance_json p j)
     \<or> (stuck memo n \<and> advance_json p k = cancel_json p)"
  "permitted (copy_watch lib memo p) (Next n) (Op_copy (cancel_json p)) \<longleftrightarrow>
     (\<exists>j \<in> {n..<total_steps}. passed memo n j \<and> memo (step_name j) = None \<and> cancel_json p = advance_json p j) \<or> stuck memo n"
  "permitted (copy_watch lib memo p) (Stopping k) (Op_copy (cancel_json p)) \<longleftrightarrow> k < 3"
  "after (copy_watch lib memo p) m (Op_copy (advance_json p k)) a = (case store_answer lib p a of
       Some (Job _ st _) \<Rightarrow> if st = Copy_running then Next (Suc k) else Ended st | _ \<Rightarrow> Stopping 0)"
  "after (copy_watch lib memo p) m (Op_copy (cancel_json p)) a = (case store_answer lib p a of
       Some _ \<Rightarrow> Stopped_safely | None \<Rightarrow> Stopping (case m of Stopping k \<Rightarrow> Suc k | _ \<Rightarrow> 1))"
  by (auto simp: copy_watch_def split: option.split copy_reply.split)

lemma passed_refl [simp]: "passed memo n n"
  by (simp add: passed_def)

lemma passed_Suc: "passed memo n k \<Longrightarrow> memo (step_name k) = Some (Job q Copy_running x) \<Longrightarrow> passed memo n (Suc k)"
  by (auto simp: passed_def less_Suc_eq)

definition advance_post :: "step_memo \<Rightarrow> copy_phase \<Rightarrow> err + copy_state \<Rightarrow> bool" where
  "advance_post memo m r = (case r of
     Inl _ \<Rightarrow> m = Stopping 0 \<or> (\<exists>n. m = Next n \<and> stuck memo n)
   | Inr st \<Rightarrow> st = Copy_verified \<longrightarrow> m = Ended Copy_verified \<or> (\<exists>n. m = Next n \<and> memo_verified memo n))"

lemma copy_op_valid:
  assumes "permitted M m (Op_copy v)"
    and "\<And>a. Q (after M m (Op_copy v) a) (case c_reply a of None \<Rightarrow> Inl Call_failed | Some r \<Rightarrow> copy_value lib prep r)"
  shows "valid M (copy_op lib v prep) m Q"
proof -
  have "case (case c_reply a of None \<Rightarrow> Inl Call_failed | Some r \<Rightarrow> Inr r) of
      Inl e \<Rightarrow> Q (after M m (Op_copy v) a) (Inl e)
    | Inr r \<Rightarrow> Q (after M m (Op_copy v) a) (copy_value lib prep r)" for a
    using assms(2) [of a] by (cases "c_reply a") (simp_all del: copy_value.simps)
  then show ?thesis using assms(1) by (simp add: copy_op_def del: copy_value.simps)
qed

lemma advance_op_valid:
  assumes "n \<le> k" "k < total_steps" "passed memo n k" "memo (step_name k) = None"
    and failed: "\<And>e. Q (Stopping 0) (Inl e)"
    and job: "\<And>q st x. Q (if st = Copy_running then Next (Suc k) else Ended st) (Inr (Job q st x))"
    and other: "\<And>r. (\<And>q st x. r \<noteq> Job q st x) \<Longrightarrow> Q (Stopping 0) (Inr r)"
  shows "valid (copy_watch lib memo p) (advance_op lib p k) (Next n) Q"
proof -
  have may: "permitted (copy_watch lib memo p) (Next n) (Op_copy (advance_json p k))"
    using assms(1-4) by fastforce
  have "Q (after (copy_watch lib memo p) (Next n) (Op_copy (advance_json p k)) a)
      (case c_reply a of None \<Rightarrow> Inl Call_failed | Some r \<Rightarrow> copy_value lib (Some p) r)" for a
    using failed job other
    by (auto simp: store_answer_def split: option.split sum.split copy_reply.split)
  then show ?thesis using may unfolding advance_op_def advance_json_def [symmetric] by (rule copy_op_valid [rotated])
qed

lemma advance_valid:
  "n \<le> ordinal \<Longrightarrow> passed memo n ordinal \<Longrightarrow> ordinal + todo = total_steps \<Longrightarrow>
     valid (copy_watch lib memo p) (advance_from lib memo p todo ordinal) (Next n) (advance_post memo)"
proof (induction todo arbitrary: n ordinal)
  case 0
  then have "stuck memo n" unfolding stuck_def by (intro bexI [of _ ordinal]) auto
  then show ?case by (auto simp: advance_post_def)
next
  case (Suc todo)
  show ?case
  proof (cases "memo (step_name ordinal)")
    case None
    have next_ok: "valid (copy_watch lib memo p) (advance_from lib memo p todo (Suc ordinal)) (Next (Suc ordinal)) (advance_post memo)"
      by (rule Suc.IH) (use Suc.prems in auto)
    show ?thesis using None Suc.prems next_ok [unfolded advance_post_def [abs_def]]
      by (auto simp: step_do_def advance_post_def intro!: advance_op_valid split: copy_reply.split)
  next
    case (Some r)
    show ?thesis
    proof (cases r)
      case (Job q st x)
      show ?thesis
      proof (cases "st = Copy_running")
        case True
        have "valid (copy_watch lib memo p) (advance_from lib memo p todo (Suc ordinal)) (Next n) (advance_post memo)"
          by (rule Suc.IH) (use Suc.prems Some Job True passed_Suc in auto)
        then show ?thesis using Some Job True by (simp add: step_do_def)
      next
        case False
        have "st = Copy_verified \<Longrightarrow> memo_verified memo n" unfolding memo_verified_def
          using Suc.prems Some Job by (intro bexI [of _ ordinal]) auto
        then show ?thesis using Some Job False by (auto simp: step_do_def advance_post_def)
      qed
    next
      case (Preparations ps)
      have "stuck memo n" unfolding stuck_def using Suc.prems Some Preparations by (intro bexI [of _ ordinal]) auto
      then show ?thesis using Some Preparations by (auto simp: step_do_def advance_post_def)
    next
      case (Cleanup q b)
      have "stuck memo n" unfolding stuck_def using Suc.prems Some Cleanup by (intro bexI [of _ ordinal]) auto
      then show ?thesis using Some Cleanup by (auto simp: step_do_def advance_post_def)
    qed
  qed
qed

lemma cancel_op_valid:
  assumes "permitted (copy_watch lib memo p) m (Op_copy (cancel_json p))"
    and "\<And>r. Q Stopped_safely (Inr r)" and "\<And>e. Q (Stopping (case m of Stopping k \<Rightarrow> Suc k | _ \<Rightarrow> 1)) (Inl e)"
  shows "valid (copy_watch lib memo p) (cancel_op lib p) m Q"
proof -
  have "Q (after (copy_watch lib memo p) m (Op_copy (cancel_json p)) a)
      (case c_reply a of None \<Rightarrow> Inl Call_failed | Some r \<Rightarrow> copy_value lib (Some p) r)" for a
    using assms(2,3) by (auto simp: store_answer_def split: option.split sum.split)
  then show ?thesis using assms(1) unfolding cancel_op_def cancel_json_def [symmetric] by (rule copy_op_valid [rotated])
qed

lemma stop_valid:
  assumes "m = Stopping 0 \<or> (\<exists>n. m = Next n \<and> stuck memo n)"
  shows "valid (copy_watch lib memo p) (step_do memo ''retain-copy-stop'' 2 (cancel_op lib p)) m (\<lambda>_ _. True)"
proof (cases "memo ''retain-copy-stop''")
  case None
  have again: "valid (copy_watch lib memo p) (cancel_op lib p) (Stopping 2) (\<lambda>_ _. True)"
    by (rule cancel_op_valid) auto
  have twice: "valid (copy_watch lib memo p) (catchp (cancel_op lib p) (cancel_op lib p)) (Stopping 1) (\<lambda>_ _. True)"
    using again by (auto simp: numeral_2_eq_2 intro!: cancel_op_valid)
  have "valid (copy_watch lib memo p) (catchp (cancel_op lib p) (catchp (cancel_op lib p) (cancel_op lib p))) m (\<lambda>_ _. True)"
    unfolding valid_catchp [of _ "cancel_op lib p" "catchp (cancel_op lib p) (cancel_op lib p)"]
    by (rule cancel_op_valid) (use assms twice in auto)
  then show ?thesis using None by (simp add: step_do_def numeral_2_eq_2)
qed (simp add: step_do_def)

definition run_post :: "step_memo \<Rightarrow> copy_phase \<Rightarrow> err + (string \<times> copy_state) \<Rightarrow> bool" where
  "run_post memo m r \<longleftrightarrow> (\<forall>q. r = Inr (q, Copy_verified) \<longrightarrow> m = Ended Copy_verified \<or> (\<exists>n. m = Next n \<and> memo_verified memo n))"

lemma copy_run_valid:
  assumes "copy_input payload = Inr p"
  shows "valid (copy_watch lib memo p) (copy_run lib memo enabled payload instance_name) (Next 0) (run_post memo)"
proof -
  have "valid (copy_watch lib memo p) (advance_from lib memo p total_steps 0) (Next 0) (advance_post memo)"
    by (rule advance_valid) simp_all
  then have run: "valid (copy_watch lib memo p) (catchp (bindp (advance_from lib memo p total_steps 0) (\<lambda>st. Ret (p, st)))
       (bindp (step_do memo ''retain-copy-stop'' 2 (cancel_op lib p)) (\<lambda>_. Ret (p, Copy_blocked)))) (Next 0) (run_post memo)"
    unfolding valid_catchp valid_bindp
    by (rule valid_mono)
      (auto simp: advance_post_def run_post_def intro!: valid_mono [OF stop_valid] split: sum.splits)
  then show ?thesis using assms by (simp add: copy_run_def run_post_def del: valid_catchp)
qed

end
