(* ===== verification/SourceReader.thy ===== *)
theory SourceReader imports Wire Schema "HOL-Library.List_Lexorder" begin

section \<open>The registered source reader\<close>

text \<open>
  \<open>crates/work-source-worker/src/core.ts\<close> and \<open>worker.ts\<close>: reads a registered selection of files from one commit
  and returns their contents, each checked against its digests. In this theory a text is the list of its
  UTF-8 bytes, so that \<open>TextEncoder\<close> is the identity; \<open>utf8\<close> is what the fatal decoder accepts. The two digests
  and \<open>JSON.parse\<close> are parameters; a blob the remote repository gives is its stated size and its bytes.
\<close>

subsection \<open>Texts as bytes\<close>

definition byte_of :: "char \<Rightarrow> nat" where "byte_of c = of_char c"

definition continuation_byte :: "nat \<Rightarrow> bool" where "continuation_byte b \<longleftrightarrow> 128 \<le> b \<and> b < 192"

fun utf8_bytes :: "nat list \<Rightarrow> bool" where
  "utf8_bytes [] = True"
| "utf8_bytes (b # bs) =
     (if b < 128 then utf8_bytes bs
      else if b < 194 then False
      else if b < 224 then (case bs of x # r \<Rightarrow> continuation_byte x \<and> utf8_bytes r | _ \<Rightarrow> False)
      else if b < 240 then (case bs of x # y # r \<Rightarrow>
          continuation_byte x \<and> continuation_byte y \<and> (b = 224 \<longrightarrow> 160 \<le> x) \<and> (b = 237 \<longrightarrow> x < 160) \<and> utf8_bytes r | _ \<Rightarrow> False)
      else if b < 245 then (case bs of x # y # z # r \<Rightarrow>
          continuation_byte x \<and> continuation_byte y \<and> continuation_byte z \<and> (b = 240 \<longrightarrow> 144 \<le> x) \<and> (b = 244 \<longrightarrow> x < 144) \<and> utf8_bytes r | _ \<Rightarrow> False)
      else False)"

definition utf8 :: "string \<Rightarrow> bool" where "utf8 s = utf8_bytes (map byte_of s)"

text \<open>\<open>/[\u0000-\u0008\u000b\u000c\u000e-\u001f\u007f-\u009f]/\<close>: the last range is 7F, or C2 and then 80 to 9F.\<close>

fun has_control :: "nat list \<Rightarrow> bool" where
  "has_control [] = False"
| "has_control (b # bs) = (b \<le> 8 \<or> b = 11 \<or> b = 12 \<or> (14 \<le> b \<and> b \<le> 31) \<or> b = 127
     \<or> (b = 194 \<and> (case bs of x # _ \<Rightarrow> 128 \<le> x \<and> x < 160 | [] \<Rightarrow> False)) \<or> has_control bs)"

definition lfs_marker :: string where
  "lfs_marker = ''version https://git-lfs.github.com/spec/v1'' @ [CHR 0x0A]"

definition starts_with :: "string \<Rightarrow> string \<Rightarrow> bool" where
  "starts_with p s \<longleftrightarrow> take (length p) s = p"

text \<open>The text of a file: what the fatal decoder accepts, without control characters, not a pointer.\<close>

definition file_text :: "string \<Rightarrow> bool" where
  "file_text s \<longleftrightarrow> utf8 s \<and> \<not> has_control (map byte_of s) \<and> \<not> starts_with lfs_marker s"

subsection \<open>Paths\<close>

fun split_on :: "char \<Rightarrow> string \<Rightarrow> string list" where
  "split_on d [] = [[]]"
| "split_on d (c # cs) = (if c = d then [] # split_on d cs
     else (case split_on d cs of [] \<Rightarrow> [[c]] | s # ss \<Rightarrow> (c # s) # ss))"

definition lower :: "char \<Rightarrow> char" where
  "lower c = (if 65 \<le> byte_of c \<and> byte_of c \<le> 90 then char_of (byte_of c + 32) else c)"

definition path_part :: "string \<Rightarrow> bool" where
  "path_part s \<longleftrightarrow> s \<noteq> [] \<and> s \<noteq> ''.'' \<and> s \<noteq> ''..'' \<and> \<not> starts_with ''.git'' (map lower s)"

definition source_path :: "string \<Rightarrow> bool" where
  "source_path s \<longleftrightarrow> s \<noteq> [] \<and> length s \<le> 256
     \<and> list_all (\<lambda>c. 32 \<le> byte_of c \<and> byte_of c \<noteq> 127 \<and> c \<noteq> CHR 0x5C) s
     \<and> list_all path_part (split_on CHR ''/'' s)"

text \<open>\<open>comparePaths\<close>: the loop over the common indices, then the lengths.\<close>

fun compare_bytes :: "nat list \<Rightarrow> nat list \<Rightarrow> int" where
  "compare_bytes (a # as) (b # bs) = (if a \<noteq> b then int a - int b else compare_bytes as bs)"
| "compare_bytes as bs = int (length as) - int (length bs)"

definition comparePaths :: "string \<Rightarrow> string \<Rightarrow> int" where
  "comparePaths a b = compare_bytes (map byte_of a) (map byte_of b)"

subsection \<open>The selection\<close>

record source_file =
  sf_path :: string
  sf_blob :: string
  sf_mode :: string
  sf_bytes :: int
  sf_sha256 :: string

record source_read =
  sr_source_id :: string
  sr_revision :: int
  sr_repo_name :: string
  sr_commit :: string
  sr_tree :: string
  sr_files :: "source_file list"

definition registered_repo :: "string \<Rightarrow> bool" where
  "registered_repo s = (case s of [] \<Rightarrow> False
     | c # cs \<Rightarrow> c \<in> set ''abcdefghijklmnopqrstuvwxyz0123456789''
         \<and> of_class ''abcdefghijklmnopqrstuvwxyz0123456789_-'' 0 63 cs)"

definition source_file_schema :: "json \<Rightarrow> bool" where
  "source_file_schema v \<longleftrightarrow> strict_object v [''path'', ''blob'', ''mode'', ''bytes'', ''sha256'']
     \<and> str_test source_path (get v ''path'') \<and> oid (get v ''blob'')
     \<and> get v ''mode'' \<in> set [JStr ''100644'', JStr ''100755''] \<and> int_in (get v ''bytes'') 0 16384 \<and> hex (get v ''sha256'')"

definition as_source_file :: "json \<Rightarrow> source_file" where
  "as_source_file v = \<lparr>sf_path = the_str (get v ''path''), sf_blob = the_str (get v ''blob''), sf_mode = the_str (get v ''mode''),
     sf_bytes = the_int (get v ''bytes''), sf_sha256 = the_str (get v ''sha256'')\<rparr>"

fun ascending :: "source_file list \<Rightarrow> bool" where
  "ascending (f # g # fs) = (comparePaths (sf_path f) (sf_path g) < 0 \<and> ascending (g # fs))"
| "ascending _ = True"

definition selection_ok :: "source_file list \<Rightarrow> bool" where
  "selection_ok fs \<longleftrightarrow> sum_list (map sf_bytes fs) \<le> 131072 \<and> ascending fs"

definition registeredReadSchema :: "json \<Rightarrow> source_read option" where
  "registeredReadSchema v = (case get v ''files'' of
     JArr fs \<Rightarrow>
       if strict_object v [''format_version'', ''source_id'', ''source_revision'', ''repo_name'', ''commit'', ''tree'', ''files'']
          \<and> get v ''format_version'' = JNum 1 \<and> resource (get v ''source_id'')
          \<and> int_in (get v ''source_revision'') 1 max_safe_integer \<and> str_test registered_repo (get v ''repo_name'')
          \<and> oid (get v ''commit'') \<and> oid (get v ''tree'')
          \<and> 1 \<le> length fs \<and> length fs \<le> 32 \<and> list_all source_file_schema fs \<and> selection_ok (map as_source_file fs)
       then Some \<lparr>sr_source_id = the_str (get v ''source_id''), sr_revision = the_int (get v ''source_revision''),
         sr_repo_name = the_str (get v ''repo_name''), sr_commit = the_str (get v ''commit''), sr_tree = the_str (get v ''tree''),
         sr_files = map as_source_file fs\<rparr>
       else None
   | _ \<Rightarrow> None)"

subsection \<open>Reading\<close>

datatype source_call =
    Artifacts_get string
  | Read_commit string
  | Read_blob string
  | Read_file string string
  | Repo_dispose

datatype source_answer =
    S_failed
  | S_done
  | S_commit "(string \<times> string) option"
  | S_blob "(int \<times> string) option"

definition s_done :: "source_answer \<Rightarrow> unit option" where
  "s_done a = (case a of S_failed \<Rightarrow> None | _ \<Rightarrow> Some ())"

definition s_commit :: "source_answer \<Rightarrow> (string \<times> string) option option" where
  "s_commit a = (case a of S_commit x \<Rightarrow> Some x | _ \<Rightarrow> None)"

definition s_blob :: "source_answer \<Rightarrow> (int \<times> string) option option" where
  "s_blob a = (case a of S_blob x \<Rightarrow> Some x | _ \<Rightarrow> None)"

type_synonym 'a source_task = "(source_call, source_answer, 'a) task"

record hashes =
  sha1_hex :: "string \<Rightarrow> string"
  sha256_of :: "string \<Rightarrow> string"
  parse_text :: "string \<Rightarrow> json option"

text \<open>The object Git hashes for a blob.\<close>

definition git_blob :: "string \<Rightarrow> string" where
  "git_blob bytes = ''blob '' @ string_of_int (int (length bytes)) @ [CHR 0x00] @ bytes"

definition sized :: "source_file \<Rightarrow> (int \<times> string) option \<Rightarrow> string source_task" where
  "sized f x = (case x of
     None \<Rightarrow> Exc Source_unavailable
   | Some (n, bytes) \<Rightarrow> if n \<noteq> sf_bytes f \<or> n > 16384 then Exc Source_unavailable else Ret bytes)"

definition read_one :: "hashes \<Rightarrow> source_read \<Rightarrow> source_file \<Rightarrow> string source_task" where
  "read_one h i f =
     bindp (perform (Read_blob (sf_blob f)) s_blob) (\<lambda>x.
     bindp (sized f x) (\<lambda>bytes.
     bindp (throw_if (sha1_hex h (git_blob bytes) \<noteq> sf_blob f \<or> sha256_of h bytes \<noteq> sf_sha256 f) Source_unavailable) (\<lambda>_.
     bindp (perform (Read_file (sr_commit i) (sf_path f)) s_blob) (\<lambda>y.
     bindp (sized f y) (\<lambda>selected.
     bindp (throw_if (sha256_of h selected \<noteq> sf_sha256 f) Source_unavailable) (\<lambda>_.
     bindp (throw_if (\<not> file_text bytes) Source_unavailable) (\<lambda>_.
     Ret bytes)))))))"

fun read_all :: "hashes \<Rightarrow> source_read \<Rightarrow> source_file list \<Rightarrow> string list source_task" where
  "read_all h i [] = Ret []"
| "read_all h i (f # fs) = bindp (read_one h i f) (\<lambda>c. bindp (read_all h i fs) (\<lambda>cs. Ret (c # cs)))"

definition source_json :: "source_read \<Rightarrow> string list \<Rightarrow> json" where
  "source_json i cs = JObj [(''format_version'', JNum 1), (''source_id'', JStr (sr_source_id i)),
     (''source_revision'', JNum (sr_revision i)), (''commit'', JStr (sr_commit i)), (''tree'', JStr (sr_tree i)),
     (''files'', JArr (map (\<lambda>(f, c). JObj [(''path'', JStr (sf_path f)), (''blob'', JStr (sf_blob f)), (''content'', JStr c)])
        (zip (sr_files i) cs)))]"

definition read_selection :: "hashes \<Rightarrow> source_read \<Rightarrow> string source_task" where
  "read_selection h i =
     bindp (perform (Read_commit (sr_commit i)) s_commit) (\<lambda>c.
     bindp (throw_if (c \<noteq> Some (sr_commit i, sr_tree i)) Source_unavailable) (\<lambda>_.
     bindp (read_all h i (sr_files i)) (\<lambda>cs.
     Ret (stringify (source_json i cs)))))"

definition read_input :: "hashes \<Rightarrow> string \<Rightarrow> source_read option" where
  "read_input h s = (if int (length s) > 32768 then None
     else case parse_text h s of None \<Rightarrow> None | Some v \<Rightarrow> registeredReadSchema v)"

definition readRegisteredSource :: "hashes \<Rightarrow> string \<Rightarrow> string source_task" where
  "readRegisteredSource h s = (case read_input h s of
     None \<Rightarrow> Exc Source_unavailable
   | Some i \<Rightarrow> bindp (perform (Artifacts_get (sr_repo_name i)) s_done) (\<lambda>_.
       finallyp (read_selection h i) (perform Repo_dispose s_done)))"

text \<open>The entry point: any error is the same.\<close>

definition source_reader :: "hashes \<Rightarrow> string \<Rightarrow> string \<Rightarrow> string source_task" where
  "source_reader h enabled s =
     (if enabled \<noteq> ''true'' then Exc Source_unavailable
      else catchp (readRegisteredSource h s) (Exc Source_unavailable))"

end
