(* ===== verification/SourceLaws.thy ===== *)
theory SourceLaws imports SourceReader begin

section \<open>What the source reader promises\<close>

subsection \<open>The order of paths\<close>

lemma compare_bytes_less: "compare_bytes as bs < 0 \<longleftrightarrow> as < bs"
proof (induction as arbitrary: bs)
  case (Cons a as)
  then show ?case by (cases bs) auto
next
  case Nil
  then show ?case by (cases bs) simp_all
qed

lemma compare_bytes_eq: "compare_bytes as bs = 0 \<longleftrightarrow> as = bs"
  by (induction as bs rule: compare_bytes.induct) auto

lemma inj_byte_of: "inj byte_of"
  by (auto simp: inj_def byte_of_def)

lemma comparePaths_iff:
  "comparePaths a b < 0 \<longleftrightarrow> map byte_of a < map byte_of b" "comparePaths a b = 0 \<longleftrightarrow> a = b"
  by (auto simp: comparePaths_def compare_bytes_less compare_bytes_eq inj_map_eq_map [OF inj_byte_of])

lemma ascending_sorted:
  "ascending fs \<Longrightarrow> sorted_wrt (<) (map (\<lambda>f. map byte_of (sf_path f)) fs)"
proof (induction fs rule: ascending.induct)
  case (1 f g fs)
  then have "sorted_wrt (<) (map (\<lambda>f. map byte_of (sf_path f)) (g # fs))" and "map byte_of (sf_path f) < map byte_of (sf_path g)"
    by (simp_all add: comparePaths_iff)
  then show ?case by (auto dest: less_trans)
qed auto

lemma ascending_distinct: "ascending fs \<Longrightarrow> distinct (map sf_path fs)"
proof -
  assume "ascending fs"
  then have "distinct (map (\<lambda>f. map byte_of (sf_path f)) fs)"
    using ascending_sorted strict_sorted_iff by blast
  then show "distinct (map sf_path fs)" by (auto simp: distinct_map inj_on_def)
qed

lemma file_schema_bounds:
  assumes "source_file_schema v"
  shows "0 \<le> sf_bytes (as_source_file v)" "sf_bytes (as_source_file v) \<le> 16384" "source_path (sf_path (as_source_file v))"
  using assms by (auto simp: source_file_schema_def as_source_file_def int_in_iff str_test_iff)

lemma lower_dot_git: "starts_with ''.git'' x \<Longrightarrow> starts_with ''.git'' (map lower x)"
  by (simp add: starts_with_def take_map) (simp add: lower_def byte_of_def)

definition safe_part :: "string \<Rightarrow> bool" where
  "safe_part x \<longleftrightarrow> x \<noteq> [] \<and> x \<noteq> ''..'' \<and> \<not> starts_with ''.git'' x"

lemma source_path_safe: "source_path s \<Longrightarrow> length s \<le> 256 \<and> list_all safe_part (split_on CHR ''/'' s)"
  using lower_dot_git by (auto simp: source_path_def list_all_iff path_part_def safe_part_def)

subsection \<open>Contents are checked\<close>

text \<open>\<open>content_ok h i f c t\<close>: \<open>c\<close> hashes to the digests of \<open>f\<close>, and in \<open>t\<close> the path of \<open>f\<close> was read at the
  commit, with bytes of the same digest and the stated size.\<close>

definition content_ok :: "hashes \<Rightarrow> source_read \<Rightarrow> source_file \<Rightarrow> string \<Rightarrow> (source_call \<times> source_answer) list \<Rightarrow> bool" where
  "content_ok h i f c t \<longleftrightarrow> sha1_hex h (git_blob c) = sf_blob f \<and> sha256_of h c = sf_sha256 f \<and> file_text c
     \<and> (Read_blob (sf_blob f), S_blob (Some (sf_bytes f, c))) \<in> set t
     \<and> (\<exists>b. sha256_of h b = sf_sha256 f \<and> (Read_file (sr_commit i) (sf_path f), S_blob (Some (sf_bytes f, b))) \<in> set t)"

text \<open>A watch that records the trace.\<close>

definition trace_watch :: "('q, 'y, ('q \<times> 'y) list) watch" where
  "trace_watch = \<lparr>permitted = (\<lambda>_ _. True), after = (\<lambda>t q a. t @ [(q, a)])\<rparr>"

lemma trace_watch_simps [simp]: "permitted trace_watch t q" "after trace_watch t q a = t @ [(q, a)]"
  by (simp_all add: trace_watch_def)

lemma after_all_trace: "after_all trace_watch t u = t @ u"
  by (induction u arbitrary: t) auto

lemma s_views [simp]:
  "s_commit a = Some x \<longleftrightarrow> a = S_commit x" "s_blob a = Some y \<longleftrightarrow> a = S_blob y"
  by (cases a; simp add: s_commit_def s_blob_def)+

lemma sized_valid:
  "(\<And>e. Q m (Inl e)) \<Longrightarrow> (\<And>bytes. x = Some (sf_bytes f, bytes) \<Longrightarrow> Q m (Inr bytes)) \<Longrightarrow> valid M (sized f x) m Q"
  by (auto simp: sized_def split: option.split)

definition grown :: "'x list \<Rightarrow> 'x list \<Rightarrow> bool" where
  "grown t u \<longleftrightarrow> (\<exists>v. u = t @ v)"

lemma grown_trans: "grown t u \<Longrightarrow> grown u w \<Longrightarrow> grown t w"
  by (auto simp: grown_def)

lemma content_ok_grown: "content_ok h i f c u \<Longrightarrow> grown u w \<Longrightarrow> content_ok h i f c w"
  by (auto simp: content_ok_def grown_def)

lemma contents_later:
  "list_all2 (\<lambda>f c. content_ok h i f c u) fs cs \<Longrightarrow> list_all2 (\<lambda>f c. content_ok h i f c (u @ v)) fs cs"
  by (erule list_all2_mono) (auto intro: content_ok_grown simp: grown_def)

lemma read_one_valid:
  "valid trace_watch (read_one h i f) t (\<lambda>u r. grown t u \<and> (\<forall>c. r = Inr c \<longrightarrow> content_ok h i f c u))"
  by (auto simp: read_one_def grown_def content_ok_def intro!: sized_valid split: option.split sum.split; blast)

lemma read_all_valid:
  "valid trace_watch (read_all h i fs) t (\<lambda>u r. grown t u \<and> (\<forall>cs. r = Inr cs \<longrightarrow> list_all2 (\<lambda>f c. content_ok h i f c u) fs cs))"
proof (induction fs arbitrary: t)
  case (Cons f fs)
  have rest: "valid trace_watch (bindp (read_all h i fs) (\<lambda>cs. Ret (c # cs))) u
      (\<lambda>w r. grown t w \<and> (\<forall>cs. r = Inr cs \<longrightarrow> list_all2 (\<lambda>f c. content_ok h i f c w) (f # fs) cs))"
    if "grown t u" and "content_ok h i f c u" for c u
    unfolding valid_bindp
    by (rule valid_mono [OF Cons.IH]) (use that in \<open>auto split: sum.split intro: grown_trans content_ok_grown\<close>)
  show ?case unfolding read_all.simps valid_bindp [of _ "read_one h i f"]
    by (rule valid_mono [OF read_one_valid]) (auto split: sum.split intro!: rest simp del: valid_bindp)
qed (simp add: grown_def)

lemma reader_valid:
  "valid trace_watch (readRegisteredSource h s) [] (\<lambda>u r. \<forall>out. r = Inr out \<longrightarrow> (\<exists>i cs. read_input h s = Some i
     \<and> (Read_commit (sr_commit i), S_commit (Some (sr_commit i, sr_tree i))) \<in> set u
     \<and> list_all2 (\<lambda>f c. content_ok h i f c u) (sr_files i) cs \<and> out = stringify (source_json i cs)))"
proof (cases "read_input h s")
  case (Some i)
  have selection: "valid trace_watch (read_selection h i) t (\<lambda>u r. \<forall>out. r = Inr out \<longrightarrow> (\<exists>cs.
     (Read_commit (sr_commit i), S_commit (Some (sr_commit i, sr_tree i))) \<in> set u
     \<and> list_all2 (\<lambda>f c. content_ok h i f c u) (sr_files i) cs \<and> out = stringify (source_json i cs)))" for t
    by (auto simp: read_selection_def grown_def intro!: valid_mono [OF read_all_valid] split: option.split sum.split; blast)
  show ?thesis using Some
    by (auto simp: readRegisteredSource_def intro!: valid_mono [OF selection] split: option.split sum.split;
        blast intro: contents_later)
qed (simp add: readRegisteredSource_def)

end
