(* ===== verification/ServicePromises.thy ===== *)
theory ServicePromises imports Qualification CopyLaws SourceLaws Lifecycle begin

section \<open>Promises of the qualification, the copy workflow and the source reader\<close>

subsection \<open>Qualification\<close>

text \<open>C36. Over every history of the qualification object with crashes and restarts: the container is started at
  most once for each retained attempt and once for the retained restart experiment; the attempts are 1 to n with n at
  most 3, the experiment is retained only after all three, and no Git exchange is ever sent.\<close>

theorem qualification_starts_are_bounded:
  assumes "site_reachable (qual_step env) qual_restarted (permit_watch qual_gains qual_uses) (qual_handlers lib env cont) new_qual z"
  shows "length (filter (\<lambda>q. \<exists>i n. q = Start_container i n) (site_calls z))
       \<le> length (qo_attempts (site_state z)) + (if qo_restart (site_state z) = None then 0 else 1)
     \<and> qo_attempts (site_state z) = [1..int (length (qo_attempts (site_state z)))] \<and> length (qo_attempts (site_state z)) \<le> 3
     \<and> (qo_restart (site_state z) = None \<or> length (qo_attempts (site_state z)) = 3)
     \<and> filter (\<lambda>q. \<exists>auth v. q = Port_execute auth v) (site_calls z) = []"
proof -
  let ?uses = "qual_uses :: qual_op host_call \<Rightarrow> qual_key multiset"
  have "qual_sane new_qual" by (simp add: qual_sane_def new_qual_def)
  then have all: "uses_of ?uses k (site_calls z) \<le> qual_capacity k (site_state z) \<and> qual_sane (site_state z)" for k
    using qualification.uses_within_capacity [OF assms qual_handlers_valid] by blast
  have "length (filter (\<lambda>q. \<exists>i n. q = Start_container i n) (site_calls z)) \<le> uses_of ?uses Container_start (site_calls z)"
    by (rule uses_of_filter) (auto simp: qual_uses_def)
  moreover have "length (filter (\<lambda>q. \<exists>auth v. q = Port_execute auth v) (site_calls z)) \<le> uses_of ?uses Git_exchange (site_calls z)"
    by (rule uses_of_filter) (auto simp: qual_uses_def)
  ultimately show ?thesis using all [of Container_start] all [of Git_exchange] unfolding qual_sane_def by (simp split: if_splits)
qed

definition qual_demo_env :: qual_env where
  "qual_demo_env = \<lparr>qe_provision = ''true'', qe_host = \<lparr>he_enabled = ''false'', he_account = rep 32 CHR ''d'',
     he_namespace = ''mikaki-dev'', he_authority = ''mikaki-git-host-qualification-v1'',
     he_disclosure = rep 64 CHR ''6'', he_registry = rep 64 CHR ''2''\<rparr>\<rparr>"

definition qual_demo_image :: string where
  "qual_demo_image = ''registry.cloudflare.com/'' @ rep 32 CHR ''d'' @ ''/mikaki@sha256:'' @ rep 64 CHR ''a''"

definition qual_demo_lib :: lib where
  "qual_demo_lib = \<lparr>parse_json = (\<lambda>_. None), sha256_hex = (\<lambda>_. [])\<rparr>"

text \<open>Three attempts and the restart experiment, each of which starts the container and never finds it ready.\<close>

definition qual_demo_attempt :: "int \<Rightarrow> (qual_op, json) host_task \<times> host_answer list" where
  "qual_demo_attempt n = (qualification_prepare qual_demo_lib qual_demo_env (Some (Some qual_demo_image)) 0,
     [H_done, H_count n, H_done, H_time 0, H_flag False, H_failed, H_done, H_done, H_done])"

definition qual_demo_restart :: "(qual_op, json) host_task \<times> host_answer list" where
  "qual_demo_restart = (qualifyRestart qual_demo_lib qual_demo_env (Some (Some qual_demo_image)) 0,
     [H_done, H_flag False, H_done, H_done, H_time 0, H_flag False, H_failed, H_done, H_done, H_done])"

definition qual_demo_served :: "(qual_object \<times> qual_op host_call list) option" where
  "qual_demo_served = serves (qual_step qual_demo_env) new_qual (map qual_demo_attempt [1, 2, 3] @ [qual_demo_restart])"

lemma qual_demo_run:
  "(case qual_demo_served of None \<Rightarrow> (0, [], False, []) | Some (q, qs) \<Rightarrow>
      (length (filter (\<lambda>x. case x of Start_container _ _ \<Rightarrow> True | _ \<Rightarrow> False) qs), qo_attempts q, qo_restart q \<noteq> None,
       map fst (qo_outcomes q))) = (4, [1, 2, 3], True, [''1'', ''2'', ''3'', RESTART])"
  by code_simp

lemma qual_demo_handlers:
  "fst ` set (map qual_demo_attempt [1, 2, 3] @ [qual_demo_restart])
     \<subseteq> qual_handlers qual_demo_lib qual_demo_env (Some (Some qual_demo_image))"
  by (auto simp: qual_handlers_def qual_demo_attempt_def qual_demo_restart_def)

theorem qualification_starts_are_bounded_witness:
  "\<exists>z :: (qual_object, qual_op, json, qual_key) site.
     length (filter (\<lambda>q. \<exists>i n. q = Start_container i n) (site_calls z)) = 4 \<and> length (qo_attempts (site_state z)) = 3"
proof -
  let ?R = "site_reachable (qual_step qual_demo_env) qual_restarted (permit_watch qual_gains qual_uses)
     (qual_handlers qual_demo_lib qual_demo_env (Some (Some qual_demo_image))) new_qual"
  obtain q qs where served: "serves (qual_step qual_demo_env) new_qual (map qual_demo_attempt [1, 2, 3] @ [qual_demo_restart]) = Some (q, qs)"
    and run: "length (filter (\<lambda>x. case x of Start_container _ _ \<Rightarrow> True | _ \<Rightarrow> False) qs) = 4" "qo_attempts q = [1, 2, 3]"
    using qual_demo_run unfolding qual_demo_served_def by (auto split: option.splits)
  obtain z :: "(qual_object, qual_op, json, qual_key) site" where z: "?R z" "site_state z = q" "site_calls z = rev qs"
    using site_requests [OF site_reachable.initially qual_demo_handlers, of "qual_step qual_demo_env" new_qual q qs] served by fastforce
  have "(\<lambda>x. case x of Start_container _ _ \<Rightarrow> True | _ \<Rightarrow> False) = (\<lambda>x :: qual_op host_call. \<exists>i n. x = Start_container i n)"
    by (auto simp: fun_eq_iff split: host_call.splits)
  then have "4 \<le> length (filter (\<lambda>q. \<exists>i n. q = Start_container i n) (site_calls z))"
    using run(1) z(3) by (simp add: rev_filter [symmetric])
  then show ?thesis using qualification_starts_are_bounded [OF z(1)] run(2) z(2) by (intro exI [of _ z]) (auto split: if_splits)
qed

subsection \<open>The copy workflow\<close>

text \<open>C37. Every run of the workflow, whatever results earlier runs retained: asks the store for its steps in
  increasing order from the first that is not retained, each only after all earlier ones answered running, at most
  nineteen; after any other answer or failure sends nothing but the cancellation, at most three times; and answers
  verified only if the last step it asked for, or the first retained one that is not running, was answered verified.\<close>

theorem copy_steps_in_order:
  assumes "copy_input payload = Inr p" and "run_prog (copy_run lib memo enabled payload instance_name) as = (t, r)"
  shows "accepts (copy_watch lib memo p) (Next 0) t
     \<and> (\<forall>q. r = Returned (q, Copy_verified) \<longrightarrow> after_all (copy_watch lib memo p) (Next 0) t = Ended Copy_verified
          \<or> (\<exists>n. after_all (copy_watch lib memo p) (Next 0) t = Next n \<and> memo_verified memo n))"
  using valid_run [OF copy_run_valid [OF assms(1)] assms(2)] by (auto simp: run_post_def)

definition copy_demo_id :: string where "copy_demo_id = rep 43 CHR ''p''"

definition copy_demo_reply :: "string \<Rightarrow> int \<Rightarrow> json" where
  "copy_demo_reply st n = JObj [(''preparation_id'', JStr copy_demo_id), (''state'', JStr st), (''next_step'', JNum n)]"

definition copy_demo_lib :: lib where
  "copy_demo_lib = \<lparr>parse_json = map_of [(''running'', copy_demo_reply ''running'' 3), (''verified'', copy_demo_reply ''verified'' 19),
     (''blocked'', copy_demo_reply ''blocked'' 4)], sha256_hex = (\<lambda>_. [])\<rparr>"

definition copy_demo_memo :: step_memo where
  "copy_demo_memo = [step_name 0 \<mapsto> Job copy_demo_id Copy_running 1]"

definition copy_demo_payload :: json where
  "copy_demo_payload = JObj [(''preparation_id'', JStr copy_demo_id)]"

definition copy_demo_run :: "copy_answer list \<Rightarrow> (copy_call \<times> copy_answer) list \<times> (string \<times> copy_state) outcome_of" where
  "copy_demo_run = run_prog (copy_run copy_demo_lib copy_demo_memo ''true'' copy_demo_payload (instance_id copy_demo_id))"

text \<open>The first step is retained; the run asks for steps 1 and 2, loses a reply and cancels twice.\<close>

lemma copy_demo_runs:
  "copy_demo_run [C_reply 200 (Some [''running'']), C_failed, C_reply 500 None, C_reply 200 (Some [''blocked''])] =
     (zip [Op_copy (advance_json copy_demo_id 1), Op_copy (advance_json copy_demo_id 2), Op_copy (cancel_json copy_demo_id),
           Op_copy (cancel_json copy_demo_id)]
        [C_reply 200 (Some [''running'']), C_failed, C_reply 500 None, C_reply 200 (Some [''blocked''])],
      Returned (copy_demo_id, Copy_blocked))"
  by code_simp

lemma copy_demo_verified:
  "snd (copy_demo_run (replicate 17 (C_reply 200 (Some [''running''])) @ [C_reply 200 (Some [''verified''])])) =
     Returned (copy_demo_id, Copy_verified)"
  by code_simp

lemma copy_demo_input: "copy_input copy_demo_payload = Inr copy_demo_id"
  by code_simp

theorem copy_steps_in_order_witness:
  "accepts (copy_watch copy_demo_lib copy_demo_memo copy_demo_id) (Next 0)
     (zip [Op_copy (advance_json copy_demo_id 1), Op_copy (advance_json copy_demo_id 2), Op_copy (cancel_json copy_demo_id),
           Op_copy (cancel_json copy_demo_id)]
        [C_reply 200 (Some [''running'']), C_failed, C_reply 500 None, C_reply 200 (Some [''blocked''])])"
  using copy_steps_in_order [OF copy_demo_input copy_demo_runs [unfolded copy_demo_run_def]] by blast

subsection \<open>The source reader\<close>

text \<open>C38. Every content the source reader returns was read as the blob it names and hashes to its Git object name and its
  SHA-256 digest, is UTF-8 text without control characters, and the same digest was read at its path in the commit,
  whose tree the repository confirmed.\<close>

theorem source_contents_are_checked:
  assumes "run_prog (readRegisteredSource h s) as = (t, Returned out)"
  shows "\<exists>i cs. read_input h s = Some i \<and> (Read_commit (sr_commit i), S_commit (Some (sr_commit i, sr_tree i))) \<in> set t
     \<and> list_all2 (\<lambda>f c. content_ok h i f c t) (sr_files i) cs \<and> out = stringify (source_json i cs)"
  using valid_run [OF reader_valid assms] by (simp add: after_all_trace)

definition source_demo_json :: json where
  "source_demo_json = (let f = \<lambda>p. JObj [(''path'', JStr p), (''blob'', JStr (rep 40 CHR ''1'')), (''mode'', JStr ''100644''),
       (''bytes'', JNum 2), (''sha256'', JStr (rep 64 CHR ''2''))] in
     JObj [(''format_version'', JNum 1), (''source_id'', JStr ''source''), (''source_revision'', JNum 1), (''repo_name'', JStr ''repo''),
       (''commit'', JStr (rep 40 CHR ''c'')), (''tree'', JStr (rep 40 CHR ''d'')), (''files'', JArr [f ''a/b'', f ''a0''])])"

definition source_demo :: hashes where
  "source_demo = \<lparr>sha1_hex = (\<lambda>_. rep 40 CHR ''1''), sha256_of = (\<lambda>_. rep 64 CHR ''2''),
     parse_text = (\<lambda>s. if s = ''input'' then Some source_demo_json else None)\<rparr>"

definition source_demo_answers :: "source_answer list" where
  "source_demo_answers = [S_done, S_commit (Some (rep 40 CHR ''c'', rep 40 CHR ''d'')), S_blob (Some (2, ''hi'')), S_blob (Some (2, ''hi'')),
     S_blob (Some (2, ''yo'')), S_blob (Some (2, ''yo'')), S_done]"

lemma source_demo_returns:
  "(case snd (run_prog (readRegisteredSource source_demo ''input'') source_demo_answers) of Returned _ \<Rightarrow> True | _ \<Rightarrow> False)
   \<and> length (fst (run_prog (readRegisteredSource source_demo ''input'') source_demo_answers)) = 7"
  by code_simp

theorem source_contents_are_checked_witness:
  "\<exists>i cs. read_input source_demo ''input'' = Some i
     \<and> list_all2 (\<lambda>f c. content_ok source_demo i f c (fst (run_prog (readRegisteredSource source_demo ''input'') source_demo_answers)))
         (sr_files i) cs"
proof -
  obtain out where "snd (run_prog (readRegisteredSource source_demo ''input'') source_demo_answers) = Returned out"
    using source_demo_returns by (auto split: outcome_of.splits)
  then have "run_prog (readRegisteredSource source_demo ''input'') source_demo_answers =
      (fst (run_prog (readRegisteredSource source_demo ''input'') source_demo_answers), Returned out)"
    by (metis prod.collapse)
  from source_contents_are_checked [OF this] show ?thesis by blast
qed

text \<open>C39. A selection the reader accepts has 1 to 32 files of at most 16384 bytes each and 131072 together, on
  distinct paths in strictly increasing order of their UTF-8 bytes, none of which leaves the tree or enters a
  directory of Git.\<close>

theorem selections_are_bounded:
  assumes "registeredReadSchema v = Some i"
  shows "1 \<le> length (sr_files i) \<and> length (sr_files i) \<le> 32 \<and> sum_list (map sf_bytes (sr_files i)) \<le> 131072
     \<and> list_all (\<lambda>f. 0 \<le> sf_bytes f \<and> sf_bytes f \<le> 16384 \<and> length (sf_path f) \<le> 256
          \<and> list_all safe_part (split_on CHR ''/'' (sf_path f))) (sr_files i)
     \<and> sorted_wrt (<) (map (\<lambda>f. map byte_of (sf_path f)) (sr_files i)) \<and> distinct (map sf_path (sr_files i))"
proof -
  obtain fs where i: "sr_files i = map as_source_file fs" "1 \<le> length fs" "length fs \<le> 32" "list_all source_file_schema fs"
    "selection_ok (sr_files i)"
    using assms by (auto simp: registeredReadSchema_def split: json.splits if_splits)
  then have "list_all (\<lambda>f. 0 \<le> sf_bytes f \<and> sf_bytes f \<le> 16384 \<and> length (sf_path f) \<le> 256
      \<and> list_all safe_part (split_on CHR ''/'' (sf_path f))) (sr_files i)"
    using file_schema_bounds source_path_safe unfolding list_all_iff by fastforce
  then show ?thesis using i ascending_sorted [of "sr_files i"] ascending_distinct [of "sr_files i"]
    by (simp add: selection_ok_def)
qed

lemma source_demo_selection: "registeredReadSchema source_demo_json \<noteq> None"
  by code_simp

theorem selections_are_bounded_witness:
  "1 \<le> length (sr_files (the (registeredReadSchema source_demo_json))) \<and> distinct (map sf_path (sr_files (the (registeredReadSchema source_demo_json))))"
proof -
  obtain i where i: "registeredReadSchema source_demo_json = Some i" using source_demo_selection by blast
  show ?thesis using selections_are_bounded [OF i] unfolding i by simp
qed

end
