(* ===== verification/AgentTables.thy ===== *)
theory AgentTables imports Json "HOL-Library.Monad_Syntax" begin

section \<open>The tables of delegated agent access\<close>

text \<open>
  The agent worker keeps its state in a SQL database it shares with the identity provider
  (\<open>worker/migrations/0001_owner_vault_initial.sql\<close>). This theory has the rows of the tables the
  worker's statements name, the parts of SQL these statements use, and the triggers the schema
  attaches to the tables.

  \<^item> A table is the list of its rows. \<open>INSERT\<close> checks the primary key and the \<open>UNIQUE\<close>, \<open>CHECK\<close> and
    foreign-key constraints, \<open>UPDATE\<close> and \<open>DELETE\<close> run their triggers and cascades. A violated
    constraint or a \<open>RAISE(ABORT)\<close> of a trigger is \<open>None\<close>: the transaction is rolled back.
  \<^item> Flags stored as 0 and 1 are \<open>bool\<close>, nullable columns are options, and a column that holds a JSON
    array of strings is the list of the strings. The columns of the provider that the statements
    never read are left out.
  \<^item> The code writes rows of storage version 2 only; their source and target columns are not null.
\<close>

subsection \<open>Rows the agent worker writes\<close>

record source_row =
  sr_origin :: string
  sr_vault :: string
  sr_collection :: string
  sr_record :: string
  sr_kind :: string
  sr_revision :: int
  sr_sha :: string
  sr_generation :: int
  sr_owner_revision :: int

record agent_grant =
  ag_id :: string
  ag_account :: string
  ag_epoch :: int
  ag_credential :: string
  ag_delegate :: string
  ag_provider :: string
  ag_resource :: string
  ag_key :: string
  ag_operations :: "string list"
  ag_documents :: "string list"
  ag_snapshot :: "string option"
  ag_token :: string
  ag_request :: string
  ag_created :: int
  ag_expires :: int
  ag_revoked :: bool
  ag_revision :: int
  ag_version :: int
  ag_source :: source_row

datatype proposal_state = P_pending | P_approved | P_executed | P_rejected

record agent_proposal =
  ap_id :: string
  ap_grant :: string
  ap_request :: string
  ap_document :: string
  ap_title :: string
  ap_text :: "string option"
  ap_expires :: int
  ap_state :: proposal_state
  ap_approved :: "int option"
  ap_result :: "string option"
  ap_created :: int

record agent_draft =
  ad_id :: string
  ad_account :: string
  ad_proposal :: string
  ad_title :: string
  ad_text :: string
  ad_created :: int

record agent_audit =
  aa_id :: string
  aa_grant :: string
  aa_operation :: string
  aa_outcome :: string
  aa_document :: "string option"
  aa_created :: int

record target_row =
  tr_version :: int
  tr_base :: int
  tr_origin :: string
  tr_vault :: string
  tr_collection :: string
  tr_record :: string
  tr_kind :: string
  tr_sha :: "string option"
  tr_deleted :: bool
  tr_generation :: int
  tr_owner_revision :: int

record capability_row =
  ac_grant :: string
  ac_revision :: int
  ac_created :: int
  ac_expires :: int
  ac_target :: target_row

datatype record_state = R_pending | R_approved | R_rejected | R_invalid | R_committed

record record_proposal =
  rp_id :: string
  rp_grant :: string
  rp_revision :: int
  rp_request :: string
  rp_payload :: "string option"
  rp_expires :: int
  rp_created :: int
  rp_state :: record_state
  rp_target :: target_row

record record_commit =
  rc_proposal :: string
  rc_account :: string
  rc_operation :: string
  rc_candidate :: string
  rc_digest :: string
  rc_origin :: string
  rc_prepared :: int
  rc_result :: "int option"

record oauth_client =
  oc_id :: string
  oc_name :: string
  oc_uris :: "string list"
  oc_active :: bool

datatype consent = Consent_approved | Consent_denied

record oauth_request =
  or_id :: string
  or_client :: string
  or_redirect :: string
  or_resource :: string
  or_scopes :: "string list"
  or_state :: string
  or_challenge :: string
  or_created :: int
  or_expires :: int
  or_account :: "string option"
  or_secret :: "string option"
  or_grant :: "string option"
  or_revision :: "int option"
  or_decision :: "consent option"
  or_code :: "string option"
  or_code_expires :: "int option"
  or_redeemed :: "int option"
  or_origin :: string
  or_details :: "json option"

record oauth_token =
  ot_hash :: string
  ot_request :: string
  ot_client :: string
  ot_grant :: string
  ot_revision :: int
  ot_resource :: string
  ot_scopes :: "string list"
  ot_created :: int
  ot_expires :: int
  ot_revoked :: bool
  ot_details :: "json option"

subsection \<open>Rows the identity provider writes\<close>

record recipient_row =
  rk_id :: string
  rk_active :: bool

record account_row =
  sa_id :: string
  sa_epoch :: int
  sa_active :: bool

record credential_row =
  cr_id :: string
  cr_account :: string
  cr_active :: bool

record key_head =
  kh_account :: string
  kh_vault :: string
  kh_origin :: string
  kh_generation :: int
  kh_revision :: int
  kh_format :: int
  kh_suite :: string

record record_head =
  rh_account :: string
  rh_vault :: string
  rh_collection :: string
  rh_record :: string
  rh_kind :: string
  rh_revision :: int
  rh_generation :: int
  rh_format :: int
  rh_sha :: "string option"
  rh_deleted :: bool

record key_wrap =
  kw_account :: string
  kw_generation :: int
  kw_credential :: string

record sso_session =
  ss_id :: string
  ss_account :: string
  ss_credential :: string
  ss_epoch :: int
  ss_expires :: int
  ss_revoked :: bool

record agent_db =
  t_grants :: "agent_grant list"
  t_proposals :: "agent_proposal list"
  t_drafts :: "agent_draft list"
  t_audits :: "agent_audit list"
  t_capabilities :: "capability_row list"
  t_record_proposals :: "record_proposal list"
  t_commits :: "record_commit list"
  t_clients :: "oauth_client list"
  t_requests :: "oauth_request list"
  t_tokens :: "oauth_token list"
  t_recipients :: "recipient_row list"
  t_accounts :: "account_row list"
  t_credentials :: "credential_row list"
  t_key_heads :: "key_head list"
  t_record_heads :: "record_head list"
  t_key_wraps :: "key_wrap list"
  t_contexts :: "(string \<times> string) list"
  t_sessions :: "sso_session list"

text \<open>\<open>t_contexts\<close> has the pairs of \<open>sso_id\<close> and \<open>secret_hash\<close>.\<close>

subsection \<open>Statements over a table\<close>

definition update_rows :: "('r \<Rightarrow> bool) \<Rightarrow> ('r \<Rightarrow> 'r) \<Rightarrow> 'r list \<Rightarrow> 'r list" where
  "update_rows P f rs = map (\<lambda>r. if P r then f r else r) rs"

definition delete_rows :: "('r \<Rightarrow> bool) \<Rightarrow> 'r list \<Rightarrow> 'r list" where
  "delete_rows P rs = filter (\<lambda>r. \<not> P r) rs"

definition count_rows :: "('r \<Rightarrow> bool) \<Rightarrow> 'r list \<Rightarrow> nat" where
  "count_rows P rs = length (filter P rs)"

text \<open>\<open>each f xs s\<close>: \<open>f\<close> for every row of \<open>xs\<close>, until one aborts.\<close>

fun each :: "('x \<Rightarrow> 's \<Rightarrow> 's option) \<Rightarrow> 'x list \<Rightarrow> 's \<Rightarrow> 's option" where
  "each f [] s = Some s"
| "each f (x # xs) s = Option.bind (f x s) (each f xs)"

definition guard_row :: "bool \<Rightarrow> unit option" where
  "guard_row b = (if b then Some () else None)"

lemma guard_row_simps [simp]:
  "guard_row True = Some ()" "guard_row False = None" "guard_row b = Some u \<longleftrightarrow> b"
  by (simp_all add: guard_row_def)

lemma set_update_rows: "set (update_rows P f rs) = {f r | r. r \<in> set rs \<and> P r} \<union> {r \<in> set rs. \<not> P r}"
  by (auto simp: update_rows_def)

lemma in_update_rows: "x \<in> set (update_rows P f rs) \<longleftrightarrow> (\<exists>r \<in> set rs. x = (if P r then f r else r))"
  by (auto simp: update_rows_def)

lemma set_delete_rows [simp]: "set (delete_rows P rs) = {r \<in> set rs. \<not> P r}"
  by (auto simp: delete_rows_def)

lemma update_rows_none: "(\<And>r. r \<in> set rs \<Longrightarrow> \<not> P r) \<Longrightarrow> update_rows P f rs = rs"
  by (simp add: update_rows_def map_idI)

lemma map_update_rows [simp]: "(\<And>r. k (f r) = k r) \<Longrightarrow> map k (update_rows P f rs) = map k rs"
  by (simp add: update_rows_def)

lemma each_induct:
  assumes "each f xs s = Some t" and "Q s"
    and "\<And>x u v. x \<in> set xs \<Longrightarrow> Q u \<Longrightarrow> f x u = Some v \<Longrightarrow> Q v"
  shows "Q t"
  using assms
proof (induction xs arbitrary: s)
  case (Cons x xs)
  from Cons.prems(1) obtain u where u: "f x s = Some u" "each f xs u = Some t"
    by (auto split: Option.bind_splits)
  show ?case
  proof (rule Cons.IH [OF u(2)])
    show "Q u" using Cons.prems(3) [of x s u] Cons.prems(2) u(1) by simp
  qed (use Cons.prems(3) in auto)
qed simp

lemma each_Some:
  assumes "Q s" and "\<And>x u. x \<in> set xs \<Longrightarrow> Q u \<Longrightarrow> \<exists>v. f x u = Some v \<and> Q v"
  shows "\<exists>t. each f xs s = Some t \<and> Q t"
  using assms
proof (induction xs arbitrary: s)
  case (Cons x xs)
  obtain v where "f x s = Some v" "Q v" using Cons.prems(1) Cons.prems(2) [of x s] by auto
  moreover have "\<exists>t. each f xs v = Some t \<and> Q t"
    using Cons.IH [OF \<open>Q v\<close>] Cons.prems(2) by simp
  ultimately show ?case by simp
qed simp

subsection \<open>The audit log\<close>

definition insert_audit :: "agent_audit \<Rightarrow> agent_db \<Rightarrow> agent_db option" where
  "insert_audit a db = do {
     guard_row (\<forall>b \<in> set (t_audits db). aa_id b \<noteq> aa_id a);
     guard_row (\<exists>g \<in> set (t_grants db). ag_id g = aa_grant a);
     Some (db\<lparr>t_audits := t_audits db @ [a]\<rparr>) }"

subsection \<open>Triggers on record proposals\<close>

fun record_state_name :: "record_state \<Rightarrow> string" where
  "record_state_name R_pending = ''pending''"
| "record_state_name R_approved = ''approved''"
| "record_state_name R_rejected = ''rejected''"
| "record_state_name R_invalid = ''invalid''"
| "record_state_name R_committed = ''committed''"

fun proposal_state_name :: "proposal_state \<Rightarrow> string" where
  "proposal_state_name P_pending = ''pending''"
| "proposal_state_name P_approved = ''approved''"
| "proposal_state_name P_executed = ''executed''"
| "proposal_state_name P_rejected = ''rejected''"

text \<open>\<open>agent_attribute_proposal_immutable\<close>: the transitions it lets through.\<close>

definition record_transition :: "record_state \<Rightarrow> record_state \<Rightarrow> bool" where
  "record_transition old new \<longleftrightarrow> new = old
     \<or> old = R_pending \<and> new \<in> {R_approved, R_rejected, R_invalid}
     \<or> old = R_approved \<and> new \<in> {R_invalid, R_committed}"

definition record_open :: "record_proposal \<Rightarrow> bool" where
  "record_open p \<longleftrightarrow> rp_state p \<in> {R_pending, R_approved}"

definition proposal_open :: "agent_proposal \<Rightarrow> bool" where
  "proposal_open p \<longleftrightarrow> ap_state p \<in> {P_pending, P_approved}"

text \<open>
  One row of \<open>UPDATE agent_attribute_proposal SET state=st, payload=...\<close>, with the trigger that
  refuses other transitions and a payload that is not cleared, and
  \<open>agent_attribute_proposal_decision_audit\<close>.
\<close>

definition set_record_row ::
  "int \<Rightarrow> record_state \<Rightarrow> bool \<Rightarrow> record_proposal \<Rightarrow> agent_db \<Rightarrow> agent_db option" where
  "set_record_row clock st keep p db = do {
     guard_row (record_transition (rp_state p) st);
     let db' = db\<lparr>t_record_proposals := update_rows (\<lambda>r. rp_id r = rp_id p)
       (\<lambda>r. r\<lparr>rp_state := st, rp_payload := (if keep then rp_payload r else None)\<rparr>) (t_record_proposals db)\<rparr>;
     if st = rp_state p then Some db'
     else insert_audit \<lparr>aa_id = ''attribute:'' @ rp_id p @ '':'' @ record_state_name st, aa_grant = rp_grant p,
       aa_operation = ''attribute-decision'', aa_outcome = record_state_name st,
       aa_document = Some ''owner_note'', aa_created = clock\<rparr> db' }"

definition set_record_rows ::
  "int \<Rightarrow> record_state \<Rightarrow> bool \<Rightarrow> (record_proposal \<Rightarrow> bool) \<Rightarrow> agent_db \<Rightarrow> agent_db option" where
  "set_record_rows clock st keep P db =
     each (set_record_row clock st keep) (filter P (t_record_proposals db)) db"

subsection \<open>Triggers on grants\<close>

text \<open>
  One row of \<open>UPDATE agent_grant SET revoked=1,revision=revision+1,encrypted_snapshot=NULL\<close> for a
  grant that was not revoked, with \<open>agent_grant_revoked\<close> and
  \<open>agent_attribute_proposal_grant_stop\<close>.
\<close>

definition stop_grant :: "int \<Rightarrow> agent_grant \<Rightarrow> agent_db \<Rightarrow> agent_db option" where
  "stop_grant clock g db = do {
     db1 \<leftarrow> insert_audit \<lparr>aa_id = ''invalidate:'' @ ag_id g @ '':'' @ string_of_int (ag_revision g + 1),
       aa_grant = ag_id g, aa_operation = ''invalidate'', aa_outcome = ''revoked'', aa_document = None,
       aa_created = clock\<rparr>
       (db\<lparr>t_grants := update_rows (\<lambda>r. ag_id r = ag_id g \<and> \<not> ag_revoked r)
          (\<lambda>r. r\<lparr>ag_revoked := True, ag_revision := ag_revision r + 1, ag_snapshot := None\<rparr>) (t_grants db)\<rparr>);
     set_record_rows clock R_invalid False (\<lambda>p. rp_grant p = ag_id g \<and> record_open p)
       (db1\<lparr>t_proposals := update_rows (\<lambda>p. ap_grant p = ag_id g \<and> proposal_open p)
          (\<lambda>p. p\<lparr>ap_text := None, ap_state := P_rejected\<rparr>) (t_proposals db1)\<rparr>) }"

definition stop_grants :: "int \<Rightarrow> (agent_grant \<Rightarrow> bool) \<Rightarrow> agent_db \<Rightarrow> agent_db option" where
  "stop_grants clock P db =
     each (stop_grant clock) (filter (\<lambda>g. P g \<and> \<not> ag_revoked g) (t_grants db)) db"

end
