(* ===== verification/AgentStore.thy ===== *)
theory AgentStore imports AgentTables begin

section \<open>Grants, proposals and drafts\<close>

text \<open>
  The statements of \<open>agent-worker/store.ts\<close>, one definition for every round trip the worker makes to
  its database: a single statement or a batch, which the database runs as one transaction.
  \<open>clock\<close> is \<open>unixepoch()\<close> of the database; the times the worker binds come from its own clock
  and are arguments. \<open>run_store\<close> is the database's side of every round trip: the reply and the next
  state, or \<open>None\<close> when the transaction is rolled back.
\<close>

subsection \<open>Conditions shared by the statements\<close>

definition owner_key_suite :: string where
  "owner_key_suite = ''PRF-HKDF-SHA256-AES256GCM-v2''"

text \<open>\<open>liveSource\<close>: the record the grant was made from is still the current one.\<close>

definition live_source :: "agent_db \<Rightarrow> agent_grant \<Rightarrow> bool" where
  "live_source db g \<longleftrightarrow> (let s = ag_source g in ag_version g = 2 \<and>
     (\<exists>h \<in> set (t_record_heads db). \<exists>k \<in> set (t_key_heads db).
        kh_account k = rh_account h \<and> kh_vault k = rh_vault h
      \<and> rh_account h = ag_account g \<and> rh_vault h = sr_vault s
      \<and> rh_collection h = sr_collection s \<and> rh_record h = sr_record s
      \<and> rh_kind h = sr_kind s \<and> rh_revision h = sr_revision s \<and> \<not> rh_deleted h \<and> rh_format h = 2
      \<and> rh_sha h = Some (sr_sha s) \<and> rh_generation h = sr_generation s
      \<and> kh_origin k = sr_origin s \<and> kh_generation k = sr_generation s
      \<and> kh_revision k = sr_owner_revision s \<and> kh_format k = 2 \<and> kh_suite k = owner_key_suite))"

text \<open>\<open>activeJoin\<close>: the grants a request may use.\<close>

definition active_join :: "agent_db \<Rightarrow> int \<Rightarrow> int \<Rightarrow> string \<Rightarrow> string \<Rightarrow> agent_grant \<Rightarrow> bool" where
  "active_join db clock time key res g \<longleftrightarrow>
     (\<exists>rk \<in> set (t_recipients db). rk_id rk = ag_key g \<and> rk_active rk)
   \<and> (\<exists>a \<in> set (t_accounts db). sa_id a = ag_account g \<and> sa_active a \<and> sa_epoch a = ag_epoch g)
   \<and> (\<exists>c \<in> set (t_credentials db). cr_id c = ag_credential g \<and> cr_account c = ag_account g \<and> cr_active c)
   \<and> \<not> ag_revoked g \<and> ag_expires g > time \<and> ag_expires g > clock
   \<and> ag_key g = key \<and> ag_resource g = res \<and> ag_snapshot g \<noteq> None \<and> live_source db g \<and> ag_version g = 2"

text \<open>\<open>ownerJoin\<close>: the session of the owner with this secret.\<close>

definition owner_join :: "agent_db \<Rightarrow> int \<Rightarrow> string \<Rightarrow> string \<Rightarrow> int \<Rightarrow> sso_session \<Rightarrow> bool" where
  "owner_join db clock secret account time ss \<longleftrightarrow>
     (\<exists>x \<in> set (t_contexts db). fst x = ss_id ss \<and> snd x = secret)
   \<and> (\<exists>a \<in> set (t_accounts db). sa_id a = ss_account ss \<and> sa_active a \<and> sa_epoch a = ss_epoch ss)
   \<and> (\<exists>c \<in> set (t_credentials db). cr_id c = ss_credential ss \<and> cr_account c = ss_account ss \<and> cr_active c)
   \<and> ss_account ss = account \<and> \<not> ss_revoked ss \<and> ss_expires ss > time \<and> ss_expires ss > clock"

definition owner_live :: "agent_db \<Rightarrow> int \<Rightarrow> string \<Rightarrow> string \<Rightarrow> int \<Rightarrow> bool" where
  "owner_live db clock secret account time \<longleftrightarrow>
     (\<exists>ss \<in> set (t_sessions db). owner_join db clock secret account time ss)"

text \<open>
  \<open>authorizationDetailsCondition\<close>: the one authorization detail of a request or token names the
  grant's resource, exactly the scopes, and the grant's source and authority.
\<close>

definition same_scopes :: "string list \<Rightarrow> json \<Rightarrow> bool" where
  "same_scopes scopes v = (case v of
     JArr actions \<Rightarrow> length actions = length scopes \<and> (\<forall>a \<in> set actions. \<exists>s \<in> set scopes. a = JStr s)
   | _ \<Rightarrow> False)"

definition details_condition :: "agent_grant \<Rightarrow> string list \<Rightarrow> json \<Rightarrow> bool" where
  "details_condition g scopes v = (case v of
     JArr [d] \<Rightarrow> (let s = ag_source g; src = get d ''source''; auth = get d ''authority'' in
       ag_version g = 2
     \<and> get d ''locations'' = JArr [JStr (ag_resource g)] \<and> same_scopes scopes (get d ''actions'')
     \<and> get d ''storage_version'' = JNum 2 \<and> get d ''type'' = JStr ''mikaki_agent_snapshot''
     \<and> get d ''document_id'' = JStr (sr_record s) \<and> ag_documents g = [sr_record s]
     \<and> get src ''storage_version'' = JNum 2 \<and> get src ''origin'' = JStr (sr_origin s)
     \<and> get src ''owner_id'' = JStr (ag_account g) \<and> get src ''vault_id'' = JStr (sr_vault s)
     \<and> get src ''collection_id'' = JStr (sr_collection s) \<and> get src ''record_id'' = JStr (sr_record s)
     \<and> get src ''kind'' = JStr (sr_kind s) \<and> get src ''revision'' = JNum (sr_revision s)
     \<and> get src ''ciphertext_sha256'' = JStr (sr_sha s)
     \<and> get auth ''key_generation'' = JNum (sr_generation s)
     \<and> get auth ''owner_key_revision'' = JNum (sr_owner_revision s))
   | _ \<Rightarrow> False)"

definition details_ok :: "agent_grant \<Rightarrow> string list \<Rightarrow> json option \<Rightarrow> bool" where
  "details_ok g scopes d = (case d of None \<Rightarrow> True | Some v \<Rightarrow> details_condition g scopes v)"

definition client_live :: "agent_db \<Rightarrow> string \<Rightarrow> bool" where
  "client_live db client \<longleftrightarrow> (\<exists>c \<in> set (t_clients db). oc_id c = client \<and> oc_active c)"

text \<open>\<open>oauthAccess\<close>: the tokens with this hash that give access to the grant, and \<open>accessCondition\<close>.\<close>

definition token_access :: "agent_db \<Rightarrow> int \<Rightarrow> string \<Rightarrow> agent_grant \<Rightarrow> oauth_token \<Rightarrow> bool" where
  "token_access db clock token g t \<longleftrightarrow> client_live db (ot_client t)
     \<and> ot_hash t = token \<and> ot_grant t = ag_id g \<and> ot_revision t = ag_revision g
     \<and> ot_resource t = ag_resource g \<and> \<not> ot_revoked t \<and> ot_expires t > clock
     \<and> details_ok g (ot_scopes t) (ot_details t) \<and> set (ot_scopes t) \<subseteq> set (ag_operations g)"

definition access_condition :: "agent_db \<Rightarrow> int \<Rightarrow> string \<Rightarrow> agent_grant \<Rightarrow> bool" where
  "access_condition db clock token g \<longleftrightarrow>
     ag_token g = token \<or> (\<exists>t \<in> set (t_tokens db). token_access db clock token g t)"

text \<open>
  A grant in the hands of a request: the row as read, and \<open>access_token_hash\<close>, the hash the request
  presented. \<open>access_value\<close> is what \<open>accessValues\<close> binds.
\<close>

type_synonym held_grant = "agent_grant \<times> string option"

definition access_value :: "held_grant \<Rightarrow> string" where
  "access_value h = (case snd h of Some t \<Rightarrow> t | None \<Rightarrow> ag_token (fst h))"

text \<open>The row a held grant names is still live, at the revision it was read with.\<close>

definition still_held :: "agent_db \<Rightarrow> int \<Rightarrow> int \<Rightarrow> held_grant \<Rightarrow> agent_grant \<Rightarrow> bool" where
  "still_held db clock time h g \<longleftrightarrow>
     active_join db clock time (ag_key (fst h)) (ag_resource (fst h)) g
   \<and> ag_id g = ag_id (fst h) \<and> ag_revision g = ag_revision (fst h)
   \<and> access_condition db clock (access_value h) g"

subsection \<open>\<open>ownerActive\<close> and \<open>active\<close>\<close>

definition select_active ::
  "int \<Rightarrow> string \<Rightarrow> int \<Rightarrow> string \<Rightarrow> string \<Rightarrow> agent_db \<Rightarrow> agent_grant option" where
  "select_active clock token time key res db =
     map_option (\<lambda>g. if ag_token g = token then g
         else g\<lparr>ag_operations := (case filter (token_access db clock token g) (t_tokens db) of
                                    [] \<Rightarrow> [] | t # _ \<Rightarrow> ot_scopes t)\<rparr>)
       (find (\<lambda>g. active_join db clock time key res g \<and> access_condition db clock token g) (t_grants db))"

subsection \<open>\<open>createGrant\<close>\<close>

definition strings_of :: "json \<Rightarrow> string list" where
  "strings_of v = (case v of JArr xs \<Rightarrow> map the_str xs | _ \<Rightarrow> [])"

definition source_of :: "json \<Rightarrow> json \<Rightarrow> source_row" where
  "source_of src auth = \<lparr>sr_origin = the_str (get src ''origin''), sr_vault = the_str (get src ''vault_id''),
     sr_collection = the_str (get src ''collection_id''), sr_record = the_str (get src ''record_id''),
     sr_kind = the_str (get src ''kind''), sr_revision = the_int (get src ''revision''),
     sr_sha = the_str (get src ''ciphertext_sha256''), sr_generation = the_int (get auth ''key_generation''),
     sr_owner_revision = the_int (get auth ''owner_key_revision'')\<rparr>"

text \<open>The row the statement selects for a session of the owner.\<close>

definition new_grant :: "json \<Rightarrow> string \<Rightarrow> int \<Rightarrow> sso_session \<Rightarrow> agent_grant" where
  "new_grant input hash time ss = \<lparr>ag_id = the_str (get input ''grant_id''), ag_account = ss_account ss,
     ag_epoch = ss_epoch ss, ag_credential = ss_credential ss,
     ag_delegate = the_str (get input ''delegate''), ag_provider = the_str (get input ''provider''),
     ag_resource = the_str (get input ''resource''), ag_key = the_str (get input ''recipient_key_id''),
     ag_operations = strings_of (get input ''operations''), ag_documents = strings_of (get input ''document_ids''),
     ag_snapshot = Some (stringify (get input ''envelope'')), ag_token = the_str (get input ''token_hash''),
     ag_request = hash, ag_created = time, ag_expires = the_int (get input ''expires_at''),
     ag_revoked = False, ag_revision = 1, ag_version = 2,
     ag_source = source_of (get input ''source'') (get input ''authority'')\<rparr>"

text \<open>\<open>agent_grant_source_shape\<close>.\<close>

definition grant_shape :: "agent_grant \<Rightarrow> bool" where
  "grant_shape g \<longleftrightarrow> (let s = ag_source g in
     sr_collection s = ''personal'' \<and> sr_record s \<in> {''name'', ''owner_note''} \<and> sr_kind s = sr_record s
   \<and> length (sr_sha s) = 43
   \<and> 1 \<le> sr_generation s \<and> sr_generation s \<le> max_safe_integer
   \<and> 1 \<le> sr_owner_revision s \<and> sr_owner_revision s \<le> max_safe_integer
   \<and> 1 \<le> sr_revision s \<and> sr_revision s \<le> max_safe_integer
   \<and> ag_documents g = [sr_record s])"

definition insert_grant :: "agent_grant \<Rightarrow> agent_db \<Rightarrow> agent_db option" where
  "insert_grant g db = do {
     guard_row (\<forall>r \<in> set (t_grants db). ag_id r \<noteq> ag_id g \<and> ag_token r \<noteq> ag_token g);
     guard_row (ag_created g < ag_expires g \<and> ag_expires g \<le> ag_created g + 86400);
     guard_row (grant_shape g);
     Some (db\<lparr>t_grants := t_grants db @ [g]\<rparr>) }"

definition create_grant_batch ::
  "int \<Rightarrow> json \<Rightarrow> string \<Rightarrow> string \<Rightarrow> string \<Rightarrow> int \<Rightarrow> string \<Rightarrow> agent_db \<Rightarrow> (nat \<times> agent_db) option" where
  "create_grant_batch clock input hash secret account time event db = do {
     let rows = map (new_grant input hash time) (filter (\<lambda>ss. owner_join db clock secret account time ss
         \<and> live_source db (new_grant input hash time ss)
         \<and> (\<exists>rk \<in> set (t_recipients db). rk_id rk = the_str (get input ''recipient_key_id'') \<and> rk_active rk)
         \<and> count_rows (\<lambda>g. ag_account g = ss_account ss \<and> \<not> ag_revoked g \<and> ag_expires g > time) (t_grants db) < 20)
       (t_sessions db));
     db1 \<leftarrow> each insert_grant rows db;
     db2 \<leftarrow> each (\<lambda>g. insert_audit \<lparr>aa_id = event, aa_grant = ag_id g, aa_operation = ''grant'',
         aa_outcome = ''created'', aa_document = None, aa_created = time\<rparr>)
       (filter (\<lambda>g. ag_id g = the_str (get input ''grant_id'') \<and> ag_request g = hash) (t_grants db1)) db1;
     Some (length rows, db2) }"

subsection \<open>\<open>auditAccess\<close> and \<open>denied\<close>\<close>

definition audit_access ::
  "int \<Rightarrow> string \<Rightarrow> string \<Rightarrow> string option \<Rightarrow> int \<Rightarrow> int \<Rightarrow> held_grant \<Rightarrow> agent_db \<Rightarrow> (nat \<times> agent_db) option" where
  "audit_access clock event op document created time h db = do {
     let rows = filter (still_held db clock time h) (t_grants db);
     db' \<leftarrow> each (\<lambda>g. insert_audit \<lparr>aa_id = event, aa_grant = ag_id g, aa_operation = op,
         aa_outcome = ''authorized'', aa_document = document, aa_created = created\<rparr>) rows db;
     Some (length rows, db') }"

definition audit_denied :: "string \<Rightarrow> string \<Rightarrow> string \<Rightarrow> int \<Rightarrow> agent_db \<Rightarrow> agent_db option" where
  "audit_denied event grant op time db = insert_audit \<lparr>aa_id = event, aa_grant = grant, aa_operation = op,
     aa_outcome = ''denied'', aa_document = None, aa_created = time\<rparr> db"

subsection \<open>\<open>revoke\<close>\<close>

definition names_grant :: "string \<Rightarrow> string option \<Rightarrow> agent_grant \<Rightarrow> bool" where
  "names_grant account grant g \<longleftrightarrow> ag_account g = account \<and> (grant = None \<or> grant = Some (ag_id g))"

text \<open>\<open>grant_id IN (SELECT grant_id FROM agent_grant WHERE account_id=? AND revoked=1)\<close>.\<close>

definition revoked_in :: "agent_db \<Rightarrow> string \<Rightarrow> string \<Rightarrow> bool" where
  "revoked_in db account grant \<longleftrightarrow>
     (\<exists>g \<in> set (t_grants db). ag_id g = grant \<and> ag_account g = account \<and> ag_revoked g)"

definition revoke_batch ::
  "int \<Rightarrow> string \<Rightarrow> int \<Rightarrow> string \<Rightarrow> string option \<Rightarrow> string \<Rightarrow> agent_db \<Rightarrow> agent_db option" where
  "revoke_batch clock event time account grant secret db = do {
     let owner = owner_live db clock secret account time;
     db1 \<leftarrow> each (\<lambda>g. insert_audit \<lparr>aa_id = event @ ag_id g, aa_grant = ag_id g, aa_operation = ''revoke'',
         aa_outcome = ''revoked'', aa_document = None, aa_created = time\<rparr>)
       (filter (\<lambda>g. names_grant account grant g \<and> \<not> ag_revoked g \<and> owner) (t_grants db)) db;
     db2 \<leftarrow> stop_grants clock (\<lambda>g. names_grant account grant g \<and> owner) db1;
     let db3 = db2\<lparr>t_proposals := update_rows (\<lambda>p. ap_state p \<noteq> P_executed \<and> revoked_in db2 account (ap_grant p))
         (\<lambda>p. p\<lparr>ap_text := None, ap_state := P_rejected\<rparr>) (t_proposals db2)\<rparr>;
     set_record_rows clock R_rejected False (\<lambda>p. record_open p \<and> revoked_in db3 account (rp_grant p)) db3 }"

subsection \<open>\<open>propose\<close>\<close>

definition insert_proposal :: "agent_proposal \<Rightarrow> agent_db \<Rightarrow> agent_db option" where
  "insert_proposal p db = do {
     guard_row (\<forall>q \<in> set (t_proposals db). ap_id q \<noteq> ap_id p);
     Some (db\<lparr>t_proposals := t_proposals db @ [p]\<rparr>) }"

definition new_proposal ::
  "string \<Rightarrow> string \<Rightarrow> string \<Rightarrow> string \<Rightarrow> string \<Rightarrow> int \<Rightarrow> int \<Rightarrow> agent_grant \<Rightarrow> agent_proposal" where
  "new_proposal proposal hash document title txt expires created g = \<lparr>ap_id = proposal, ap_grant = ag_id g,
     ap_request = hash, ap_document = document, ap_title = title, ap_text = Some txt,
     ap_expires = min (ag_expires g) expires, ap_state = P_pending, ap_approved = None, ap_result = None,
     ap_created = created\<rparr>"

definition propose_batch ::
  "int \<Rightarrow> string \<Rightarrow> string \<Rightarrow> string \<Rightarrow> string \<Rightarrow> string \<Rightarrow> int \<Rightarrow> int \<Rightarrow> int \<Rightarrow> held_grant \<Rightarrow> string \<Rightarrow> int
     \<Rightarrow> agent_db \<Rightarrow> (nat \<times> agent_db) option" where
  "propose_batch clock proposal hash document title txt expires created time h event audited db = do {
     let rows = filter (\<lambda>g. still_held db clock time h g
         \<and> count_rows (\<lambda>p. ap_grant p = ag_id g \<and> proposal_open p) (t_proposals db) < 20) (t_grants db);
     db1 \<leftarrow> each insert_proposal (map (new_proposal proposal hash document title txt expires created) rows) db;
     db2 \<leftarrow> each (\<lambda>p. insert_audit \<lparr>aa_id = event, aa_grant = ap_grant p, aa_operation = ''propose'',
         aa_outcome = ''pending'', aa_document = Some (ap_document p), aa_created = audited\<rparr>)
       (filter (\<lambda>p. ap_id p = proposal \<and> ap_request p = hash) (t_proposals db1)) db1;
     Some (length rows, db2) }"

subsection \<open>\<open>decide\<close>\<close>

definition verdict :: "bool \<Rightarrow> proposal_state" where
  "verdict approve = (if approve then P_approved else P_rejected)"

definition may_decide ::
  "int \<Rightarrow> string \<Rightarrow> string \<Rightarrow> int \<Rightarrow> int \<Rightarrow> int \<Rightarrow> string \<Rightarrow> string \<Rightarrow> string \<Rightarrow> string \<Rightarrow> agent_db \<Rightarrow> agent_proposal \<Rightarrow> bool" where
  "may_decide clock proposal hash time1 time2 time3 key res account secret db p \<longleftrightarrow>
     ap_id p = proposal \<and> ap_request p = hash \<and> ap_state p = P_pending \<and> ap_expires p > time1
   \<and> (\<exists>g \<in> set (t_grants db). ag_id g = ap_grant p \<and> active_join db clock time2 key res g \<and> ag_account g = account)
   \<and> owner_live db clock secret account time3"

definition grant_revision :: "agent_db \<Rightarrow> string \<Rightarrow> int option" where
  "grant_revision db grant = map_option ag_revision (find (\<lambda>g. ag_id g = grant) (t_grants db))"

definition decide_batch ::
  "int \<Rightarrow> bool \<Rightarrow> string \<Rightarrow> string \<Rightarrow> int \<Rightarrow> int \<Rightarrow> int \<Rightarrow> string \<Rightarrow> string \<Rightarrow> string \<Rightarrow> string \<Rightarrow> string \<Rightarrow> int
     \<Rightarrow> agent_db \<Rightarrow> (nat \<times> agent_db) option" where
  "decide_batch clock approve proposal hash time1 time2 time3 key res account secret event audited db = do {
     let hit = may_decide clock proposal hash time1 time2 time3 key res account secret db;
     let n = count_rows hit (t_proposals db);
     let db1 = db\<lparr>t_proposals := update_rows hit
         (\<lambda>p. p\<lparr>ap_state := verdict approve, ap_approved := grant_revision db (ap_grant p)\<rparr>) (t_proposals db)\<rparr>;
     db2 \<leftarrow> each (\<lambda>p. insert_audit \<lparr>aa_id = event, aa_grant = ap_grant p, aa_operation = ''decision'',
         aa_outcome = proposal_state_name (ap_state p), aa_document = Some (ap_document p), aa_created = audited\<rparr>)
       (filter (\<lambda>p. ap_id p = proposal \<and> ap_request p = hash \<and> ap_state p = verdict approve
           \<and> (\<exists>g \<in> set (t_grants db1). ag_id g = ap_grant p \<and> ag_account g = account) \<and> n = 1)
         (t_proposals db1)) db1;
     Some (n, db2) }"

definition select_decided :: "string \<Rightarrow> string \<Rightarrow> string \<Rightarrow> agent_db \<Rightarrow> proposal_state option" where
  "select_decided proposal hash account db = map_option ap_state (find (\<lambda>p. ap_id p = proposal \<and> ap_request p = hash
     \<and> (\<exists>g \<in> set (t_grants db). ag_id g = ap_grant p \<and> ag_account g = account)) (t_proposals db))"

subsection \<open>\<open>execute\<close>\<close>

definition may_execute ::
  "int \<Rightarrow> string \<Rightarrow> string \<Rightarrow> int \<Rightarrow> int \<Rightarrow> held_grant \<Rightarrow> agent_db \<Rightarrow> agent_proposal \<Rightarrow> agent_grant \<Rightarrow> bool" where
  "may_execute clock proposal hash time1 time2 h db p g \<longleftrightarrow> ag_id g = ap_grant p
   \<and> ap_id p = proposal \<and> ap_request p = hash \<and> ap_grant p = ag_id (fst h) \<and> ap_state p = P_approved
   \<and> ap_text p \<noteq> None \<and> ap_expires p > time1 \<and> ap_approved p = Some (ag_revision g)
   \<and> (\<exists>r \<in> set (t_grants db). ag_id r = ag_id g
        \<and> active_join db clock time2 (ag_key (fst h)) (ag_resource (fst h)) r
        \<and> access_condition db clock (access_value h) r)"

definition insert_draft :: "agent_draft \<Rightarrow> agent_db \<Rightarrow> agent_db option" where
  "insert_draft d db = do {
     guard_row (\<forall>e \<in> set (t_drafts db). ad_id e \<noteq> ad_id d \<and> ad_proposal e \<noteq> ad_proposal d);
     Some (db\<lparr>t_drafts := t_drafts db @ [d]\<rparr>) }"

definition draft_of :: "agent_db \<Rightarrow> string \<Rightarrow> string option" where
  "draft_of db proposal = map_option ad_id (find (\<lambda>d. ad_proposal d = proposal) (t_drafts db))"

text \<open>\<open>UPDATE agent_proposal SET state='executed'\<close>: \<open>result_id\<close> is unique.\<close>

definition mark_executed :: "string \<Rightarrow> string \<Rightarrow> string \<Rightarrow> agent_db \<Rightarrow> agent_db option" where
  "mark_executed proposal grant hash db = do {
     let hit = (\<lambda>p. ap_id p = proposal \<and> ap_grant p = grant \<and> ap_request p = hash \<and> ap_state p = P_approved
         \<and> draft_of db (ap_id p) \<noteq> None);
     guard_row (\<forall>p \<in> set (t_proposals db). hit p \<longrightarrow> (\<forall>q \<in> set (t_proposals db). ap_id q \<noteq> ap_id p \<longrightarrow>
         ap_result q \<noteq> draft_of db (ap_id p)));
     Some (db\<lparr>t_proposals := update_rows hit
       (\<lambda>p. p\<lparr>ap_state := P_executed, ap_result := draft_of db (ap_id p)\<rparr>) (t_proposals db)\<rparr>) }"

definition execute_batch ::
  "int \<Rightarrow> string \<Rightarrow> int \<Rightarrow> string \<Rightarrow> string \<Rightarrow> int \<Rightarrow> int \<Rightarrow> held_grant \<Rightarrow> string \<Rightarrow> int \<Rightarrow> agent_db \<Rightarrow> agent_db option" where
  "execute_batch clock draft created proposal hash time1 time2 h event audited db = do {
     let rows = [\<lparr>ad_id = draft, ad_account = ag_account g, ad_proposal = ap_id p, ad_title = ap_title p,
           ad_text = the (ap_text p), ad_created = created\<rparr>.
         p \<leftarrow> t_proposals db, g \<leftarrow> t_grants db, may_execute clock proposal hash time1 time2 h db p g];
     db1 \<leftarrow> each insert_draft rows db;
     db2 \<leftarrow> mark_executed proposal (ag_id (fst h)) hash db1;
     each (\<lambda>p. insert_audit \<lparr>aa_id = event, aa_grant = ap_grant p, aa_operation = ''execute'',
         aa_outcome = ''executed'', aa_document = Some (ap_document p), aa_created = audited\<rparr>)
       (filter (\<lambda>p. ap_id p = proposal \<and> ap_result p = Some draft) (t_proposals db2)) db2 }"

definition select_executed :: "string \<Rightarrow> string \<Rightarrow> string \<Rightarrow> agent_db \<Rightarrow> string option" where
  "select_executed proposal grant hash db = Option.bind (find (\<lambda>p. ap_id p = proposal \<and> ap_grant p = grant
     \<and> ap_request p = hash \<and> ap_state p = P_executed) (t_proposals db)) ap_result"

subsection \<open>\<open>cleanup\<close>\<close>

text \<open>
  \<open>DELETE FROM agent_grant\<close>: the foreign keys of proposals, record proposals, audit rows, requests
  and tokens refuse the deletion of a grant they name; capabilities go with it.
\<close>

definition names_of :: "agent_db \<Rightarrow> string \<Rightarrow> bool" where
  "names_of db grant \<longleftrightarrow> (\<exists>p \<in> set (t_proposals db). ap_grant p = grant)
     \<or> (\<exists>p \<in> set (t_record_proposals db). rp_grant p = grant)
     \<or> (\<exists>r \<in> set (t_requests db). or_grant r = Some grant)
     \<or> (\<exists>a \<in> set (t_audits db). aa_grant a = grant)"

definition delete_grants :: "(agent_grant \<Rightarrow> bool) \<Rightarrow> agent_db \<Rightarrow> agent_db option" where
  "delete_grants P db = do {
     let gone = (\<lambda>i. \<exists>g \<in> set (t_grants db). ag_id g = i \<and> P g);
     guard_row (\<forall>g \<in> set (t_grants db). P g \<longrightarrow> \<not> names_of db (ag_id g)
       \<and> (\<forall>t \<in> set (t_tokens db). ot_grant t \<noteq> ag_id g));
     Some (db\<lparr>t_grants := delete_rows P (t_grants db),
       t_capabilities := delete_rows (\<lambda>c. gone (ac_grant c)) (t_capabilities db)\<rparr>) }"

definition delete_proposals :: "(agent_proposal \<Rightarrow> bool) \<Rightarrow> agent_db \<Rightarrow> agent_db option" where
  "delete_proposals P db = do {
     guard_row (\<forall>p \<in> set (t_proposals db). P p \<longrightarrow> (\<forall>d \<in> set (t_drafts db). ad_proposal d \<noteq> ap_id p));
     Some (db\<lparr>t_proposals := delete_rows P (t_proposals db)\<rparr>) }"

definition delete_record_proposals :: "(record_proposal \<Rightarrow> bool) \<Rightarrow> agent_db \<Rightarrow> agent_db" where
  "delete_record_proposals P db = (let gone = (\<lambda>i. \<exists>p \<in> set (t_record_proposals db). rp_id p = i \<and> P p) in
     db\<lparr>t_record_proposals := delete_rows P (t_record_proposals db),
        t_commits := delete_rows (\<lambda>c. gone (rc_proposal c)) (t_commits db)\<rparr>)"

definition retention :: int where "retention = 30 * 86400"

text \<open>\<open>ts\<close>: the nine times the worker binds, in the order of the statements.\<close>

definition cleanup_batch :: "int \<Rightarrow> int list \<Rightarrow> agent_db \<Rightarrow> agent_db option" where
  "cleanup_batch clock ts db = do {
     let db1 = db\<lparr>t_grants := update_rows (\<lambda>g. ag_expires g \<le> ts ! 0 \<or> ag_revoked g)
         (\<lambda>g. g\<lparr>ag_snapshot := None\<rparr>) (t_grants db)\<rparr>;
     let db2 = db1\<lparr>t_proposals := update_rows (\<lambda>p. ap_expires p \<le> ts ! 1 \<and> proposal_open p)
         (\<lambda>p. p\<lparr>ap_text := None, ap_state := P_rejected\<rparr>) (t_proposals db1)\<rparr>;
     let db3 = db2\<lparr>t_audits := delete_rows (\<lambda>a. aa_created a < ts ! 2 - retention) (t_audits db2)\<rparr>;
     let db4 = db3\<lparr>t_drafts := delete_rows (\<lambda>d. ad_created d < ts ! 3 - retention) (t_drafts db3)\<rparr>;
     let db5 = db4\<lparr>t_proposals := update_rows (\<lambda>p. ap_expires p \<le> ts ! 4)
         (\<lambda>p. p\<lparr>ap_text := None\<rparr>) (t_proposals db4)\<rparr>;
     db6 \<leftarrow> delete_proposals (\<lambda>p. ap_created p < ts ! 5 - retention
         \<and> (\<forall>d \<in> set (t_drafts db5). ad_proposal d \<noteq> ap_id p)) db5;
     db7 \<leftarrow> set_record_rows clock R_invalid False (\<lambda>p. rp_expires p \<le> ts ! 6 \<and> record_open p) db6;
     let db8 = delete_record_proposals (\<lambda>p. rp_created p < ts ! 7 - retention) db7;
     delete_grants (\<lambda>g. ag_expires g < ts ! 8 - retention \<and> \<not> names_of db8 (ag_id g)) db8 }"

subsection \<open>Round trips\<close>

datatype store_query =
    Q_recipient string
  | Q_owner_active string string int
  | Q_active string int string string
  | Q_grant_request string string
  | Q_create_grant json string string string int string
  | Q_audit_access string string "string option" int int held_grant
  | Q_denied string string string int
  | Q_revoke string int string "string option" string
  | Q_find_proposal string string
  | Q_propose string string string string string int int int held_grant string int
  | Q_decide bool string string int int int string string string string string int
  | Q_decided string string string
  | Q_execute string int string string int int held_grant string int
  | Q_executed string string string
  | Q_cleanup "int list"

datatype agent_answer =
    Y_failed
  | Y_none
  | Y_changes nat
  | Y_flag bool
  | Y_text "string option"
  | Y_grant "agent_grant option"
  | Y_proposal "agent_proposal option"
  | Y_state "proposal_state option"
  | Y_client "oauth_client option"
  | Y_request "oauth_request option"
  | Y_token "oauth_token option"
  | Y_capability "capability_row option"
  | Y_record "record_proposal option"
  | Y_commit "record_commit option"
  | Y_recipient "bool option"
  | Y_time int
  | Y_id string
  | Y_opened "json option"

definition replies :: "('a \<Rightarrow> agent_answer) \<Rightarrow> 'a \<Rightarrow> agent_db \<Rightarrow> (agent_answer \<times> agent_db) option" where
  "replies f x db = Some (f x, db)"

definition counted :: "(nat \<times> agent_db) option \<Rightarrow> (agent_answer \<times> agent_db) option" where
  "counted r = map_option (\<lambda>(n, db). (Y_changes n, db)) r"

definition finished :: "agent_db option \<Rightarrow> (agent_answer \<times> agent_db) option" where
  "finished r = map_option (\<lambda>db. (Y_none, db)) r"

fun run_store :: "int \<Rightarrow> store_query \<Rightarrow> agent_db \<Rightarrow> (agent_answer \<times> agent_db) option" where
  "run_store clock (Q_recipient key) db =
     replies Y_recipient (map_option rk_active (find (\<lambda>k. rk_id k = key) (t_recipients db))) db"
| "run_store clock (Q_owner_active secret account time) db =
     replies Y_flag (owner_live db clock secret account time) db"
| "run_store clock (Q_active token time key res) db =
     replies Y_grant (select_active clock token time key res db) db"
| "run_store clock (Q_grant_request grant account) db = replies Y_text (map_option ag_request
     (find (\<lambda>g. ag_id g = grant \<and> ag_account g = account) (t_grants db))) db"
| "run_store clock (Q_create_grant input hash secret account time event) db =
     counted (create_grant_batch clock input hash secret account time event db)"
| "run_store clock (Q_audit_access event op document created time h) db =
     counted (audit_access clock event op document created time h db)"
| "run_store clock (Q_denied event grant op time) db = finished (audit_denied event grant op time db)"
| "run_store clock (Q_revoke event time account grant secret) db =
     finished (revoke_batch clock event time account grant secret db)"
| "run_store clock (Q_find_proposal proposal grant) db =
     replies Y_proposal (find (\<lambda>p. ap_id p = proposal \<and> ap_grant p = grant) (t_proposals db)) db"
| "run_store clock (Q_propose proposal hash document title txt expires created time h event audited) db =
     counted (propose_batch clock proposal hash document title txt expires created time h event audited db)"
| "run_store clock (Q_decide approve proposal hash time1 time2 time3 key res account secret event audited) db =
     counted (decide_batch clock approve proposal hash time1 time2 time3 key res account secret event audited db)"
| "run_store clock (Q_decided proposal hash account) db = replies Y_state (select_decided proposal hash account db) db"
| "run_store clock (Q_execute draft created proposal hash time1 time2 h event audited) db =
     finished (execute_batch clock draft created proposal hash time1 time2 h event audited db)"
| "run_store clock (Q_executed proposal grant hash) db = replies Y_text (select_executed proposal grant hash db) db"
| "run_store clock (Q_cleanup ts) db = finished (cleanup_batch clock ts db)"

end
