(* ===== verification/AgentOAuth.thy ===== *)
theory AgentOAuth imports AgentStore begin

section \<open>Consent, codes and access tokens\<close>

text \<open>
  The statements of \<open>agent-worker/oauth.ts\<close>: a client's authorization request, the owner's consent,
  the exchange of the code for an access token, and its revocation.
\<close>

subsection \<open>\<open>authorize\<close>\<close>

definition select_client :: "string \<Rightarrow> agent_db \<Rightarrow> oauth_client option" where
  "select_client client db = find (\<lambda>c. oc_id c = client \<and> oc_active c) (t_clients db)"

definition new_request ::
  "string \<Rightarrow> string \<Rightarrow> string \<Rightarrow> string \<Rightarrow> string list \<Rightarrow> string \<Rightarrow> string \<Rightarrow> int \<Rightarrow> string \<Rightarrow> json option \<Rightarrow> oauth_request" where
  "new_request request client redirect res scopes state challenge time origin details = \<lparr>or_id = request,
     or_client = client, or_redirect = redirect, or_resource = res, or_scopes = scopes, or_state = state,
     or_challenge = challenge, or_created = time, or_expires = time + 600, or_account = None, or_secret = None,
     or_grant = None, or_revision = None, or_decision = None, or_code = None, or_code_expires = None,
     or_redeemed = None, or_origin = origin, or_details = details\<rparr>"

definition request_waiting :: "int \<Rightarrow> oauth_request \<Rightarrow> bool" where
  "request_waiting clock r \<longleftrightarrow> or_decision r = None \<and> or_expires r > clock"

definition insert_request :: "int \<Rightarrow> oauth_request \<Rightarrow> agent_db \<Rightarrow> (nat \<times> agent_db) option" where
  "insert_request clock r db =
     (if client_live db (or_client r)
       \<and> count_rows (request_waiting clock) (t_requests db) < 1000
       \<and> count_rows (\<lambda>q. or_client q = or_client r \<and> request_waiting clock q) (t_requests db) < 100
      then do { guard_row (\<forall>q \<in> set (t_requests db). or_id q \<noteq> or_id r);
                Some (1, db\<lparr>t_requests := t_requests db @ [r]\<rparr>) }
      else Some (0, db))"

subsection \<open>\<open>preview\<close>\<close>

definition claim_request ::
  "int \<Rightarrow> string \<Rightarrow> string \<Rightarrow> string \<Rightarrow> string \<Rightarrow> int \<Rightarrow> agent_db \<Rightarrow> agent_db" where
  "claim_request clock request res account secret time db = db\<lparr>t_requests := update_rows
     (\<lambda>r. or_id r = request \<and> or_account r = None \<and> request_waiting clock r \<and> or_resource r = res
       \<and> client_live db (or_client r) \<and> owner_live db clock secret account time)
     (\<lambda>r. r\<lparr>or_account := Some account, or_secret := Some secret\<rparr>) (t_requests db)\<rparr>"

definition select_preview ::
  "int \<Rightarrow> string \<Rightarrow> string \<Rightarrow> string \<Rightarrow> string \<Rightarrow> int \<Rightarrow> agent_db \<Rightarrow> oauth_request option" where
  "select_preview clock request res account secret time db = find
     (\<lambda>r. or_id r = request \<and> or_account r = Some account \<and> or_secret r = Some secret \<and> or_resource r = res
       \<and> request_waiting clock r \<and> client_live db (or_client r) \<and> owner_live db clock secret account time)
     (t_requests db)"

subsection \<open>\<open>decide\<close>\<close>

definition consentable :: "int \<Rightarrow> string \<Rightarrow> string \<Rightarrow> string \<Rightarrow> int \<Rightarrow> agent_db \<Rightarrow> oauth_request \<Rightarrow> bool" where
  "consentable clock request account secret time db r \<longleftrightarrow> or_id r = request \<and> or_account r = Some account
     \<and> or_secret r = Some secret \<and> request_waiting clock r \<and> owner_live db clock secret account time"

text \<open>\<open>liveGrant\<close>: the chosen grant is live, the owner's, and covers the request.\<close>

definition covers ::
  "int \<Rightarrow> string \<Rightarrow> string \<Rightarrow> int \<Rightarrow> string \<Rightarrow> string \<Rightarrow> agent_db \<Rightarrow> oauth_request \<Rightarrow> agent_grant \<Rightarrow> bool" where
  "covers clock grant account time key res db r g \<longleftrightarrow> active_join db clock time key res g
     \<and> ag_id g = grant \<and> ag_account g = account \<and> set (or_scopes r) \<subseteq> set (ag_operations g)
     \<and> details_ok g (or_scopes r) (or_details r)"

definition may_approve ::
  "int \<Rightarrow> string \<Rightarrow> string \<Rightarrow> string \<Rightarrow> string \<Rightarrow> int \<Rightarrow> string \<Rightarrow> string \<Rightarrow> agent_db \<Rightarrow> oauth_request \<Rightarrow> bool" where
  "may_approve clock request grant account secret time key res db r \<longleftrightarrow>
     consentable clock request account secret time db r \<and> client_live db (or_client r)
   \<and> (\<exists>g \<in> set (t_grants db). covers clock grant account time key res db r g)"

text \<open>The update with \<open>agent_oauth_approval_audit\<close>; \<open>code_hash\<close> is unique.\<close>

definition approve_request ::
  "int \<Rightarrow> string \<Rightarrow> string \<Rightarrow> string \<Rightarrow> string \<Rightarrow> string \<Rightarrow> int \<Rightarrow> string \<Rightarrow> string \<Rightarrow> agent_db \<Rightarrow> (nat \<times> agent_db) option" where
  "approve_request clock request grant code account secret time key res db = do {
     let hit = may_approve clock request grant account secret time key res db;
     let rows = filter hit (t_requests db);
     guard_row (rows \<noteq> [] \<longrightarrow> (\<forall>q \<in> set (t_requests db). or_code q \<noteq> Some code));
     let db1 = db\<lparr>t_requests := update_rows hit (\<lambda>r. r\<lparr>or_decision := Some Consent_approved,
         or_grant := Some grant, or_revision := grant_revision db grant, or_code := Some code,
         or_code_expires := Some (min (or_expires r) (clock + 120))\<rparr>) (t_requests db)\<rparr>;
     db2 \<leftarrow> each (\<lambda>r. insert_audit \<lparr>aa_id = ''oauth-consent:'' @ or_id r, aa_grant = grant,
         aa_operation = ''oauth-consent'', aa_outcome = ''approved'', aa_document = None, aa_created = clock\<rparr>) rows db1;
     Some (length rows, db2) }"

definition deny_request :: "int \<Rightarrow> string \<Rightarrow> string \<Rightarrow> string \<Rightarrow> int \<Rightarrow> agent_db \<Rightarrow> nat \<times> agent_db" where
  "deny_request clock request account secret time db = (let hit = consentable clock request account secret time db in
     (count_rows hit (t_requests db),
      db\<lparr>t_requests := update_rows hit (\<lambda>r. r\<lparr>or_decision := Some Consent_denied\<rparr>) (t_requests db)\<rparr>))"

definition select_state :: "string \<Rightarrow> agent_db \<Rightarrow> string option" where
  "select_state request db = map_option or_state (find (\<lambda>r. or_id r = request) (t_requests db))"

subsection \<open>\<open>token\<close>\<close>

definition redeemable ::
  "int \<Rightarrow> int \<Rightarrow> string \<Rightarrow> string \<Rightarrow> string \<Rightarrow> string \<Rightarrow> string \<Rightarrow> string \<Rightarrow> string \<Rightarrow> agent_db
     \<Rightarrow> oauth_request \<Rightarrow> agent_grant \<Rightarrow> bool" where
  "redeemable clock time key recipient_resource code client redirect res challenge db r g \<longleftrightarrow>
     or_grant r = Some (ag_id g) \<and> active_join db clock time key recipient_resource g
   \<and> or_code r = Some code \<and> or_client r = client \<and> or_redirect r = redirect \<and> or_resource r = res
   \<and> or_challenge r = challenge \<and> or_decision r = Some Consent_approved \<and> or_redeemed r = None
   \<and> (case or_code_expires r of Some e \<Rightarrow> e > clock | None \<Rightarrow> False) \<and> or_expires r > clock
   \<and> or_revision r = Some (ag_revision g) \<and> client_live db (or_client r)
   \<and> details_ok g (or_scopes r) (or_details r) \<and> set (or_scopes r) \<subseteq> set (ag_operations g)"

text \<open>The insertion with \<open>agent_oauth_token_audit\<close>.\<close>

definition insert_token :: "int \<Rightarrow> oauth_token \<Rightarrow> agent_db \<Rightarrow> agent_db option" where
  "insert_token clock t db = do {
     guard_row (\<forall>q \<in> set (t_tokens db). ot_hash q \<noteq> ot_hash t \<and> ot_request q \<noteq> ot_request t);
     guard_row (ot_created t < ot_expires t \<and> ot_expires t \<le> ot_created t + 3600);
     insert_audit \<lparr>aa_id = ''oauth-token:'' @ ot_request t, aa_grant = ot_grant t, aa_operation = ''oauth-token'',
       aa_outcome = ''issued'', aa_document = None, aa_created = clock\<rparr> (db\<lparr>t_tokens := t_tokens db @ [t]\<rparr>) }"

definition new_token :: "int \<Rightarrow> string \<Rightarrow> oauth_request \<Rightarrow> agent_grant \<Rightarrow> oauth_token" where
  "new_token clock token r g = \<lparr>ot_hash = token, ot_request = or_id r, ot_client = or_client r,
     ot_grant = ag_id g, ot_revision = ag_revision g, ot_resource = or_resource r, ot_scopes = or_scopes r,
     ot_created = clock, ot_expires = min (clock + 3600) (ag_expires g), ot_revoked = False,
     ot_details = or_details r\<rparr>"

text \<open>
  The batch: insert the token, mark the request redeemed, and roll both back unless the token
  exists and its request is redeemed (the row of \<open>agent_oauth_guard\<close> with \<open>CHECK(valid=1)\<close>).
\<close>

definition exchange_batch ::
  "int \<Rightarrow> string \<Rightarrow> int \<Rightarrow> string \<Rightarrow> string \<Rightarrow> string \<Rightarrow> string \<Rightarrow> string \<Rightarrow> string \<Rightarrow> string \<Rightarrow> agent_db \<Rightarrow> agent_db option" where
  "exchange_batch clock token time key recipient_resource code client redirect res challenge db = do {
     let rows = [new_token clock token r g. r \<leftarrow> t_requests db, g \<leftarrow> t_grants db,
         redeemable clock time key recipient_resource code client redirect res challenge db r g];
     db1 \<leftarrow> each (insert_token clock) rows db;
     let db2 = db1\<lparr>t_requests := update_rows (\<lambda>r. or_code r = Some code \<and> or_redeemed r = None
           \<and> (\<exists>t \<in> set (t_tokens db1). ot_request t = or_id r \<and> ot_hash t = token))
         (\<lambda>r. r\<lparr>or_redeemed := Some clock\<rparr>) (t_requests db1)\<rparr>;
     guard_row (\<exists>t \<in> set (t_tokens db2). \<exists>r \<in> set (t_requests db2). or_id r = ot_request t
         \<and> ot_hash t = token \<and> or_redeemed r \<noteq> None);
     Some db2 }"

definition select_token ::
  "int \<Rightarrow> string \<Rightarrow> int \<Rightarrow> string \<Rightarrow> string \<Rightarrow> agent_db \<Rightarrow> oauth_token option" where
  "select_token clock token time key res db = find (\<lambda>t. ot_hash t = token
     \<and> client_live db (ot_client t) \<and> \<not> ot_revoked t \<and> ot_expires t > clock
     \<and> (\<exists>g \<in> set (t_grants db). ot_grant t = ag_id g \<and> active_join db clock time key res g
        \<and> ot_revision t = ag_revision g \<and> ot_resource t = ag_resource g
        \<and> details_ok g (ot_scopes t) (ot_details t))) (t_tokens db)"

subsection \<open>\<open>revoke\<close> and \<open>cleanup\<close>\<close>

definition revoke_token :: "int \<Rightarrow> string \<Rightarrow> string \<Rightarrow> agent_db \<Rightarrow> agent_db option" where
  "revoke_token clock token client db = do {
     let hit = (\<lambda>t. ot_hash t = token \<and> ot_client t = client \<and> \<not> ot_revoked t);
     each (\<lambda>t. insert_audit \<lparr>aa_id = ''oauth-revoke:'' @ ot_request t, aa_grant = ot_grant t,
         aa_operation = ''oauth-token'', aa_outcome = ''revoked'', aa_document = None, aa_created = clock\<rparr>)
       (filter hit (t_tokens db))
       (db\<lparr>t_tokens := update_rows hit (\<lambda>t. t\<lparr>ot_revoked := True\<rparr>) (t_tokens db)\<rparr>) }"

definition cleanup_requests :: "int \<Rightarrow> agent_db \<Rightarrow> agent_db" where
  "cleanup_requests clock db = (let old = (\<lambda>r. or_created r < clock - 172800) in
     db\<lparr>t_requests := delete_rows old (t_requests db),
        t_tokens := delete_rows (\<lambda>t. \<exists>r \<in> set (t_requests db). or_id r = ot_request t \<and> old r) (t_tokens db)\<rparr>)"

subsection \<open>Round trips\<close>

datatype oauth_query =
    Q_client string
  | Q_authorize string string string string "string list" string string int string "json option"
  | Q_claim_request string string string string int
  | Q_preview string string string string int
  | Q_approve string string string string string int string string
  | Q_deny string string string int
  | Q_state string
  | Q_exchange string int string string string string string string string
  | Q_token string int string string
  | Q_revoke_token string string
  | Q_cleanup_requests

fun run_oauth :: "int \<Rightarrow> oauth_query \<Rightarrow> agent_db \<Rightarrow> (agent_answer \<times> agent_db) option" where
  "run_oauth clock (Q_client client) db = replies Y_client (select_client client db) db"
| "run_oauth clock (Q_authorize request client redirect res scopes state challenge time origin details) db = counted
     (insert_request clock (new_request request client redirect res scopes state challenge time origin details) db)"
| "run_oauth clock (Q_claim_request request res account secret time) db =
     finished (Some (claim_request clock request res account secret time db))"
| "run_oauth clock (Q_preview request res account secret time) db =
     replies Y_request (select_preview clock request res account secret time db) db"
| "run_oauth clock (Q_approve request grant code account secret time key res) db = counted
     (approve_request clock request grant code account secret time key res db)"
| "run_oauth clock (Q_deny request account secret time) db =
     counted (Some (deny_request clock request account secret time db))"
| "run_oauth clock (Q_state request) db = replies Y_text (select_state request db) db"
| "run_oauth clock (Q_exchange token time key recipient_resource code client redirect res challenge) db =
     finished (exchange_batch clock token time key recipient_resource code client redirect res challenge db)"
| "run_oauth clock (Q_token token time key res) db = replies Y_token (select_token clock token time key res db) db"
| "run_oauth clock (Q_revoke_token token client) db = finished (revoke_token clock token client db)"
| "run_oauth clock Q_cleanup_requests db = finished (Some (cleanup_requests clock db))"

end
