(* ===== verification/AgentRecords.thy ===== *)
theory AgentRecords imports AgentStore begin

section \<open>Record proposals\<close>

text \<open>
  The statements of \<open>agent-worker/record-proposals.ts\<close>: the owner allows one target for a grant, the
  delegate proposes a value for it, the owner decides, and the owner's device prepares the commit of
  the approved value.
\<close>

subsection \<open>Conditions\<close>

text \<open>\<open>liveTarget\<close>: the target is what the vault holds now: a missing record, or this revision.\<close>

definition live_target :: "agent_db \<Rightarrow> agent_grant \<Rightarrow> target_row \<Rightarrow> bool" where
  "live_target db g t \<longleftrightarrow> tr_version t = 2
   \<and> (\<exists>k \<in> set (t_key_heads db). kh_account k = ag_account g \<and> kh_vault k = tr_vault t \<and> kh_origin k = tr_origin t
        \<and> kh_format k = 2 \<and> kh_suite k = owner_key_suite \<and> kh_generation k = tr_generation t
        \<and> kh_revision k = tr_owner_revision t)
   \<and> (tr_base t = 0 \<and> \<not> tr_deleted t \<and> tr_sha t = None
        \<and> (\<forall>h \<in> set (t_record_heads db). \<not> (rh_account h = ag_account g \<and> rh_vault h = tr_vault t
             \<and> rh_collection h = tr_collection t \<and> rh_record h = tr_record t))
      \<or> tr_base t > 0 \<and> (\<exists>h \<in> set (t_record_heads db). rh_account h = ag_account g \<and> rh_vault h = tr_vault t
             \<and> rh_collection h = tr_collection t \<and> rh_record h = tr_record t \<and> rh_kind h = tr_kind t
             \<and> rh_format h = 2 \<and> rh_revision h = tr_base t \<and> rh_generation h = tr_generation t
             \<and> rh_deleted h = tr_deleted t \<and> rh_sha h = tr_sha t))"

text \<open>\<open>ownerFence\<close>: the owner's session holds a key of the target's generation.\<close>

definition owner_fence :: "agent_db \<Rightarrow> int \<Rightarrow> string \<Rightarrow> string \<Rightarrow> int \<Rightarrow> target_row \<Rightarrow> bool" where
  "owner_fence db clock secret account time t \<longleftrightarrow>
     (\<exists>ss \<in> set (t_sessions db). owner_join db clock secret account time ss
      \<and> (\<exists>w \<in> set (t_key_wraps db). kw_account w = ss_account ss \<and> kw_generation w = tr_generation t
           \<and> kw_credential w = ss_credential ss))"

definition can_propose :: "agent_grant \<Rightarrow> bool" where
  "can_propose g \<longleftrightarrow> ag_version g = 2 \<and> ''propose'' \<in> set (ag_operations g)"

definition cap_live :: "agent_db \<Rightarrow> int \<Rightarrow> agent_grant \<Rightarrow> capability_row \<Rightarrow> bool" where
  "cap_live db clock g c \<longleftrightarrow> can_propose g \<and> ac_revision c = ag_revision g \<and> ac_expires c > clock
     \<and> ac_expires c \<le> ag_expires g \<and> live_target db g (ac_target c)"

text \<open>\<open>proposalScope\<close>; \<open>exactTarget\<close> compares every column of the targets.\<close>

definition proposal_scope :: "agent_db \<Rightarrow> int \<Rightarrow> agent_grant \<Rightarrow> record_proposal \<Rightarrow> bool" where
  "proposal_scope db clock g p \<longleftrightarrow> can_propose g \<and> ag_id g = rp_grant p \<and> ag_revision g = rp_revision p
     \<and> (\<exists>c \<in> set (t_capabilities db). ac_grant c = ag_id g \<and> cap_live db clock g c
          \<and> ac_expires c \<ge> rp_expires p \<and> ac_target c = rp_target p)"

subsection \<open>\<open>allow\<close>\<close>

text \<open>\<open>targetValues\<close>, and \<open>agent_attribute_capability_source\<close>.\<close>

definition target_values :: "json \<Rightarrow> json \<Rightarrow> target_row" where
  "target_values target auth = \<lparr>tr_version = 2, tr_base = the_int (get target ''revision''),
     tr_origin = the_str (get target ''origin''), tr_vault = the_str (get target ''vault_id''),
     tr_collection = the_str (get target ''collection_id''), tr_record = the_str (get target ''record_id''),
     tr_kind = the_str (get target ''kind''),
     tr_sha = (case get target ''ciphertext_sha256'' of JStr s \<Rightarrow> Some s | _ \<Rightarrow> None),
     tr_deleted = (get target ''deleted'' = JBool True), tr_generation = the_int (get auth ''key_generation''),
     tr_owner_revision = the_int (get auth ''owner_key_revision'')\<rparr>"

definition target_shape :: "target_row \<Rightarrow> bool" where
  "target_shape t \<longleftrightarrow> tr_version t = 2 \<and> length (tr_origin t) > 8 \<and> take 8 (tr_origin t) = ''https://''
     \<and> of_class opaque_chars 1 128 (tr_vault t)
     \<and> tr_collection t = ''personal'' \<and> tr_record t = ''owner_note'' \<and> tr_kind t = ''owner_note''
     \<and> 0 \<le> tr_base t \<and> tr_base t < max_safe_integer
     \<and> 1 \<le> tr_generation t \<and> tr_generation t \<le> max_safe_integer
     \<and> 1 \<le> tr_owner_revision t \<and> tr_owner_revision t \<le> max_safe_integer
     \<and> (if tr_base t = 0 then \<not> tr_deleted t \<and> tr_sha t = None
        else if tr_deleted t then tr_sha t = None
        else (case tr_sha t of Some s \<Rightarrow> of_class opaque_chars 43 43 s | None \<Rightarrow> False))"

definition insert_capability :: "capability_row \<Rightarrow> agent_db \<Rightarrow> agent_db option" where
  "insert_capability c db = do {
     guard_row (\<forall>d \<in> set (t_capabilities db). ac_grant d \<noteq> ac_grant c);
     guard_row (ac_created c < ac_expires c \<and> ac_expires c \<le> ac_created c + 3600);
     guard_row (target_shape (ac_target c)
       \<and> (\<exists>g \<in> set (t_grants db). ag_id g = ac_grant c \<and> ag_version g = 2));
     Some (db\<lparr>t_capabilities := t_capabilities db @ [c]\<rparr>) }"

definition may_allow ::
  "int \<Rightarrow> string \<Rightarrow> target_row \<Rightarrow> int \<Rightarrow> int \<Rightarrow> string \<Rightarrow> string \<Rightarrow> string \<Rightarrow> string \<Rightarrow> agent_db \<Rightarrow> agent_grant \<Rightarrow> bool" where
  "may_allow clock grant t time1 time2 key res account secret db g \<longleftrightarrow>
     active_join db clock time1 key res g \<and> ag_id g = grant \<and> ag_account g = account \<and> can_propose g
   \<and> live_target db g t \<and> owner_fence db clock secret account time2 t
   \<and> (\<forall>c \<in> set (t_capabilities db). ac_grant c \<noteq> ag_id g)"

definition allow_batch ::
  "int \<Rightarrow> string \<Rightarrow> target_row \<Rightarrow> int \<Rightarrow> int \<Rightarrow> int \<Rightarrow> string \<Rightarrow> string \<Rightarrow> string \<Rightarrow> string \<Rightarrow> string \<Rightarrow> agent_db \<Rightarrow> agent_db option" where
  "allow_batch clock grant t time time1 time2 key res account secret event db = do {
     let rows = filter (may_allow clock grant t time1 time2 key res account secret db) (t_grants db);
     db1 \<leftarrow> each (\<lambda>g. insert_capability \<lparr>ac_grant = ag_id g, ac_revision = ag_revision g, ac_created = time,
         ac_expires = min (ag_expires g) (time + 3600), ac_target = t\<rparr>) rows db;
     each (\<lambda>c. insert_audit \<lparr>aa_id = event, aa_grant = ac_grant c, aa_operation = ''record-capability'',
         aa_outcome = ''created'', aa_document = Some ''owner_note'', aa_created = time\<rparr>)
       (filter (\<lambda>c. ac_grant c = grant \<and> ac_created c = time \<and> rows \<noteq> []) (t_capabilities db1)) db1 }"

definition select_capability ::
  "int \<Rightarrow> string \<Rightarrow> int \<Rightarrow> int \<Rightarrow> string \<Rightarrow> string \<Rightarrow> string \<Rightarrow> string \<Rightarrow> agent_db \<Rightarrow> capability_row option" where
  "select_capability clock grant time1 time2 key res account secret db = find
     (\<lambda>c. ac_grant c = grant \<and> (\<exists>g \<in> set (t_grants db). active_join db clock time1 key res g
        \<and> ag_id g = ac_grant c \<and> ag_account g = account \<and> cap_live db clock g c
        \<and> owner_fence db clock secret account time2 (ac_target c))) (t_capabilities db)"

subsection \<open>\<open>propose\<close>\<close>

text \<open>A capability of the held grant, at the revision it was read with.\<close>

definition held_capability :: "agent_db \<Rightarrow> int \<Rightarrow> int \<Rightarrow> held_grant \<Rightarrow> capability_row \<Rightarrow> bool" where
  "held_capability db clock time h c \<longleftrightarrow> ac_grant c = ag_id (fst h) \<and> (\<exists>g \<in> set (t_grants db).
     active_join db clock time (ag_key (fst h)) (ag_resource (fst h)) g \<and> ag_id g = ac_grant c
   \<and> ag_revision g = ag_revision (fst h) \<and> cap_live db clock g c \<and> access_condition db clock (access_value h) g)"

definition live_proposal ::
  "int \<Rightarrow> string \<Rightarrow> string \<Rightarrow> int \<Rightarrow> held_grant \<Rightarrow> agent_db \<Rightarrow> record_proposal option" where
  "live_proposal clock proposal hash time h db = find (\<lambda>p. rp_id p = proposal \<and> rp_grant p = ag_id (fst h)
     \<and> rp_request p = hash \<and> rp_expires p > clock
     \<and> (\<exists>g \<in> set (t_grants db). active_join db clock time (ag_key (fst h)) (ag_resource (fst h)) g
          \<and> ag_revision g = ag_revision (fst h) \<and> proposal_scope db clock g p
          \<and> access_condition db clock (access_value h) g)) (t_record_proposals db)"

text \<open>\<open>agent_attribute_proposal_target_shape\<close> and the \<open>CHECK\<close> on the times.\<close>

definition insert_record_proposal :: "record_proposal \<Rightarrow> agent_db \<Rightarrow> agent_db option" where
  "insert_record_proposal p db = do {
     guard_row (\<forall>q \<in> set (t_record_proposals db). rp_id q \<noteq> rp_id p);
     guard_row (rp_created p < rp_expires p \<and> rp_expires p \<le> rp_created p + 3600);
     guard_row (rp_state p = R_pending \<and> rp_payload p \<noteq> None
       \<and> (\<exists>c \<in> set (t_capabilities db). \<exists>g \<in> set (t_grants db). ag_id g = ac_grant c \<and> ac_grant c = rp_grant p
            \<and> ag_version g = 2 \<and> ac_revision c = rp_revision p \<and> ac_expires c \<ge> rp_expires p
            \<and> ac_target c = rp_target p));
     Some (db\<lparr>t_record_proposals := t_record_proposals db @ [p]\<rparr>) }"

definition new_record_proposal ::
  "string \<Rightarrow> string \<Rightarrow> string \<Rightarrow> int \<Rightarrow> int \<Rightarrow> capability_row \<Rightarrow> record_proposal" where
  "new_record_proposal proposal hash payload expires time c = \<lparr>rp_id = proposal, rp_grant = ac_grant c,
     rp_revision = ac_revision c, rp_request = hash, rp_payload = Some payload, rp_expires = expires,
     rp_created = time, rp_state = R_pending, rp_target = ac_target c\<rparr>"

definition record_propose_batch ::
  "int \<Rightarrow> string \<Rightarrow> string \<Rightarrow> string \<Rightarrow> int \<Rightarrow> int \<Rightarrow> int \<Rightarrow> held_grant \<Rightarrow> string \<Rightarrow> agent_db \<Rightarrow> agent_db option" where
  "record_propose_batch clock proposal hash payload expires time time1 h event db = do {
     let rows = filter (\<lambda>c. held_capability db clock time1 h c \<and> ac_expires c \<ge> expires \<and> expires > clock
         \<and> (\<forall>p \<in> set (t_record_proposals db). rp_id p \<noteq> proposal)
         \<and> count_rows (\<lambda>p. rp_grant p = ac_grant c \<and> record_open p) (t_record_proposals db) < 20)
       (t_capabilities db);
     db1 \<leftarrow> each insert_record_proposal (map (new_record_proposal proposal hash payload expires time) rows) db;
     each (\<lambda>p. insert_audit \<lparr>aa_id = event, aa_grant = rp_grant p, aa_operation = ''record-propose'',
         aa_outcome = ''pending'', aa_document = Some ''owner_note'', aa_created = time\<rparr>)
       (filter (\<lambda>p. rp_id p = proposal \<and> rp_request p = hash \<and> rows \<noteq> []) (t_record_proposals db1)) db1 }"

subsection \<open>\<open>decide\<close>\<close>

text \<open>What the owner may see and decide: a proposal in scope of a live grant, with the owner's key.\<close>

definition owner_scope ::
  "agent_db \<Rightarrow> int \<Rightarrow> int \<Rightarrow> int \<Rightarrow> string \<Rightarrow> string \<Rightarrow> string \<Rightarrow> string \<Rightarrow> record_proposal \<Rightarrow> bool" where
  "owner_scope db clock time1 time2 key res account secret p \<longleftrightarrow> (\<exists>g \<in> set (t_grants db).
     active_join db clock time1 key res g \<and> ag_account g = account \<and> proposal_scope db clock g p)
   \<and> owner_fence db clock secret account time2 (rp_target p)"

definition record_verdict :: "bool \<Rightarrow> record_state" where
  "record_verdict approve = (if approve then R_approved else R_rejected)"

definition record_decide ::
  "int \<Rightarrow> bool \<Rightarrow> string \<Rightarrow> string \<Rightarrow> int \<Rightarrow> int \<Rightarrow> string \<Rightarrow> string \<Rightarrow> string \<Rightarrow> string \<Rightarrow> agent_db \<Rightarrow> agent_db option" where
  "record_decide clock approve proposal hash time1 time2 key res account secret db =
     set_record_rows clock (record_verdict approve) approve (\<lambda>p. rp_id p = proposal \<and> rp_request p = hash
       \<and> rp_state p = R_pending \<and> rp_expires p > clock
       \<and> owner_scope db clock time1 time2 key res account secret p) db"

definition select_record ::
  "int \<Rightarrow> string \<Rightarrow> string \<Rightarrow> record_state \<Rightarrow> int \<Rightarrow> int \<Rightarrow> string \<Rightarrow> string \<Rightarrow> string \<Rightarrow> string \<Rightarrow> agent_db
     \<Rightarrow> record_proposal option" where
  "select_record clock proposal hash st time1 time2 key res account secret db = find (\<lambda>p. rp_id p = proposal
     \<and> rp_request p = hash \<and> rp_state p = st \<and> rp_expires p > clock
     \<and> owner_scope db clock time1 time2 key res account secret p) (t_record_proposals db)"

subsection \<open>\<open>prepare\<close>\<close>

definition select_approved ::
  "int \<Rightarrow> string \<Rightarrow> string \<Rightarrow> int \<Rightarrow> int \<Rightarrow> string \<Rightarrow> string \<Rightarrow> string \<Rightarrow> string \<Rightarrow> agent_db \<Rightarrow> record_proposal option" where
  "select_approved clock proposal hash time1 time2 key res account secret db = find (\<lambda>p. rp_id p = proposal
     \<and> rp_request p = hash \<and> rp_state p = R_approved \<and> rp_payload p \<noteq> None \<and> rp_expires p > clock
     \<and> owner_scope db clock time1 time2 key res account secret p) (t_record_proposals db)"

text \<open>
  \<open>agent_attribute_commit_source\<close>: the candidate is for the approved target's next revision. The
  candidate is stored as its text; the trigger reads it back.
\<close>

definition candidate_matches :: "json \<Rightarrow> target_row \<Rightarrow> bool" where
  "candidate_matches v t \<longleftrightarrow> get v ''format_version'' = JNum 2 \<and> get v ''vault_id'' = JStr (tr_vault t)
     \<and> get v ''kind'' = JStr (tr_kind t) \<and> get v ''revision'' = JNum (tr_base t + 1)
     \<and> get v ''key_generation'' = JNum (tr_generation t)
     \<and> get v ''owner_key_revision'' = JNum (tr_owner_revision t)"

definition insert_commit :: "json \<Rightarrow> record_commit \<Rightarrow> agent_db \<Rightarrow> agent_db option" where
  "insert_commit candidate c db = do {
     guard_row (\<forall>d \<in> set (t_commits db). rc_proposal d \<noteq> rc_proposal c
       \<and> \<not> (rc_account d = rc_account c \<and> rc_operation d = rc_operation c));
     guard_row (rc_result c = None \<and> (\<exists>p \<in> set (t_record_proposals db). \<exists>g \<in> set (t_grants db).
         ag_id g = rp_grant p \<and> rp_id p = rc_proposal c \<and> ag_version g = 2 \<and> ag_account g = rc_account c
       \<and> rp_state p = R_approved \<and> rp_payload p \<noteq> None \<and> tr_origin (rp_target p) = rc_origin c
       \<and> candidate_matches candidate (rp_target p)));
     Some (db\<lparr>t_commits := t_commits db @ [c]\<rparr>) }"

definition prepare_batch ::
  "int \<Rightarrow> string \<Rightarrow> string \<Rightarrow> string \<Rightarrow> json \<Rightarrow> string \<Rightarrow> string \<Rightarrow> int \<Rightarrow> int \<Rightarrow> int \<Rightarrow> string \<Rightarrow> string \<Rightarrow> string \<Rightarrow> string
     \<Rightarrow> string \<Rightarrow> int \<Rightarrow> agent_db \<Rightarrow> agent_db option" where
  "prepare_batch clock proposal hash operation candidate candidate_digest origin prepared time1 time2 key res
       account secret event audited db = do {
     let rows = filter (\<lambda>p. rp_id p = proposal \<and> rp_request p = hash \<and> rp_state p = R_approved
         \<and> rp_payload p \<noteq> None \<and> rp_expires p > clock \<and> owner_scope db clock time1 time2 key res account secret p
         \<and> (\<forall>c \<in> set (t_commits db). rc_proposal c \<noteq> rp_id p)) (t_record_proposals db);
     db1 \<leftarrow> each (\<lambda>p. insert_commit candidate \<lparr>rc_proposal = rp_id p, rc_account = account,
         rc_operation = operation, rc_candidate = stringify candidate, rc_digest = candidate_digest,
         rc_origin = origin, rc_prepared = prepared, rc_result = None\<rparr>) rows db;
     each (\<lambda>p. insert_audit \<lparr>aa_id = event, aa_grant = rp_grant p, aa_operation = ''record-prepare'',
         aa_outcome = ''prepared'', aa_document = Some ''owner_note'', aa_created = audited\<rparr>)
       (filter (\<lambda>p. rp_id p = proposal \<and> rows \<noteq> []) (t_record_proposals db1)) db1 }"

definition select_commit ::
  "int \<Rightarrow> string \<Rightarrow> int \<Rightarrow> int \<Rightarrow> string \<Rightarrow> string \<Rightarrow> string \<Rightarrow> string \<Rightarrow> agent_db \<Rightarrow> record_commit option" where
  "select_commit clock proposal time1 time2 key res account secret db = find (\<lambda>c. rc_proposal c = proposal
     \<and> rc_account c = account \<and> (\<exists>p \<in> set (t_record_proposals db). rp_id p = rc_proposal c
        \<and> rp_state p = R_approved \<and> rp_expires p > clock
        \<and> owner_scope db clock time1 time2 key res account secret p)) (t_commits db)"

subsection \<open>Round trips\<close>

datatype record_query =
    Q_allow string target_row int int int string string string string string
  | Q_capability string int int string string string string
  | Q_held_capability int held_grant
  | Q_find_record string string
  | Q_record_propose string string string int int int held_grant string
  | Q_live_proposal string string int held_grant
  | Q_record_decide bool string string int int string string string string
  | Q_record string string record_state int int string string string string
  | Q_approved string string int int string string string string
  | Q_prepare string string string json string string int int int string string string string string int
  | Q_commit string int int string string string string

fun run_record :: "int \<Rightarrow> record_query \<Rightarrow> agent_db \<Rightarrow> (agent_answer \<times> agent_db) option" where
  "run_record clock (Q_allow grant t time time1 time2 key res account secret event) db =
     finished (allow_batch clock grant t time time1 time2 key res account secret event db)"
| "run_record clock (Q_capability grant time1 time2 key res account secret) db =
     replies Y_capability (select_capability clock grant time1 time2 key res account secret db) db"
| "run_record clock (Q_held_capability time h) db =
     replies Y_capability (find (held_capability db clock time h) (t_capabilities db)) db"
| "run_record clock (Q_find_record proposal grant) db =
     replies Y_record (find (\<lambda>p. rp_id p = proposal \<and> rp_grant p = grant) (t_record_proposals db)) db"
| "run_record clock (Q_record_propose proposal hash payload expires time time1 h event) db =
     finished (record_propose_batch clock proposal hash payload expires time time1 h event db)"
| "run_record clock (Q_live_proposal proposal hash time h) db =
     replies Y_record (live_proposal clock proposal hash time h db) db"
| "run_record clock (Q_record_decide approve proposal hash time1 time2 key res account secret) db =
     finished (record_decide clock approve proposal hash time1 time2 key res account secret db)"
| "run_record clock (Q_record proposal hash st time1 time2 key res account secret) db =
     replies Y_record (select_record clock proposal hash st time1 time2 key res account secret db) db"
| "run_record clock (Q_approved proposal hash time1 time2 key res account secret) db =
     replies Y_record (select_approved clock proposal hash time1 time2 key res account secret db) db"
| "run_record clock (Q_prepare proposal hash operation candidate candidate_digest origin prepared time1 time2 key res
       account secret event audited) db =
     finished (prepare_batch clock proposal hash operation candidate candidate_digest origin prepared time1 time2 key res
       account secret event audited db)"
| "run_record clock (Q_commit proposal time1 time2 key res account secret) db =
     replies Y_commit (select_commit clock proposal time1 time2 key res account secret db) db"

end
