(* ===== verification/AgentService.thy ===== *)
theory AgentService imports AgentOAuth AgentRecords begin

section \<open>The database behind the agent worker\<close>

text \<open>
  Everything that happens to the database of delegated access: \<open>agent_query\<close> has one constructor for
  every round trip of \<open>store.ts\<close>, \<open>oauth.ts\<close>, \<open>record-proposals.ts\<close> and \<open>model.ts\<close>, with the
  values it binds (\<open>database.ts\<close> sends the digest of a statement's text and its values, and nothing
  else), and \<open>provider_op\<close> the changes of the identity provider, with the triggers they fire.
  \<open>exec_agent\<close> is one of them in any order; an aborted transaction changes nothing.
\<close>

subsection \<open>Round trips\<close>

datatype agent_query = Store store_query | Oauth oauth_query | Records record_query

definition run_query :: "int \<Rightarrow> agent_query \<Rightarrow> agent_db \<Rightarrow> (agent_answer \<times> agent_db) option" where
  "run_query clock q db = (case q of
     Store q \<Rightarrow> run_store clock q db | Oauth q \<Rightarrow> run_oauth clock q db | Records q \<Rightarrow> run_record clock q db)"

subsection \<open>Changes of the identity provider\<close>

datatype provider_op =
    V_account account_row
  | V_credential credential_row
  | V_recipient recipient_row
  | V_client oauth_client
  | V_sessions "sso_session list" "(string \<times> string) list"
  | V_key_wraps "key_wrap list"
  | V_key_head key_head
  | V_drop_key_head string
  | V_record_head record_head
  | V_drop_record_head string string string string
  | V_consume string
  | V_finish string int

text \<open>Insert a row, or replace the row with the same key.\<close>

definition put_row :: "('r \<Rightarrow> 'k) \<Rightarrow> 'r \<Rightarrow> 'r list \<Rightarrow> 'r list" where
  "put_row k r rs = (if \<exists>q \<in> set rs. k q = k r then update_rows (\<lambda>q. k q = k r) (\<lambda>_. r) rs else rs @ [r])"

definition old_row :: "('r \<Rightarrow> 'k) \<Rightarrow> 'k \<Rightarrow> 'r list \<Rightarrow> 'r option" where
  "old_row k i rs = find (\<lambda>q. k q = i) rs"

text \<open>\<open>agent_grant_account_stop\<close>, \<open>agent_grant_credential_stop\<close> and \<open>agent_recipient_stop\<close>.\<close>

definition put_account :: "int \<Rightarrow> account_row \<Rightarrow> agent_db \<Rightarrow> agent_db option" where
  "put_account clock a db = (let db1 = db\<lparr>t_accounts := put_row sa_id a (t_accounts db)\<rparr> in
     case old_row sa_id (sa_id a) (t_accounts db) of None \<Rightarrow> Some db1
     | Some old \<Rightarrow> if \<not> sa_active a \<or> sa_epoch a \<noteq> sa_epoch old
         then stop_grants clock (\<lambda>g. ag_account g = sa_id a \<and> (\<not> sa_active a \<or> ag_epoch g \<noteq> sa_epoch a)) db1
         else Some db1)"

definition put_credential :: "int \<Rightarrow> credential_row \<Rightarrow> agent_db \<Rightarrow> agent_db option" where
  "put_credential clock c db = (let db1 = db\<lparr>t_credentials := put_row cr_id c (t_credentials db)\<rparr> in
     if old_row cr_id (cr_id c) (t_credentials db) \<noteq> None \<and> \<not> cr_active c
     then stop_grants clock (\<lambda>g. ag_credential g = cr_id c) db1 else Some db1)"

text \<open>\<open>agent_recipient_no_restore\<close> and \<open>agent_oauth_client_immutable\<close>: a disabled row stays as it is.\<close>

definition put_recipient :: "int \<Rightarrow> recipient_row \<Rightarrow> agent_db \<Rightarrow> agent_db option" where
  "put_recipient clock k db = (let db1 = db\<lparr>t_recipients := put_row rk_id k (t_recipients db)\<rparr> in
     case old_row rk_id (rk_id k) (t_recipients db) of None \<Rightarrow> Some db1
     | Some old \<Rightarrow> if \<not> rk_active old then None
         else if rk_active k then Some db1 else stop_grants clock (\<lambda>g. ag_key g = rk_id k) db1)"

definition put_client :: "oauth_client \<Rightarrow> agent_db \<Rightarrow> agent_db option" where
  "put_client c db = (case old_row oc_id (oc_id c) (t_clients db) of
     None \<Rightarrow> Some (db\<lparr>t_clients := t_clients db @ [c]\<rparr>)
   | Some old \<Rightarrow> if \<not> oc_active old \<or> oc_name c \<noteq> oc_name old \<or> oc_uris c \<noteq> oc_uris old \<or> oc_active c then None
       else Some (db\<lparr>t_clients := put_row oc_id c (t_clients db)\<rparr>))"

text \<open>\<open>agent_grant_owner_key_change\<close> and \<open>agent_grant_owner_key_delete\<close>.\<close>

definition in_vault :: "string \<Rightarrow> string \<Rightarrow> agent_grant \<Rightarrow> bool" where
  "in_vault account vault g \<longleftrightarrow> ag_version g = 2 \<and> ag_account g = account \<and> sr_vault (ag_source g) = vault"

definition put_key_head :: "int \<Rightarrow> key_head \<Rightarrow> agent_db \<Rightarrow> agent_db option" where
  "put_key_head clock k db = (let db1 = db\<lparr>t_key_heads := put_row kh_account k (t_key_heads db)\<rparr> in
     case old_row kh_account (kh_account k) (t_key_heads db) of None \<Rightarrow> Some db1
     | Some old \<Rightarrow> if k = old then Some db1 else stop_grants clock (in_vault (kh_account old) (kh_vault old)) db1)"

definition drop_key_head :: "int \<Rightarrow> string \<Rightarrow> agent_db \<Rightarrow> agent_db option" where
  "drop_key_head clock account db = (case old_row kh_account account (t_key_heads db) of None \<Rightarrow> Some db
     | Some old \<Rightarrow> stop_grants clock (in_vault (kh_account old) (kh_vault old))
         (db\<lparr>t_key_heads := delete_rows (\<lambda>k. kh_account k = account) (t_key_heads db)\<rparr>))"

text \<open>
  \<open>agent_grant_record_change\<close> and \<open>agent_grant_record_delete\<close> stop the grants made from the record;
  \<open>agent_attribute_proposal_record_insert\<close>, \<open>_update\<close> and \<open>_delete\<close> invalidate the open proposals for it.
\<close>

definition head_key :: "record_head \<Rightarrow> string \<times> string \<times> string \<times> string" where
  "head_key h = (rh_account h, rh_vault h, rh_collection h, rh_record h)"

definition of_record :: "record_head \<Rightarrow> agent_grant \<Rightarrow> bool" where
  "of_record h g \<longleftrightarrow> in_vault (rh_account h) (rh_vault h) g
     \<and> sr_collection (ag_source g) = rh_collection h \<and> sr_record (ag_source g) = rh_record h"

definition targets_record :: "agent_db \<Rightarrow> record_head \<Rightarrow> record_proposal \<Rightarrow> bool" where
  "targets_record db h p \<longleftrightarrow> tr_version (rp_target p) = 2
   \<and> (\<exists>g \<in> set (t_grants db). ag_id g = rp_grant p \<and> ag_account g = rh_account h)
   \<and> tr_vault (rp_target p) = rh_vault h \<and> tr_collection (rp_target p) = rh_collection h
   \<and> tr_record (rp_target p) = rh_record h \<and> record_open p"

definition head_moved :: "record_head \<Rightarrow> target_row \<Rightarrow> bool" where
  "head_moved h t \<longleftrightarrow> tr_base t \<noteq> rh_revision h \<or> tr_deleted t \<noteq> rh_deleted h \<or> tr_sha t \<noteq> rh_sha h
     \<or> tr_kind t \<noteq> rh_kind h \<or> rh_format h \<noteq> 2 \<or> tr_generation t \<noteq> rh_generation h"

definition put_record_head :: "int \<Rightarrow> record_head \<Rightarrow> agent_db \<Rightarrow> agent_db option" where
  "put_record_head clock h db = do {
     let db1 = db\<lparr>t_record_heads := put_row head_key h (t_record_heads db)\<rparr>;
     db2 \<leftarrow> (case old_row head_key (head_key h) (t_record_heads db) of None \<Rightarrow> Some db1
       | Some old \<Rightarrow> if rh_kind h \<noteq> rh_kind old \<or> rh_revision h \<noteq> rh_revision old \<or> rh_sha h \<noteq> rh_sha old
             \<or> rh_generation h \<noteq> rh_generation old \<or> rh_format h \<noteq> rh_format old \<or> rh_deleted h
           then stop_grants clock (of_record old) db1 else Some db1);
     set_record_rows clock R_invalid False (\<lambda>p. targets_record db2 h p \<and> head_moved h (rp_target p)) db2 }"

definition drop_record_head ::
  "int \<Rightarrow> string \<times> string \<times> string \<times> string \<Rightarrow> agent_db \<Rightarrow> agent_db option" where
  "drop_record_head clock k db = (case old_row head_key k (t_record_heads db) of None \<Rightarrow> Some db
     | Some old \<Rightarrow> do {
         db1 \<leftarrow> stop_grants clock (of_record old)
           (db\<lparr>t_record_heads := delete_rows (\<lambda>h. head_key h = k) (t_record_heads db)\<rparr>);
         set_record_rows clock R_invalid False (targets_record db1 old) db1 })"

text \<open>
  The provider consumes a prepared commit: \<open>consume\<close> and \<open>finish\<close> of
  \<open>worker/src/vault_owner_approved.rs\<close>, with any further conditions the provider has.
\<close>

definition consume_commit :: "int \<Rightarrow> string \<Rightarrow> agent_db \<Rightarrow> agent_db option" where
  "consume_commit clock proposal db = set_record_rows clock R_committed False (\<lambda>p. rp_id p = proposal
     \<and> rp_state p = R_approved \<and> rp_expires p > clock
     \<and> (\<exists>c \<in> set (t_commits db). rc_proposal c = rp_id p \<and> rc_result c = None)) db"

definition finish_commit :: "string \<Rightarrow> int \<Rightarrow> agent_db \<Rightarrow> agent_db" where
  "finish_commit proposal revision db = db\<lparr>t_commits := update_rows
     (\<lambda>c. rc_proposal c = proposal \<and> rc_result c = None) (\<lambda>c. c\<lparr>rc_result := Some revision\<rparr>) (t_commits db)\<rparr>"

fun run_provider :: "int \<Rightarrow> provider_op \<Rightarrow> agent_db \<Rightarrow> agent_db option" where
  "run_provider clock (V_account a) db = put_account clock a db"
| "run_provider clock (V_credential c) db = put_credential clock c db"
| "run_provider clock (V_recipient k) db = put_recipient clock k db"
| "run_provider clock (V_client c) db = put_client c db"
| "run_provider clock (V_sessions ss xs) db = Some (db\<lparr>t_sessions := ss, t_contexts := xs\<rparr>)"
| "run_provider clock (V_key_wraps ws) db = Some (db\<lparr>t_key_wraps := ws\<rparr>)"
| "run_provider clock (V_key_head k) db = put_key_head clock k db"
| "run_provider clock (V_drop_key_head a) db = drop_key_head clock a db"
| "run_provider clock (V_record_head h) db = put_record_head clock h db"
| "run_provider clock (V_drop_record_head a v c r) db = drop_record_head clock (a, v, c, r) db"
| "run_provider clock (V_consume p) db = consume_commit clock p db"
| "run_provider clock (V_finish p n) db = Some (finish_commit p n db)"

subsection \<open>Histories\<close>

datatype agent_op = Op_query int agent_query | Op_provider int provider_op

definition exec_agent :: "agent_op \<Rightarrow> agent_db \<Rightarrow> agent_db" where
  "exec_agent op db = (case op of
     Op_query clock q \<Rightarrow> (case run_query clock q db of Some (_, db') \<Rightarrow> db' | None \<Rightarrow> db)
   | Op_provider clock v \<Rightarrow> (case run_provider clock v db of Some db' \<Rightarrow> db' | None \<Rightarrow> db))"

definition empty_agent_db :: agent_db where
  "empty_agent_db = \<lparr>t_grants = [], t_proposals = [], t_drafts = [], t_audits = [], t_capabilities = [],
     t_record_proposals = [], t_commits = [], t_clients = [], t_requests = [], t_tokens = [], t_recipients = [],
     t_accounts = [], t_credentials = [], t_key_heads = [], t_record_heads = [], t_key_wraps = [],
     t_contexts = [], t_sessions = []\<rparr>"

end
