(* ===== verification/AgentEffects.thy ===== *)
theory AgentEffects imports AgentService begin

section \<open>What the statements do to the tables\<close>

text \<open>
  Closed forms of the statements and triggers that change several tables: which tables a committed
  statement leaves alone, and what it makes of the others. \<open>adds_audits\<close>: the audit log grew by
  rows of existing grants.
\<close>

subsection \<open>The audit log\<close>

definition has_grant :: "agent_db \<Rightarrow> string \<Rightarrow> bool" where
  "has_grant db i \<longleftrightarrow> (\<exists>g \<in> set (t_grants db). ag_id g = i)"

definition adds_audits :: "agent_db \<Rightarrow> agent_db \<Rightarrow> bool" where
  "adds_audits db db' \<longleftrightarrow> (\<exists>as. db' = db\<lparr>t_audits := t_audits db @ as\<rparr> \<and> (\<forall>a \<in> set as. has_grant db (aa_grant a)))"

lemma adds_auditsI:
  assumes "db' = db\<lparr>t_audits := t_audits db'\<rparr>" and "t_audits db' = t_audits db @ as"
    and "\<forall>a \<in> set as. has_grant db (aa_grant a)"
  shows "adds_audits db db'"
  using assms by (auto simp: adds_audits_def)

lemma insert_audit_adds: "insert_audit a db = Some db' \<Longrightarrow> adds_audits db db'"
  unfolding insert_audit_def adds_audits_def has_grant_def
  by (rule exI [of _ "[a]"]) (auto split: Option.bind_splits)

lemma adds_audits_refl [simp]: "adds_audits db db"
  unfolding adds_audits_def by (rule exI [of _ "[]"]) simp

lemma adds_audits_trans: "adds_audits a b \<Longrightarrow> adds_audits b c \<Longrightarrow> adds_audits a c"
  unfolding adds_audits_def has_grant_def
  by (elim exE conjE, rule_tac x = "as @ asa" in exI) auto

lemma each_audit_adds:
  assumes "each (\<lambda>x. insert_audit (f x)) xs db = Some db'"
  shows "adds_audits db db'"
  using assms
  by (rule each_induct) (auto intro: adds_audits_trans dest: insert_audit_adds)

lemma adds_auditsD:
  assumes "adds_audits db db'"
  shows "t_grants db' = t_grants db" "t_proposals db' = t_proposals db" "t_drafts db' = t_drafts db"
    "t_capabilities db' = t_capabilities db" "t_record_proposals db' = t_record_proposals db"
    "t_commits db' = t_commits db" "t_clients db' = t_clients db" "t_requests db' = t_requests db"
    "t_tokens db' = t_tokens db" "t_recipients db' = t_recipients db" "t_accounts db' = t_accounts db"
    "t_credentials db' = t_credentials db" "t_key_heads db' = t_key_heads db"
    "t_record_heads db' = t_record_heads db" "t_key_wraps db' = t_key_wraps db"
    "t_contexts db' = t_contexts db" "t_sessions db' = t_sessions db"
  using assms by (auto simp: adds_audits_def)

subsection \<open>Record proposals\<close>

definition close_record :: "record_state \<Rightarrow> bool \<Rightarrow> record_proposal \<Rightarrow> record_proposal" where
  "close_record st keep r = r\<lparr>rp_state := st, rp_payload := (if keep then rp_payload r else None)\<rparr>"

lemma close_record_simps [simp]:
  "rp_id (close_record st keep r) = rp_id r" "rp_grant (close_record st keep r) = rp_grant r"
  "rp_revision (close_record st keep r) = rp_revision r" "rp_request (close_record st keep r) = rp_request r"
  "rp_expires (close_record st keep r) = rp_expires r" "rp_created (close_record st keep r) = rp_created r"
  "rp_target (close_record st keep r) = rp_target r" "rp_state (close_record st keep r) = st"
  "rp_payload (close_record st keep r) = (if keep then rp_payload r else None)"
  by (simp_all add: close_record_def)

lemma set_record_row_effect:
  assumes "set_record_row clock st keep p db = Some db'"
  shows "record_transition (rp_state p) st
     \<and> adds_audits (db\<lparr>t_record_proposals := update_rows (\<lambda>r. rp_id r = rp_id p) (close_record st keep)
          (t_record_proposals db)\<rparr>) db'"
  using assms unfolding set_record_row_def close_record_def [abs_def] Let_def
  by (auto split: Option.bind_splits if_splits dest: insert_audit_adds)

definition records_moved :: "record_state \<Rightarrow> bool \<Rightarrow> (record_proposal \<Rightarrow> bool) \<Rightarrow> agent_db \<Rightarrow> agent_db \<Rightarrow> bool" where
  "records_moved st keep P db db' \<longleftrightarrow> adds_audits
     (db\<lparr>t_record_proposals := update_rows P (close_record st keep) (t_record_proposals db)\<rparr>) db'"

lemma update_rows_compose:
  assumes "\<And>r. Q (f r) \<longleftrightarrow> Q r" and "\<And>r. f (f r) = f r"
  shows "update_rows Q f (update_rows P f rs) = update_rows (\<lambda>r. P r \<or> Q r) f rs"
  using assms by (auto simp: update_rows_def)

lemma each_set_record_row:
  assumes "each (set_record_row clock st keep) ps db = Some db'"
  shows "(\<forall>p \<in> set ps. record_transition (rp_state p) st)
     \<and> records_moved st keep (\<lambda>r. rp_id r \<in> rp_id ` set ps) db db'"
  using assms
proof (induction ps arbitrary: db)
  case Nil
  then show ?case by (simp add: records_moved_def update_rows_none)
next
  case (Cons p ps)
  then obtain d where d: "set_record_row clock st keep p db = Some d" "each (set_record_row clock st keep) ps d = Some db'"
    by (auto split: Option.bind_splits)
  let ?f = "close_record st keep" and ?in = "\<lambda>ps r. rp_id r \<in> rp_id ` set ps"
  let ?d = "db\<lparr>t_record_proposals := update_rows (?in [p]) ?f (t_record_proposals db)\<rparr>"
  from set_record_row_effect [OF d(1)] obtain as where as: "record_transition (rp_state p) st"
    "d = ?d\<lparr>t_audits := t_audits db @ as\<rparr>" "\<forall>a \<in> set as. has_grant db (aa_grant a)"
    by (auto simp: adds_audits_def has_grant_def)
  from Cons.IH [OF d(2)] obtain bs where bs: "\<forall>p \<in> set ps. record_transition (rp_state p) st"
    "db' = d\<lparr>t_record_proposals := update_rows (?in ps) ?f (t_record_proposals d), t_audits := t_audits d @ bs\<rparr>"
    "\<forall>a \<in> set bs. has_grant d (aa_grant a)"
    by (auto simp: records_moved_def adds_audits_def has_grant_def)
  have "update_rows (?in ps) ?f (update_rows (?in [p]) ?f (t_record_proposals db))
      = update_rows (?in (p # ps)) ?f (t_record_proposals db)"
    by (auto simp: update_rows_def close_record_def)
  with as bs have "db' = db\<lparr>t_record_proposals := update_rows (?in (p # ps)) ?f (t_record_proposals db),
      t_audits := t_audits db @ as @ bs\<rparr>" by simp
  moreover from as bs have "\<forall>a \<in> set (as @ bs). has_grant db (aa_grant a)" by (auto simp: has_grant_def)
  ultimately have "records_moved st keep (?in (p # ps)) db db'"
    unfolding records_moved_def adds_audits_def by (intro exI [of _ "as @ bs"]) (simp add: has_grant_def)
  with as(1) bs(1) show ?case by simp
qed

lemma set_record_rows_effect:
  assumes "set_record_rows clock st keep P db = Some db'" and "distinct (map rp_id (t_record_proposals db))"
  shows "(\<forall>p \<in> set (t_record_proposals db). P p \<longrightarrow> record_transition (rp_state p) st) \<and> records_moved st keep P db db'"
proof -
  have e: "update_rows (\<lambda>r. rp_id r \<in> rp_id ` set (filter P (t_record_proposals db))) f (t_record_proposals db)
      = update_rows P f (t_record_proposals db)" for f
    using assms(2) by (auto simp: update_rows_def distinct_map inj_on_def)
  show ?thesis
    using each_set_record_row [of clock st keep "filter P (t_record_proposals db)" db db'] assms(1)
    unfolding set_record_rows_def records_moved_def e by auto
qed

subsection \<open>Grants\<close>

definition stop_row :: "agent_grant \<Rightarrow> agent_grant" where
  "stop_row g = g\<lparr>ag_revoked := True, ag_revision := ag_revision g + 1, ag_snapshot := None\<rparr>"

definition reject_row :: "agent_proposal \<Rightarrow> agent_proposal" where
  "reject_row p = p\<lparr>ap_text := None, ap_state := P_rejected\<rparr>"

lemma stop_row_simps [simp]:
  "ag_id (stop_row g) = ag_id g" "ag_account (stop_row g) = ag_account g" "ag_epoch (stop_row g) = ag_epoch g"
  "ag_credential (stop_row g) = ag_credential g" "ag_resource (stop_row g) = ag_resource g"
  "ag_key (stop_row g) = ag_key g" "ag_operations (stop_row g) = ag_operations g"
  "ag_documents (stop_row g) = ag_documents g" "ag_token (stop_row g) = ag_token g"
  "ag_request (stop_row g) = ag_request g" "ag_expires (stop_row g) = ag_expires g"
  "ag_created (stop_row g) = ag_created g" "ag_version (stop_row g) = ag_version g"
  "ag_source (stop_row g) = ag_source g" "ag_revoked (stop_row g)" "ag_snapshot (stop_row g) = None"
  "ag_revision (stop_row g) = ag_revision g + 1"
  by (simp_all add: stop_row_def)

lemma reject_row_simps [simp]:
  "ap_id (reject_row p) = ap_id p" "ap_grant (reject_row p) = ap_grant p" "ap_request (reject_row p) = ap_request p"
  "ap_document (reject_row p) = ap_document p" "ap_title (reject_row p) = ap_title p"
  "ap_expires (reject_row p) = ap_expires p" "ap_created (reject_row p) = ap_created p"
  "ap_approved (reject_row p) = ap_approved p" "ap_result (reject_row p) = ap_result p"
  "ap_state (reject_row p) = P_rejected" "ap_text (reject_row p) = None"
  by (simp_all add: reject_row_def)

definition stopped :: "string set \<Rightarrow> agent_db \<Rightarrow> agent_db" where
  "stopped S db = db\<lparr>
     t_grants := update_rows (\<lambda>g. ag_id g \<in> S \<and> \<not> ag_revoked g) stop_row (t_grants db),
     t_proposals := update_rows (\<lambda>p. ap_grant p \<in> S \<and> proposal_open p) reject_row (t_proposals db),
     t_record_proposals := update_rows (\<lambda>p. rp_grant p \<in> S \<and> record_open p) (close_record R_invalid False)
       (t_record_proposals db)\<rparr>"

definition grants_stopped :: "string set \<Rightarrow> agent_db \<Rightarrow> agent_db \<Rightarrow> bool" where
  "grants_stopped S db db' \<longleftrightarrow> adds_audits (stopped S db) db'"

lemma stopped_tables [simp]:
  "t_grants (stopped S db) = update_rows (\<lambda>g. ag_id g \<in> S \<and> \<not> ag_revoked g) stop_row (t_grants db)"
  "t_proposals (stopped S db) = update_rows (\<lambda>p. ap_grant p \<in> S \<and> proposal_open p) reject_row (t_proposals db)"
  "t_record_proposals (stopped S db) = update_rows (\<lambda>p. rp_grant p \<in> S \<and> record_open p)
     (close_record R_invalid False) (t_record_proposals db)"
  "t_drafts (stopped S db) = t_drafts db" "t_audits (stopped S db) = t_audits db"
  "t_capabilities (stopped S db) = t_capabilities db" "t_commits (stopped S db) = t_commits db"
  "t_clients (stopped S db) = t_clients db" "t_requests (stopped S db) = t_requests db"
  "t_tokens (stopped S db) = t_tokens db" "t_recipients (stopped S db) = t_recipients db"
  "t_accounts (stopped S db) = t_accounts db" "t_credentials (stopped S db) = t_credentials db"
  "t_key_heads (stopped S db) = t_key_heads db" "t_record_heads (stopped S db) = t_record_heads db"
  "t_key_wraps (stopped S db) = t_key_wraps db" "t_contexts (stopped S db) = t_contexts db"
  "t_sessions (stopped S db) = t_sessions db"
  by (simp_all add: stopped_def)

lemma closed_rows [simp]:
  "\<not> proposal_open (reject_row p)" "\<not> record_open (close_record R_invalid keep r)"
  "\<not> record_open (close_record R_rejected keep r)" "\<not> record_open (close_record R_committed keep r)"
  by (simp_all add: proposal_open_def record_open_def)

lemma stopped_none [simp]: "stopped {} db = db"
  by (simp add: stopped_def update_rows_def)

lemma update_rows_twice:
  assumes "\<And>r. P r \<Longrightarrow> \<not> Q (f r)" 
  shows "update_rows Q f (update_rows P f rs) = update_rows (\<lambda>r. P r \<or> Q r) f rs"
  using assms by (auto simp: update_rows_def)

lemma stopped_stopped: "stopped B (stopped A db) = stopped (A \<union> B) db"
proof -
  have g: "update_rows (\<lambda>g. ag_id g \<in> B \<and> \<not> ag_revoked g) stop_row
      (update_rows (\<lambda>g. ag_id g \<in> A \<and> \<not> ag_revoked g) stop_row rs)
    = update_rows (\<lambda>g. ag_id g \<in> A \<union> B \<and> \<not> ag_revoked g) stop_row rs" for rs
    by (auto simp: update_rows_def)
  have p: "update_rows (\<lambda>p. ap_grant p \<in> B \<and> proposal_open p) reject_row
      (update_rows (\<lambda>p. ap_grant p \<in> A \<and> proposal_open p) reject_row rs)
    = update_rows (\<lambda>p. ap_grant p \<in> A \<union> B \<and> proposal_open p) reject_row rs" for rs
    by (auto simp: update_rows_def)
  have r: "update_rows (\<lambda>p. rp_grant p \<in> B \<and> record_open p) (close_record R_invalid False)
      (update_rows (\<lambda>p. rp_grant p \<in> A \<and> record_open p) (close_record R_invalid False) rs)
    = update_rows (\<lambda>p. rp_grant p \<in> A \<union> B \<and> record_open p) (close_record R_invalid False) rs" for rs
    by (auto simp: update_rows_def)
  show ?thesis unfolding stopped_def by (simp add: g p r)
qed

lemma has_grant_iff: "has_grant db i \<longleftrightarrow> i \<in> set (map ag_id (t_grants db))"
  by (auto simp: has_grant_def)

lemma has_grant_update [simp]:
  assumes "\<And>g. ag_id (f g) = ag_id g"
  shows "has_grant (db\<lparr>t_grants := update_rows P f (t_grants db)\<rparr>) i = has_grant db i"
  unfolding has_grant_iff using assms by (simp del: set_map)

lemma has_grant_stopped [simp]: "has_grant (stopped S db) i = has_grant db i"
  unfolding has_grant_iff by (simp del: set_map)

lemma adds_audits_stopped:
  assumes "adds_audits a b"
  shows "adds_audits (stopped S a) (stopped S b)"
proof -
  from assms obtain as where as: "b = a\<lparr>t_audits := t_audits a @ as\<rparr>" "\<forall>x \<in> set as. has_grant a (aa_grant x)"
    by (auto simp: adds_audits_def)
  show ?thesis
  proof (rule adds_auditsI [where as = as])
    show "stopped S b = (stopped S a)\<lparr>t_audits := t_audits (stopped S b)\<rparr>"
      by (rule agent_db.equality) (simp_all add: as(1))
  qed (use as in simp_all)
qed

lemma grants_stopped_trans: "grants_stopped A a b \<Longrightarrow> grants_stopped B b c \<Longrightarrow> grants_stopped (A \<union> B) a c"
  unfolding grants_stopped_def
  by (metis adds_audits_stopped adds_audits_trans stopped_stopped)

lemma stop_grant_effect:
  assumes "stop_grant clock g db = Some db'" and "distinct (map rp_id (t_record_proposals db))"
  shows "grants_stopped {ag_id g} db db'"
proof -
  let ?a = "db\<lparr>t_grants := update_rows (\<lambda>r. ag_id r = ag_id g \<and> \<not> ag_revoked r) stop_row (t_grants db)\<rparr>"
  from assms(1) obtain d where d: "adds_audits ?a d"
    "set_record_rows clock R_invalid False (\<lambda>p. rp_grant p = ag_id g \<and> record_open p)
       (d\<lparr>t_proposals := update_rows (\<lambda>p. ap_grant p = ag_id g \<and> proposal_open p) reject_row (t_proposals d)\<rparr>)
       = Some db'"
    unfolding stop_grant_def stop_row_def [abs_def] reject_row_def [abs_def]
    by (auto split: Option.bind_splits dest: insert_audit_adds)
  have "distinct (map rp_id (t_record_proposals d))" using assms(2) adds_auditsD [OF d(1)] by simp
  with set_record_rows_effect [OF d(2)] have
    "records_moved R_invalid False (\<lambda>p. rp_grant p = ag_id g \<and> record_open p)
       (d\<lparr>t_proposals := update_rows (\<lambda>p. ap_grant p = ag_id g \<and> proposal_open p) reject_row (t_proposals d)\<rparr>) db'"
    by simp
  then have e: "adds_audits (d\<lparr>t_proposals := update_rows (\<lambda>p. ap_grant p = ag_id g \<and> proposal_open p) reject_row (t_proposals d),
      t_record_proposals := update_rows (\<lambda>p. rp_grant p = ag_id g \<and> record_open p) (close_record R_invalid False)
        (t_record_proposals d)\<rparr>) db'"
    by (simp add: records_moved_def)
  have "adds_audits (stopped {ag_id g} db) (d\<lparr>t_proposals := update_rows (\<lambda>p. ap_grant p = ag_id g \<and> proposal_open p) reject_row (t_proposals d),
      t_record_proposals := update_rows (\<lambda>p. rp_grant p = ag_id g \<and> record_open p) (close_record R_invalid False)
        (t_record_proposals d)\<rparr>)"
  proof -
    from d(1) obtain as where as: "d = ?a\<lparr>t_audits := t_audits db @ as\<rparr>" "\<forall>x \<in> set as. has_grant db (aa_grant x)"
      by (auto simp: adds_audits_def)
    show ?thesis
    proof (rule adds_auditsI [where as = as])
    qed (use as in simp_all)
  qed
  with e show ?thesis unfolding grants_stopped_def by (rule adds_audits_trans [rotated])
qed

lemma map_rp_id_stopped: "grants_stopped S db db' \<Longrightarrow> map rp_id (t_record_proposals db') = map rp_id (t_record_proposals db)"
  by (auto simp: grants_stopped_def dest: adds_auditsD)

lemma each_stop_grant:
  "each (stop_grant clock) gs db = Some db' \<Longrightarrow> distinct (map rp_id (t_record_proposals db))
    \<Longrightarrow> grants_stopped (ag_id ` set gs) db db'"
proof (induction gs arbitrary: db)
  case Nil
  then show ?case by (simp add: grants_stopped_def)
next
  case (Cons g gs)
  then obtain d where d: "stop_grant clock g db = Some d" "each (stop_grant clock) gs d = Some db'"
    by (auto split: Option.bind_splits)
  from stop_grant_effect [OF d(1) Cons.prems(2)] have s: "grants_stopped {ag_id g} db d" .
  with Cons.prems(2) have "distinct (map rp_id (t_record_proposals d))" by (simp add: map_rp_id_stopped)
  from grants_stopped_trans [OF s Cons.IH [OF d(2) this]] show ?case by simp
qed

lemma stop_grants_effect:
  assumes "stop_grants clock P db = Some db'" and "distinct (map rp_id (t_record_proposals db))"
  shows "grants_stopped {ag_id g | g. g \<in> set (t_grants db) \<and> P g \<and> \<not> ag_revoked g} db db'"
  using each_stop_grant [OF assms [unfolded stop_grants_def]] by (simp add: image_def Collect_conj_eq conj_assoc) (simp add: Bex_def conj_ac)

subsection \<open>Batches in parts\<close>

text \<open>The statements of \<open>revoke\<close> and of \<open>cleanup\<close>, one after another.\<close>

definition rejected_in :: "string \<Rightarrow> agent_db \<Rightarrow> agent_db" where
  "rejected_in account db = db\<lparr>t_proposals := update_rows
     (\<lambda>p. ap_state p \<noteq> P_executed \<and> revoked_in db account (ap_grant p)) reject_row (t_proposals db)\<rparr>"

lemma revoke_parts:
  assumes "revoke_batch clock event time account grant secret db = Some db'"
  obtains a b where "adds_audits db a"
    "stop_grants clock (\<lambda>g. names_grant account grant g \<and> owner_live db clock secret account time) a = Some b"
    "set_record_rows clock R_rejected False
       (\<lambda>p. record_open p \<and> revoked_in (rejected_in account b) account (rp_grant p)) (rejected_in account b) = Some db'"
  using assms unfolding revoke_batch_def Let_def rejected_in_def reject_row_def [abs_def]
  by (auto split: Option.bind_splits dest: each_audit_adds)

definition clear_snapshots :: "int \<Rightarrow> agent_db \<Rightarrow> agent_db" where
  "clear_snapshots time db = db\<lparr>t_grants := update_rows (\<lambda>g. ag_expires g \<le> time \<or> ag_revoked g)
     (\<lambda>g. g\<lparr>ag_snapshot := None\<rparr>) (t_grants db)\<rparr>"

definition expire_proposals :: "int \<Rightarrow> agent_db \<Rightarrow> agent_db" where
  "expire_proposals time db = db\<lparr>t_proposals := update_rows (\<lambda>p. ap_expires p \<le> time \<and> proposal_open p) reject_row
     (t_proposals db)\<rparr>"

definition drop_audits :: "int \<Rightarrow> agent_db \<Rightarrow> agent_db" where
  "drop_audits time db = db\<lparr>t_audits := delete_rows (\<lambda>a. aa_created a < time - retention) (t_audits db)\<rparr>"

definition drop_drafts :: "int \<Rightarrow> agent_db \<Rightarrow> agent_db" where
  "drop_drafts time db = db\<lparr>t_drafts := delete_rows (\<lambda>d. ad_created d < time - retention) (t_drafts db)\<rparr>"

definition clear_texts :: "int \<Rightarrow> agent_db \<Rightarrow> agent_db" where
  "clear_texts time db = db\<lparr>t_proposals := update_rows (\<lambda>p. ap_expires p \<le> time) (\<lambda>p. p\<lparr>ap_text := None\<rparr>)
     (t_proposals db)\<rparr>"

lemmas cleanup_defs = clear_snapshots_def expire_proposals_def drop_audits_def drop_drafts_def clear_texts_def

definition cleanup_rows :: "int list \<Rightarrow> agent_db \<Rightarrow> agent_db" where
  "cleanup_rows ts db = clear_texts (ts ! 4) (drop_drafts (ts ! 3) (drop_audits (ts ! 2)
     (expire_proposals (ts ! 1) (clear_snapshots (ts ! 0) db))))"

lemma cleanup_parts:
  assumes "cleanup_batch clock ts db = Some db'"
  obtains b c P Q where "delete_proposals P (cleanup_rows ts db) = Some b"
    "set_record_rows clock R_invalid False (\<lambda>p. rp_expires p \<le> ts ! 6 \<and> record_open p) b = Some c"
    "delete_grants Q (delete_record_proposals (\<lambda>p. rp_created p < ts ! 7 - retention) c) = Some db'"
  using assms unfolding cleanup_batch_def Let_def cleanup_rows_def cleanup_defs reject_row_def [abs_def]
  by (auto split: Option.bind_splits)

end
