(* ===== verification/AgentLaws.thy ===== *)
theory AgentLaws imports AgentEffects begin

section \<open>The tables are consistent\<close>

text \<open>
  \<open>agent_ok\<close> is the invariant of the database of delegated access: keys are unique, every row that
  names another finds it, a revoked grant has no snapshot and no open proposal, a draft is the
  result of an executed proposal, and a token belongs to a request its owner approved and that was
  redeemed for it. \<open>agent_ok_exec\<close>: every statement and every change of the provider keeps it.
\<close>

definition grant_ok :: "agent_grant \<Rightarrow> bool" where
  "grant_ok g \<longleftrightarrow> (ag_revoked g \<longrightarrow> ag_snapshot g = None) \<and> ag_revision g = (if ag_revoked g then 2 else 1)
   \<and> ag_version g = 2 \<and> grant_shape g \<and> ag_expires g \<le> ag_created g + 86400"

definition grants_ok :: "agent_grant list \<Rightarrow> bool" where
  "grants_ok gs \<longleftrightarrow> distinct (map ag_id gs) \<and> (\<forall>g \<in> set gs. grant_ok g)"

definition proposal_ok :: "agent_grant list \<Rightarrow> agent_proposal \<Rightarrow> bool" where
  "proposal_ok gs p \<longleftrightarrow> (\<exists>g \<in> set gs. ag_id g = ap_grant p \<and> ap_expires p \<le> ag_expires g
     \<and> (proposal_open p \<longrightarrow> \<not> ag_revoked g))
   \<and> (ap_state p \<in> {P_approved, P_executed} \<longrightarrow> ap_approved p = Some 1)
   \<and> (ap_state p = P_executed \<longleftrightarrow> ap_result p \<noteq> None)"

definition proposals_ok :: "agent_grant list \<Rightarrow> agent_proposal list \<Rightarrow> bool" where
  "proposals_ok gs ps \<longleftrightarrow> distinct (map ap_id ps) \<and> (\<forall>p \<in> set ps. proposal_ok gs p)"

text \<open>A draft is the result of its proposal; the proposal's text is the draft's, or was cleared since.\<close>

definition result_of :: "agent_grant list \<Rightarrow> agent_draft \<Rightarrow> agent_proposal \<Rightarrow> bool" where
  "result_of gs d p \<longleftrightarrow> ap_id p = ad_proposal d \<and> ap_state p = P_executed \<and> ap_result p = Some (ad_id d)
     \<and> ap_title p = ad_title d \<and> ap_text p \<in> {None, Some (ad_text d)}
     \<and> (\<exists>g \<in> set gs. ag_id g = ap_grant p \<and> ag_account g = ad_account d)"

definition drafts_ok :: "agent_grant list \<Rightarrow> agent_proposal list \<Rightarrow> agent_draft list \<Rightarrow> bool" where
  "drafts_ok gs ps ds \<longleftrightarrow> distinct (map ad_proposal ds) \<and> (\<forall>d \<in> set ds. \<exists>p \<in> set ps. result_of gs d p)"

definition audits_ok :: "agent_grant list \<Rightarrow> agent_audit list \<Rightarrow> bool" where
  "audits_ok gs as \<longleftrightarrow> (\<forall>a \<in> set as. aa_grant a \<in> ag_id ` set gs)"

definition capabilities_ok :: "agent_grant list \<Rightarrow> capability_row list \<Rightarrow> bool" where
  "capabilities_ok gs cs \<longleftrightarrow> distinct (map ac_grant cs) \<and> (\<forall>c \<in> set cs. ac_revision c = 1
     \<and> target_shape (ac_target c) \<and> (\<exists>g \<in> set gs. ag_id g = ac_grant c \<and> ac_expires c \<le> ag_expires g))"

definition record_ok :: "agent_grant list \<Rightarrow> capability_row list \<Rightarrow> record_commit list \<Rightarrow> record_proposal \<Rightarrow> bool" where
  "record_ok gs cs ms p \<longleftrightarrow> (\<exists>g \<in> set gs. ag_id g = rp_grant p \<and> (record_open p \<longrightarrow> \<not> ag_revoked g))
   \<and> (\<exists>c \<in> set cs. ac_grant c = rp_grant p \<and> ac_target c = rp_target p \<and> rp_expires p \<le> ac_expires c)
   \<and> rp_revision p = 1 \<and> (rp_payload p \<noteq> None \<longleftrightarrow> record_open p)
   \<and> (rp_state p = R_committed \<longrightarrow> (\<exists>m \<in> set ms. rc_proposal m = rp_id p))"

definition records_ok ::
  "agent_grant list \<Rightarrow> capability_row list \<Rightarrow> record_commit list \<Rightarrow> record_proposal list \<Rightarrow> bool" where
  "records_ok gs cs ms ps \<longleftrightarrow> distinct (map rp_id ps) \<and> (\<forall>p \<in> set ps. record_ok gs cs ms p)"

text \<open>A prepared commit is for a proposal the owner approved.\<close>

definition commits_ok :: "record_proposal list \<Rightarrow> record_commit list \<Rightarrow> bool" where
  "commits_ok ps ms \<longleftrightarrow> distinct (map rc_proposal ms) \<and> (\<forall>m \<in> set ms. \<exists>p \<in> set ps. rp_id p = rc_proposal m
     \<and> rp_state p \<in> {R_approved, R_invalid, R_committed} \<and> tr_origin (rp_target p) = rc_origin m)"

definition request_ok :: "agent_grant list \<Rightarrow> oauth_request \<Rightarrow> bool" where
  "request_ok gs r \<longleftrightarrow> (or_account r = None \<longleftrightarrow> or_secret r = None) \<and> (case or_decision r of
     Some Consent_approved \<Rightarrow> or_code r \<noteq> None \<and> or_revision r = Some 1 \<and> (\<exists>g \<in> set gs. or_grant r = Some (ag_id g)
       \<and> or_account r = Some (ag_account g) \<and> set (or_scopes r) \<subseteq> set (ag_operations g))
   | _ \<Rightarrow> or_grant r = None \<and> or_code r = None \<and> or_redeemed r = None)"

definition requests_ok :: "agent_grant list \<Rightarrow> oauth_request list \<Rightarrow> bool" where
  "requests_ok gs rs \<longleftrightarrow> distinct (map or_id rs) \<and> (\<forall>r \<in> set rs. request_ok gs r)"

definition token_of :: "oauth_token \<Rightarrow> oauth_request \<Rightarrow> bool" where
  "token_of t r \<longleftrightarrow> or_id r = ot_request t \<and> or_decision r = Some Consent_approved \<and> or_redeemed r \<noteq> None
     \<and> or_client r = ot_client t \<and> or_grant r = Some (ot_grant t) \<and> or_revision r = Some (ot_revision t)
     \<and> or_resource r = ot_resource t \<and> or_scopes r = ot_scopes t \<and> or_details r = ot_details t"

definition tokens_ok :: "agent_grant list \<Rightarrow> oauth_request list \<Rightarrow> oauth_token list \<Rightarrow> bool" where
  "tokens_ok gs rs ts \<longleftrightarrow> distinct (map ot_hash ts) \<and> distinct (map ot_request ts)
   \<and> (\<forall>t \<in> set ts. (\<exists>r \<in> set rs. token_of t r) \<and> ot_expires t \<le> ot_created t + 3600
        \<and> (\<exists>g \<in> set gs. ag_id g = ot_grant t \<and> ot_expires t \<le> ag_expires g))
   \<and> (\<forall>r \<in> set rs. or_redeemed r \<noteq> None \<longrightarrow> or_id r \<in> ot_request ` set ts)"

definition agent_ok :: "agent_db \<Rightarrow> bool" where
  "agent_ok db \<longleftrightarrow> grants_ok (t_grants db) \<and> proposals_ok (t_grants db) (t_proposals db)
   \<and> drafts_ok (t_grants db) (t_proposals db) (t_drafts db) \<and> audits_ok (t_grants db) (t_audits db)
   \<and> capabilities_ok (t_grants db) (t_capabilities db)
   \<and> records_ok (t_grants db) (t_capabilities db) (t_commits db) (t_record_proposals db)
   \<and> commits_ok (t_record_proposals db) (t_commits db)
   \<and> requests_ok (t_grants db) (t_requests db) \<and> tokens_ok (t_grants db) (t_requests db) (t_tokens db)"

lemma agent_ok_empty: "agent_ok empty_agent_db"
  by (simp add: agent_ok_def empty_agent_db_def grants_ok_def proposals_ok_def drafts_ok_def audits_ok_def
      capabilities_ok_def records_ok_def commits_ok_def requests_ok_def tokens_ok_def)

lemma agent_ok_provider_tables [simp]:
  "agent_ok (db\<lparr>t_clients := a\<rparr>) = agent_ok db" "agent_ok (db\<lparr>t_recipients := b\<rparr>) = agent_ok db"
  "agent_ok (db\<lparr>t_accounts := c\<rparr>) = agent_ok db" "agent_ok (db\<lparr>t_credentials := d\<rparr>) = agent_ok db"
  "agent_ok (db\<lparr>t_key_heads := e\<rparr>) = agent_ok db" "agent_ok (db\<lparr>t_record_heads := f\<rparr>) = agent_ok db"
  "agent_ok (db\<lparr>t_key_wraps := g\<rparr>) = agent_ok db" "agent_ok (db\<lparr>t_contexts := h\<rparr>) = agent_ok db"
  "agent_ok (db\<lparr>t_sessions := i\<rparr>) = agent_ok db"
  by (simp_all add: agent_ok_def)

lemma image_update_rows [simp]: "(\<And>r. k (f r) = k r) \<Longrightarrow> k ` set (update_rows P f rs) = k ` set rs"
  by (simp flip: set_map)

lemma agent_okD:
  assumes "agent_ok db"
  shows "grants_ok (t_grants db)" "proposals_ok (t_grants db) (t_proposals db)"
    "drafts_ok (t_grants db) (t_proposals db) (t_drafts db)" "audits_ok (t_grants db) (t_audits db)"
    "capabilities_ok (t_grants db) (t_capabilities db)"
    "records_ok (t_grants db) (t_capabilities db) (t_commits db) (t_record_proposals db)"
    "commits_ok (t_record_proposals db) (t_commits db)" "requests_ok (t_grants db) (t_requests db)"
    "tokens_ok (t_grants db) (t_requests db) (t_tokens db)"
  using assms by (simp_all add: agent_ok_def)

lemma agent_ok_audits: "agent_ok db \<Longrightarrow> adds_audits db db' \<Longrightarrow> agent_ok db'"
  by (auto simp: agent_ok_def adds_audits_def audits_ok_def has_grant_def) (metis image_eqI)

subsection \<open>Changes of the grants\<close>

text \<open>\<open>kept_as\<close>: the grants are still there, with what other rows rely on; \<open>still_open\<close>: none was revoked.\<close>

definition kept_as :: "agent_grant list \<Rightarrow> agent_grant list \<Rightarrow> bool" where
  "kept_as gs hs \<longleftrightarrow> (\<forall>g \<in> set gs. \<exists>h \<in> set hs. ag_id h = ag_id g \<and> ag_account h = ag_account g
     \<and> ag_expires h = ag_expires g \<and> ag_operations h = ag_operations g)"

definition still_open :: "agent_grant list \<Rightarrow> agent_grant list \<Rightarrow> bool" where
  "still_open gs hs \<longleftrightarrow> (\<forall>g \<in> set gs. \<exists>h \<in> set hs. ag_id h = ag_id g \<and> ag_account h = ag_account g
     \<and> ag_expires h = ag_expires g \<and> ag_operations h = ag_operations g \<and> (ag_revoked h \<longrightarrow> ag_revoked g))"

lemma still_open_kept: "still_open gs hs \<Longrightarrow> kept_as gs hs"
  unfolding still_open_def kept_as_def by blast

lemma kept_as_drafts: "kept_as gs hs \<Longrightarrow> drafts_ok gs ps ds \<Longrightarrow> drafts_ok hs ps ds"
  unfolding drafts_ok_def result_of_def kept_as_def by metis

lemma kept_as_ids: "kept_as gs hs \<Longrightarrow> ag_id ` set gs \<subseteq> ag_id ` set hs"
proof
  fix i assume kept: "kept_as gs hs" and "i \<in> ag_id ` set gs"
  then obtain g where "g \<in> set gs" "i = ag_id g" by auto
  with kept obtain h where "h \<in> set hs" "i = ag_id h" unfolding kept_as_def by metis
  then show "i \<in> ag_id ` set hs" by simp
qed

lemma kept_as_audits: "kept_as gs hs \<Longrightarrow> audits_ok gs as \<Longrightarrow> audits_ok hs as"
  by (drule kept_as_ids) (auto simp: audits_ok_def)

lemma kept_as_capabilities: "kept_as gs hs \<Longrightarrow> capabilities_ok gs cs \<Longrightarrow> capabilities_ok hs cs"
  unfolding capabilities_ok_def kept_as_def by metis

lemma kept_as_request: "kept_as gs hs \<Longrightarrow> request_ok gs r \<Longrightarrow> request_ok hs r"
  unfolding request_ok_def kept_as_def by (cases "or_decision r"; auto split: consent.splits) metis

lemma kept_as_requests: "kept_as gs hs \<Longrightarrow> requests_ok gs rs \<Longrightarrow> requests_ok hs rs"
  unfolding requests_ok_def by (auto intro: kept_as_request)

lemma kept_as_tokens: "kept_as gs hs \<Longrightarrow> tokens_ok gs rs ts \<Longrightarrow> tokens_ok hs rs ts"
  unfolding tokens_ok_def kept_as_def by metis

lemma still_open_proposal: "still_open gs hs \<Longrightarrow> proposal_ok gs p \<Longrightarrow> proposal_ok hs p"
  unfolding proposal_ok_def still_open_def by metis

lemma still_open_record: "still_open gs hs \<Longrightarrow> record_ok gs cs ms p \<Longrightarrow> record_ok hs cs ms p"
  unfolding record_ok_def still_open_def by metis

lemma agent_ok_grants:
  assumes "agent_ok db" and "grants_ok hs" and "still_open (t_grants db) hs"
  shows "agent_ok (db\<lparr>t_grants := hs\<rparr>)"
  using assms kept_as_drafts kept_as_audits kept_as_capabilities kept_as_requests kept_as_tokens
    still_open_proposal still_open_record still_open_kept [OF assms(3)]
  by (simp add: agent_ok_def proposals_ok_def records_ok_def)

lemma still_open_append: "still_open gs (gs @ hs)"
  unfolding still_open_def by auto

lemma update_rows_member: "r \<in> set rs \<Longrightarrow> (if P r then f r else r) \<in> set (update_rows P f rs)"
  by (auto simp: update_rows_def)

lemma still_open_update:
  assumes "\<And>g. ag_id (f g) = ag_id g" "\<And>g. ag_account (f g) = ag_account g" "\<And>g. ag_expires (f g) = ag_expires g"
    "\<And>g. ag_operations (f g) = ag_operations g" "\<And>g. ag_revoked (f g) = ag_revoked g"
  shows "still_open gs (update_rows P f gs)"
  unfolding still_open_def
proof
  fix g assume "g \<in> set gs"
  from update_rows_member [OF this] show "\<exists>h \<in> set (update_rows P f gs). ag_id h = ag_id g \<and> ag_account h = ag_account g
     \<and> ag_expires h = ag_expires g \<and> ag_operations h = ag_operations g \<and> (ag_revoked h \<longrightarrow> ag_revoked g)"
    by (rule bexI [rotated]) (simp add: assms)
qed

lemma kept_as_stopped: "kept_as (t_grants db) (t_grants (stopped S db))"
  unfolding kept_as_def
proof
  fix g assume "g \<in> set (t_grants db)"
  from update_rows_member [OF this, of "\<lambda>g. ag_id g \<in> S \<and> \<not> ag_revoked g" stop_row]
  show "\<exists>h \<in> set (t_grants (stopped S db)). ag_id h = ag_id g \<and> ag_account h = ag_account g
     \<and> ag_expires h = ag_expires g \<and> ag_operations h = ag_operations g"
    by (intro bexI [where x = "if ag_id g \<in> S \<and> \<not> ag_revoked g then stop_row g else g"]) simp_all
qed

lemma grant_ok_stop: "grant_ok g \<Longrightarrow> \<not> ag_revoked g \<Longrightarrow> grant_ok (stop_row g)"
  by (simp add: grant_ok_def grant_shape_def)

lemma agent_ok_stopped:
  assumes "agent_ok db"
  shows "agent_ok (stopped S db)"
proof -
  note ok = agent_okD [OF assms]
  have "grants_ok (t_grants (stopped S db))"
    using ok(1) by (auto simp: grants_ok_def in_update_rows grant_ok_stop)
  moreover have "proposals_ok (t_grants (stopped S db)) (t_proposals (stopped S db))"
    unfolding proposals_ok_def
  proof (intro conjI ballI)
    fix q assume "q \<in> set (t_proposals (stopped S db))"
    then obtain p where p: "p \<in> set (t_proposals db)"
      and q: "q = (if ap_grant p \<in> S \<and> proposal_open p then reject_row p else p)"
      by (auto simp: in_update_rows)
    from ok(2) p have po: "proposal_ok (t_grants db) p" by (simp add: proposals_ok_def)
    then obtain g where g: "g \<in> set (t_grants db)" "ag_id g = ap_grant p" "ap_expires p \<le> ag_expires g"
      "proposal_open p \<longrightarrow> \<not> ag_revoked g" by (auto simp: proposal_ok_def)
    let ?g = "if ag_id g \<in> S \<and> \<not> ag_revoked g then stop_row g else g"
    from g(1) have "?g \<in> set (t_grants (stopped S db))" by (auto simp: in_update_rows)
    moreover have "ag_id ?g = ap_grant q \<and> ap_expires q \<le> ag_expires ?g \<and> (proposal_open q \<longrightarrow> \<not> ag_revoked ?g)"
      using g q by auto
    moreover have "(ap_state q \<in> {P_approved, P_executed} \<longrightarrow> ap_approved q = Some 1)
        \<and> (ap_state q = P_executed \<longleftrightarrow> ap_result q \<noteq> None)"
      using po q by (auto simp: proposal_ok_def proposal_open_def)
    ultimately show "proposal_ok (t_grants (stopped S db)) q" unfolding proposal_ok_def by blast
  qed (use ok(2) in \<open>simp add: proposals_ok_def\<close>)
  moreover have "drafts_ok (t_grants (stopped S db)) (t_proposals (stopped S db)) (t_drafts (stopped S db))"
    unfolding drafts_ok_def
  proof (intro conjI ballI)
    fix d assume d: "d \<in> set (t_drafts (stopped S db))"
    from kept_as_drafts [OF kept_as_stopped ok(3), of S] d obtain p where
      p: "p \<in> set (t_proposals db)" "result_of (t_grants (stopped S db)) d p"
      by (auto simp: drafts_ok_def)
    then have "p \<in> set (t_proposals (stopped S db))"
      using update_rows_member [OF p(1), of "\<lambda>p. ap_grant p \<in> S \<and> proposal_open p" reject_row]
      by (simp add: result_of_def proposal_open_def)
    with p(2) show "\<exists>p \<in> set (t_proposals (stopped S db)). result_of (t_grants (stopped S db)) d p" by blast
  qed (use ok(3) in \<open>simp add: drafts_ok_def\<close>)
  moreover have "records_ok (t_grants (stopped S db)) (t_capabilities (stopped S db)) (t_commits (stopped S db))
      (t_record_proposals (stopped S db))"
    unfolding records_ok_def
  proof (intro conjI ballI)
    fix q assume "q \<in> set (t_record_proposals (stopped S db))"
    then obtain p where p: "p \<in> set (t_record_proposals db)"
      and q: "q = (if rp_grant p \<in> S \<and> record_open p then close_record R_invalid False p else p)"
      by (auto simp: in_update_rows)
    from ok(6) p have po: "record_ok (t_grants db) (t_capabilities db) (t_commits db) p" by (simp add: records_ok_def)
    then obtain g where g: "g \<in> set (t_grants db)" "ag_id g = rp_grant p" "record_open p \<longrightarrow> \<not> ag_revoked g"
      by (auto simp: record_ok_def)
    let ?g = "if ag_id g \<in> S \<and> \<not> ag_revoked g then stop_row g else g"
    from g(1) have "?g \<in> set (t_grants (stopped S db))" by (auto simp: in_update_rows)
    moreover have "ag_id ?g = rp_grant q \<and> (record_open q \<longrightarrow> \<not> ag_revoked ?g)"
      using g q by auto
    moreover have "(\<exists>c \<in> set (t_capabilities db). ac_grant c = rp_grant q \<and> ac_target c = rp_target q \<and> rp_expires q \<le> ac_expires c)
       \<and> rp_revision q = 1 \<and> (rp_payload q \<noteq> None \<longleftrightarrow> record_open q)
       \<and> (rp_state q = R_committed \<longrightarrow> (\<exists>m \<in> set (t_commits db). rc_proposal m = rp_id q))"
      using po q by (auto simp: record_ok_def)
    ultimately show "record_ok (t_grants (stopped S db)) (t_capabilities (stopped S db)) (t_commits (stopped S db)) q"
      unfolding record_ok_def by auto
  qed (use ok(6) in \<open>simp add: records_ok_def\<close>)
  moreover have "commits_ok (t_record_proposals (stopped S db)) (t_commits (stopped S db))"
    unfolding commits_ok_def
  proof (intro conjI ballI)
    fix m assume "m \<in> set (t_commits (stopped S db))"
    with ok(7) obtain p where p: "p \<in> set (t_record_proposals db)" "rp_id p = rc_proposal m"
      "rp_state p \<in> {R_approved, R_invalid, R_committed}" "tr_origin (rp_target p) = rc_origin m"
      by (auto simp: commits_ok_def)
    from update_rows_member [OF p(1), of "\<lambda>p. rp_grant p \<in> S \<and> record_open p" "close_record R_invalid False"]
    show "\<exists>p \<in> set (t_record_proposals (stopped S db)). rp_id p = rc_proposal m
       \<and> rp_state p \<in> {R_approved, R_invalid, R_committed} \<and> tr_origin (rp_target p) = rc_origin m"
      unfolding stopped_tables by (rule bexI [rotated]) (use p in auto)
  qed (use ok(7) in \<open>simp add: commits_ok_def\<close>)
  ultimately show ?thesis
    unfolding agent_ok_def using ok(4,5,8,9) kept_as_stopped [of db S]
    by (auto intro: kept_as_audits kept_as_capabilities kept_as_requests kept_as_tokens simp del: stopped_tables
        simp: stopped_tables(4-))
qed

lemma agent_ok_distinct: "agent_ok db \<Longrightarrow> distinct (map rp_id (t_record_proposals db))"
  by (simp add: agent_ok_def records_ok_def)

lemma agent_ok_stop_grants: "agent_ok db \<Longrightarrow> stop_grants clock P db = Some db' \<Longrightarrow> agent_ok db'"
  using stop_grants_effect [OF _ agent_ok_distinct] agent_ok_audits [OF agent_ok_stopped]
  unfolding grants_stopped_def by blast

subsection \<open>Changes of one table\<close>

lemma agent_ok_insert_grant:
  assumes "agent_ok db" and "insert_grant g db = Some db'" and "\<not> ag_revoked g" "ag_revision g = 1" "ag_version g = 2"
  shows "agent_ok db'"
proof -
  from assms(2) have g: "\<forall>r \<in> set (t_grants db). ag_id r \<noteq> ag_id g" "grant_shape g" "ag_expires g \<le> ag_created g + 86400"
    and db': "db' = db\<lparr>t_grants := t_grants db @ [g]\<rparr>"
    by (auto simp: insert_grant_def split: Option.bind_splits)
  have "grants_ok (t_grants db @ [g])"
    using agent_okD(1) [OF assms(1)] g assms(3-) by (auto simp: grants_ok_def grant_ok_def)
  from agent_ok_grants [OF assms(1) this still_open_append] show ?thesis by (simp add: db')
qed

lemma agent_ok_proposals:
  assumes "agent_ok db" and "proposals_ok (t_grants db) ps"
    and "\<And>d p. d \<in> set (t_drafts db) \<Longrightarrow> p \<in> set (t_proposals db) \<Longrightarrow> result_of (t_grants db) d p
       \<Longrightarrow> \<exists>q \<in> set ps. result_of (t_grants db) d q"
  shows "agent_ok (db\<lparr>t_proposals := ps\<rparr>)"
proof -
  have "drafts_ok (t_grants db) ps (t_drafts db)"
    using agent_okD(3) [OF assms(1)] assms(3) by (auto simp: drafts_ok_def)
  with assms(1,2) show ?thesis by (simp add: agent_ok_def)
qed

lemma agent_ok_update_proposals:
  assumes "agent_ok db" and "\<And>p. ap_id (f p) = ap_id p"
    and "\<And>p. p \<in> set (t_proposals db) \<Longrightarrow> P p \<Longrightarrow> proposal_ok (t_grants db) p \<Longrightarrow> proposal_ok (t_grants db) (f p)"
    and "\<And>d p. d \<in> set (t_drafts db) \<Longrightarrow> p \<in> set (t_proposals db) \<Longrightarrow> P p \<Longrightarrow> result_of (t_grants db) d p
       \<Longrightarrow> result_of (t_grants db) d (f p)"
  shows "agent_ok (db\<lparr>t_proposals := update_rows P f (t_proposals db)\<rparr>)"
proof (rule agent_ok_proposals [OF assms(1)])
  show "proposals_ok (t_grants db) (update_rows P f (t_proposals db))"
    using agent_okD(2) [OF assms(1)] assms(2,3) by (auto simp: proposals_ok_def in_update_rows)
next
  fix d p assume dp: "d \<in> set (t_drafts db)" "p \<in> set (t_proposals db)" "result_of (t_grants db) d p"
  show "\<exists>q \<in> set (update_rows P f (t_proposals db)). result_of (t_grants db) d q"
    by (rule bexI [OF _ update_rows_member [OF dp(2)]]) (use dp assms(4) in auto)
qed

lemma agent_ok_records:
  assumes "agent_ok db" and "\<And>p. p \<in> set (t_record_proposals db) \<Longrightarrow> P p \<Longrightarrow> record_transition (rp_state p) st"
    and "keep \<longleftrightarrow> st = R_approved" and "st \<noteq> R_pending"
    and "\<And>p. st = R_committed \<Longrightarrow> p \<in> set (t_record_proposals db) \<Longrightarrow> P p \<Longrightarrow> \<exists>m \<in> set (t_commits db). rc_proposal m = rp_id p"
    and "records_moved st keep P db db'"
  shows "agent_ok db'"
proof -
  let ?f = "close_record st keep" and ?ps = "t_record_proposals db"
  note ok = agent_okD [OF assms(1)]
  have r: "record_ok (t_grants db) (t_capabilities db) (t_commits db) (?f p)" if p: "p \<in> set ?ps" "P p" for p
  proof -
    from ok(6) p have "record_ok (t_grants db) (t_capabilities db) (t_commits db) p" by (simp add: records_ok_def)
    moreover have "record_open (?f p) \<Longrightarrow> record_open p \<and> keep"
      using assms(2) [OF p] assms(3,4) by (auto simp: record_open_def record_transition_def)
    moreover have "keep \<Longrightarrow> rp_payload p \<noteq> None \<longleftrightarrow> record_open p" using calculation(1) by (simp add: record_ok_def)
    moreover have "keep \<Longrightarrow> record_open p \<and> record_open (?f p)"
      using assms(2) [OF p] assms(3) by (auto simp: record_open_def record_transition_def)
    ultimately show ?thesis using assms(5) [OF _ p] by (auto simp: record_ok_def)
  qed
  have "records_ok (t_grants db) (t_capabilities db) (t_commits db) (update_rows P ?f ?ps)"
    using ok(6) r by (auto simp: records_ok_def in_update_rows)
  moreover have "commits_ok (update_rows P ?f ?ps) (t_commits db)"
    unfolding commits_ok_def
  proof (intro conjI ballI)
    fix m assume "m \<in> set (t_commits db)"
    with ok(7) obtain p where p: "p \<in> set ?ps" "rp_id p = rc_proposal m"
      "rp_state p \<in> {R_approved, R_invalid, R_committed}" "tr_origin (rp_target p) = rc_origin m"
      by (auto simp: commits_ok_def)
    have "P p \<Longrightarrow> st \<in> {R_approved, R_invalid, R_committed}"
      using assms(2) [OF p(1)] p(3) by (auto simp: record_transition_def)
    with p show "\<exists>q \<in> set (update_rows P ?f ?ps). rp_id q = rc_proposal m
       \<and> rp_state q \<in> {R_approved, R_invalid, R_committed} \<and> tr_origin (rp_target q) = rc_origin m"
      by (intro bexI [OF _ update_rows_member [OF p(1)]]) auto
  qed (use ok(7) in \<open>simp add: commits_ok_def\<close>)
  ultimately have "agent_ok (db\<lparr>t_record_proposals := update_rows P ?f ?ps\<rparr>)"
    using assms(1) by (simp add: agent_ok_def)
  with assms(6) show ?thesis unfolding records_moved_def by (rule agent_ok_audits [rotated])
qed

lemma agent_ok_set_records:
  assumes "agent_ok db" and "set_record_rows clock st keep P db = Some db'"
    and "keep \<longleftrightarrow> st = R_approved" and "st \<noteq> R_pending"
    and "\<And>p. st = R_committed \<Longrightarrow> p \<in> set (t_record_proposals db) \<Longrightarrow> P p \<Longrightarrow> \<exists>m \<in> set (t_commits db). rc_proposal m = rp_id p"
  shows "agent_ok db'"
proof -
  from set_record_rows_effect [OF assms(2) agent_ok_distinct [OF assms(1)]]
  have e: "\<And>p. p \<in> set (t_record_proposals db) \<Longrightarrow> P p \<Longrightarrow> record_transition (rp_state p) st"
    "records_moved st keep P db db'" by blast+
  show ?thesis by (rule agent_ok_records [OF assms(1) e(1) assms(3-5) e(2)])
qed

lemma agent_ok_each_audit: "agent_ok db \<Longrightarrow> each (\<lambda>x. insert_audit (f x)) xs db = Some db' \<Longrightarrow> agent_ok db'"
  by (rule agent_ok_audits [OF _ each_audit_adds])

end
