(* ===== verification/AgentGrantLaws.thy ===== *)
theory AgentGrantLaws imports AgentLaws begin

section \<open>The statements of the store keep the tables consistent\<close>

text \<open>
  One lemma for each batch of \<open>store.ts\<close>. \<open>execute_effect\<close> is the closed form of an execution: nothing,
  or one new draft with the title and text of an approved proposal.
\<close>

subsection \<open>Grants, proposals and drafts\<close>

lemma create_grant_ok:
  assumes "agent_ok db" and "create_grant_batch clock input hash secret account time event db = Some (n, db')"
  shows "agent_ok db'"
proof -
  from assms(2) obtain ss d where d: "each insert_grant (map (new_grant input hash time) ss) db = Some d"
    and a: "adds_audits d db'"
    unfolding create_grant_batch_def Let_def by (auto split: Option.bind_splits dest: each_audit_adds)
  from d assms(1) have "agent_ok d"
  proof (rule each_induct)
    fix g u v assume "g \<in> set (map (new_grant input hash time) ss)" "agent_ok u" "insert_grant g u = Some v"
    then show "agent_ok v" by (elim agent_ok_insert_grant) (auto simp: new_grant_def)
  qed
  then show ?thesis using a by (rule agent_ok_audits)
qed

lemma audit_access_ok:
  "agent_ok db \<Longrightarrow> audit_access clock event op document created time h db = Some (n, db') \<Longrightarrow> agent_ok db'"
  unfolding audit_access_def Let_def by (auto split: Option.bind_splits intro: agent_ok_each_audit)

lemma audit_denied_ok: "agent_ok db \<Longrightarrow> audit_denied event grant op time db = Some db' \<Longrightarrow> agent_ok db'"
  unfolding audit_denied_def by (rule agent_ok_audits [OF _ insert_audit_adds])

lemma reject_ok:
  assumes "agent_ok db"
  shows "agent_ok (rejected_in account db)"
  unfolding rejected_in_def
  by (rule agent_ok_update_proposals [OF assms]) (auto simp: proposal_ok_def result_of_def)

lemma revoke_ok:
  assumes "agent_ok db" and "revoke_batch clock event time account grant secret db = Some db'"
  shows "agent_ok db'"
proof -
  from assms(2) obtain a b where a: "adds_audits db a"
    and b: "stop_grants clock (\<lambda>g. names_grant account grant g \<and> owner_live db clock secret account time) a = Some b"
    and c: "set_record_rows clock R_rejected False
       (\<lambda>p. record_open p \<and> revoked_in (rejected_in account b) account (rp_grant p)) (rejected_in account b) = Some db'"
    by (rule revoke_parts)
  from agent_ok_stop_grants [OF agent_ok_audits [OF assms(1) a] b] have "agent_ok (rejected_in account b)"
    by (rule reject_ok)
  from agent_ok_set_records [OF this c] show ?thesis by simp
qed

lemma propose_ok:
  assumes "agent_ok db"
    and "propose_batch clock proposal hash document title txt expires created time h event audited db = Some (n, db')"
  shows "agent_ok db'"
proof -
  let ?new = "new_proposal proposal hash document title txt expires created"
  from assms(2) obtain d where
    d: "each insert_proposal (map ?new (filter (\<lambda>g. still_held db clock time h g
         \<and> count_rows (\<lambda>p. ap_grant p = ag_id g \<and> proposal_open p) (t_proposals db) < 20) (t_grants db))) db = Some d"
    and a: "adds_audits d db'"
    unfolding propose_batch_def Let_def by (auto split: Option.bind_splits dest: each_audit_adds)
  from d have "agent_ok d \<and> t_grants d = t_grants db"
  proof (rule each_induct)
    fix p u v assume p: "p \<in> set (map ?new (filter (\<lambda>g. still_held db clock time h g
         \<and> count_rows (\<lambda>p. ap_grant p = ag_id g \<and> proposal_open p) (t_proposals db) < 20) (t_grants db)))"
      and u: "agent_ok u \<and> t_grants u = t_grants db" and v: "insert_proposal p u = Some v"
    from p obtain g where g: "g \<in> set (t_grants db)" "\<not> ag_revoked g" "p = ?new g"
      by (auto simp: still_held_def active_join_def)
    from v have fresh: "\<forall>q \<in> set (t_proposals u). ap_id q \<noteq> ap_id p" and v': "v = u\<lparr>t_proposals := t_proposals u @ [p]\<rparr>"
      by (auto simp: insert_proposal_def split: Option.bind_splits)
    have "proposal_ok (t_grants u) p" using u g by (auto simp: proposal_ok_def new_proposal_def intro!: bexI [of _ g])
    then have "proposals_ok (t_grants u) (t_proposals u @ [p])"
      using agent_okD(2) [of u] u fresh by (auto simp: proposals_ok_def)
    then show "agent_ok v \<and> t_grants v = t_grants db" unfolding v'
      using u by (intro conjI agent_ok_proposals) auto
  qed (use assms(1) in simp)
  then show ?thesis using a by (blast intro: agent_ok_audits)
qed

lemma grant_revision_unique:
  assumes "grants_ok (t_grants db)" and "g \<in> set (t_grants db)"
  shows "grant_revision db (ag_id g) = Some (ag_revision g)"
proof -
  have "find (\<lambda>h. ag_id h = ag_id g) (t_grants db) \<noteq> None" using assms(2) by (auto simp: find_None_iff)
  then obtain h where h: "find (\<lambda>h. ag_id h = ag_id g) (t_grants db) = Some h" by auto
  then have "h \<in> set (t_grants db)" "ag_id h = ag_id g" by (auto simp: find_Some_iff)
  with assms have "h = g" by (auto simp: grants_ok_def distinct_map inj_on_def)
  with h show ?thesis by (simp add: grant_revision_def)
qed

lemma decide_ok:
  assumes "agent_ok db"
    and "decide_batch clock approve proposal hash t1 t2 t3 key res account secret event audited db = Some (n, db')"
  shows "agent_ok db'"
proof -
  let ?hit = "may_decide clock proposal hash t1 t2 t3 key res account secret db"
  let ?d = "db\<lparr>t_proposals := update_rows ?hit
      (\<lambda>p. p\<lparr>ap_state := verdict approve, ap_approved := grant_revision db (ap_grant p)\<rparr>) (t_proposals db)\<rparr>"
  from assms(2) have a: "adds_audits ?d db'"
    unfolding decide_batch_def Let_def by (auto split: Option.bind_splits dest: each_audit_adds)
  have "agent_ok ?d"
  proof (rule agent_ok_update_proposals [OF assms(1)])
    fix p assume p: "p \<in> set (t_proposals db)" "?hit p" "proposal_ok (t_grants db) p"
    from p(2) obtain g where g: "g \<in> set (t_grants db)" "ag_id g = ap_grant p" "\<not> ag_revoked g" "ap_state p = P_pending"
      by (auto simp: may_decide_def active_join_def)
    have "grant_revision db (ap_grant p) = Some 1"
      using grant_revision_unique [OF agent_okD(1) [OF assms(1)] g(1)] agent_okD(1) [OF assms(1)] g
      by (auto simp: grants_ok_def grant_ok_def)
    with p g show "proposal_ok (t_grants db) (p\<lparr>ap_state := verdict approve, ap_approved := grant_revision db (ap_grant p)\<rparr>)"
      by (auto simp: proposal_ok_def verdict_def proposal_open_def)
  qed (auto simp: may_decide_def result_of_def)
  then show ?thesis using a by (rule agent_ok_audits)
qed

lemma in_comprehension:
  "x \<in> set [f p g. p \<leftarrow> ps, g \<leftarrow> gs, Q p g] \<longleftrightarrow> (\<exists>p \<in> set ps. \<exists>g \<in> set gs. Q p g \<and> x = f p g)"
  by auto

lemma find_SomeD: "find P xs = Some x \<Longrightarrow> x \<in> set xs \<and> P x"
  by (auto simp: find_Some_iff)

lemma find_skip: "\<forall>x \<in> set xs. \<not> P x \<Longrightarrow> find P (xs @ ys) = find P ys"
  by (induction xs) simp_all

lemma update_rows_cong:
  "(\<And>r. r \<in> set rs \<Longrightarrow> (P r \<longleftrightarrow> Q r) \<and> (P r \<longrightarrow> f r = g r)) \<Longrightarrow> update_rows P f rs = update_rows Q g rs"
  by (simp add: update_rows_def)

lemma unique_row: "distinct (map k rs) \<Longrightarrow> r \<in> set rs \<Longrightarrow> q \<in> set rs \<Longrightarrow> k r = k q \<Longrightarrow> r = q"
  by (auto simp: distinct_map inj_on_def)

lemma insert_draft_Some:
  "insert_draft d db = Some db' \<longleftrightarrow> (\<forall>e \<in> set (t_drafts db). ad_id e \<noteq> ad_id d \<and> ad_proposal e \<noteq> ad_proposal d)
     \<and> db' = db\<lparr>t_drafts := t_drafts db @ [d]\<rparr>"
  by (auto simp: insert_draft_def split: Option.bind_splits)

text \<open>A batch inserts at most one draft: \<open>proposal_id\<close> is unique in the drafts.\<close>

lemma one_draft:
  assumes "each insert_draft ds db = Some db'" and "\<forall>d \<in> set ds. ad_proposal d = i"
  obtains "ds = []" "db' = db" | d where "ds = [d]" "insert_draft d db = Some db'"
proof (cases ds)
  case (Cons d es)
  then obtain u where u: "insert_draft d db = Some u" "each insert_draft es u = Some db'"
    using assms(1) by (auto split: Option.bind_splits)
  have "es = []"
  proof (cases es)
    case (Cons e fs)
    with u(2) obtain v where "insert_draft e u = Some v" by (auto split: Option.bind_splits)
    moreover have "ad_proposal e = ad_proposal d" using assms(2) \<open>ds = d # es\<close> Cons by simp
    ultimately show ?thesis using u(1) by (auto simp: insert_draft_Some)
  qed
  with u Cons that(2) show ?thesis by simp
qed (use assms that(1) in simp)

definition execute_row :: "agent_proposal \<Rightarrow> string \<Rightarrow> agent_proposal" where
  "execute_row p draft = p\<lparr>ap_state := P_executed, ap_result := Some draft\<rparr>"

lemma execute_row_simps [simp]:
  "ap_id (execute_row p x) = ap_id p" "ap_grant (execute_row p x) = ap_grant p"
  "ap_request (execute_row p x) = ap_request p" "ap_document (execute_row p x) = ap_document p"
  "ap_title (execute_row p x) = ap_title p" "ap_text (execute_row p x) = ap_text p"
  "ap_expires (execute_row p x) = ap_expires p" "ap_created (execute_row p x) = ap_created p"
  "ap_approved (execute_row p x) = ap_approved p" "ap_state (execute_row p x) = P_executed"
  "ap_result (execute_row p x) = Some x"
  by (simp_all add: execute_row_def)

text \<open>
  What a committed execution is: nothing but audit rows, or one new draft with the title and text of
  an approved proposal, which becomes executed.
\<close>

definition executed ::
  "int \<Rightarrow> string \<Rightarrow> int \<Rightarrow> string \<Rightarrow> string \<Rightarrow> int \<Rightarrow> int \<Rightarrow> held_grant \<Rightarrow> agent_db \<Rightarrow> agent_proposal \<Rightarrow> agent_grant \<Rightarrow> agent_db" where
  "executed clock draft created proposal hash time1 time2 h db p g = db\<lparr>
     t_drafts := t_drafts db @ [\<lparr>ad_id = draft, ad_account = ag_account g, ad_proposal = proposal,
       ad_title = ap_title p, ad_text = the (ap_text p), ad_created = created\<rparr>],
     t_proposals := update_rows (\<lambda>q. ap_id q = proposal) (\<lambda>q. execute_row q draft) (t_proposals db)\<rparr>"

lemma execute_effect:
  assumes "agent_ok db"
    and "execute_batch clock draft created proposal hash time1 time2 h event audited db = Some db'"
  obtains "adds_audits db db'"
  | p g where "p \<in> set (t_proposals db)" "g \<in> set (t_grants db)" "may_execute clock proposal hash time1 time2 h db p g"
      "\<forall>d \<in> set (t_drafts db). ad_proposal d \<noteq> proposal \<and> ad_id d \<noteq> draft"
      "adds_audits (executed clock draft created proposal hash time1 time2 h db p g) db'"
proof -
  note ok = agent_okD [OF assms(1)]
  let ?mk = "\<lambda>p g. \<lparr>ad_id = draft, ad_account = ag_account g, ad_proposal = ap_id p, ad_title = ap_title p,
      ad_text = the (ap_text p), ad_created = created\<rparr>"
  define rows where "rows = [?mk p g. p \<leftarrow> t_proposals db, g \<leftarrow> t_grants db,
      may_execute clock proposal hash time1 time2 h db p g]"
  from assms(2) obtain a b where a: "each insert_draft rows db = Some a" and b: "mark_executed proposal (ag_id (fst h)) hash a = Some b"
    and c: "adds_audits b db'"
    unfolding execute_batch_def Let_def rows_def by (auto split: Option.bind_splits dest: each_audit_adds)
  have rows: "d \<in> set rows \<Longrightarrow> \<exists>p \<in> set (t_proposals db). \<exists>g \<in> set (t_grants db).
      may_execute clock proposal hash time1 time2 h db p g \<and> d = ?mk p g" for d
    unfolding rows_def by (auto simp: in_comprehension)
  have named: "\<forall>d \<in> set rows. ad_proposal d = proposal" using rows by (fastforce simp: may_execute_def)
  from b have b': "b = a\<lparr>t_proposals := update_rows (\<lambda>p. ap_id p = proposal \<and> ap_grant p = ag_id (fst h)
        \<and> ap_request p = hash \<and> ap_state p = P_approved \<and> draft_of a (ap_id p) \<noteq> None)
      (\<lambda>p. p\<lparr>ap_state := P_executed, ap_result := draft_of a (ap_id p)\<rparr>) (t_proposals a)\<rparr>"
    by (auto simp: mark_executed_def Let_def split: Option.bind_splits)
  from a named show thesis
  proof (cases rule: one_draft)
    case 1
    have "draft_of db (ap_id p) = None" if "p \<in> set (t_proposals db)" "ap_state p = P_approved" for p
    proof (rule ccontr)
      assume "draft_of db (ap_id p) \<noteq> None"
      then obtain d where "d \<in> set (t_drafts db)" "ad_proposal d = ap_id p"
        by (auto simp: draft_of_def dest: find_SomeD)
      with ok(3) obtain q where "q \<in> set (t_proposals db)" "ap_id q = ap_id p" "ap_state q = P_executed"
        by (auto simp: drafts_ok_def result_of_def)
      with unique_row [of ap_id "t_proposals db" q p] ok(2) that show False by (auto simp: proposals_ok_def)
    qed
    then have "b = db" using b' 1 by (subst (asm) update_rows_none) auto
    with c that(1) show thesis by simp
  next
    case (2 d)
    from rows [of d] 2 obtain p g where p: "p \<in> set (t_proposals db)" "g \<in> set (t_grants db)"
      "may_execute clock proposal hash time1 time2 h db p g" "d = ?mk p g" by auto
    from 2 p have fresh: "\<forall>e \<in> set (t_drafts db). ad_proposal e \<noteq> proposal \<and> ad_id e \<noteq> draft"
      and a': "a = db\<lparr>t_drafts := t_drafts db @ [d]\<rparr>" by (auto simp: insert_draft_Some may_execute_def)
    have "draft_of a proposal = Some draft"
      unfolding draft_of_def a' using fresh p by (auto simp: find_skip may_execute_def)
    moreover have "ap_id q = proposal \<Longrightarrow> q = p" if "q \<in> set (t_proposals db)" for q
      using unique_row [of ap_id "t_proposals db" q p] ok(2) that p by (auto simp: proposals_ok_def may_execute_def)
    ultimately have "update_rows (\<lambda>p. ap_id p = proposal \<and> ap_grant p = ag_id (fst h)
        \<and> ap_request p = hash \<and> ap_state p = P_approved \<and> draft_of a (ap_id p) \<noteq> None)
      (\<lambda>p. p\<lparr>ap_state := P_executed, ap_result := draft_of a (ap_id p)\<rparr>) (t_proposals db)
      = update_rows (\<lambda>q. ap_id q = proposal) (\<lambda>q. execute_row q draft) (t_proposals db)"
      using p(3) by (intro update_rows_cong) (auto simp: may_execute_def execute_row_def)
    then have "b = executed clock draft created proposal hash time1 time2 h db p g"
      unfolding b' executed_def using p(3,4) by (simp add: a' may_execute_def)
    with c that(2) [OF p(1-3) fresh] show thesis by simp
  qed
qed

lemma executed_ok:
  assumes "agent_ok db" and "p \<in> set (t_proposals db)" "g \<in> set (t_grants db)"
    and m: "may_execute clock proposal hash time1 time2 h db p g"
    and "\<forall>d \<in> set (t_drafts db). ad_proposal d \<noteq> proposal \<and> ad_id d \<noteq> draft"
  shows "agent_ok (executed clock draft created proposal hash time1 time2 h db p g)"
proof -
  note ok = agent_okD [OF assms(1)]
  let ?ps = "update_rows (\<lambda>q. ap_id q = proposal) (\<lambda>q. execute_row q draft) (t_proposals db)"
  let ?d = "\<lparr>ad_id = draft, ad_account = ag_account g, ad_proposal = proposal, ad_title = ap_title p,
      ad_text = the (ap_text p), ad_created = created\<rparr>"
  have same: "q = p" if "q \<in> set (t_proposals db)" "ap_id q = proposal" for q
    using unique_row [of ap_id "t_proposals db" q p] ok(2) that m assms(2) by (auto simp: proposals_ok_def may_execute_def)
  have po: "proposal_ok (t_grants db) p" using ok(2) assms(2) by (simp add: proposals_ok_def)
  then have "proposal_ok (t_grants db) (execute_row p draft)"
    using m by (auto simp: proposal_ok_def may_execute_def proposal_open_def)
  then have "proposals_ok (t_grants db) ?ps"
    using ok(2) same by (auto simp: proposals_ok_def in_update_rows)
  moreover have "drafts_ok (t_grants db) ?ps (t_drafts db @ [?d])"
    unfolding drafts_ok_def
  proof (intro conjI ballI)
    fix d assume "d \<in> set (t_drafts db @ [?d])"
    then show "\<exists>q \<in> set ?ps. result_of (t_grants db) d q"
    proof (cases "d \<in> set (t_drafts db)")
      case True
      with ok(3) obtain q where q: "q \<in> set (t_proposals db)" "result_of (t_grants db) d q" by (auto simp: drafts_ok_def)
      with True assms(5) have "ap_id q \<noteq> proposal" by (auto simp: result_of_def)
      with q update_rows_member [OF q(1), of "\<lambda>q. ap_id q = proposal" "\<lambda>q. execute_row q draft"] show ?thesis by auto
    next
      case False
      with \<open>d \<in> _\<close> have d: "d = ?d" by simp
      have "result_of (t_grants db) d (execute_row p draft)"
        using m assms(3) by (auto simp: result_of_def d may_execute_def intro!: bexI [of _ g])
      moreover have "execute_row p draft \<in> set ?ps"
        using update_rows_member [OF assms(2), of "\<lambda>q. ap_id q = proposal" "\<lambda>q. execute_row q draft"] m
        by (simp add: may_execute_def)
      ultimately show ?thesis by blast
    qed
  qed (use ok(3) assms(5) in \<open>auto simp: drafts_ok_def\<close>)
  ultimately show ?thesis using ok by (simp add: executed_def agent_ok_def)
qed

lemma execute_ok:
  assumes "agent_ok db"
    and "execute_batch clock draft created proposal hash time1 time2 h event audited db = Some db'"
  shows "agent_ok db'"
  using assms
proof (cases rule: execute_effect)
  case 1
  with assms(1) show ?thesis by (rule agent_ok_audits)
next
  case (2 p g)
  show ?thesis by (rule agent_ok_audits [OF executed_ok [OF assms(1) 2(1-4)] 2(5)])
qed

subsection \<open>Cleaning up\<close>

lemma delete_proposals_ok:
  assumes "agent_ok db" and "delete_proposals P db = Some db'"
  shows "agent_ok db'"
proof -
  from assms(2) have g: "\<forall>p \<in> set (t_proposals db). P p \<longrightarrow> (\<forall>d \<in> set (t_drafts db). ad_proposal d \<noteq> ap_id p)"
    and db': "db' = db\<lparr>t_proposals := delete_rows P (t_proposals db)\<rparr>"
    by (auto simp: delete_proposals_def split: Option.bind_splits)
  show ?thesis unfolding db'
  proof (rule agent_ok_proposals [OF assms(1)])
    show "proposals_ok (t_grants db) (delete_rows P (t_proposals db))"
      using agent_okD(2) [OF assms(1)] by (auto simp: proposals_ok_def delete_rows_def distinct_map_filter)
  next
    fix d p assume "d \<in> set (t_drafts db)" "p \<in> set (t_proposals db)" "result_of (t_grants db) d p"
    moreover from this g have "\<not> P p" by (metis result_of_def)
    ultimately show "\<exists>q \<in> set (delete_rows P (t_proposals db)). result_of (t_grants db) d q" by auto
  qed
qed

lemma delete_record_proposals_ok:
  assumes "agent_ok db"
  shows "agent_ok (delete_record_proposals P db)"
proof -
  note ok = agent_okD [OF assms(1)]
  let ?ps = "delete_rows P (t_record_proposals db)"
  define gone where "gone = (\<lambda>i. \<exists>p \<in> set (t_record_proposals db). rp_id p = i \<and> P p)"
  let ?ms = "delete_rows (\<lambda>c. gone (rc_proposal c)) (t_commits db)"
  have stays: "\<not> gone (rp_id p)" if "p \<in> set ?ps" for p
    using that ok(6) unique_row [of rp_id "t_record_proposals db"] by (auto simp: gone_def records_ok_def)
  have "record_ok (t_grants db) (t_capabilities db) ?ms p" if p: "p \<in> set ?ps" for p
  proof -
    from p ok(6) have "record_ok (t_grants db) (t_capabilities db) (t_commits db) p" by (simp add: records_ok_def)
    then show ?thesis using stays [OF p] by (auto simp: record_ok_def)
  qed
  then have "records_ok (t_grants db) (t_capabilities db) ?ms ?ps"
    using ok(6) by (simp add: records_ok_def) (simp add: delete_rows_def distinct_map_filter)
  moreover have "commits_ok ?ps ?ms"
    using ok(7) unfolding commits_ok_def
    by (auto simp: delete_rows_def distinct_map_filter gone_def)
  ultimately show ?thesis using ok by (simp add: delete_record_proposals_def agent_ok_def Let_def gone_def)
qed

lemma delete_grants_ok:
  assumes "agent_ok db" and "delete_grants P db = Some db'"
  shows "agent_ok db'"
proof -
  note ok = agent_okD [OF assms(1)]
  define gone where "gone = (\<lambda>i. \<exists>g \<in> set (t_grants db). ag_id g = i \<and> P g)"
  let ?gs = "delete_rows P (t_grants db)" and ?cs = "delete_rows (\<lambda>c. gone (ac_grant c)) (t_capabilities db)"
  from assms(2) have free: "\<And>g. g \<in> set (t_grants db) \<Longrightarrow> P g \<Longrightarrow> \<not> names_of db (ag_id g)
      \<and> (\<forall>t \<in> set (t_tokens db). ot_grant t \<noteq> ag_id g)"
    and db': "db' = db\<lparr>t_grants := ?gs, t_capabilities := ?cs\<rparr>"
    by (auto simp: delete_grants_def gone_def Let_def split: Option.bind_splits)
  have stays: "\<exists>g \<in> set ?gs. ag_id g = i \<and> Q g"
    if "\<exists>g \<in> set (t_grants db). ag_id g = i \<and> Q g" "names_of db i" for i Q
    using free that by auto
  have "grants_ok ?gs" using ok(1) by (auto simp: grants_ok_def delete_rows_def distinct_map_filter)
  moreover have "proposal_ok ?gs p" if p: "p \<in> set (t_proposals db)" for p
  proof -
    from p have n: "names_of db (ap_grant p)" by (auto simp: names_of_def)
    from p ok(2) have q: "proposal_ok (t_grants db) p" by (simp add: proposals_ok_def)
    then have "\<exists>g \<in> set (t_grants db). ag_id g = ap_grant p \<and> ap_expires p \<le> ag_expires g \<and> (proposal_open p \<longrightarrow> \<not> ag_revoked g)"
      by (simp add: proposal_ok_def)
    from stays [OF this n] q show ?thesis unfolding proposal_ok_def by (intro conjI) simp_all
  qed
  then have "proposals_ok ?gs (t_proposals db)" using ok(2) by (simp add: proposals_ok_def)
  moreover have "result_of ?gs d p" if p: "p \<in> set (t_proposals db)" "result_of (t_grants db) d p" for d p
  proof -
    from p have n: "names_of db (ap_grant p)" by (auto simp: names_of_def)
    from p(2) have "\<exists>g \<in> set (t_grants db). ag_id g = ap_grant p \<and> ag_account g = ad_account d" by (simp add: result_of_def)
    from stays [OF this n] p(2) show ?thesis unfolding result_of_def by (intro conjI) simp_all
  qed
  then have "drafts_ok ?gs (t_proposals db) (t_drafts db)" using ok(3) unfolding drafts_ok_def by fast
  moreover have "aa_grant a \<in> ag_id ` set ?gs" if a: "a \<in> set (t_audits db)" for a
  proof -
    from a have n: "names_of db (aa_grant a)" by (auto simp: names_of_def)
    from a ok(4) have "aa_grant a \<in> ag_id ` set (t_grants db)" by (simp add: audits_ok_def)
    then have "\<exists>g \<in> set (t_grants db). ag_id g = aa_grant a \<and> True" by force
    from stays [OF this n] show ?thesis by force
  qed
  then have "audits_ok ?gs (t_audits db)" by (simp add: audits_ok_def)
  moreover have "\<exists>g \<in> set ?gs. ag_id g = ac_grant c \<and> ac_expires c \<le> ag_expires g" if c: "c \<in> set ?cs" for c
  proof -
    from c ok(5) obtain g where "g \<in> set (t_grants db)" "ag_id g = ac_grant c" "ac_expires c \<le> ag_expires g"
      by (auto simp: capabilities_ok_def)
    with c show ?thesis by (auto simp: gone_def)
  qed
  then have "capabilities_ok ?gs ?cs"
    using ok(5) by (simp add: capabilities_ok_def) (simp add: delete_rows_def distinct_map_filter)
  moreover have "record_ok ?gs ?cs (t_commits db) p" if p: "p \<in> set (t_record_proposals db)" for p
  proof -
    from p have n: "names_of db (rp_grant p)" by (auto simp: names_of_def)
    then have f: "\<not> gone (rp_grant p)" by (auto simp: gone_def dest: free)
    from p ok(6) have r: "record_ok (t_grants db) (t_capabilities db) (t_commits db) p" by (simp add: records_ok_def)
    then obtain c where "c \<in> set (t_capabilities db)" "ac_grant c = rp_grant p" "ac_target c = rp_target p" "rp_expires p \<le> ac_expires c"
      by (auto simp: record_ok_def)
    with f have "c \<in> set ?cs" "ac_grant c = rp_grant p \<and> ac_target c = rp_target p \<and> rp_expires p \<le> ac_expires c" by auto
    then have "\<exists>c \<in> set ?cs. ac_grant c = rp_grant p \<and> ac_target c = rp_target p \<and> rp_expires p \<le> ac_expires c" by (rule bexI [rotated])
    moreover from r have "\<exists>g \<in> set (t_grants db). ag_id g = rp_grant p \<and> (record_open p \<longrightarrow> \<not> ag_revoked g)"
      by (simp add: record_ok_def)
    from stays [OF this n] have "\<exists>g \<in> set ?gs. ag_id g = rp_grant p \<and> (record_open p \<longrightarrow> \<not> ag_revoked g)" .
    ultimately show ?thesis using r unfolding record_ok_def by (intro conjI) simp_all
  qed
  then have "records_ok ?gs ?cs (t_commits db) (t_record_proposals db)" using ok(6) by (simp add: records_ok_def)
  moreover have "request_ok ?gs r" if r: "r \<in> set (t_requests db)" for r
  proof -
    from r ok(8) have q: "request_ok (t_grants db) r" by (simp add: requests_ok_def)
    show ?thesis
    proof (cases "or_decision r = Some Consent_approved")
      case True
      with q obtain g where g: "g \<in> set (t_grants db)" "or_grant r = Some (ag_id g)"
        "or_account r = Some (ag_account g)" "set (or_scopes r) \<subseteq> set (ag_operations g)" by (auto simp: request_ok_def)
      with r have "names_of db (ag_id g)" by (auto simp: names_of_def)
      with g free have "g \<in> set ?gs" by auto
      with q g True show ?thesis unfolding request_ok_def by auto
    qed (use q in \<open>auto simp: request_ok_def split: option.splits consent.splits\<close>)
  qed
  then have "requests_ok ?gs (t_requests db)" using ok(8) by (simp add: requests_ok_def)
  moreover have "\<exists>g \<in> set ?gs. ag_id g = ot_grant t \<and> ot_expires t \<le> ag_expires g" if t: "t \<in> set (t_tokens db)" for t
  proof -
    from t ok(9) obtain g where "g \<in> set (t_grants db)" "ag_id g = ot_grant t" "ot_expires t \<le> ag_expires g"
      by (auto simp: tokens_ok_def)
    moreover from this t free [of g] have "\<not> P g" by auto
    ultimately show ?thesis by auto
  qed
  then have "tokens_ok ?gs (t_requests db) (t_tokens db)" using ok(9) by (simp add: tokens_ok_def)
  ultimately show ?thesis using ok(7) by (simp add: db' agent_ok_def)
qed

lemma grant_ok_clear: "grant_ok g \<Longrightarrow> grant_ok (g\<lparr>ag_snapshot := None\<rparr>)"
  by (simp add: grant_ok_def grant_shape_def)

lemma grants_ok_clear: "grants_ok gs \<Longrightarrow> grants_ok (update_rows P (\<lambda>g. g\<lparr>ag_snapshot := None\<rparr>) gs)"
  by (auto simp: grants_ok_def in_update_rows grant_ok_clear)

lemma clear_snapshots_ok: "agent_ok db \<Longrightarrow> agent_ok (clear_snapshots time db)"
  unfolding clear_snapshots_def
  by (rule agent_ok_grants) (auto intro: grants_ok_clear still_open_update dest: agent_okD(1))

lemma expire_proposals_ok: "agent_ok db \<Longrightarrow> agent_ok (expire_proposals time db)"
  unfolding expire_proposals_def
  by (rule agent_ok_update_proposals) (auto simp: proposal_ok_def result_of_def proposal_open_def)

lemma clear_texts_ok: "agent_ok db \<Longrightarrow> agent_ok (clear_texts time db)"
  unfolding clear_texts_def
  by (rule agent_ok_update_proposals) (auto simp: proposal_ok_def result_of_def proposal_open_def)

lemma drop_audits_ok: "agent_ok db \<Longrightarrow> agent_ok (drop_audits time db)"
  by (auto simp: drop_audits_def agent_ok_def audits_ok_def)

lemma drop_drafts_ok: "agent_ok db \<Longrightarrow> agent_ok (drop_drafts time db)"
  by (auto simp: drop_drafts_def agent_ok_def drafts_ok_def delete_rows_def distinct_map_filter)

lemma cleanup_ok:
  assumes "agent_ok db" and "cleanup_batch clock ts db = Some db'"
  shows "agent_ok db'"
proof -
  from assms(2) obtain b c P Q where b: "delete_proposals P (cleanup_rows ts db) = Some b"
    and c: "set_record_rows clock R_invalid False (\<lambda>p. rp_expires p \<le> ts ! 6 \<and> record_open p) b = Some c"
    and d: "delete_grants Q (delete_record_proposals (\<lambda>p. rp_created p < ts ! 7 - retention) c) = Some db'"
    by (rule cleanup_parts)
  have "agent_ok (cleanup_rows ts db)"
    unfolding cleanup_rows_def
    by (intro clear_texts_ok drop_drafts_ok drop_audits_ok expire_proposals_ok clear_snapshots_ok assms(1))
  then have "agent_ok b" using b by (rule delete_proposals_ok)
  from agent_ok_set_records [OF this c] have "agent_ok c" by simp
  from delete_grants_ok [OF delete_record_proposals_ok [OF this] d] show ?thesis .
qed

end
