(* ===== verification/AgentTokenLaws.thy ===== *)
theory AgentTokenLaws imports AgentGrantLaws begin

section \<open>Consent and tokens keep the tables consistent\<close>

text \<open>
  One lemma for each statement of \<open>oauth.ts\<close>. \<open>exchange_effect\<close> is the closed form of an exchange: one
  new token for a request that could be redeemed, which is redeemed.
\<close>

lemma agent_ok_requests:
  assumes "agent_ok db" and "requests_ok (t_grants db) rs" and "tokens_ok (t_grants db) rs (t_tokens db)"
  shows "agent_ok (db\<lparr>t_requests := rs\<rparr>)"
  using assms by (simp add: agent_ok_def)

text \<open>An update of requests that were not decided, and stay unredeemed.\<close>

lemma agent_ok_update_requests:
  assumes "agent_ok db" and f: "\<And>r. or_id (f r) = or_id r" "\<And>r. or_redeemed (f r) = or_redeemed r"
    and P: "\<And>r. r \<in> set (t_requests db) \<Longrightarrow> P r \<Longrightarrow> or_decision r = None"
    and q: "\<And>r. r \<in> set (t_requests db) \<Longrightarrow> P r \<Longrightarrow> request_ok (t_grants db) r \<Longrightarrow> request_ok (t_grants db) (f r)"
  shows "agent_ok (db\<lparr>t_requests := update_rows P f (t_requests db)\<rparr>)"
proof (rule agent_ok_requests [OF assms(1)])
  note ok = agent_okD [OF assms(1)]
  let ?rs = "update_rows P f (t_requests db)"
  show "requests_ok (t_grants db) ?rs"
    using ok(8) q f by (auto simp: requests_ok_def in_update_rows)
  have t: "\<exists>r \<in> set ?rs. token_of t r" if "t \<in> set (t_tokens db)" for t
  proof -
    from that ok(9) obtain r where r: "r \<in> set (t_requests db)" "token_of t r" by (auto simp: tokens_ok_def)
    then have "\<not> P r" using P by (auto simp: token_of_def)
    with r update_rows_member [OF r(1), of P f] show ?thesis by auto
  qed
  have "or_id r \<in> ot_request ` set (t_tokens db)" if r: "r \<in> set ?rs" "or_redeemed r \<noteq> None" for r
  proof -
    from r(1) obtain a where a: "a \<in> set (t_requests db)" "r = (if P a then f a else a)" by (auto simp: in_update_rows)
    then have "or_id a = or_id r" "or_redeemed a \<noteq> None" using r(2) by (cases "P a"; simp add: f)+
    with a(1) ok(9) show ?thesis by (metis tokens_ok_def)
  qed
  with t ok(9) show "tokens_ok (t_grants db) ?rs (t_tokens db)" unfolding tokens_ok_def by blast
qed

lemma insert_request_ok:
  assumes "agent_ok db" and "insert_request clock r db = Some (n, db')"
    and "request_ok (t_grants db) r" "or_redeemed r = None"
  shows "agent_ok db'"
proof -
  have "db' = db \<or> (\<forall>q \<in> set (t_requests db). or_id q \<noteq> or_id r) \<and> db' = db\<lparr>t_requests := t_requests db @ [r]\<rparr>"
    using assms(2) by (auto simp: insert_request_def split: if_splits Option.bind_splits)
  then show ?thesis
  proof (elim disjE conjE)
    assume f: "\<forall>q \<in> set (t_requests db). or_id q \<noteq> or_id r" and db': "db' = db\<lparr>t_requests := t_requests db @ [r]\<rparr>"
    note ok = agent_okD [OF assms(1)]
    have "requests_ok (t_grants db) (t_requests db @ [r])"
      using ok(8) f assms(3) by (auto simp: requests_ok_def)
    moreover have "tokens_ok (t_grants db) (t_requests db @ [r]) (t_tokens db)"
      using ok(9) assms(4) by (simp add: tokens_ok_def)
    ultimately show ?thesis unfolding db' by (rule agent_ok_requests [OF assms(1)])
  qed (use assms(1) in simp)
qed

lemma claim_request_ok: "agent_ok db \<Longrightarrow> agent_ok (claim_request clock request res account secret time db)"
  unfolding claim_request_def
  by (rule agent_ok_update_requests) (auto simp: request_waiting_def request_ok_def)

lemma deny_request_ok: "agent_ok db \<Longrightarrow> agent_ok (snd (deny_request clock request account secret time db))"
  unfolding deny_request_def Let_def snd_conv
  by (rule agent_ok_update_requests) (auto simp: consentable_def request_waiting_def request_ok_def)

lemma approve_request_ok:
  assumes "agent_ok db" and "approve_request clock request grant code account secret time key res db = Some (n, db')"
  shows "agent_ok db'"
proof -
  let ?hit = "may_approve clock request grant account secret time key res db"
  let ?f = "\<lambda>r. r\<lparr>or_decision := Some Consent_approved, or_grant := Some grant, or_revision := grant_revision db grant,
      or_code := Some code, or_code_expires := Some (min (or_expires r) (clock + 120))\<rparr>"
  let ?d = "db\<lparr>t_requests := update_rows ?hit ?f (t_requests db)\<rparr>"
  from assms(2) have a: "adds_audits ?d db'"
    unfolding approve_request_def Let_def by (auto split: Option.bind_splits dest: each_audit_adds)
  have "agent_ok ?d"
  proof (rule agent_ok_update_requests [OF assms(1)])
    fix r assume r: "r \<in> set (t_requests db)" "?hit r" "request_ok (t_grants db) r"
    then obtain g where g: "g \<in> set (t_grants db)" "covers clock grant account time key res db r g"
      by (auto simp: may_approve_def)
    then have "grant_revision db grant = Some 1"
      using grant_revision_unique [OF agent_okD(1) [OF assms(1)] g(1)] agent_okD(1) [OF assms(1)]
      by (auto simp: covers_def active_join_def grants_ok_def grant_ok_def)
    with r g show "request_ok (t_grants db) (?f r)"
      by (auto simp: request_ok_def covers_def may_approve_def consentable_def intro!: bexI [of _ g])
  qed (auto simp: may_approve_def consentable_def request_waiting_def)
  then show ?thesis using a by (rule agent_ok_audits)
qed

lemma revoke_token_ok:
  assumes "agent_ok db" and "revoke_token clock token client db = Some db'"
  shows "agent_ok db'"
proof -
  from assms(2) have a: "adds_audits (db\<lparr>t_tokens := update_rows (\<lambda>t. ot_hash t = token \<and> ot_client t = client \<and> \<not> ot_revoked t)
      (\<lambda>t. t\<lparr>ot_revoked := True\<rparr>) (t_tokens db)\<rparr>) db'"
    unfolding revoke_token_def Let_def by (rule each_audit_adds)
  have "agent_ok (db\<lparr>t_tokens := update_rows P (\<lambda>t. t\<lparr>ot_revoked := True\<rparr>) (t_tokens db)\<rparr>)" for P
    using agent_okD(9) [OF assms(1)] assms(1)
    by (auto simp: agent_ok_def tokens_ok_def in_update_rows token_of_def)
  then show ?thesis using a by (rule agent_ok_audits)
qed

lemma cleanup_requests_ok:
  assumes "agent_ok db"
  shows "agent_ok (cleanup_requests clock db)"
proof -
  note ok = agent_okD [OF assms]
  let ?old = "\<lambda>r. or_created r < clock - 172800"
  let ?gone = "\<lambda>t. \<exists>r \<in> set (t_requests db). or_id r = ot_request t \<and> ?old r"
  let ?rs = "delete_rows ?old (t_requests db)" and ?ts = "delete_rows ?gone (t_tokens db)"
  have "requests_ok (t_grants db) ?rs"
    using ok(8) by (auto simp: requests_ok_def delete_rows_def distinct_map_filter)
  moreover have "tokens_ok (t_grants db) ?rs ?ts"
    unfolding tokens_ok_def
  proof (intro conjI ballI impI)
    show "distinct (map ot_hash ?ts)" "distinct (map ot_request ?ts)"
      using ok(9) by (auto simp: tokens_ok_def delete_rows_def distinct_map_filter)
  next
    fix t assume t: "t \<in> set ?ts"
    with ok(9) obtain r where "r \<in> set (t_requests db)" "token_of t r" by (auto simp: tokens_ok_def)
    moreover from this t have "\<not> ?old r" by (auto simp: token_of_def)
    ultimately show "\<exists>r \<in> set ?rs. token_of t r" by auto
  next
    fix r assume r: "r \<in> set ?rs" "or_redeemed r \<noteq> None"
    with ok(9) obtain t where t: "t \<in> set (t_tokens db)" "or_id r = ot_request t" by (auto simp: tokens_ok_def)
    have "q = r" if "q \<in> set (t_requests db)" "or_id q = ot_request t" for q
      using unique_row [of or_id "t_requests db" q r] ok(8) r t that by (auto simp: requests_ok_def)
    with r t have "t \<in> set ?ts" by auto
    with t show "or_id r \<in> ot_request ` set ?ts" by auto
  qed (use ok(9) in \<open>auto simp: tokens_ok_def\<close>)
  ultimately show ?thesis using ok by (simp add: cleanup_requests_def agent_ok_def Let_def)
qed

lemma insert_token_Some:
  "insert_token clock t db = Some db' \<Longrightarrow>
     (\<forall>q \<in> set (t_tokens db). ot_hash q \<noteq> ot_hash t \<and> ot_request q \<noteq> ot_request t)
   \<and> ot_expires t \<le> ot_created t + 3600 \<and> adds_audits (db\<lparr>t_tokens := t_tokens db @ [t]\<rparr>) db'"
  by (auto simp: insert_token_def split: Option.bind_splits dest: insert_audit_adds)

text \<open>Every row the exchange inserts has the same \<open>token_hash\<close>, so it inserts at most one.\<close>

lemma one_token:
  assumes "each (insert_token clock) ts db = Some db'" and "\<forall>t \<in> set ts. ot_hash t = i"
  obtains "ts = []" "db' = db" | t where "ts = [t]" "insert_token clock t db = Some db'"
proof (cases ts)
  case Nil
  show thesis by (rule that(1)) (use assms(1) Nil in simp_all)
next
  case (Cons d es)
  then obtain u where u: "insert_token clock d db = Some u" "each (insert_token clock) es u = Some db'"
    using assms(1) by (auto split: Option.bind_splits)
  have d: "d \<in> set (t_tokens u)"
  proof -
    from insert_token_Some [OF u(1)] have "adds_audits (db\<lparr>t_tokens := t_tokens db @ [d]\<rparr>) u" by (elim conjE)
    then show ?thesis by (simp add: adds_auditsD(9))
  qed
  have "es = []"
  proof (rule ccontr)
    assume "es \<noteq> []"
    then obtain e fs where es: "es = e # fs" by (cases es) simp_all
    with u(2) obtain v where "insert_token clock e u = Some v" by (auto split: Option.bind_splits)
    then have "\<forall>q \<in> set (t_tokens u). ot_hash q \<noteq> ot_hash e" using insert_token_Some by blast
    with d have "ot_hash d \<noteq> ot_hash e" by blast
    with assms(2) show False by (simp add: Cons es)
  qed
  show thesis by (rule that(2) [of d]) (use u Cons \<open>es = []\<close> in simp_all)
qed

definition exchanged :: "int \<Rightarrow> string \<Rightarrow> agent_db \<Rightarrow> oauth_request \<Rightarrow> agent_grant \<Rightarrow> agent_db" where
  "exchanged clock token db r g = db\<lparr>t_tokens := t_tokens db @ [new_token clock token r g],
     t_requests := update_rows (\<lambda>q. or_id q = or_id r) (\<lambda>q. q\<lparr>or_redeemed := Some clock\<rparr>) (t_requests db)\<rparr>"

text \<open>A committed exchange issued a token for a request it could redeem, and redeemed it.\<close>

lemma exchange_effect:
  assumes "agent_ok db"
    and "exchange_batch clock token time key recipient_resource code client redirect res challenge db = Some db'"
  obtains "db' = db"
  | r g where "r \<in> set (t_requests db)" "g \<in> set (t_grants db)"
      "redeemable clock time key recipient_resource code client redirect res challenge db r g"
      "\<forall>t \<in> set (t_tokens db). ot_hash t \<noteq> token \<and> ot_request t \<noteq> or_id r"
      "adds_audits (exchanged clock token db r g) db'"
proof -
  note ok = agent_okD [OF assms(1)]
  let ?ok = "redeemable clock time key recipient_resource code client redirect res challenge db"
  define rows where "rows = [new_token clock token r g. r \<leftarrow> t_requests db, g \<leftarrow> t_grants db, ?ok r g]"
  from assms(2) obtain a where a: "each (insert_token clock) rows db = Some a"
    and db': "db' = a\<lparr>t_requests := update_rows (\<lambda>r. or_code r = Some code \<and> or_redeemed r = None
           \<and> (\<exists>t \<in> set (t_tokens a). ot_request t = or_id r \<and> ot_hash t = token))
         (\<lambda>r. r\<lparr>or_redeemed := Some clock\<rparr>) (t_requests a)\<rparr>"
    unfolding exchange_batch_def Let_def rows_def by (auto split: Option.bind_splits)
  have rows: "t \<in> set rows \<Longrightarrow> \<exists>r \<in> set (t_requests db). \<exists>g \<in> set (t_grants db). ?ok r g \<and> t = new_token clock token r g" for t
    unfolding rows_def by (auto simp: in_comprehension)
  have unique: "q = r" if "q \<in> set (t_requests db)" "r \<in> set (t_requests db)" "or_id q = or_id r" for q r
    using unique_row [of or_id "t_requests db" q r] ok(8) that by (simp add: requests_ok_def)
  have redeemed: "or_redeemed r \<noteq> None" if "t \<in> set (t_tokens db)" "r \<in> set (t_requests db)" "ot_request t = or_id r" for t r
  proof -
    from that(1) ok(9) obtain q where "q \<in> set (t_requests db)" "token_of t q" by (auto simp: tokens_ok_def)
    with unique [of q r] that show ?thesis by (auto simp: token_of_def)
  qed
  have "\<forall>t \<in> set rows. ot_hash t = token" using rows by (fastforce simp: new_token_def)
  with a show thesis
  proof (cases rule: one_token)
    case 1
    have "update_rows (\<lambda>r. or_code r = Some code \<and> or_redeemed r = None
           \<and> (\<exists>t \<in> set (t_tokens a). ot_request t = or_id r \<and> ot_hash t = token))
         (\<lambda>r. r\<lparr>or_redeemed := Some clock\<rparr>) (t_requests db) = t_requests db"
      using redeemed 1 by (intro update_rows_none) auto
    with db' 1 have "db' = db" by simp
    then show thesis by (rule that(1))
  next
    case (2 t)
    from rows [of t] 2 obtain r g where r: "r \<in> set (t_requests db)" "g \<in> set (t_grants db)" "?ok r g"
      "t = new_token clock token r g" by auto
    have t: "ot_hash t = token" "ot_request t = or_id r" by (simp_all add: r(4) new_token_def)
    note i = insert_token_Some [OF 2(2), unfolded t]
    from i have fresh: "\<forall>q \<in> set (t_tokens db). ot_hash q \<noteq> token \<and> ot_request q \<noteq> or_id r" by (elim conjE)
    from i have a': "adds_audits (db\<lparr>t_tokens := t_tokens db @ [t]\<rparr>) a" by (elim conjE)
    from a' obtain as where as: "a = db\<lparr>t_tokens := t_tokens db @ [t], t_audits := t_audits db @ as\<rparr>"
      "\<forall>x \<in> set as. has_grant db (aa_grant x)" by (auto simp: adds_audits_def has_grant_def)
    from r(3) have code: "or_code r = Some code" "or_redeemed r = None" by (simp_all add: redeemable_def)
    have "update_rows (\<lambda>r. or_code r = Some code \<and> or_redeemed r = None
           \<and> (\<exists>t \<in> set (t_tokens a). ot_request t = or_id r \<and> ot_hash t = token))
         (\<lambda>r. r\<lparr>or_redeemed := Some clock\<rparr>) (t_requests db)
       = update_rows (\<lambda>q. or_id q = or_id r) (\<lambda>q. q\<lparr>or_redeemed := Some clock\<rparr>) (t_requests db)"
    proof (rule update_rows_cong, intro conjI impI refl)
      fix q assume q: "q \<in> set (t_requests db)"
      have tok: "t_tokens a = t_tokens db @ [t]" by (simp add: as(1))
      have "(\<exists>x \<in> set (t_tokens a). ot_request x = or_id q \<and> ot_hash x = token) \<longleftrightarrow> or_id q = or_id r"
        unfolding tok using fresh t by auto
      then show "or_code q = Some code \<and> or_redeemed q = None
           \<and> (\<exists>x \<in> set (t_tokens a). ot_request x = or_id q \<and> ot_hash x = token) \<longleftrightarrow> or_id q = or_id r"
        using unique [OF q r(1)] code by blast
    qed
    then have "db' = (exchanged clock token db r g)\<lparr>t_audits := t_audits db @ as\<rparr>"
      unfolding db' by (simp add: as(1) exchanged_def r(4))
    then have "adds_audits (exchanged clock token db r g) db'"
      using as(2) by (intro adds_auditsI [where as = as]) (auto simp: exchanged_def has_grant_def)
    with that(2) [OF r(1-3) fresh] show thesis by simp
  qed
qed

lemma exchanged_ok:
  assumes "agent_ok db" and r: "r \<in> set (t_requests db)" and g: "g \<in> set (t_grants db)"
    and m: "redeemable clock time key recipient_resource code client redirect res challenge db r g"
    and fresh: "\<forall>t \<in> set (t_tokens db). ot_hash t \<noteq> token \<and> ot_request t \<noteq> or_id r"
  shows "agent_ok (exchanged clock token db r g)"
proof -
  note ok = agent_okD [OF assms(1)]
  let ?f = "\<lambda>q. q\<lparr>or_redeemed := Some clock\<rparr>"
  let ?P = "\<lambda>q. or_id q = or_id r"
  let ?rs = "update_rows ?P ?f (t_requests db)"
  let ?t = "new_token clock token r g"
  have same: "q = r" if "q \<in> set (t_requests db)" "?P q" for q
    using unique_row [of or_id "t_requests db" q r] ok(8) that r by (simp add: requests_ok_def)
  from r ok(8) have "request_ok (t_grants db) r" by (simp add: requests_ok_def)
  then have fr: "request_ok (t_grants db) (?f r)" using m by (auto simp: request_ok_def redeemable_def)
  have "request_ok (t_grants db) q" if "q \<in> set ?rs" for q
  proof -
    from that obtain a where a: "a \<in> set (t_requests db)" "q = (if ?P a then ?f a else a)" by (auto simp: in_update_rows)
    show ?thesis
    proof (cases "?P a")
      case True
      with a same [OF a(1)] fr show ?thesis by simp
    next
      case False
      with a ok(8) show ?thesis by (simp add: requests_ok_def)
    qed
  qed
  then have "requests_ok (t_grants db) ?rs" using ok(8) by (simp add: requests_ok_def)
  moreover have "tokens_ok (t_grants db) ?rs (t_tokens db @ [?t])"
    unfolding tokens_ok_def
  proof (intro conjI ballI impI)
    show "distinct (map ot_hash (t_tokens db @ [?t]))" "distinct (map ot_request (t_tokens db @ [?t]))"
      using ok(9) fresh by (auto simp: tokens_ok_def new_token_def)
  next
    fix t assume "t \<in> set (t_tokens db @ [?t])"
    then consider "t \<in> set (t_tokens db)" | "t = ?t" by auto
    then show "\<exists>q \<in> set ?rs. token_of t q"
    proof cases
      case 1
      with ok(9) obtain q where q: "q \<in> set (t_requests db)" "token_of t q" by (auto simp: tokens_ok_def)
      with 1 fresh have "\<not> ?P q" by (auto simp: token_of_def)
      with q update_rows_member [OF q(1), of ?P ?f] show ?thesis by auto
    next
      case 2
      have "token_of ?t (?f r)" using m by (auto simp: token_of_def new_token_def redeemable_def)
      with 2 update_rows_member [OF r, of ?P ?f] show ?thesis by auto
    qed
  next
    fix q assume "q \<in> set ?rs" "or_redeemed q \<noteq> None"
    then obtain a where a: "a \<in> set (t_requests db)" "q = (if ?P a then ?f a else a)" by (auto simp: in_update_rows)
    show "or_id q \<in> ot_request ` set (t_tokens db @ [?t])"
    proof (cases "?P a")
      case True
      with a show ?thesis by (simp add: new_token_def)
    next
      case False
      with a \<open>or_redeemed q \<noteq> None\<close> ok(9) show ?thesis by (auto simp: tokens_ok_def)
    qed
  qed (use ok(9) g in \<open>auto simp: tokens_ok_def new_token_def\<close>)
  ultimately show ?thesis using ok by (simp add: exchanged_def agent_ok_def)
qed

lemma exchange_ok:
  assumes "agent_ok db"
    and "exchange_batch clock token time key recipient_resource code client redirect res challenge db = Some db'"
  shows "agent_ok db'"
  using assms
proof (cases rule: exchange_effect)
  case 1
  with assms(1) show ?thesis by simp
next
  case (2 r g)
  show ?thesis by (rule agent_ok_audits [OF exchanged_ok [OF assms(1) 2(1-4)] 2(5)])
qed

end
