(* ===== verification/AgentRecordLaws.thy ===== *)
theory AgentRecordLaws imports AgentTokenLaws begin

section \<open>Record proposals and the provider keep the tables consistent\<close>

text \<open>
  One lemma for each statement of \<open>record-proposals.ts\<close> and each change of the identity provider, and
  \<open>agent_ok_exec\<close> for all of them; \<open>agent_tables\<close> is its interpretation.
\<close>

subsection \<open>Record proposals\<close>

lemma insert_capability_ok:
  assumes "agent_ok db" and "insert_capability c db = Some db'" and "ac_revision c = 1"
    and "\<exists>g \<in> set (t_grants db). ag_id g = ac_grant c \<and> ac_expires c \<le> ag_expires g"
  shows "agent_ok db'"
proof -
  note ok = agent_okD [OF assms(1)]
  from assms(2) have c: "\<forall>d \<in> set (t_capabilities db). ac_grant d \<noteq> ac_grant c" "target_shape (ac_target c)"
    and db': "db' = db\<lparr>t_capabilities := t_capabilities db @ [c]\<rparr>"
    by (auto simp: insert_capability_def split: Option.bind_splits)
  have "capabilities_ok (t_grants db) (t_capabilities db @ [c])"
    using ok(5) c assms(3,4) by (auto simp: capabilities_ok_def)
  moreover have "record_ok (t_grants db) (t_capabilities db @ [c]) (t_commits db) p"
    if "p \<in> set (t_record_proposals db)" for p
  proof -
    from that ok(6) have "record_ok (t_grants db) (t_capabilities db) (t_commits db) p" by (simp add: records_ok_def)
    then show ?thesis by (auto simp: record_ok_def)
  qed
  then have "records_ok (t_grants db) (t_capabilities db @ [c]) (t_commits db) (t_record_proposals db)"
    using ok(6) by (simp add: records_ok_def)
  ultimately show ?thesis using ok by (simp add: db' agent_ok_def)
qed

lemma allow_ok:
  assumes "agent_ok db" and "allow_batch clock grant t time t1 t2 key res account secret event db = Some db'"
  shows "agent_ok db'"
proof -
  let ?rows = "filter (may_allow clock grant t t1 t2 key res account secret db) (t_grants db)"
  let ?mk = "\<lambda>g. \<lparr>ac_grant = ag_id g, ac_revision = ag_revision g, ac_created = time,
      ac_expires = min (ag_expires g) (time + 3600), ac_target = t\<rparr>"
  from assms(2) obtain a where a: "each (\<lambda>g. insert_capability (?mk g)) ?rows db = Some a" and b: "adds_audits a db'"
    unfolding allow_batch_def Let_def by (auto split: Option.bind_splits dest: each_audit_adds)
  from a have "agent_ok a \<and> t_grants a = t_grants db"
  proof (rule each_induct)
    fix g u v assume g: "g \<in> set ?rows" and u: "agent_ok u \<and> t_grants u = t_grants db" and v: "insert_capability (?mk g) u = Some v"
    from g have "\<not> ag_revoked g" "g \<in> set (t_grants db)" by (auto simp: may_allow_def active_join_def)
    with assms(1) have r: "ag_revision g = 1" by (auto simp: agent_ok_def grants_ok_def grant_ok_def)
    have "agent_ok v"
      by (rule insert_capability_ok [OF conjunct1 [OF u] v]) (use r u \<open>g \<in> set (t_grants db)\<close> in auto)
    moreover from v have "t_grants v = t_grants u" by (auto simp: insert_capability_def split: Option.bind_splits)
    ultimately show "agent_ok v \<and> t_grants v = t_grants db" using u by simp
  qed (use assms(1) in simp)
  then show ?thesis using b by (blast intro: agent_ok_audits)
qed

lemma insert_record_proposal_ok:
  assumes "agent_ok db" and "insert_record_proposal p db = Some db'" and "rp_revision p = 1"
    and "\<exists>g \<in> set (t_grants db). ag_id g = rp_grant p \<and> \<not> ag_revoked g"
  shows "agent_ok db'"
proof -
  note ok = agent_okD [OF assms(1)]
  from assms(2) have p: "\<forall>q \<in> set (t_record_proposals db). rp_id q \<noteq> rp_id p" "rp_state p = R_pending" "rp_payload p \<noteq> None"
    "\<exists>c \<in> set (t_capabilities db). ac_grant c = rp_grant p \<and> ac_expires c \<ge> rp_expires p \<and> ac_target c = rp_target p"
    and db': "db' = db\<lparr>t_record_proposals := t_record_proposals db @ [p]\<rparr>"
    by (auto simp: insert_record_proposal_def split: Option.bind_splits)
  have "record_ok (t_grants db) (t_capabilities db) (t_commits db) p"
    using p assms(3,4) by (auto simp: record_ok_def record_open_def)
  then have "records_ok (t_grants db) (t_capabilities db) (t_commits db) (t_record_proposals db @ [p])"
    using ok(6) p(1) by (auto simp: records_ok_def)
  moreover have "commits_ok (t_record_proposals db @ [p]) (t_commits db)"
    using ok(7) by (auto simp: commits_ok_def)
  ultimately show ?thesis using ok by (simp add: db' agent_ok_def)
qed

lemma record_propose_ok:
  assumes "agent_ok db" and "record_propose_batch clock proposal hash payload expires time t1 h event db = Some db'"
  shows "agent_ok db'"
proof -
  let ?rows = "filter (\<lambda>c. held_capability db clock t1 h c \<and> ac_expires c \<ge> expires \<and> expires > clock
         \<and> (\<forall>p \<in> set (t_record_proposals db). rp_id p \<noteq> proposal)
         \<and> count_rows (\<lambda>p. rp_grant p = ac_grant c \<and> record_open p) (t_record_proposals db) < 20)
       (t_capabilities db)"
  let ?mk = "new_record_proposal proposal hash payload expires time"
  from assms(2) obtain a where a: "each insert_record_proposal (map ?mk ?rows) db = Some a" and b: "adds_audits a db'"
    unfolding record_propose_batch_def Let_def by (auto split: Option.bind_splits dest: each_audit_adds)
  from a have "agent_ok a \<and> t_grants a = t_grants db"
  proof (rule each_induct)
    fix p u v assume p: "p \<in> set (map ?mk ?rows)" and u: "agent_ok u \<and> t_grants u = t_grants db"
      and v: "insert_record_proposal p u = Some v"
    from p obtain c where c: "c \<in> set (t_capabilities db)" "held_capability db clock t1 h c" "p = ?mk c" by auto
    then obtain g where g: "g \<in> set (t_grants db)" "\<not> ag_revoked g" "ag_id g = ac_grant c"
      by (auto simp: held_capability_def active_join_def)
    from c(1) agent_okD(5) [OF assms(1)] have "ac_revision c = 1" by (simp add: capabilities_ok_def)
    with c g u have "agent_ok v"
      by (intro insert_record_proposal_ok [OF _ v]) (auto simp: new_record_proposal_def)
    moreover from v have "t_grants v = t_grants u" by (auto simp: insert_record_proposal_def split: Option.bind_splits)
    ultimately show "agent_ok v \<and> t_grants v = t_grants db" using u by simp
  qed (use assms(1) in simp)
  then show ?thesis using b by (blast intro: agent_ok_audits)
qed

lemma record_decide_ok:
  assumes "agent_ok db" and "record_decide clock approve proposal hash t1 t2 key res account secret db = Some db'"
  shows "agent_ok db'"
  by (rule agent_ok_set_records [OF assms(1) assms(2) [unfolded record_decide_def]])
    (simp_all add: record_verdict_def split: if_splits)

lemma insert_commit_ok:
  assumes "agent_ok db" and "insert_commit candidate m db = Some db'"
  shows "agent_ok db'"
proof -
  note ok = agent_okD [OF assms(1)]
  from assms(2) have m: "\<forall>d \<in> set (t_commits db). rc_proposal d \<noteq> rc_proposal m"
    "\<exists>p \<in> set (t_record_proposals db). rp_id p = rc_proposal m \<and> rp_state p = R_approved \<and> tr_origin (rp_target p) = rc_origin m"
    and db': "db' = db\<lparr>t_commits := t_commits db @ [m]\<rparr>"
    by (auto simp: insert_commit_def split: Option.bind_splits)
  have "record_ok (t_grants db) (t_capabilities db) (t_commits db @ [m]) p"
    if "p \<in> set (t_record_proposals db)" for p
  proof -
    from that ok(6) have "record_ok (t_grants db) (t_capabilities db) (t_commits db) p" by (simp add: records_ok_def)
    then show ?thesis by (auto simp: record_ok_def)
  qed
  then have "records_ok (t_grants db) (t_capabilities db) (t_commits db @ [m]) (t_record_proposals db)"
    using ok(6) by (simp add: records_ok_def)
  moreover have "commits_ok (t_record_proposals db) (t_commits db @ [m])"
    using ok(7) m by (auto simp: commits_ok_def)
  ultimately show ?thesis using ok by (simp add: db' agent_ok_def)
qed

lemma prepare_ok:
  assumes "agent_ok db" and "prepare_batch clock proposal hash operation candidate dig origin prepared t1 t2 key res
      account secret event audited db = Some db'"
  shows "agent_ok db'"
proof -
  let ?mk = "\<lambda>p. \<lparr>rc_proposal = rp_id p, rc_account = account, rc_operation = operation,
      rc_candidate = stringify candidate, rc_digest = dig, rc_origin = origin, rc_prepared = prepared, rc_result = None\<rparr>"
  from assms(2) obtain a where a: "each (\<lambda>p. insert_commit candidate (?mk p)) (filter (\<lambda>p. rp_id p = proposal \<and> rp_request p = hash
         \<and> rp_state p = R_approved \<and> rp_payload p \<noteq> None \<and> rp_expires p > clock
         \<and> owner_scope db clock t1 t2 key res account secret p
         \<and> (\<forall>c \<in> set (t_commits db). rc_proposal c \<noteq> rp_id p)) (t_record_proposals db)) db = Some a" and b: "adds_audits a db'"
    unfolding prepare_batch_def Let_def by (auto split: Option.bind_splits dest: each_audit_adds)
  from a assms(1) have "agent_ok a" by (rule each_induct) (blast intro: insert_commit_ok)
  then show ?thesis using b by (rule agent_ok_audits)
qed

subsection \<open>The provider\<close>

lemma put_account_ok: "agent_ok db \<Longrightarrow> put_account clock a db = Some db' \<Longrightarrow> agent_ok db'"
  unfolding put_account_def Let_def
  by (auto split: option.splits if_splits elim!: agent_ok_stop_grants [rotated])

lemma put_credential_ok: "agent_ok db \<Longrightarrow> put_credential clock c db = Some db' \<Longrightarrow> agent_ok db'"
  unfolding put_credential_def Let_def
  by (auto split: option.splits if_splits elim!: agent_ok_stop_grants [rotated])

lemma put_recipient_ok: "agent_ok db \<Longrightarrow> put_recipient clock k db = Some db' \<Longrightarrow> agent_ok db'"
  unfolding put_recipient_def Let_def
  by (auto split: option.splits if_splits elim!: agent_ok_stop_grants [rotated])

lemma put_client_ok: "agent_ok db \<Longrightarrow> put_client c db = Some db' \<Longrightarrow> agent_ok db'"
  unfolding put_client_def by (auto split: option.splits if_splits)

lemma put_key_head_ok: "agent_ok db \<Longrightarrow> put_key_head clock k db = Some db' \<Longrightarrow> agent_ok db'"
  unfolding put_key_head_def Let_def
  by (auto split: option.splits if_splits elim!: agent_ok_stop_grants [rotated])

lemma drop_key_head_ok: "agent_ok db \<Longrightarrow> drop_key_head clock a db = Some db' \<Longrightarrow> agent_ok db'"
  unfolding drop_key_head_def Let_def
  by (auto split: option.splits elim!: agent_ok_stop_grants [rotated])

lemma invalidate_ok: "agent_ok db \<Longrightarrow> set_record_rows clock R_invalid False P db = Some db' \<Longrightarrow> agent_ok db'"
  by (rule agent_ok_set_records) (assumption | simp)+

lemma put_record_head_ok:
  assumes "agent_ok db" and "put_record_head clock h db = Some db'"
  shows "agent_ok db'"
proof -
  let ?a = "db\<lparr>t_record_heads := put_row head_key h (t_record_heads db)\<rparr>"
  from assms(2) obtain b P where b: "b = ?a \<or> (\<exists>Q. stop_grants clock Q ?a = Some b)"
    and c: "set_record_rows clock R_invalid False P b = Some db'"
    unfolding put_record_head_def Let_def by (auto split: Option.bind_splits option.splits if_splits)
  from b assms(1) have "agent_ok b" by (auto elim: agent_ok_stop_grants [rotated])
  then show ?thesis using c by (rule invalidate_ok)
qed

lemma drop_record_head_ok:
  assumes "agent_ok db" and "drop_record_head clock k db = Some db'"
  shows "agent_ok db'"
proof (cases "old_row head_key k (t_record_heads db)")
  case None
  with assms show ?thesis by (simp add: drop_record_head_def)
next
  case (Some old)
  with assms(2) obtain b P where b: "stop_grants clock (of_record old)
      (db\<lparr>t_record_heads := delete_rows (\<lambda>h. head_key h = k) (t_record_heads db)\<rparr>) = Some b"
    and c: "set_record_rows clock R_invalid False P b = Some db'"
    unfolding drop_record_head_def by (auto split: Option.bind_splits)
  from assms(1) agent_ok_stop_grants [OF _ b] have "agent_ok b" by simp
  then show ?thesis using c by (rule invalidate_ok)
qed

lemma consume_commit_ok: "agent_ok db \<Longrightarrow> consume_commit clock proposal db = Some db' \<Longrightarrow> agent_ok db'"
  unfolding consume_commit_def by (erule (1) agent_ok_set_records) auto

lemma finish_commit_ok:
  assumes "agent_ok db"
  shows "agent_ok (finish_commit proposal revision db)"
proof -
  note ok = agent_okD [OF assms]
  let ?ms = "update_rows (\<lambda>c. rc_proposal c = proposal \<and> rc_result c = None) (\<lambda>c. c\<lparr>rc_result := Some revision\<rparr>) (t_commits db)"
  have e: "\<exists>m \<in> set ?ms. rc_proposal m = i" if m: "m \<in> set (t_commits db)" "rc_proposal m = i" for m i
    by (rule bexI [OF _ update_rows_member [OF m(1)]]) (simp add: m(2))
  have "record_ok (t_grants db) (t_capabilities db) ?ms p" if "p \<in> set (t_record_proposals db)" for p
  proof -
    from that ok(6) have "record_ok (t_grants db) (t_capabilities db) (t_commits db) p" by (simp add: records_ok_def)
    then show ?thesis unfolding record_ok_def using e by (elim conjE bexE) (intro conjI, auto)
  qed
  then have "records_ok (t_grants db) (t_capabilities db) ?ms (t_record_proposals db)"
    using ok(6) by (simp add: records_ok_def)
  moreover have "commits_ok (t_record_proposals db) ?ms"
    using ok(7) by (auto simp: commits_ok_def in_update_rows)
  ultimately show ?thesis using ok by (simp add: finish_commit_def agent_ok_def)
qed

subsection \<open>Every operation\<close>

lemma map_option_Some: "map_option f r = Some y \<longleftrightarrow> (\<exists>x. r = Some x \<and> y = f x)"
  by auto

lemmas query_replies = replies_def counted_def finished_def

lemma run_store_ok: "agent_ok db \<Longrightarrow> run_store clock q db = Some (y, db') \<Longrightarrow> agent_ok db'"
  by (cases q) (auto simp: query_replies elim: create_grant_ok [rotated] audit_access_ok [rotated]
      audit_denied_ok [rotated] revoke_ok [rotated] propose_ok [rotated] decide_ok [rotated] execute_ok [rotated]
      cleanup_ok [rotated])

lemma new_request_ok: "request_ok gs (new_request request client redirect res scopes state challenge time origin details)"
  by (simp add: request_ok_def new_request_def)

lemma run_oauth_ok: "agent_ok db \<Longrightarrow> run_oauth clock q db = Some (y, db') \<Longrightarrow> agent_ok db'"
proof (cases q)
  case (Q_authorize a b c d e f g h i j)
  assume "agent_ok db" "run_oauth clock q db = Some (y, db')"
  with Q_authorize show ?thesis
    by (auto simp: query_replies new_request_def intro: insert_request_ok [OF _ _ new_request_ok])
next
  case (Q_deny a b c d)
  assume "agent_ok db" "run_oauth clock q db = Some (y, db')"
  with Q_deny deny_request_ok [of db clock a b c d] show ?thesis
    by (auto simp: query_replies split: prod.splits)
qed (auto simp: query_replies intro: claim_request_ok cleanup_requests_ok
    elim: approve_request_ok [rotated] exchange_ok [rotated] revoke_token_ok [rotated])

lemma run_record_ok: "agent_ok db \<Longrightarrow> run_record clock q db = Some (y, db') \<Longrightarrow> agent_ok db'"
  by (cases q) (auto simp: query_replies elim: allow_ok [rotated] record_propose_ok [rotated]
      record_decide_ok [rotated] prepare_ok [rotated])

lemma run_provider_ok: "agent_ok db \<Longrightarrow> run_provider clock v db = Some db' \<Longrightarrow> agent_ok db'"
  by (cases v) (auto intro: finish_commit_ok elim: put_account_ok [rotated] put_credential_ok [rotated]
      put_recipient_ok [rotated] put_client_ok [rotated] put_key_head_ok [rotated] drop_key_head_ok [rotated]
      put_record_head_ok [rotated] drop_record_head_ok [rotated] consume_commit_ok [rotated])

lemma agent_ok_exec: "agent_ok db \<Longrightarrow> agent_ok (exec_agent op db)"
  by (auto simp: exec_agent_def run_query_def split: agent_op.splits option.splits agent_query.splits prod.splits
      intro: run_store_ok run_oauth_ok run_record_ok run_provider_ok)

interpretation agent_tables: invariant exec_agent agent_ok
  by unfold_locales (rule agent_ok_exec)

end
