(* ===== verification/AgentTraces.thy ===== *)
theory AgentTraces imports AgentRecordLaws begin

section \<open>What an operation can do to grants, proposals and drafts\<close>

text \<open>
  \<open>calm\<close>: no draft appears, every proposal was there before with the same content, in the same
  state or rejected since, its text kept or cleared, and every grant was there before with the same
  rights, or revoked since. Every operation is calm except the creation of a grant, a proposal, an
  effective decision and an effective execution.
\<close>

definition heir :: "agent_grant \<Rightarrow> agent_grant \<Rightarrow> bool" where
  "heir g h \<longleftrightarrow> h = g\<lparr>ag_snapshot := ag_snapshot h, ag_revoked := ag_revoked h, ag_revision := ag_revision h\<rparr>
     \<and> (ag_revoked g \<longrightarrow> ag_revoked h) \<and> (ag_snapshot h = None \<or> ag_snapshot h = ag_snapshot g)"

definition derived :: "agent_proposal \<Rightarrow> agent_proposal \<Rightarrow> bool" where
  "derived p q \<longleftrightarrow> ap_id q = ap_id p \<and> ap_grant q = ap_grant p \<and> ap_request q = ap_request p
     \<and> ap_document q = ap_document p \<and> ap_title q = ap_title p \<and> (ap_text q = None \<or> ap_text q = ap_text p)
     \<and> (ap_state q = ap_state p \<or> ap_state q = P_rejected)"

definition kept_token :: "oauth_token \<Rightarrow> oauth_token \<Rightarrow> bool" where
  "kept_token s t \<longleftrightarrow> t = s\<lparr>ot_revoked := ot_revoked t\<rparr> \<and> (ot_revoked s \<longrightarrow> ot_revoked t)"

definition kept_record :: "record_proposal \<Rightarrow> record_proposal \<Rightarrow> bool" where
  "kept_record p q \<longleftrightarrow> q = p\<lparr>rp_state := rp_state q, rp_payload := rp_payload q\<rparr>
     \<and> (rp_payload q = None \<or> rp_payload q = rp_payload p)"

text \<open>A request keeps its owner's consent and the code it was redeemed with, or was denied.\<close>

definition kept_request :: "oauth_request \<Rightarrow> oauth_request \<Rightarrow> bool" where
  "kept_request r q \<longleftrightarrow> or_id q = or_id r \<and> or_redeemed q = or_redeemed r
     \<and> (or_decision q = Some Consent_approved \<longrightarrow> or_decision r = Some Consent_approved)"

definition carried :: "('r \<Rightarrow> 'r \<Rightarrow> bool) \<Rightarrow> 'r list \<Rightarrow> 'r list \<Rightarrow> bool" where
  "carried R xs ys \<longleftrightarrow> (\<forall>y \<in> set ys. \<exists>x \<in> set xs. R x y)"

definition calm :: "agent_db \<Rightarrow> agent_db \<Rightarrow> bool" where
  "calm db db' \<longleftrightarrow> set (t_drafts db') \<subseteq> set (t_drafts db)
     \<and> carried derived (t_proposals db) (t_proposals db') \<and> carried heir (t_grants db) (t_grants db')
     \<and> carried kept_token (t_tokens db) (t_tokens db')
     \<and> carried kept_record (t_record_proposals db) (t_record_proposals db')
     \<and> carried kept_request (t_requests db) (t_requests db')"

lemma heir_refl [simp]: "heir g g"
  by (simp add: heir_def)

lemma heir_fields:
  assumes "heir g h"
  shows "ag_id h = ag_id g" "ag_account h = ag_account g" "ag_token h = ag_token g" "ag_key h = ag_key g"
    "ag_resource h = ag_resource g" "ag_operations h = ag_operations g" "ag_expires h = ag_expires g"
    "ag_revoked g \<Longrightarrow> ag_revoked h"
proof -
  from assms have h: "h = g\<lparr>ag_snapshot := ag_snapshot h, ag_revoked := ag_revoked h, ag_revision := ag_revision h\<rparr>"
    by (simp add: heir_def)
  show "ag_id h = ag_id g" "ag_account h = ag_account g" "ag_token h = ag_token g" "ag_key h = ag_key g"
    "ag_resource h = ag_resource g" "ag_operations h = ag_operations g" "ag_expires h = ag_expires g" by (subst h, simp)+
  show "ag_revoked g \<Longrightarrow> ag_revoked h" using assms by (simp add: heir_def)
qed

lemma heir_trans: "heir f g \<Longrightarrow> heir g h \<Longrightarrow> heir f h"
  by (cases f; cases g; cases h) (auto simp: heir_def)

lemma heir_stop [simp]: "heir g (stop_row g)"
  by (cases g) (simp add: heir_def stop_row_def)

lemma heir_clear [simp]: "heir g (g\<lparr>ag_snapshot := None\<rparr>)"
  by (cases g) (simp add: heir_def)

lemma derived_refl [simp]: "derived p p"
  by (simp add: derived_def)

lemma derived_trans: "derived p q \<Longrightarrow> derived q r \<Longrightarrow> derived p r"
  by (auto simp: derived_def)

lemma derived_reject [simp]: "derived p (reject_row p)"
  by (simp add: derived_def)

lemma kept_refl [simp]: "kept_token t t" "kept_record p p" "kept_request r r"
  by (simp_all add: kept_token_def kept_record_def kept_request_def)

lemma kept_request_trans: "kept_request q r \<Longrightarrow> kept_request r s \<Longrightarrow> kept_request q s"
  by (simp add: kept_request_def)

lemma kept_token_trans: "kept_token s t \<Longrightarrow> kept_token t u \<Longrightarrow> kept_token s u"
  by (cases s; cases t; cases u) (auto simp: kept_token_def)

lemma kept_record_trans: "kept_record p q \<Longrightarrow> kept_record q r \<Longrightarrow> kept_record p r"
  by (cases p; cases q; cases r) (auto simp: kept_record_def)

lemma kept_changes [simp]: "kept_token t (t\<lparr>ot_revoked := True\<rparr>)" "kept_record p (close_record st keep p)"
  by (cases t, cases p, simp_all add: kept_token_def kept_record_def close_record_def)+

lemma carried_refl [simp]: "(\<And>x. R x x) \<Longrightarrow> carried R xs xs"
  by (auto simp: carried_def)

lemma carried_subset: "(\<And>x. R x x) \<Longrightarrow> set ys \<subseteq> set xs \<Longrightarrow> carried R xs ys"
  by (auto simp: carried_def)

lemma carried_trans:
  "carried R xs ys \<Longrightarrow> carried R ys zs \<Longrightarrow> (\<And>x y z. R x y \<Longrightarrow> R y z \<Longrightarrow> R x z) \<Longrightarrow> carried R xs zs"
  unfolding carried_def by blast

lemma carried_map: "(\<And>x. R x (f x)) \<Longrightarrow> carried R xs (map f xs)"
  by (auto simp: carried_def)

lemma carried_update [simp]: "(\<And>x. R x x) \<Longrightarrow> (\<And>x. R x (f x)) \<Longrightarrow> carried R xs (update_rows P f xs)"
  unfolding update_rows_def by (rule carried_map) simp

lemma carried_delete [simp]: "(\<And>x. R x x) \<Longrightarrow> carried R xs (delete_rows P xs)"
  by (auto simp: carried_def)

lemma calm_trans: "calm a b \<Longrightarrow> calm b c \<Longrightarrow> calm a c"
  unfolding calm_def
  by (auto elim!: carried_trans intro: derived_trans heir_trans kept_token_trans kept_record_trans kept_request_trans)

lemma calm_same:
  "t_drafts db' = t_drafts db \<Longrightarrow> t_proposals db' = t_proposals db \<Longrightarrow> t_grants db' = t_grants db
    \<Longrightarrow> t_tokens db' = t_tokens db \<Longrightarrow> t_record_proposals db' = t_record_proposals db
    \<Longrightarrow> t_requests db' = t_requests db \<Longrightarrow> calm db db'"
  by (simp add: calm_def)

lemma calm_tables [simp]:
  "calm (db\<lparr>t_capabilities := b\<rparr>) db' = calm db db'" "calm (db\<lparr>t_commits := d\<rparr>) db' = calm db db'"
  "calm (db\<lparr>t_accounts := g\<rparr>) db' = calm db db'" "calm (db\<lparr>t_credentials := h\<rparr>) db' = calm db db'"
  "calm (db\<lparr>t_recipients := i\<rparr>) db' = calm db db'" "calm (db\<lparr>t_key_heads := j\<rparr>) db' = calm db db'"
  "calm (db\<lparr>t_record_heads := k\<rparr>) db' = calm db db'"
  by (simp_all add: calm_def)

lemma calm_stopped: "calm db (stopped S db)"
  by (simp add: calm_def)

lemma calm_records: "calm db (db\<lparr>t_record_proposals := update_rows P (close_record st keep) (t_record_proposals db)\<rparr>)"
  by (simp add: calm_def)

lemma adds_audits_calm: "adds_audits db db' \<Longrightarrow> calm db db'"
  by (rule calm_same) (simp_all add: adds_auditsD(1-3,5,8,9))

lemma each_audit_calm: "each (\<lambda>x. insert_audit (f x)) xs db = Some db' \<Longrightarrow> calm db db'"
  by (rule adds_audits_calm [OF each_audit_adds])

lemma stop_grants_calm: "agent_ok db \<Longrightarrow> stop_grants clock P db = Some db' \<Longrightarrow> calm db db'"
  using stop_grants_effect [OF _ agent_ok_distinct] calm_trans [OF calm_stopped adds_audits_calm]
  unfolding grants_stopped_def by blast

lemma set_record_rows_calm: "agent_ok db \<Longrightarrow> set_record_rows clock st keep P db = Some db' \<Longrightarrow> calm db db'"
  using set_record_rows_effect [OF _ agent_ok_distinct] calm_trans [OF _ adds_audits_calm]
  unfolding records_moved_def by (metis calm_records)

lemma each_calm:
  assumes "each f xs db = Some db'" and "\<And>x u v. f x u = Some v \<Longrightarrow> calm u v"
  shows "calm db db'"
  by (rule each_induct [OF assms(1)]) (auto intro: calm_same calm_trans assms(2))

subsection \<open>The store\<close>

lemma audit_access_calm: "audit_access clock event op document created time h db = Some (n, db') \<Longrightarrow> calm db db'"
  unfolding audit_access_def Let_def by (auto split: Option.bind_splits intro: each_audit_calm)

lemma audit_denied_calm: "audit_denied event grant op time db = Some db' \<Longrightarrow> calm db db'"
  unfolding audit_denied_def by (rule adds_audits_calm [OF insert_audit_adds])

lemma revoke_calm:
  assumes "agent_ok db" and "revoke_batch clock event time account grant secret db = Some db'"
  shows "calm db db'"
proof -
  from assms(2) obtain a b where a: "adds_audits db a"
    and b: "stop_grants clock (\<lambda>g. names_grant account grant g \<and> owner_live db clock secret account time) a = Some b"
    and c: "set_record_rows clock R_rejected False
       (\<lambda>p. record_open p \<and> revoked_in (rejected_in account b) account (rp_grant p)) (rejected_in account b) = Some db'"
    by (rule revoke_parts)
  have aok: "agent_ok a" using assms(1) a by (rule agent_ok_audits)
  have "agent_ok (rejected_in account b)" by (rule reject_ok [OF agent_ok_stop_grants [OF aok b]])
  then have "calm (rejected_in account b) db'" using c by (rule set_record_rows_calm)
  moreover have "calm b (rejected_in account b)"
    by (simp add: calm_def rejected_in_def)
  ultimately show ?thesis
    using adds_audits_calm [OF a] stop_grants_calm [OF aok b] by (blast intro: calm_trans)
qed

lemma cleanup_calm:
  assumes "agent_ok db" and "cleanup_batch clock ts db = Some db'"
  shows "calm db db'"
proof -
  from assms(2) obtain b c P Q where b: "delete_proposals P (cleanup_rows ts db) = Some b"
    and rc: "set_record_rows clock R_invalid False (\<lambda>p. rp_expires p \<le> ts ! 6 \<and> record_open p) b = Some c"
    and d: "delete_grants Q (delete_record_proposals (\<lambda>p. rp_created p < ts ! 7 - retention) c) = Some db'"
    by (rule cleanup_parts)
  have t: "derived p (p\<lparr>ap_text := None\<rparr>)" for p by (simp add: derived_def)
  have c: "calm x (clear_snapshots u x)" "calm x (expire_proposals u x)" "calm x (drop_audits u x)"
    "calm x (drop_drafts u x)" "calm x (clear_texts u x)" for x u
    by (auto simp: calm_def cleanup_defs t)
  have "calm db (cleanup_rows ts db)"
    unfolding cleanup_rows_def
    by (rule calm_trans [OF _ c(5)], rule calm_trans [OF _ c(4)], rule calm_trans [OF _ c(3)], rule calm_trans [OF _ c(2)], rule c(1))
  moreover have "calm (cleanup_rows ts db) b"
    using b by (auto simp: calm_def delete_proposals_def split: Option.bind_splits)
  moreover have "agent_ok b"
    by (rule delete_proposals_ok [OF _ b]) (unfold cleanup_rows_def,
        intro clear_texts_ok drop_drafts_ok drop_audits_ok expire_proposals_ok clear_snapshots_ok assms(1))
  then have "calm b c" using rc by (rule set_record_rows_calm)
  moreover have "calm c db'"
    using d by (auto simp: calm_def delete_grants_def delete_record_proposals_def Let_def split: Option.bind_splits)
  ultimately show ?thesis by (blast intro: calm_trans)
qed

subsection \<open>Consent, record proposals and the provider\<close>

text \<open>The queries of the consent that are not calm.\<close>

definition consenting :: "oauth_query \<Rightarrow> bool" where
  "consenting q \<longleftrightarrow> (case q of
     Q_authorize request client redirect res scopes state challenge time origin details \<Rightarrow> True
   | Q_approve request grant code account secret time key res \<Rightarrow> True
   | Q_exchange token time key recipient_resource code client redirect res challenge \<Rightarrow> True
   | _ \<Rightarrow> False)"

lemma run_oauth_calm: "run_oauth clock q db = Some (y, db') \<Longrightarrow> \<not> consenting q \<Longrightarrow> calm db db'"
proof (cases q)
  case (Q_claim_request a b c d e)
  assume "run_oauth clock q db = Some (y, db')"
  with Q_claim_request show ?thesis
    by (auto simp: query_replies claim_request_def calm_def kept_request_def intro!: carried_update)
next
  case (Q_deny a b c d)
  assume "run_oauth clock q db = Some (y, db')"
  with Q_deny show ?thesis
    by (auto simp: query_replies deny_request_def Let_def calm_def kept_request_def intro!: carried_update)
next
  case Q_cleanup_requests
  assume "run_oauth clock q db = Some (y, db')"
  with Q_cleanup_requests show ?thesis by (auto simp: query_replies cleanup_requests_def Let_def calm_def)
next
  case (Q_revoke_token a b)
  let ?a = "db\<lparr>t_tokens := update_rows (\<lambda>t. ot_hash t = a \<and> ot_client t = b \<and> \<not> ot_revoked t)
      (\<lambda>t. t\<lparr>ot_revoked := True\<rparr>) (t_tokens db)\<rparr>"
  assume "run_oauth clock q db = Some (y, db')"
  with Q_revoke_token have "calm ?a db'"
    by (auto simp: query_replies revoke_token_def Let_def dest!: each_audit_calm)
  moreover have "calm db ?a" by (simp add: calm_def)
  ultimately show ?thesis by (blast intro: calm_trans)
qed (auto simp: consenting_def query_replies intro: calm_same)

text \<open>The shape of the batches that insert rows and record what they inserted.\<close>

lemma insert_and_audit_calm:
  assumes "Option.bind (each f xs db) (\<lambda>d. each (\<lambda>x. insert_audit (g d x)) (h d) d) = Some db'"
    and "\<And>x u v. f x u = Some v \<Longrightarrow> calm u v"
  shows "calm db db'"
proof -
  from assms(1) obtain d where d: "each f xs db = Some d" and a: "each (\<lambda>x. insert_audit (g d x)) (h d) d = Some db'"
    by (auto split: Option.bind_splits)
  have "calm db d" by (rule each_calm [OF d]) (rule assms(2))
  then show ?thesis using each_audit_calm [OF a] by (rule calm_trans)
qed

lemma allow_calm: "allow_batch clock grant t time t1 t2 key res account secret event db = Some db' \<Longrightarrow> calm db db'"
  unfolding allow_batch_def Let_def
  by (erule insert_and_audit_calm)
    (auto simp: insert_capability_def split: Option.bind_splits intro!: calm_same)

lemma prepare_calm:
  "prepare_batch clock proposal hash operation candidate dig origin prepared t1 t2 key res account secret event audited db
    = Some db' \<Longrightarrow> calm db db'"
  unfolding prepare_batch_def Let_def
  by (erule insert_and_audit_calm) (auto simp: insert_commit_def split: Option.bind_splits intro!: calm_same)

definition record_proposing :: "record_query \<Rightarrow> bool" where
  "record_proposing q \<longleftrightarrow> (case q of Q_record_propose proposal hash payload expires time time1 h event \<Rightarrow> True | _ \<Rightarrow> False)"

lemma run_record_calm:
  "agent_ok db \<Longrightarrow> run_record clock q db = Some (y, db') \<Longrightarrow> \<not> record_proposing q \<Longrightarrow> calm db db'"
  by (cases q) (auto simp: query_replies record_decide_def record_proposing_def intro: calm_same
      elim: allow_calm prepare_calm set_record_rows_calm)

lemma put_record_head_calm:
  assumes "agent_ok db" and "put_record_head clock h db = Some db'"
  shows "calm db db'"
proof -
  let ?a = "db\<lparr>t_record_heads := put_row head_key h (t_record_heads db)\<rparr>"
  from assms(2) obtain b P where b: "b = ?a \<or> (\<exists>Q. stop_grants clock Q ?a = Some b)"
    and c: "set_record_rows clock R_invalid False P b = Some db'"
    unfolding put_record_head_def Let_def by (auto split: Option.bind_splits option.splits if_splits)
  have ok: "agent_ok ?a" using assms(1) by simp
  from b have "agent_ok b \<and> calm ?a b"
  proof
    assume "b = ?a"
    with ok show ?thesis by (simp add: calm_same)
  next
    assume "\<exists>Q. stop_grants clock Q ?a = Some b"
    then show ?thesis using agent_ok_stop_grants [OF ok] stop_grants_calm [OF ok] by blast
  qed
  then have "agent_ok b" "calm db b" by simp_all
  with set_record_rows_calm [OF _ c] show ?thesis by (blast intro: calm_trans)
qed

lemma drop_record_head_calm:
  assumes "agent_ok db" and "drop_record_head clock k db = Some db'"
  shows "calm db db'"
proof (cases "old_row head_key k (t_record_heads db)")
  case None
  with assms show ?thesis by (simp add: drop_record_head_def calm_same)
next
  case (Some old)
  let ?a = "db\<lparr>t_record_heads := delete_rows (\<lambda>h. head_key h = k) (t_record_heads db)\<rparr>"
  from Some assms(2) obtain b P where b: "stop_grants clock (of_record old) ?a = Some b"
    and c: "set_record_rows clock R_invalid False P b = Some db'"
    unfolding drop_record_head_def by (auto split: Option.bind_splits)
  have ok: "agent_ok ?a" using assms(1) by simp
  have "agent_ok b" "calm db b" using agent_ok_stop_grants [OF ok b] stop_grants_calm [OF ok b] by simp_all
  with set_record_rows_calm [OF _ c] show ?thesis by (blast intro: calm_trans)
qed

lemma run_provider_calm: "agent_ok db \<Longrightarrow> run_provider clock v db = Some db' \<Longrightarrow> calm db db'"
  by (cases v) (auto simp: put_account_def put_credential_def put_recipient_def put_client_def put_key_head_def
      drop_key_head_def consume_commit_def finish_commit_def Let_def split: option.splits if_splits
      dest!: stop_grants_calm [rotated] intro: calm_same
      elim: put_record_head_calm drop_record_head_calm set_record_rows_calm)

subsection \<open>The operations that are not calm\<close>

definition same_others :: "agent_db \<Rightarrow> agent_db \<Rightarrow> bool" where
  "same_others db db' \<longleftrightarrow> t_tokens db' = t_tokens db \<and> t_requests db' = t_requests db
     \<and> t_record_proposals db' = t_record_proposals db"

lemma same_others_audits: "same_others a b \<Longrightarrow> adds_audits b c \<Longrightarrow> same_others a c"
  by (simp add: same_others_def adds_auditsD(5) adds_auditsD(8) adds_auditsD(9))

lemma each_insert_grant:
  assumes "each insert_grant gs db = Some db'"
  shows "t_proposals db' = t_proposals db \<and> t_drafts db' = t_drafts db \<and> same_others db db'
     \<and> (\<forall>h \<in> set (t_grants db'). h \<in> set (t_grants db) \<or> h \<in> set gs \<and> \<not> has_grant db (ag_id h))"
  using assms
proof (induction gs arbitrary: db)
  case (Cons g gs)
  from Cons.prems obtain u where u: "insert_grant g db = Some u" "each insert_grant gs u = Some db'"
    by (auto split: Option.bind_splits)
  from u(1) have "u = db\<lparr>t_grants := t_grants db @ [g]\<rparr>" "\<not> has_grant db (ag_id g)"
    by (auto simp: insert_grant_def has_grant_def split: Option.bind_splits)
  with Cons.IH [OF u(2)] show ?case by (auto simp: has_grant_def same_others_def)
qed (simp add: same_others_def)

lemma create_grant_effect:
  assumes "create_grant_batch clock input hash secret account time event db = Some (n, db')"
  shows "t_proposals db' = t_proposals db \<and> t_drafts db' = t_drafts db \<and> same_others db db' \<and> (\<forall>h \<in> set (t_grants db'). h \<in> set (t_grants db)
     \<or> ag_id h = the_str (get input ''grant_id'') \<and> \<not> has_grant db (ag_id h))"
proof -
  from assms obtain ss d where d: "each insert_grant (map (new_grant input hash time) ss) db = Some d"
    and a: "adds_audits d db'"
    unfolding create_grant_batch_def Let_def by (auto split: Option.bind_splits dest: each_audit_adds)
  from each_insert_grant [OF d] same_others_audits [OF _ a] adds_auditsD(1-3,5,8,9) [OF a] show ?thesis by (auto simp: new_grant_def)
qed

lemma each_insert_proposal:
  assumes "each insert_proposal ps db = Some db'"
  shows "t_grants db' = t_grants db \<and> t_drafts db' = t_drafts db \<and> same_others db db' \<and> t_proposals db' = t_proposals db @ ps"
  using assms
proof (induction ps arbitrary: db)
  case (Cons p ps)
  from Cons.prems obtain u where u: "insert_proposal p db = Some u" "each insert_proposal ps u = Some db'"
    by (auto split: Option.bind_splits)
  from u(1) have "u = db\<lparr>t_proposals := t_proposals db @ [p]\<rparr>"
    by (auto simp: insert_proposal_def split: Option.bind_splits)
  with Cons.IH [OF u(2)] show ?case by (simp add: same_others_def)
qed (simp add: same_others_def)

lemma propose_effect:
  assumes "propose_batch clock proposal hash document title txt expires created time h event audited db = Some (n, db')"
  shows "t_grants db' = t_grants db" "t_drafts db' = t_drafts db"
    "t_proposals db' = t_proposals db @ map (new_proposal proposal hash document title txt expires created)
       (filter (\<lambda>g. still_held db clock time h g
         \<and> count_rows (\<lambda>p. ap_grant p = ag_id g \<and> proposal_open p) (t_proposals db) < 20) (t_grants db))"
    "same_others db db'"
proof -
  let ?rows = "filter (\<lambda>g. still_held db clock time h g
         \<and> count_rows (\<lambda>p. ap_grant p = ag_id g \<and> proposal_open p) (t_proposals db) < 20) (t_grants db)"
  from assms obtain d where d: "each insert_proposal (map (new_proposal proposal hash document title txt expires created) ?rows) db
      = Some d" and a: "adds_audits d db'"
    unfolding propose_batch_def Let_def by (auto split: Option.bind_splits dest: each_audit_adds)
  from each_insert_proposal [OF d] same_others_audits [OF _ a] adds_auditsD(1-3,5,8,9) [OF a]
  show "t_grants db' = t_grants db" "t_drafts db' = t_drafts db"
    "t_proposals db' = t_proposals db @ map (new_proposal proposal hash document title txt expires created) ?rows" "same_others db db'" by simp_all
qed

lemma decide_effect:
  assumes "decide_batch clock approve proposal hash t1 t2 t3 key res account secret event audited db = Some (n, db')"
  shows "t_grants db' = t_grants db" "t_drafts db' = t_drafts db"
    "t_proposals db' = update_rows (may_decide clock proposal hash t1 t2 t3 key res account secret db)
       (\<lambda>p. p\<lparr>ap_state := verdict approve, ap_approved := grant_revision db (ap_grant p)\<rparr>) (t_proposals db)"
    "same_others db db'"
proof -
  let ?ps = "update_rows (may_decide clock proposal hash t1 t2 t3 key res account secret db)
       (\<lambda>p. p\<lparr>ap_state := verdict approve, ap_approved := grant_revision db (ap_grant p)\<rparr>) (t_proposals db)"
  from assms have a: "adds_audits (db\<lparr>t_proposals := ?ps\<rparr>) db'"
    unfolding decide_batch_def Let_def by (auto split: Option.bind_splits dest: each_audit_adds)
  from adds_auditsD(1-3,5,8,9) [OF a] show "t_grants db' = t_grants db" "t_drafts db' = t_drafts db" "t_proposals db' = ?ps" "same_others db db'"
    by (simp_all add: same_others_def)
qed

lemma execute_tables:
  assumes "agent_ok db" and "execute_batch clock draft created proposal hash t1 t2 h event audited db = Some db'"
  shows "t_grants db' = t_grants db \<and> same_others db db'"
  using assms(2)
proof (rule execute_effect [OF assms(1)])
  assume "adds_audits db db'"
  then show ?thesis by (simp add: adds_auditsD(1) adds_auditsD(5) adds_auditsD(8) adds_auditsD(9) same_others_def)
next
  fix p g assume a: "adds_audits (executed clock draft created proposal hash t1 t2 h db p g) db'"
  have "same_others db (executed clock draft created proposal hash t1 t2 h db p g)" by (simp add: executed_def same_others_def)
  from same_others_audits [OF this a] adds_auditsD(1) [OF a] show ?thesis by (simp add: executed_def)
qed

lemma authorize_tables:
  "insert_request clock r db = Some (n, db') \<Longrightarrow> t_grants db' = t_grants db \<and> t_proposals db' = t_proposals db
     \<and> t_drafts db' = t_drafts db \<and> t_tokens db' = t_tokens db \<and> t_record_proposals db' = t_record_proposals db
     \<and> set (t_requests db') \<subseteq> insert r (set (t_requests db))"
  by (auto simp: insert_request_def split: if_splits Option.bind_splits)

lemma consent_effect:
  assumes "approve_request clock request grant code account secret time key res db = Some (n, db')"
  shows "t_grants db' = t_grants db" "t_proposals db' = t_proposals db" "t_drafts db' = t_drafts db"
    "t_tokens db' = t_tokens db" "t_record_proposals db' = t_record_proposals db"
    "t_requests db' = update_rows (may_approve clock request grant account secret time key res db)
       (\<lambda>r. r\<lparr>or_decision := Some Consent_approved, or_grant := Some grant, or_revision := grant_revision db grant,
         or_code := Some code, or_code_expires := Some (min (or_expires r) (clock + 120))\<rparr>) (t_requests db)"
proof -
  let ?rs = "update_rows (may_approve clock request grant account secret time key res db)
       (\<lambda>r. r\<lparr>or_decision := Some Consent_approved, or_grant := Some grant, or_revision := grant_revision db grant,
         or_code := Some code, or_code_expires := Some (min (or_expires r) (clock + 120))\<rparr>) (t_requests db)"
  from assms have a: "adds_audits (db\<lparr>t_requests := ?rs\<rparr>) db'"
    unfolding approve_request_def Let_def by (auto split: Option.bind_splits dest: each_audit_adds)
  from adds_auditsD(1-3,5,8,9) [OF a]
  show "t_grants db' = t_grants db" "t_proposals db' = t_proposals db" "t_drafts db' = t_drafts db"
    "t_tokens db' = t_tokens db" "t_record_proposals db' = t_record_proposals db" "t_requests db' = ?rs" by simp_all
qed

lemma exchange_tables:
  assumes "agent_ok db" and "exchange_batch clock token time key recipient_resource code client redirect res challenge db = Some db'"
  shows "t_grants db' = t_grants db" "t_proposals db' = t_proposals db" "t_drafts db' = t_drafts db"
    "t_record_proposals db' = t_record_proposals db"
  using assms(2)
  by (rule exchange_effect [OF assms(1)]; auto simp: exchanged_def dest: adds_auditsD(1) adds_auditsD(2) adds_auditsD(3) adds_auditsD(5))+

lemma each_insert_record_proposal:
  assumes "each insert_record_proposal ps db = Some db'"
  shows "t_grants db' = t_grants db \<and> t_proposals db' = t_proposals db \<and> t_drafts db' = t_drafts db
     \<and> t_tokens db' = t_tokens db \<and> t_requests db' = t_requests db
     \<and> t_record_proposals db' = t_record_proposals db @ ps"
  using assms
proof (induction ps arbitrary: db)
  case (Cons p ps)
  from Cons.prems obtain u where u: "insert_record_proposal p db = Some u" "each insert_record_proposal ps u = Some db'"
    by (auto split: Option.bind_splits)
  from u(1) have "u = db\<lparr>t_record_proposals := t_record_proposals db @ [p]\<rparr>"
    by (auto simp: insert_record_proposal_def split: Option.bind_splits)
  with Cons.IH [OF u(2)] show ?case by simp
qed simp

lemma record_propose_effect:
  assumes "record_propose_batch clock proposal hash payload expires time t1 h event db = Some db'"
  obtains cs where "\<forall>c \<in> set cs. held_capability db clock t1 h c" "t_grants db' = t_grants db" "t_proposals db' = t_proposals db"
    "t_drafts db' = t_drafts db" "t_tokens db' = t_tokens db" "t_requests db' = t_requests db"
    "t_record_proposals db' = t_record_proposals db @ map (new_record_proposal proposal hash payload expires time) cs"
proof -
  let ?rows = "filter (\<lambda>c. held_capability db clock t1 h c \<and> ac_expires c \<ge> expires \<and> expires > clock
         \<and> (\<forall>p \<in> set (t_record_proposals db). rp_id p \<noteq> proposal)
         \<and> count_rows (\<lambda>p. rp_grant p = ac_grant c \<and> record_open p) (t_record_proposals db) < 20)
       (t_capabilities db)"
  from assms obtain a where a: "each insert_record_proposal (map (new_record_proposal proposal hash payload expires time) ?rows) db = Some a"
    and b: "adds_audits a db'"
    unfolding record_propose_batch_def Let_def by (auto split: Option.bind_splits dest: each_audit_adds)
  show thesis
    by (rule that [of ?rows]) (use each_insert_record_proposal [OF a] adds_auditsD(1-3,5,8,9) [OF b] in auto)
qed

subsection \<open>One operation\<close>

lemma exec_cases:
  assumes "agent_ok db"
  obtains "calm db (exec_agent op db)"
  | (create) clock input hash secret account time event n
    where "op = Op_query clock (Store (Q_create_grant input hash secret account time event))"
      "create_grant_batch clock input hash secret account time event db = Some (n, exec_agent op db)"
  | (propose) clock proposal hash document title body expires created time h event audited n
    where "op = Op_query clock (Store (Q_propose proposal hash document title body expires created time h event audited))"
      "propose_batch clock proposal hash document title body expires created time h event audited db = Some (n, exec_agent op db)"
  | (decide) clock approve proposal hash t1 t2 t3 key res account secret event audited n
    where "op = Op_query clock (Store (Q_decide approve proposal hash t1 t2 t3 key res account secret event audited))"
      "decide_batch clock approve proposal hash t1 t2 t3 key res account secret event audited db = Some (n, exec_agent op db)"
  | (execute) clock draft created proposal hash t1 t2 h event audited
    where "op = Op_query clock (Store (Q_execute draft created proposal hash t1 t2 h event audited))"
      "execute_batch clock draft created proposal hash t1 t2 h event audited db = Some (exec_agent op db)"
  | (authorize) clock request client redirect res scopes state challenge time origin details n
    where "op = Op_query clock (Oauth (Q_authorize request client redirect res scopes state challenge time origin details))"
      "insert_request clock (new_request request client redirect res scopes state challenge time origin details) db
        = Some (n, exec_agent op db)"
  | (consent) clock request grant code account secret time key res n
    where "op = Op_query clock (Oauth (Q_approve request grant code account secret time key res))"
      "approve_request clock request grant code account secret time key res db = Some (n, exec_agent op db)"
  | (exchange) clock token time key recipient_resource code client redirect res challenge
    where "op = Op_query clock (Oauth (Q_exchange token time key recipient_resource code client redirect res challenge))"
      "exchange_batch clock token time key recipient_resource code client redirect res challenge db = Some (exec_agent op db)"
  | (offer) clock proposal hash payload expires time t1 h event
    where "op = Op_query clock (Records (Q_record_propose proposal hash payload expires time t1 h event))"
      "record_propose_batch clock proposal hash payload expires time t1 h event db = Some (exec_agent op db)"
proof (cases op)
  case (Op_query clock q)
  show thesis
  proof (cases "run_query clock q db")
    case None
    then show thesis using that(1) by (simp add: Op_query exec_agent_def calm_same)
  next
    case (Some yd)
    obtain y d where yd: "yd = (y, d)" by (cases yd)
    with Some have e: "exec_agent op db = d" by (simp add: Op_query exec_agent_def)
    show thesis
    proof (cases q)
      case (Store s)
      with Some yd have r: "run_store clock s db = Some (y, d)" by (simp add: run_query_def)
      show thesis
      proof (cases s)
        case (Q_revoke event time account grant secret)
        with r show thesis using that(1) revoke_calm [OF assms] by (auto simp: query_replies e)
      next
        case (Q_cleanup ts)
        with r show thesis using that(1) cleanup_calm [OF assms] by (auto simp: query_replies e)
      qed (use r e Op_query Store that(1-5) in
          \<open>auto simp: query_replies intro: calm_same dest: audit_access_calm audit_denied_calm\<close>)
    next
      case (Oauth s)
      with Some yd have r: "run_oauth clock s db = Some (y, d)" by (simp add: run_query_def)
      show thesis
      proof (cases "consenting s")
        case True
        with r e Op_query Oauth that(6-8) show thesis
          by (auto simp: consenting_def query_replies split: oauth_query.splits)
      qed (use run_oauth_calm [OF r] that(1) e in simp)
    next
      case (Records s)
      with Some yd have r: "run_record clock s db = Some (y, d)" by (simp add: run_query_def)
      show thesis
      proof (cases "record_proposing s")
        case True
        with r e Op_query Records that(9) show thesis
          by (auto simp: record_proposing_def query_replies split: record_query.splits)
      qed (use run_record_calm [OF assms r] that(1) e in simp)
    qed
  qed
next
  case (Op_provider clock v)
  then have "calm db (exec_agent op db)"
    using run_provider_calm [OF assms] by (cases "run_provider clock v db") (auto simp: exec_agent_def calm_same)
  then show thesis by (rule that(1))
qed

end
