(* ===== verification/AgentSteps.thy ===== *)
theory AgentSteps imports AgentTraces begin

section \<open>Where rows come from\<close>

text \<open>
  Every grant, proposal, draft, token and record proposal after one operation, traced to the tables
  before it; what an operation earns and what it spends; and grants that gave up their rights.
\<close>

subsection \<open>Earning and spending\<close>

text \<open>
  Operations that earn a right and operations that spend one: \<open>credit\<close> is the rights that were
  earned and are not spent. Over a run no more is spent than there was and was earned.
\<close>

locale budget = invariant exec inv
  for exec :: "'op \<Rightarrow> 's \<Rightarrow> 's" and inv :: "'s \<Rightarrow> bool" +
  fixes earns spends :: "'k \<Rightarrow> 'op \<Rightarrow> 's \<Rightarrow> bool"
    and credit :: "'k \<Rightarrow> 's \<Rightarrow> nat"
  assumes balance: "inv s \<Longrightarrow>
    (if spends k op s then 1 else 0) + credit k (exec op s) \<le> credit k s + (if earns k op s then 1 else 0)"
begin

lemma balance_run:
  "inv s \<Longrightarrow> count_ops (spends k) exec ops s + credit k (run_ops exec ops s) \<le> credit k s + count_ops (earns k) exec ops s"
proof (induction ops arbitrary: s)
  case (Cons op ops)
  from Cons.IH [OF inv_exec [OF Cons.prems], of op] balance [OF Cons.prems, of k op] show ?case
    by (simp split: if_splits)
qed simp

lemma spent_was_earned:
  "inv s \<Longrightarrow> credit k s = 0 \<Longrightarrow> count_ops (spends k) exec ops s \<le> count_ops (earns k) exec ops s"
  using balance_run [of s k ops] by simp

end

subsection \<open>Grants\<close>

definition creates_grant :: "string \<Rightarrow> agent_op \<Rightarrow> bool" where
  "creates_grant i op \<longleftrightarrow> (case op of
     Op_query clock (Store (Q_create_grant input hash secret account time event)) \<Rightarrow> the_str (get input ''grant_id'') = i
   | _ \<Rightarrow> False)"

lemma grant_step:
  assumes "agent_ok db" and "h \<in> set (t_grants (exec_agent op db))"
  shows "(\<exists>g \<in> set (t_grants db). heir g h) \<or> creates_grant (ag_id h) op \<and> \<not> has_grant db (ag_id h)"
  using assms(1)
proof (cases rule: exec_cases [where op = op])
  case 1
  with assms(2) show ?thesis by (auto simp: calm_def carried_def)
next
  case (create clock input hash secret account time event n)
  have c: "creates_grant (the_str (get input ''grant_id'')) op" by (simp add: create(1) creates_grant_def)
  from create_grant_effect [OF create(2)] assms(2)
  have "h \<in> set (t_grants db) \<or> ag_id h = the_str (get input ''grant_id'') \<and> \<not> has_grant db (ag_id h)" by (elim conjE bspec)
  with c show ?thesis by (auto intro: heir_refl)
next
  case propose
  from propose_effect(1) [OF propose(2)] assms(2) show ?thesis by (auto intro: heir_refl)
next
  case decide
  from decide_effect(1) [OF decide(2)] assms(2) show ?thesis by (auto intro: heir_refl)
next
  case execute
  from execute_tables [OF assms(1) execute(2)] assms(2) show ?thesis by (auto intro: heir_refl)
next
  case authorize
  from authorize_tables [OF authorize(2)] assms(2) show ?thesis by (auto intro: heir_refl)
next
  case consent
  from consent_effect(1) [OF consent(2)] assms(2) show ?thesis by (auto intro: heir_refl)
next
  case exchange
  from exchange_tables(1) [OF assms(1) exchange(2)] assms(2) show ?thesis by (auto intro: heir_refl)
next
  case offer
  from offer(2) show ?thesis by (rule record_propose_effect) (use assms(2) in \<open>auto intro: heir_refl\<close>)
qed

subsection \<open>Proposals and drafts\<close>

text \<open>The effective approval of a proposal of an account, by its live owner.\<close>

definition approves :: "string \<Rightarrow> string \<Rightarrow> (agent_proposal \<Rightarrow> bool) \<Rightarrow> agent_op \<Rightarrow> agent_db \<Rightarrow> bool" where
  "approves account proposal P op db \<longleftrightarrow> (case op of
     Op_query clock (Store (Q_decide approve i hash t1 t2 t3 key res a secret event audited)) \<Rightarrow>
       approve \<and> i = proposal \<and> a = account
     \<and> run_query clock (Store (Q_decide approve i hash t1 t2 t3 key res a secret event audited)) db \<noteq> None
     \<and> (\<exists>p \<in> set (t_proposals db). P p \<and> may_decide clock i hash t1 t2 t3 key res a secret db p)
   | _ \<Rightarrow> False)"

lemma approvesI:
  assumes "op = Op_query clock (Store (Q_decide True (ap_id p) hash t1 t2 t3 key res account secret event audited))"
    and "decide_batch clock True (ap_id p) hash t1 t2 t3 key res account secret event audited db = Some (n, db')"
    and "p \<in> set (t_proposals db)" "P p" "may_decide clock (ap_id p) hash t1 t2 t3 key res account secret db p"
  shows "approves account (ap_id p) P op db"
  using assms by (auto simp: approves_def run_query_def query_replies)

lemma proposal_step:
  assumes "agent_ok db" and q: "q \<in> set (t_proposals (exec_agent op db))" "ap_state q = P_approved"
  shows "(\<exists>p \<in> set (t_proposals db). derived p q \<and> ap_state p = P_approved)
     \<or> (\<exists>g \<in> set (t_grants db). ag_id g = ap_grant q
         \<and> approves (ag_account g) (ap_id q) (\<lambda>p. ap_grant p = ap_grant q \<and> ap_title p = ap_title q \<and> ap_text p = ap_text q
             \<and> ap_request p = ap_request q \<and> ap_document p = ap_document q) op db)"
  using assms(1)
proof (cases rule: exec_cases [where op = op])
  case 1
  then obtain p where p: "p \<in> set (t_proposals db)" "derived p q" using q(1) unfolding calm_def carried_def by blast
  with q(2) have "ap_state p = P_approved" by (auto simp: derived_def)
  with p show ?thesis by blast
next
  case create
  from create_grant_effect [OF create(2)] q show ?thesis by (auto intro: derived_refl)
next
  case propose
  from propose_effect(3) [OF propose(2)] q show ?thesis by (auto simp: new_proposal_def intro: derived_refl)
next
  case (decide clock approve proposal hash t1 t2 t3 key res account secret event audited n)
  let ?hit = "may_decide clock proposal hash t1 t2 t3 key res account secret db"
  from decide_effect(3) [OF decide(2)] q(1) obtain p where p: "p \<in> set (t_proposals db)"
    "q = (if ?hit p then p\<lparr>ap_state := verdict approve, ap_approved := grant_revision db (ap_grant p)\<rparr> else p)"
    by (auto simp: in_update_rows)
  show ?thesis
  proof (cases "?hit p")
    case True
    then obtain g where g: "g \<in> set (t_grants db)" "ag_id g = ap_grant p" "ag_account g = account" "ap_id p = proposal"
      by (auto simp: may_decide_def)
    from True p(2) have e: "q = p\<lparr>ap_state := verdict approve, ap_approved := grant_revision db (ap_grant p)\<rparr>" by simp
    from e q(2) have y: "approve" by (simp add: verdict_def split: if_splits)
    have "approves account (ap_id p) (\<lambda>r. ap_grant r = ap_grant q \<and> ap_title r = ap_title q \<and> ap_text r = ap_text q
             \<and> ap_request r = ap_request q \<and> ap_document r = ap_document q) op db"
      by (rule approvesI [OF _ _ p(1)]) (use decide y g(4) True e in simp_all)
    with g e show ?thesis by (intro disjI2 bexI [OF _ g(1)]) simp
  next
    case False
    with p q(2) show ?thesis by (auto intro: derived_refl)
  qed
next
  case (execute clock draft created proposal hash t1 t2 h event audited)
  from execute(2) show ?thesis
  proof (rule execute_effect [OF assms(1)])
    assume "adds_audits db (exec_agent op db)"
    with q show ?thesis by (auto simp: adds_auditsD(2) intro: derived_refl)
  next
    fix p g assume "adds_audits (executed clock draft created proposal hash t1 t2 h db p g) (exec_agent op db)"
    with q show ?thesis by (auto simp: adds_auditsD(2) executed_def in_update_rows split: if_splits intro: derived_refl)
  qed
next
  case authorize
  from authorize_tables [OF authorize(2)] q show ?thesis by (auto intro: derived_refl)
next
  case consent
  from consent_effect(2) [OF consent(2)] q show ?thesis by (auto intro: derived_refl)
next
  case exchange
  from exchange_tables(2) [OF assms(1) exchange(2)] q show ?thesis by (auto intro: derived_refl)
next
  case offer
  from offer(2) show ?thesis by (rule record_propose_effect) (use q in \<open>auto intro: derived_refl\<close>)
qed

lemma draft_step:
  assumes "agent_ok db" and d: "d \<in> set (t_drafts (exec_agent op db))"
  shows "d \<in> set (t_drafts db) \<or> (\<exists>p \<in> set (t_proposals db). \<exists>g \<in> set (t_grants db). ag_id g = ap_grant p
     \<and> ap_state p = P_approved \<and> ap_id p = ad_proposal d \<and> ap_title p = ad_title d \<and> ap_text p = Some (ad_text d)
     \<and> ag_account g = ad_account d \<and> \<not> ag_revoked g
     \<and> (\<forall>q \<in> set (t_proposals (exec_agent op db)). ap_id q = ad_proposal d \<longrightarrow>
          ap_state q = P_executed \<and> ap_grant q = ap_grant p))"
  using assms(1)
proof (cases rule: exec_cases [where op = op])
  case 1
  with d show ?thesis by (auto simp: calm_def)
next
  case create
  from create_grant_effect [OF create(2)] d show ?thesis by simp
next
  case propose
  from propose_effect(2) [OF propose(2)] d show ?thesis by simp
next
  case decide
  from decide_effect(2) [OF decide(2)] d show ?thesis by simp
next
  case (execute clock draft created proposal hash t1 t2 h event audited)
  from execute(2) show ?thesis
  proof (rule execute_effect [OF assms(1)])
    assume "adds_audits db (exec_agent op db)"
    with d show ?thesis by (simp add: adds_auditsD(3))
  next
    fix p g assume p: "p \<in> set (t_proposals db)" "g \<in> set (t_grants db)" "may_execute clock proposal hash t1 t2 h db p g"
      and a: "adds_audits (executed clock draft created proposal hash t1 t2 h db p g) (exec_agent op db)"
    from p(3) obtain r where r: "r \<in> set (t_grants db)" "ag_id r = ag_id g" "\<not> ag_revoked r"
      by (auto simp: may_execute_def active_join_def)
    with agent_okD(1) [OF assms(1)] p(2) have "r = g"
      using unique_row [of ag_id "t_grants db" r g] by (simp add: grants_ok_def)
    have "q = p" if "q \<in> set (t_proposals db)" "ap_id q = ap_id p" for q
      using unique_row [of ap_id "t_proposals db" q p] agent_okD(2) [OF assms(1)] that p(1) by (simp add: proposals_ok_def)
    note only = this
    have e: "ap_state q = P_executed \<and> ap_grant q = ap_grant p"
      if q: "q \<in> set (t_proposals (exec_agent op db))" "ap_id q = proposal" for q
    proof -
      from q(1) obtain q' where q': "q' \<in> set (t_proposals db)" "q = (if ap_id q' = proposal then execute_row q' draft else q')"
        by (auto simp: adds_auditsD(2) [OF a] executed_def in_update_rows)
      with q(2) have i: "ap_id q' = proposal" by (simp split: if_splits)
      with only [OF q'(1)] p(3) have "q' = p" by (simp add: may_execute_def)
      with q'(2) i show ?thesis by simp
    qed
    from d consider "d \<in> set (t_drafts db)"
      | "ad_proposal d = proposal" "ad_title d = ap_title p" "ad_text d = the (ap_text p)" "ad_account d = ag_account g"
      by (auto simp: adds_auditsD(3) [OF a] executed_def)
    then show ?thesis
    proof cases
      case 2
      show ?thesis
        by (rule disjI2, rule bexI [OF _ p(1)], rule bexI [OF _ p(2)])
          (use p(3) r(3) \<open>r = g\<close> 2 e in \<open>auto simp: may_execute_def\<close>)
    qed simp
  qed
next
  case authorize
  from authorize_tables [OF authorize(2)] d show ?thesis by simp
next
  case consent
  from consent_effect(3) [OF consent(2)] d show ?thesis by simp
next
  case exchange
  from exchange_tables(3) [OF assms(1) exchange(2)] d show ?thesis by simp
next
  case offer
  from offer(2) show ?thesis by (rule record_propose_effect) (use d in simp)
qed

subsection \<open>Consents and tokens\<close>

text \<open>The effective consent to a request, by its live owner.\<close>

definition consents :: "string \<Rightarrow> agent_op \<Rightarrow> agent_db \<Rightarrow> bool" where
  "consents request op db \<longleftrightarrow> (case op of
     Op_query clock (Oauth (Q_approve i grant code account secret time key res)) \<Rightarrow> i = request
     \<and> run_query clock (Oauth (Q_approve i grant code account secret time key res)) db \<noteq> None
     \<and> (\<exists>r \<in> set (t_requests db). may_approve clock i grant account secret time key res db r)
   | _ \<Rightarrow> False)"

definition redeemable_request :: "oauth_request \<Rightarrow> bool" where
  "redeemable_request r \<longleftrightarrow> or_decision r = Some Consent_approved \<and> or_redeemed r = None"

lemma request_step:
  assumes "agent_ok db" and q: "q \<in> set (t_requests (exec_agent op db))" "redeemable_request q"
  shows "(\<exists>r \<in> set (t_requests db). or_id r = or_id q \<and> redeemable_request r) \<or> consents (or_id q) op db"
  using assms(1)
proof (cases rule: exec_cases [where op = op])
  case 1
  then obtain r where "r \<in> set (t_requests db)" "kept_request r q" using q(1) unfolding calm_def carried_def by blast
  with q(2) show ?thesis by (auto simp: kept_request_def redeemable_request_def)
next
  case create
  from create_grant_effect [OF create(2)] q show ?thesis by (auto simp: same_others_def)
next
  case propose
  from propose_effect(4) [OF propose(2)] q show ?thesis by (auto simp: same_others_def)
next
  case decide
  from decide_effect(4) [OF decide(2)] q show ?thesis by (auto simp: same_others_def)
next
  case execute
  from execute_tables [OF assms(1) execute(2)] q show ?thesis by (auto simp: same_others_def)
next
  case authorize
  from authorize_tables [OF authorize(2)] q show ?thesis by (auto simp: new_request_def redeemable_request_def)
next
  case (consent clock request grant code account secret time key res n)
  let ?hit = "may_approve clock request grant account secret time key res db"
  from consent_effect(6) [OF consent(2)] q(1) obtain r where r: "r \<in> set (t_requests db)" "or_id q = or_id r"
    "?hit r \<or> q = r" by (auto simp: in_update_rows split: if_splits)
  then show ?thesis
  proof (elim disjE)
    assume h: "?hit r"
    then have "or_id r = request" by (simp add: may_approve_def consentable_def)
    with h r consent have "consents (or_id q) op db" by (auto simp: consents_def run_query_def query_replies)
    then show ?thesis ..
  qed (use r q(2) in auto)
next
  case (exchange clock token time key recipient_resource code client redirect res challenge)
  from exchange(2) show ?thesis
  proof (rule exchange_effect [OF assms(1)])
    fix r g assume "adds_audits (exchanged clock token db r g) (exec_agent op db)"
    with q show ?thesis by (auto simp: adds_auditsD(8) exchanged_def in_update_rows redeemable_request_def split: if_splits)
  qed (use q in auto)
next
  case offer
  from offer(2) show ?thesis by (rule record_propose_effect) (use q in auto)
qed

lemma token_step:
  assumes "agent_ok db" and t: "t \<in> set (t_tokens (exec_agent op db))"
  shows "(\<exists>s \<in> set (t_tokens db). kept_token s t) \<or> (\<exists>r \<in> set (t_requests db). \<exists>g \<in> set (t_grants db).
       or_id r = ot_request t \<and> redeemable_request r \<and> or_grant r = Some (ag_id g) \<and> ag_id g = ot_grant t
     \<and> \<not> ag_revoked g \<and> (\<forall>s \<in> set (t_tokens db). ot_request s \<noteq> ot_request t)
     \<and> (\<forall>q \<in> set (t_requests (exec_agent op db)). or_id q = ot_request t \<longrightarrow> \<not> redeemable_request q))"
  using assms(1)
proof (cases rule: exec_cases [where op = op])
  case 1
  then show ?thesis using t unfolding calm_def carried_def by blast
next
  case create
  from create_grant_effect [OF create(2)] t show ?thesis by (auto simp: same_others_def intro: kept_refl)
next
  case propose
  from propose_effect(4) [OF propose(2)] t show ?thesis by (auto simp: same_others_def intro: kept_refl)
next
  case decide
  from decide_effect(4) [OF decide(2)] t show ?thesis by (auto simp: same_others_def intro: kept_refl)
next
  case execute
  from execute_tables [OF assms(1) execute(2)] t show ?thesis by (auto simp: same_others_def intro: kept_refl)
next
  case authorize
  from authorize_tables [OF authorize(2)] t show ?thesis by (auto intro: kept_refl)
next
  case consent
  from consent_effect(4) [OF consent(2)] t show ?thesis by (auto intro: kept_refl)
next
  case (exchange clock token time key recipient_resource code client redirect res challenge)
  from exchange(2) show ?thesis
  proof (rule exchange_effect [OF assms(1)])
    fix r g assume r: "r \<in> set (t_requests db)" "g \<in> set (t_grants db)"
        "redeemable clock time key recipient_resource code client redirect res challenge db r g"
        "\<forall>t \<in> set (t_tokens db). ot_hash t \<noteq> token \<and> ot_request t \<noteq> or_id r"
      and a: "adds_audits (exchanged clock token db r g) (exec_agent op db)"
    from t have "t \<in> set (t_tokens db) \<or> t = new_token clock token r g" by (auto simp: adds_auditsD(9) [OF a] exchanged_def)
    then show ?thesis
    proof
      assume e: "t = new_token clock token r g"
      show ?thesis
        by (rule disjI2, rule bexI [OF _ r(1)], rule bexI [OF _ r(2)])
          (use r(3,4) in \<open>auto simp: e new_token_def redeemable_def redeemable_request_def active_join_def
            adds_auditsD(8) [OF a] exchanged_def in_update_rows\<close>)
    qed (auto intro: kept_refl)
  qed (use t in \<open>auto intro: kept_refl\<close>)
next
  case offer
  from offer(2) show ?thesis by (rule record_propose_effect) (use t in \<open>auto intro: kept_refl\<close>)
qed

lemma record_step:
  assumes "agent_ok db" and q: "q \<in> set (t_record_proposals (exec_agent op db))"
  shows "(\<exists>p \<in> set (t_record_proposals db). kept_record p q)
     \<or> (\<exists>g \<in> set (t_grants db). ag_id g = rp_grant q \<and> \<not> ag_revoked g)"
  using assms(1)
proof (cases rule: exec_cases [where op = op])
  case 1
  then show ?thesis using q unfolding calm_def carried_def by blast
next
  case create
  from create_grant_effect [OF create(2)] q show ?thesis by (auto simp: same_others_def intro: kept_refl)
next
  case propose
  from propose_effect(4) [OF propose(2)] q show ?thesis by (auto simp: same_others_def intro: kept_refl)
next
  case decide
  from decide_effect(4) [OF decide(2)] q show ?thesis by (auto simp: same_others_def intro: kept_refl)
next
  case execute
  from execute_tables [OF assms(1) execute(2)] q show ?thesis by (auto simp: same_others_def intro: kept_refl)
next
  case authorize
  from authorize_tables [OF authorize(2)] q show ?thesis by (auto intro: kept_refl)
next
  case consent
  from consent_effect(5) [OF consent(2)] q show ?thesis by (auto intro: kept_refl)
next
  case exchange
  from exchange_tables(4) [OF assms(1) exchange(2)] q show ?thesis by (auto intro: kept_refl)
next
  case (offer clock proposal hash payload expires time t1 h event)
  from offer(2) show ?thesis
  proof (rule record_propose_effect)
    fix cs assume c: "\<forall>c \<in> set cs. held_capability db clock t1 h c"
      and e: "t_record_proposals (exec_agent op db) = t_record_proposals db
        @ map (new_record_proposal proposal hash payload expires time) cs"
    from q consider "q \<in> set (t_record_proposals db)" | c' where "c' \<in> set cs" "rp_grant q = ac_grant c'"
      by (auto simp: e new_record_proposal_def)
    then show ?thesis
    proof cases
      case 2
      with c show ?thesis by (auto simp: held_capability_def active_join_def)
    qed (auto intro: kept_refl)
  qed
qed

subsection \<open>What is held under a grant\<close>

lemma proposal_origin:
  assumes "agent_ok db" and q: "q \<in> set (t_proposals (exec_agent op db))"
  shows "(\<exists>p \<in> set (t_proposals db). ap_id p = ap_id q \<and> ap_grant p = ap_grant q)
     \<or> (\<exists>g \<in> set (t_grants db). ag_id g = ap_grant q \<and> \<not> ag_revoked g)"
  using assms(1)
proof (cases rule: exec_cases [where op = op])
  case 1
  then obtain p where "p \<in> set (t_proposals db)" "derived p q" using q unfolding calm_def carried_def by blast
  then show ?thesis by (intro disjI1 bexI [of _ p]) (auto simp: derived_def)
next
  case create
  from create_grant_effect [OF create(2)] q show ?thesis by auto
next
  case propose
  from propose_effect(3) [OF propose(2)] q show ?thesis by (auto simp: new_proposal_def still_held_def active_join_def)
next
  case decide
  from decide_effect(3) [OF decide(2)] q show ?thesis by (auto simp: in_update_rows split: if_splits)
next
  case (execute clock draft created proposal hash t1 t2 h event audited)
  from execute(2) show ?thesis
  proof (rule execute_effect [OF assms(1)])
    assume "adds_audits db (exec_agent op db)"
    with q show ?thesis by (auto simp: adds_auditsD(2))
  next
    fix p g assume "adds_audits (executed clock draft created proposal hash t1 t2 h db p g) (exec_agent op db)"
    with q show ?thesis by (auto simp: adds_auditsD(2) executed_def in_update_rows split: if_splits)
  qed
next
  case authorize
  from authorize_tables [OF authorize(2)] q show ?thesis by auto
next
  case consent
  from consent_effect(2) [OF consent(2)] q show ?thesis by auto
next
  case exchange
  from exchange_tables(2) [OF assms(1) exchange(2)] q show ?thesis by auto
next
  case offer
  from offer(2) show ?thesis by (rule record_propose_effect) (use q in auto)
qed

definition proposals_under :: "string \<Rightarrow> agent_db \<Rightarrow> string set" where
  "proposals_under i db = ap_id ` set (filter (\<lambda>p. ap_grant p = i) (t_proposals db))"

definition drafts_under :: "string \<Rightarrow> agent_db \<Rightarrow> string set" where
  "drafts_under i db = ad_proposal ` set (filter (\<lambda>d. ad_proposal d \<in> proposals_under i db) (t_drafts db))"

definition tokens_under :: "string \<Rightarrow> agent_db \<Rightarrow> string set" where
  "tokens_under i db = ot_hash ` set (filter (\<lambda>t. ot_grant t = i) (t_tokens db))"

definition records_under :: "string \<Rightarrow> agent_db \<Rightarrow> string set" where
  "records_under i db = rp_id ` set (filter (\<lambda>p. rp_grant p = i) (t_record_proposals db))"

definition gave_up :: "string \<Rightarrow> agent_db \<Rightarrow> bool" where
  "gave_up i db \<longleftrightarrow> (\<forall>g \<in> set (t_grants db). ag_id g = i \<longrightarrow> ag_revoked g)"

lemmas under_defs = proposals_under_def drafts_under_def tokens_under_def records_under_def

lemma gave_up_step:
  assumes "agent_ok db" and "gave_up i db" and "\<not> creates_grant i op"
  shows "gave_up i (exec_agent op db)"
  unfolding gave_up_def
proof (intro ballI impI)
  fix h assume h: "h \<in> set (t_grants (exec_agent op db))" "ag_id h = i"
  with grant_step [OF assms(1) h(1)] assms(3) obtain g where "g \<in> set (t_grants db)" "heir g h" by auto
  with h assms(2) show "ag_revoked h" by (auto simp: gave_up_def heir_fields)
qed

lemma under_step:
  assumes ok: "agent_ok db" and g: "gave_up i db"
  shows "proposals_under i (exec_agent op db) \<subseteq> proposals_under i db"
    and "drafts_under i (exec_agent op db) \<subseteq> drafts_under i db"
    and "tokens_under i (exec_agent op db) \<subseteq> tokens_under i db"
    and "records_under i (exec_agent op db) \<subseteq> records_under i db"
proof -
  have p: "ap_id q \<in> proposals_under i db" if "q \<in> set (t_proposals (exec_agent op db))" "ap_grant q = i" for q
    using proposal_origin [OF ok that(1)] g that(2) unfolding proposals_under_def gave_up_def
    by (auto simp: image_iff)
  then show "proposals_under i (exec_agent op db) \<subseteq> proposals_under i db" by (auto simp: proposals_under_def)
  show "drafts_under i (exec_agent op db) \<subseteq> drafts_under i db"
  proof
    fix x assume "x \<in> drafts_under i (exec_agent op db)"
    then obtain d q where d: "d \<in> set (t_drafts (exec_agent op db))" "x = ad_proposal d"
      and q: "q \<in> set (t_proposals (exec_agent op db))" "ap_id q = ad_proposal d" "ap_grant q = i"
      by (auto simp: drafts_under_def proposals_under_def)
    from draft_step [OF ok d(1)] show "x \<in> drafts_under i db"
    proof
      assume "d \<in> set (t_drafts db)"
      with p [OF q(1,3)] d(2) q(2) show ?thesis by (auto simp: drafts_under_def)
    qed (use q g in \<open>force simp: gave_up_def\<close>)
  qed
  show "tokens_under i (exec_agent op db) \<subseteq> tokens_under i db"
  proof
    fix x assume "x \<in> tokens_under i (exec_agent op db)"
    then obtain t where t: "t \<in> set (t_tokens (exec_agent op db))" "x = ot_hash t" "ot_grant t = i"
      by (auto simp: tokens_under_def)
    from token_step [OF ok t(1)] g t(3) obtain s where s: "s \<in> set (t_tokens db)" "kept_token s t"
      by (force simp: gave_up_def)
    from s(2) have "ot_hash t = ot_hash s" "ot_grant t = ot_grant s" by (cases s; cases t; simp add: kept_token_def)+
    with s(1) t show "x \<in> tokens_under i db" by (auto simp: tokens_under_def)
  qed
  show "records_under i (exec_agent op db) \<subseteq> records_under i db"
  proof
    fix x assume "x \<in> records_under i (exec_agent op db)"
    then obtain q where q: "q \<in> set (t_record_proposals (exec_agent op db))" "x = rp_id q" "rp_grant q = i"
      by (auto simp: records_under_def)
    from record_step [OF ok q(1)] g q(3) obtain p where s: "p \<in> set (t_record_proposals db)" "kept_record p q"
      by (force simp: gave_up_def)
    from s(2) have "rp_id q = rp_id p" "rp_grant q = rp_grant p" by (cases p; cases q; simp add: kept_record_def)+
    with s(1) q show "x \<in> records_under i db" by (auto simp: records_under_def)
  qed
qed

end
