(* ===== verification/AgentPromises.thy ===== *)
theory AgentPromises imports AgentSteps begin

section \<open>Promises of delegated access\<close>

text \<open>
  What holds over every sequence of the agent worker's round trips and the provider's changes,
  whatever values they bind and in whatever order they reach the database.
\<close>

subsection \<open>Approvals and drafts\<close>






subsection \<open>Consents and tokens\<close>

definition issued :: "string \<Rightarrow> agent_op \<Rightarrow> agent_db \<Rightarrow> bool" where
  "issued request op db \<longleftrightarrow> (\<exists>t \<in> set (t_tokens (exec_agent op db)). ot_request t = request)
     \<and> (\<forall>s \<in> set (t_tokens db). ot_request s \<noteq> request)"

definition token_credit :: "string \<Rightarrow> agent_db \<Rightarrow> nat" where
  "token_credit request db = of_bool (\<exists>r \<in> set (t_requests db). or_id r = request \<and> redeemable_request r)"

interpretation token_budget: budget exec_agent agent_ok consents issued token_credit
proof
  fix db i op assume ok: "agent_ok db"
  show "(if issued i op db then 1 else 0) + token_credit i (exec_agent op db)
      \<le> token_credit i db + (if consents i op db then 1 else 0)"
  proof (cases "issued i op db")
    case True
    then obtain t where t: "t \<in> set (t_tokens (exec_agent op db))" "ot_request t = i" and none: "\<forall>s \<in> set (t_tokens db). ot_request s \<noteq> i"
      by (auto simp: issued_def)
    have "\<not> (\<exists>s \<in> set (t_tokens db). kept_token s t)"
    proof
      assume "\<exists>s \<in> set (t_tokens db). kept_token s t"
      then obtain s where s: "s \<in> set (t_tokens db)" "kept_token s t" by auto
      from s(2) have "ot_request t = ot_request s" by (cases s; cases t; simp add: kept_token_def)
      with s(1) none t(2) show False by simp
    qed
    with token_step [OF ok t(1)] t(2) have "token_credit i db = 1" "token_credit i (exec_agent op db) = 0"
      by (auto simp: token_credit_def)
    then show ?thesis by simp
  next
    case False
    show ?thesis
    proof (cases "token_credit i (exec_agent op db) = 0")
      case c: False
      then obtain q where q: "q \<in> set (t_requests (exec_agent op db))" "or_id q = i" "redeemable_request q"
        by (auto simp: token_credit_def split: if_splits)
      from request_step [OF ok q(1,3)] have "token_credit i db = 1 \<or> consents i op db"
        using q(2) by (auto simp: token_credit_def)
      moreover have "token_credit i (exec_agent op db) \<le> 1" by (simp add: token_credit_def)
      ultimately show ?thesis using False by auto
    qed (use False in simp)
  qed
qed

subsection \<open>What was approved\<close>




abbreviation db_after :: "agent_op list \<Rightarrow> agent_db" where
  "db_after ops \<equiv> run_ops exec_agent ops empty_agent_db"

lemma after_ok: "agent_ok (db_after ops)"
  by (rule agent_tables.inv_run [OF agent_ok_empty])


text \<open>The hash a proposal is stored with, as \<open>propose\<close> of \<open>store.ts\<close> computes it with \<open>digest\<close>.\<close>

definition proposal_json :: "string \<Rightarrow> string \<Rightarrow> string \<Rightarrow> string \<Rightarrow> json" where
  "proposal_json proposal document title body = JObj [(''proposal_id'', JStr proposal), (''document_id'', JStr document),
     (''title'', JStr title), (''text'', JStr body)]"


definition hashed :: "(string \<Rightarrow> string) \<Rightarrow> agent_proposal \<Rightarrow> bool" where
  "hashed H p \<longleftrightarrow> (case ap_text p of None \<Rightarrow> True
     | Some body \<Rightarrow> ap_request p = H (stringify (proposal_json (ap_id p) (ap_document p) (ap_title p) body)))"

lemma hashed_execute [simp]: "hashed H (execute_row p x) = hashed H p"
  by (cases "ap_text p") (simp_all add: hashed_def)




subsection \<open>Revocation\<close>

lemma revoke_gives_up:
  assumes "agent_ok db" and "revoke_batch clock event time account grant secret db = Some db'"
    and "owner_live db clock secret account time" and "g \<in> set (t_grants db)" "names_grant account grant g"
  shows "gave_up (ag_id g) db'"
proof -
  from assms(2) obtain a b where a: "adds_audits db a"
    and b: "stop_grants clock (\<lambda>g. names_grant account grant g \<and> owner_live db clock secret account time) a = Some b"
    and c: "set_record_rows clock R_rejected False
       (\<lambda>p. record_open p \<and> revoked_in (rejected_in account b) account (rp_grant p)) (rejected_in account b) = Some db'"
    by (rule revoke_parts)
  have aok: "agent_ok a" using assms(1) a by (rule agent_ok_audits)
  have bok: "agent_ok (rejected_in account b)" by (rule reject_ok [OF agent_ok_stop_grants [OF aok b]])
  have "t_grants db' = t_grants b"
    using set_record_rows_effect [OF c agent_ok_distinct [OF bok]]
    by (auto simp: records_moved_def adds_auditsD(1) rejected_in_def)
  moreover have "t_grants b = update_rows (\<lambda>h. ag_id h \<in> {ag_id g | g. g \<in> set (t_grants db) \<and> names_grant account grant g
      \<and> \<not> ag_revoked g} \<and> \<not> ag_revoked h) stop_row (t_grants db)"
    using stop_grants_effect [OF b agent_ok_distinct [OF aok]] assms(3) adds_auditsD(1) [OF a]
    by (simp add: grants_stopped_def adds_auditsD(1))
  moreover have only: "r = g" if "r \<in> set (t_grants db)" "ag_id r = ag_id g" for r
    using unique_row [of ag_id "t_grants db" r g] agent_okD(1) [OF assms(1)] that assms(4) by (simp add: grants_ok_def)
  ultimately show ?thesis unfolding gave_up_def
  proof (intro ballI impI)
    fix h assume "t_grants db' = t_grants b" "h \<in> set (t_grants db')" and i: "ag_id h = ag_id g"
      and e: "t_grants b = update_rows (\<lambda>h. ag_id h \<in> {ag_id g | g. g \<in> set (t_grants db) \<and> names_grant account grant g
        \<and> \<not> ag_revoked g} \<and> \<not> ag_revoked h) stop_row (t_grants db)"
    then obtain r where r: "r \<in> set (t_grants db)"
      "h = (if ag_id r \<in> {ag_id g | g. g \<in> set (t_grants db) \<and> names_grant account grant g \<and> \<not> ag_revoked g} \<and> \<not> ag_revoked r
         then stop_row r else r)" by (auto simp: in_update_rows)
    with i have "ag_id r = ag_id g" by (simp split: if_splits)
    with only [OF r(1)] have "r = g" .
    with r(2) assms(4,5) show "ag_revoked h" by (auto split: if_splits)
  qed
qed

lemma revoked_run:
  assumes "agent_ok db" and "gave_up i db" and "\<forall>op \<in> set ops. \<not> creates_grant i op"
  shows "gave_up i (run_ops exec_agent ops db)
    \<and> proposals_under i (run_ops exec_agent ops db) \<subseteq> proposals_under i db
    \<and> drafts_under i (run_ops exec_agent ops db) \<subseteq> drafts_under i db
    \<and> tokens_under i (run_ops exec_agent ops db) \<subseteq> tokens_under i db
    \<and> records_under i (run_ops exec_agent ops db) \<subseteq> records_under i db"
  using assms
proof (induction ops arbitrary: db)
  case (Cons op ops)
  from Cons.prems(3) have o: "\<not> creates_grant i op" "\<forall>op \<in> set ops. \<not> creates_grant i op" by simp_all
  note ih = Cons.IH [OF agent_ok_exec [OF Cons.prems(1)] gave_up_step [OF Cons.prems(1,2) o(1)] o(2)]
  note st = under_step [OF Cons.prems(1,2), of op]
  show ?case unfolding run_ops.simps
    using ih st by (intro conjI) (elim conjE, assumption | elim conjE, erule subset_trans, assumption)+
qed simp

lemma gave_up_access:
  "gave_up i db \<Longrightarrow> select_active clock token time key res db = Some g \<Longrightarrow> ag_id g \<noteq> i"
proof
  assume g: "gave_up i db" and s: "select_active clock token time key res db = Some g" and i: "ag_id g = i"
  from s obtain h where h: "find (\<lambda>g. active_join db clock time key res g \<and> access_condition db clock token g) (t_grants db) = Some h"
    and e: "ag_id g = ag_id h"
    unfolding select_active_def by (auto split: if_splits)
  from find_SomeD [OF h] have "h \<in> set (t_grants db)" "\<not> ag_revoked h" by (simp_all add: active_join_def)
  with g e i show False by (simp add: gave_up_def)
qed

subsection \<open>A history\<close>

text \<open>
  An account with one credential and a session that grants a delegate its name record; proposals,
  decisions and revocations follow. \<open>sample_id\<close> stands for the 43 characters of a digest.
\<close>

definition sample_id :: string where
  "sample_id = replicate 43 (CHR ''x'')"

definition setup_ops :: "agent_op list" where
  "setup_ops = [
     Op_provider 1000 (V_account \<lparr>sa_id = ''a'', sa_epoch = 1, sa_active = True\<rparr>),
     Op_provider 1000 (V_credential \<lparr>cr_id = ''c'', cr_account = ''a'', cr_active = True\<rparr>),
     Op_provider 1000 (V_recipient \<lparr>rk_id = ''k'', rk_active = True\<rparr>),
     Op_provider 1000 (V_client \<lparr>oc_id = ''cl'', oc_name = ''C'', oc_uris = [''u''], oc_active = True\<rparr>),
     Op_provider 1000 (V_key_head \<lparr>kh_account = ''a'', kh_vault = ''v'', kh_origin = ''https://o'', kh_generation = 1,
       kh_revision = 1, kh_format = 2, kh_suite = owner_key_suite\<rparr>),
     Op_provider 1000 (V_record_head \<lparr>rh_account = ''a'', rh_vault = ''v'', rh_collection = ''personal'', rh_record = ''name'',
       rh_kind = ''name'', rh_revision = 1, rh_generation = 1, rh_format = 2, rh_sha = Some sample_id, rh_deleted = False\<rparr>),
     Op_provider 1000 (V_key_wraps [\<lparr>kw_account = ''a'', kw_generation = 1, kw_credential = ''c''\<rparr>]),
     Op_provider 1000 (V_sessions [\<lparr>ss_id = ''s'', ss_account = ''a'', ss_credential = ''c'', ss_epoch = 1,
       ss_expires = 9000000, ss_revoked = False\<rparr>] [(''s'', ''h'')])]"

definition grant_json :: "string \<Rightarrow> string \<Rightarrow> int \<Rightarrow> json" where
  "grant_json grant token expires = JObj [(''grant_id'', JStr grant), (''delegate'', JStr ''d''), (''provider'', JStr ''p''),
     (''resource'', JStr ''r''), (''recipient_key_id'', JStr ''k''),
     (''operations'', JArr [JStr ''list'', JStr ''propose'', JStr ''execute'']), (''token_hash'', JStr token),
     (''expires_at'', JNum expires), (''storage_version'', JNum 2),
     (''source'', JObj [(''origin'', JStr ''https://o''), (''owner_id'', JStr ''a''), (''vault_id'', JStr ''v''),
        (''collection_id'', JStr ''personal''), (''record_id'', JStr ''name''), (''kind'', JStr ''name''),
        (''revision'', JNum 1), (''ciphertext_sha256'', JStr sample_id)]),
     (''authority'', JObj [(''key_generation'', JNum 1), (''owner_key_revision'', JNum 1)]),
     (''document_ids'', JArr [JStr ''name'']), (''envelope'', JObj [])]"

definition create_op :: "string \<Rightarrow> string \<Rightarrow> int \<Rightarrow> agent_op" where
  "create_op grant token time = Op_query time (Store (Q_create_grant (grant_json grant token (time + 86400)) ''hash'' ''h'' ''a''
     time (''e-'' @ grant)))"

text \<open>The grant as a request holds it.\<close>

definition sample_held :: "string \<Rightarrow> string \<Rightarrow> int \<Rightarrow> held_grant" where
  "sample_held grant token time = (new_grant (grant_json grant token (time + 86400)) ''hash'' time
     \<lparr>ss_id = ''s'', ss_account = ''a'', ss_credential = ''c'', ss_epoch = 1, ss_expires = 9000000, ss_revoked = False\<rparr>,
     Some token)"

definition draft_ops :: "agent_op list" where
  "draft_ops = setup_ops @ [create_op ''g'' ''t'' 1000,
     Op_query 1001 (Store (Q_propose ''p'' (stringify (proposal_json ''p'' ''name'' ''T'' ''X'')) ''name'' ''T'' ''X'' 4601 1001 1001
       (sample_held ''g'' ''t'' 1000) ''e1'' 1001)),
     Op_query 1002 (Store (Q_decide True ''p'' (stringify (proposal_json ''p'' ''name'' ''T'' ''X'')) 1002 1002 1002 ''k'' ''r'' ''a'' ''h''
       ''e2'' 1002)),
     Op_query 1003 (Store (Q_execute ''d'' 1003 ''p'' (stringify (proposal_json ''p'' ''name'' ''T'' ''X'')) 1003 1003
       (sample_held ''g'' ''t'' 1000) ''e3'' 1003))]"

definition revoke_op :: "int \<Rightarrow> string option \<Rightarrow> agent_op" where
  "revoke_op time grant = Op_query time (Store (Q_revoke ''rv-'' time ''a'' grant ''h''))"

definition token_ops :: "agent_op list" where
  "token_ops = setup_ops @ [create_op ''g'' ''t'' 1000,
     Op_query 1001 (Oauth (Q_authorize ''q'' ''cl'' ''u'' ''r'' [''list''] ''st'' ''ch'' 1001 ''https://o'' None)),
     Op_query 1002 (Oauth (Q_claim_request ''q'' ''r'' ''a'' ''h'' 1002)),
     Op_query 1003 (Oauth (Q_approve ''q'' ''g'' ''code'' ''a'' ''h'' 1003 ''k'' ''r'')),
     Op_query 1004 (Oauth (Q_exchange ''tok'' 1004 ''k'' ''r'' ''code'' ''cl'' ''u'' ''r'' ''ch'')),
     Op_query 1005 (Oauth (Q_exchange ''tok2'' 1005 ''k'' ''r'' ''code'' ''cl'' ''u'' ''r'' ''ch''))]"




subsection \<open>The promises\<close>




text \<open>C28. Revocation is final: after a live owner's revocation of a grant has committed, and whatever happens
  then short of a new grant with the same name, the grant is revoked, no token and no bearer of it is
  accepted, and no proposal, draft, token or record proposal appears under it.\<close>

theorem revocation_is_final:
  assumes "run_store clock (Q_revoke event time account grant secret) (run_ops exec_agent ops empty_agent_db) = Some (y, db)"
    and "owner_live (run_ops exec_agent ops empty_agent_db) clock secret account time"
    and "g \<in> set (t_grants (run_ops exec_agent ops empty_agent_db))" and "names_grant account grant g"
    and "\<forall>op \<in> set later. \<not> creates_grant (ag_id g) op"
  shows "gave_up (ag_id g) (run_ops exec_agent later db)
    \<and> (\<forall>clock token time key res. case select_active clock token time key res (run_ops exec_agent later db) of
         None \<Rightarrow> True | Some h \<Rightarrow> ag_id h \<noteq> ag_id g)
    \<and> proposals_under (ag_id g) (run_ops exec_agent later db) \<subseteq> proposals_under (ag_id g) db
    \<and> drafts_under (ag_id g) (run_ops exec_agent later db) \<subseteq> drafts_under (ag_id g) db
    \<and> tokens_under (ag_id g) (run_ops exec_agent later db) \<subseteq> tokens_under (ag_id g) db
    \<and> records_under (ag_id g) (run_ops exec_agent later db) \<subseteq> records_under (ag_id g) db"
proof -
  from assms(1) have r: "revoke_batch clock event time account grant secret (db_after ops) = Some db"
    by (auto simp: query_replies)
  note run = revoked_run [OF revoke_ok [OF after_ok r] revoke_gives_up [OF after_ok r assms(2-4)] assms(5)]
  then show ?thesis using gave_up_access by (auto split: option.split)
qed

theorem revocation_is_final_witness:
  "gave_up ''g'' (run_ops exec_agent [create_op ''g2'' ''t2'' 1200] (db_after (draft_ops @ [revoke_op 1100 None])))"
proof -
  obtain y where r: "run_store 1100 (Q_revoke ''rv-'' 1100 ''a'' None ''h'') (run_ops exec_agent draft_ops empty_agent_db)
      = Some (y, db_after (draft_ops @ [revoke_op 1100 None]))"
  proof
    show "run_store 1100 (Q_revoke ''rv-'' 1100 ''a'' None ''h'') (run_ops exec_agent draft_ops empty_agent_db)
      = Some (Y_none, db_after (draft_ops @ [revoke_op 1100 None]))" by code_simp
  qed
  have "owner_live (run_ops exec_agent draft_ops empty_agent_db) 1100 ''h'' ''a'' 1100" by code_simp
  moreover have "list_ex (\<lambda>g. ag_id g = ''g'' \<and> names_grant ''a'' None g) (t_grants (run_ops exec_agent draft_ops empty_agent_db))"
    by code_simp
  then obtain g where "g \<in> set (t_grants (run_ops exec_agent draft_ops empty_agent_db))" "ag_id g = ''g''" "names_grant ''a'' None g"
    by (auto simp: list_ex_iff)
  moreover have "\<forall>op \<in> set [create_op ''g2'' ''t2'' 1200]. \<not> creates_grant ''g'' op" by code_simp
  ultimately show ?thesis using revocation_is_final [OF r, of g "[create_op ''g2'' ''t2'' 1200]"] by simp
qed

text \<open>C31. A token needs a consent: for one request never more tokens are issued than its owner gave
  consents, and every token is for the client, the resource and the scopes its request asked for, which
  the grant's account approved and the grant allows, and ends with the grant and within the hour.\<close>

theorem tokens_follow_consents:
  "count_ops (issued request) exec_agent ops empty_agent_db \<le> count_ops (consents request) exec_agent ops empty_agent_db
   \<and> (\<forall>t \<in> set (t_tokens (run_ops exec_agent ops empty_agent_db)).
        \<exists>r \<in> set (t_requests (run_ops exec_agent ops empty_agent_db)). \<exists>g \<in> set (t_grants (run_ops exec_agent ops empty_agent_db)).
          token_of t r \<and> ag_id g = ot_grant t \<and> or_account r = Some (ag_account g)
        \<and> set (ot_scopes t) \<subseteq> set (ag_operations g) \<and> ot_expires t \<le> ag_expires g \<and> ot_expires t \<le> ot_created t + 3600)"
proof
  show "count_ops (issued request) exec_agent ops empty_agent_db \<le> count_ops (consents request) exec_agent ops empty_agent_db"
    using token_budget.spent_was_earned [OF agent_ok_empty, of request ops] by (simp add: token_credit_def empty_agent_db_def)
next
  let ?db = "run_ops exec_agent ops empty_agent_db"
  note ok = agent_okD [OF after_ok, of ops]
  show "\<forall>t \<in> set (t_tokens ?db). \<exists>r \<in> set (t_requests ?db). \<exists>g \<in> set (t_grants ?db).
          token_of t r \<and> ag_id g = ot_grant t \<and> or_account r = Some (ag_account g)
        \<and> set (ot_scopes t) \<subseteq> set (ag_operations g) \<and> ot_expires t \<le> ag_expires g \<and> ot_expires t \<le> ot_created t + 3600"
  proof
    fix t assume "t \<in> set (t_tokens ?db)"
    with ok(9) obtain r g where r: "r \<in> set (t_requests ?db)" "token_of t r" and e: "ot_expires t \<le> ot_created t + 3600"
      and g: "g \<in> set (t_grants ?db)" "ag_id g = ot_grant t" "ot_expires t \<le> ag_expires g" by (auto simp: tokens_ok_def)
    then have "request_ok (t_grants ?db) r" "or_decision r = Some Consent_approved"
      using ok(8) by (simp_all add: requests_ok_def token_of_def)
    then obtain f where f: "f \<in> set (t_grants ?db)" "or_grant r = Some (ag_id f)" "or_account r = Some (ag_account f)"
      "set (or_scopes r) \<subseteq> set (ag_operations f)" by (auto simp: request_ok_def)
    have "f = g" using unique_row [of ag_id "t_grants ?db" f g] ok(1) f g r(2) by (simp add: grants_ok_def token_of_def)
    with r e f g show "\<exists>r \<in> set (t_requests ?db). \<exists>g \<in> set (t_grants ?db).
          token_of t r \<and> ag_id g = ot_grant t \<and> or_account r = Some (ag_account g)
        \<and> set (ot_scopes t) \<subseteq> set (ag_operations g) \<and> ot_expires t \<le> ag_expires g \<and> ot_expires t \<le> ot_created t + 3600"
      by (intro bexI [of _ r] bexI [of _ g]) (simp_all add: token_of_def)
  qed
qed

theorem tokens_follow_consents_witness:
  "t_tokens (db_after token_ops) \<noteq> [] \<and> count_ops (issued ''q'') exec_agent token_ops empty_agent_db \<le> 1
   \<and> (\<exists>r \<in> set (t_requests (db_after token_ops)). or_account r = Some ''a'')"
proof (intro conjI)
  show tok: "t_tokens (db_after token_ops) \<noteq> []" by code_simp
  have "count_ops (consents ''q'') exec_agent token_ops empty_agent_db = 1" by code_simp
  with tokens_follow_consents [of "''q''" token_ops]
  show "count_ops (issued ''q'') exec_agent token_ops empty_agent_db \<le> 1" by simp
  have "list_all (\<lambda>g. ag_account g = ''a'') (t_grants (db_after token_ops))" by code_simp
  with tok tokens_follow_consents [of "''q''" token_ops]
  show "\<exists>r \<in> set (t_requests (db_after token_ops)). or_account r = Some ''a''"
    by (cases "t_tokens (db_after token_ops)") (auto simp: list_all_iff)
qed


end
