(* ===== verification/Spec2Isabelle.thy ===== *)
theory Spec2Isabelle imports Promises Messages Composition HostPromises ServicePromises AgentPromises begin

text \<open>
  \<^bold>\<open>The agent workers of mikaki.\<close> This library models the TypeScript workers under \<open>src/crates\<close> that let an
  agent work on a private Git repository: they create the repository, mint short-lived tokens, use them once for
  one Git exchange, revoke them and prove that they are refused. It proves what keeps a crash, a retry or a lost
  reply from repeating an effect or from forgetting a credential. A second part models delegated access: an owner grants
  an agent a snapshot of one record, and the agent may read it, propose drafts and propose a new value.

  \<^bold>\<open>The program.\<close> The durable object \<open>WorkCheckpoint\<close> (\<open>work-checkpoint-worker\<close>) is the only memory of the system: a frame
  (which authority, which sequence number, frozen or not) and two ledgers, of creations (\<open>effect_ledger\<close>) and of
  mints (\<open>mint_ledger\<close>, with the Git exchange of a mint). The gates (\<open>work-effect-worker\<close>) are stateless handlers: each
  asks the OP store for a plan, claims a permit from the object, calls the provider once, and records what it observed.
  Recovery gates and brokers clean up what a lost run left. The Git host (\<open>work-git-host-worker\<close>) owns a Linux container and
  forwards one exchange to it; its qualification measures the container. The copy workflow (\<open>work-copy-worker\<close>)
  advances a copy job, and the source reader (\<open>work-source-worker\<close>) returns checked files of a commit.
  The agent worker (\<open>agent-worker\<close>) keeps its state in the SQL database of the identity provider, which it reaches by a fixed
  set of statements; triggers of the schema stop its grants when the provider changes an account, a key or a record.

  \<^bold>\<open>Data.\<close>
  \<^item> \<open>Json\<close>: JSON values, \<open>closed\<close>, the field tests, \<open>String\<close> and \<open>JSON.stringify\<close>; \<open>Schema\<close>: what schemas check.
  \<^item> \<open>Protocol\<close> (\<open>work-effect-worker/protocol.ts\<close>): the records, and the reader of each message. A reader is a function to
    \<open>err + unit\<close>, and every throw of the source is a value of \<open>err\<close> (\<open>Errors\<close>). \<open>Encode\<close> gives the messages of records, what the
    readers accept (\<open>wf_\<close> predicates), and round trips. \<open>Bootstrap\<close> (\<open>bootstrap.ts\<close>): the bootstrap plan.

  \<^bold>\<open>The checkpoint object\<close> (\<open>work-checkpoint-worker/worker.ts\<close>).
  \<^item> \<open>Checkpoint\<close>: the store (a record of the SQL tables; keyed tables are association lists) and the operations on the
    frame. An operation is a function \<open>store \<Rightarrow> err + (result \<times> store)\<close>; an error keeps the store, as \<open>transactionSync\<close> does.
  \<^item> \<open>EffectLedger\<close>, \<open>MintLedger\<close>, \<open>GitLedger\<close>: one definition per method, guards in the order of the source. \<open>LedgerOps\<close>: the calls
    of the object as the datatype \<open>ckpt_op\<close> and their execution \<open>exec_op\<close>.
  \<^item> \<open>LedgerSteps\<close> classifies what a call may do to the rows; \<open>LedgerLaws\<close> and \<open>Frames\<close> prove the invariants of ledgers and frame, as
    interpretations of the contracts of \<open>Prelude\<close> (\<open>invariant\<close>, \<open>progress\<close>, \<open>evidence\<close>, \<open>admission\<close>). \<open>PermitSpec\<close> refines the
    object to a set of spent permits. \<open>Lifecycle\<close> evaluates one full run, \<open>Entrypoints\<close> models the HTTP bridges and RPC classes.

  \<^bold>\<open>Handlers.\<close>
  \<^item> \<open>Program\<close>: an async handler is a tree of calls and answers, \<open>('q, 'y, 'a) task\<close>; an answer is whatever the environment
    gives, a rejected promise included, and a handler that is killed is a run whose answers end. A \<open>watch\<close> says
    which call is permitted after which answers; \<open>valid\<close> is its weakest precondition, \<open>valid_run\<close> carries it to traces.
  \<^item> \<open>History\<close>: handlers run concurrently against one object (\<open>sys_step\<close>, \<open>reachable\<close>), replies may be lost, and every
    productive call needs a permit the object handed to that handler. \<open>Wire\<close>: bodies, scopes, times, the OP store.
  \<^item> \<open>InitialGate\<close> (\<open>work-effect-worker/worker.ts\<close>), \<open>MintGate\<close> (\<open>mint.ts\<close>), \<open>GitUse\<close> (\<open>git.ts\<close>, \<open>git-transport.ts\<close>,
    \<open>preparation.ts\<close>), \<open>Reconcile\<close> (\<open>reconcile.ts\<close>), \<open>Maintenance\<close> (\<open>maintenance.ts\<close>, \<open>mint-maintenance.ts\<close>), \<open>MintRecovery\<close>
    (\<open>mint-reconcile.ts\<close>, \<open>mint-closure.ts\<close>, \<open>mint-refusal-transport.ts\<close>): the gates and brokers with their monitors.
  \<^item> \<open>HostCalls\<close>: objects that run their handlers themselves, with restarts, and the contract \<open>permit_object\<close>: calls that need
    a permit are within what the rows ever admitted. \<open>GitHost\<close> (\<open>worker.ts\<close> and \<open>registry.ts\<close> of the Git host) and
    \<open>Qualification\<close> (\<open>qualification.ts\<close>) interpret it; \<open>HostLaws\<close> has the lemmas of the host.
  \<^item> \<open>CopyWorkflow\<close>, \<open>CopyLaws\<close> (\<open>work-copy-worker/worker.ts\<close>); \<open>SourceReader\<close>, \<open>SourceLaws\<close> (\<open>work-source-worker/src\<close>).

  \<^bold>\<open>Delegated access\<close> (\<open>agent-worker\<close>).
  \<^item> \<open>AgentTables\<close>: the rows and triggers of \<open>worker/migrations/0001_owner_vault_initial.sql\<close> the statements rely on. A table is
    the list of its rows; an aborted transaction is \<open>None\<close>. \<open>AgentStore\<close> (\<open>store.ts\<close>), \<open>AgentOAuth\<close> (\<open>oauth.ts\<close>) and
    \<open>AgentRecords\<close> (\<open>record-proposals.ts\<close>): one definition for every statement and batch. \<open>AgentService\<close>: all round trips and
    the provider's changes as \<open>agent_op\<close>, executed by \<open>exec_agent\<close>, in any order and with any values bound.
  \<^item> \<open>AgentEffects\<close> has closed forms of the statements with triggers; \<open>AgentLaws\<close>, \<open>AgentGrantLaws\<close>, \<open>AgentTokenLaws\<close> and
    \<open>AgentRecordLaws\<close> prove the invariant \<open>agent_ok\<close> statement by statement. \<open>AgentTraces\<close> says what one operation can do
    (\<open>calm\<close>, \<open>exec_cases\<close>), \<open>AgentSteps\<close> where each row comes from, with the contract \<open>budget\<close> of earning and spending.

  \<^bold>\<open>What is proved.\<close> \<open>Promises\<close> (C1 to C15): the object over every sequence of calls. \<open>Messages\<close> (C16, C17, C19, C20): readers and
  writers. \<open>Conduct\<close> (C21 to C27, C29): every run of every gate, read off its trace; \<open>Rehearsal\<close> has the evaluated runs.
  \<open>Composition\<close> (C30): the object and the gates together. \<open>HostPromises\<close> (C33 to C35) and \<open>ServicePromises\<close> (C36 to C39):
  the Git host, its qualification, the copy workflow and the source reader. \<open>AgentPromises\<close> (C18, C28, C31, C32, C40): the
  tables of delegated access over every history, and a history in which a revocation is refused.

  \<^bold>\<open>Bounds and fuel.\<close> Only the polling of the container is a loop without a bound of its own. \<open>health_polls\<close> is 101: the
  source polls for 20000 ms and sleeps 200 ms after each poll, so with a clock that does not go back the 101st poll sees the
  deadline (\<open>await_health_in_time\<close>, C34). Every other loop is over a list or a fixed count, and is structural recursion.
  Integers are JavaScript numbers: the readers admit only safe integers, and the arithmetic of the source on them
  (seconds, sums of two bounded values) stays exact, so they are \<open>int\<close>.

  \<^bold>\<open>Parameters.\<close> What is not under \<open>src/\<close> is a parameter or a call with any answer: the Artifacts API, the OP store, R2, the
  container, the clock and the Workflows engine are calls; \<open>TextDecoder\<close> with \<open>JSON.parse\<close> is \<open>parse_json\<close>, the digests are
  \<open>sha256_hex\<close> and \<open>sha1_hex\<close>, and the text SQLite binds a JSON value as is \<open>sql_text\<close>. No law is assumed of them.

  \<^bold>\<open>Simplifications.\<close> A text is a list of characters below 256 (in \<open>SourceReader\<close> of its UTF-8 bytes). An own property whose
  value is \<open>undefined\<close> is read as absent, which parsed JSON never has. Cancelled bodies and log stages are left out. The
  synchronisation a gate does not await runs after the disposal of its repository. The error names that
  a handler replaces by one response are kept only inside the model.

  \<^bold>\<open>Not modelled.\<close> The handlers of the agent worker around its statements (request parsing, the snapshot's decryption, tool
  results, the status pages): the model lets them bind any values in any order; the process inside the
  container (\<open>container.ts\<close> and the Git scripts it runs), which the host sees as the answers of its port; the entrypoints
  \<open>WorkCheckpointAdmin\<close> and of the bootstrap, which pass their argument on; the Rust provider, wallet and authority
  crates; the browser pages (\<open>worker/ui\<close>); the example relying party; the local stack, tests and operator scripts.
\<close>

end
